(* ===== verification/P9_Prelude.thy ===== *)
theory P9_Prelude
  imports Main "HOL-Library.Word" "HOL-Library.State_Monad" "HOL-Library.AList"
begin

text \<open>
  Prelude of the p9 development: the machine types the Go code uses, the little-endian
  byte order of \<^verbatim>\<open>encoding/binary\<close> (used by \<^verbatim>\<open>p9/buffer.go\<close> through \<^verbatim>\<open>order\<close>), the conversion between
  Go strings (byte sequences) and HOL strings, and the generic lemmas about lists, words
  and the state monad that the component theories share.
\<close>

unbundle bit_operations_syntax

section \<open>Machine types\<close>

type_synonym byte = "8 word"
type_synonym uint8 = "8 word"
type_synonym uint16 = "16 word"
type_synonym uint32 = "32 word"
type_synonym uint64 = "64 word"

text \<open>
  Collections of the development: \<open>wire_simps\<close> holds the rewrite rules that run readers on
  encoded data, \<open>reader_intros\<close> and \<open>writer_intros\<close> the closure rules of the two predicates
  of the buffer theory, \<open>ok_defs\<close> the definitions of the encodability predicates.
\<close>

named_theorems wire_simps
named_theorems reader_intros
named_theorems writer_intros
named_theorems ok_defs

section \<open>Little-endian encoding of words\<close>

text \<open>
  \<^verbatim>\<open>binary.LittleEndian.PutUint16/32/64\<close>: byte \<open>i\<close> is the value shifted right by \<open>8 * i\<close> and
  truncated; \<^verbatim>\<open>Uint16/32/64\<close> reads the bytes back, the first one least significant.
\<close>

definition put_le :: "nat \<Rightarrow> 'a::len word \<Rightarrow> byte list" where
  "put_le n v = map (\<lambda>i. ucast (drop_bit (8 * i) v)) [0..<n]"

fun get_le :: "byte list \<Rightarrow> 'a::len word" where
  "get_le [] = 0"
| "get_le (b # bs) = ucast b OR push_bit 8 (get_le bs)"

lemma length_put_le [simp]: "length (put_le n v) = n"
  by (simp add: put_le_def)

lemma put_le_eq_Nil [simp]: "put_le n v = [] \<longleftrightarrow> n = 0"
  by (simp add: put_le_def)

lemma bit_get_le:
  "bit (get_le bs :: 'a::len word) k \<longleftrightarrow>
     k < LENGTH('a) \<and> k div 8 < length bs \<and> bit (bs ! (k div 8)) (k mod 8)"
proof (induction bs arbitrary: k)
  case Nil
  then show ?case by simp
next
  case (Cons b bs)
  show ?case
  proof (cases "k < 8")
    case True
    then show ?thesis
      by (auto simp: bit_or_iff bit_ucast_iff bit_push_bit_iff)
  next
    case False
    then obtain j where k: "k = 8 + j" by (metis le_add_diff_inverse linorder_not_less)
    then have div: "k div 8 = Suc (j div 8)" and "mod": "k mod 8 = j mod 8" by simp_all
    have "\<not> bit b k" using False by (auto dest: bit_imp_le_length)
    then show ?thesis
      using Cons.IH [of j] unfolding div "mod" nth_Cons_Suc
      by (auto simp: k bit_or_iff bit_ucast_iff bit_push_bit_iff)
  qed
qed

lemma get_le_put_le:
  assumes "LENGTH('a::len) \<le> 8 * n"
  shows "get_le (put_le n (v :: 'a word)) = v"
proof (rule bit_word_eqI)
  fix k assume "k < LENGTH('a)"
  then have "k div 8 < n" using assms by linarith
  then show "bit (get_le (put_le n v) :: 'a word) k \<longleftrightarrow> bit v k"
    using \<open>k < LENGTH('a)\<close>
    by (simp add: bit_get_le put_le_def bit_ucast_iff bit_drop_bit_eq)
qed

lemma get_le_8 [simp]: "get_le (put_le 1 (v :: 8 word)) = v"
  by (rule get_le_put_le) simp

lemma get_le_16 [simp]: "get_le (put_le 2 (v :: 16 word)) = v"
  by (rule get_le_put_le) simp

lemma get_le_32 [simp]: "get_le (put_le 4 (v :: 32 word)) = v"
  by (rule get_le_put_le) simp

lemma get_le_64 [simp]: "get_le (put_le 8 (v :: 64 word)) = v"
  by (rule get_le_put_le) simp

lemma put_le_get_le:
  assumes "8 * length bs \<le> LENGTH('a::len)"
  shows "put_le (length bs) (get_le bs :: 'a word) = bs"
proof (rule nth_equalityI)
  show "length (put_le (length bs) (get_le bs :: 'a word)) = length bs" by simp
next
  fix i assume "i < length (put_le (length bs) (get_le bs :: 'a word))"
  then have i: "i < length bs" by simp
  show "put_le (length bs) (get_le bs :: 'a word) ! i = bs ! i"
  proof (rule bit_word_eqI)
    fix k assume "k < LENGTH(8)"
    then have k: "k < 8" by simp
    then have "8 * i + k < LENGTH('a)" and "(8 * i + k) div 8 = i" and "(8 * i + k) mod 8 = k"
      using i assms by auto
    then show "bit (put_le (length bs) (get_le bs :: 'a word) ! i) k \<longleftrightarrow> bit (bs ! i) k"
      using i k by (simp add: put_le_def bit_ucast_iff bit_drop_bit_eq bit_get_le)
  qed
qed

section \<open>Strings as bytes\<close>

text \<open>
  A Go string is a sequence of bytes, and HOL's \<^typ>\<open>char\<close> is an 8-bit character, so a Go
  string is a \<^typ>\<open>string\<close>; \<^verbatim>\<open>byte(s[i])\<close> and \<^verbatim>\<open>string(bs)\<close> are the two conversions.
\<close>

definition byte_of_char :: "char \<Rightarrow> byte" where
  "byte_of_char c = of_nat (of_char c)"

definition char_of_byte :: "byte \<Rightarrow> char" where
  "char_of_byte b = char_of (unat b)"

lemma char_of_byte_of_char [simp]: "char_of_byte (byte_of_char c) = c"
proof -
  have "of_char c < (256 :: nat)" by simp
  then have "unat (byte_of_char c) = of_char c"
    by (simp add: byte_of_char_def unat_of_nat)
  then show ?thesis by (simp add: char_of_byte_def)
qed

lemma byte_of_char_of_byte [simp]: "byte_of_char (char_of_byte b) = b"
proof -
  have "unat b < 256" using unsigned_less [of b, where 'a = nat] by simp
  then show ?thesis by (simp add: byte_of_char_def char_of_byte_def of_char_of)
qed

lemma map_char_of_byte_of_char [simp]: "map char_of_byte (map byte_of_char s) = s"
  by (induction s) simp_all

section \<open>Words\<close>

lemma unat_of_nat_16: "n < 65536 \<Longrightarrow> unat (of_nat n :: 16 word) = n"
  by (simp add: unat_of_nat)

lemma unat_of_nat_32: "n < 4294967296 \<Longrightarrow> unat (of_nat n :: 32 word) = n"
  by (simp add: unat_of_nat)

lemma unat_of_nat_64: "n < 18446744073709551616 \<Longrightarrow> unat (of_nat n :: 64 word) = n"
  by (simp add: unat_of_nat)

lemma ucast_32_64_id: "unat (f :: 64 word) < 4294967296 \<Longrightarrow> ucast (ucast f :: 32 word) = f"
proof (rule word_unat_eq_iff [THEN iffD2])
  assume "unat f < 4294967296"
  then have "take_bit 32 (unat f) = unat f" by (simp add: take_bit_nat_eq_self)
  then have "unat (take_bit 32 f) = unat f"
    using unsigned_take_bit_eq [of 32 f, where 'a = nat] by (simp only:)
  then show "unat (ucast (ucast f :: 32 word) :: 64 word) = unat f"
    by (simp only: unsigned_ucast_eq) simp
qed

lemma unat_lt_65536 [simp]: "unat (w :: 16 word) < 65536"
  using unsigned_less [of w, where 'a = nat] by simp

lemma unat_lt_2p32 [simp]: "unat (w :: 32 word) < 4294967296"
  using unsigned_less [of w, where 'a = nat] by simp

lemma word_and_exp_neq_0 [simp]: "w AND 2 ^ n \<noteq> 0 \<longleftrightarrow> bit w n" for w :: "'a::len word"
  by (simp add: and_exp_eq_0_iff_not_bit)

section \<open>Conditional updates\<close>

text \<open>The statement \<^verbatim>\<open>if c { x = f(x) }\<close>.\<close>

definition upd_if :: "bool \<Rightarrow> ('a \<Rightarrow> 'a) \<Rightarrow> 'a \<Rightarrow> 'a" where
  "upd_if c f x = (if c then f x else x)"

lemma upd_if_True [simp]: "upd_if True f x = f x" and upd_if_False [simp]: "upd_if False f x = x"
  by (simp_all add: upd_if_def)

lemma upd_if_distrib: "(\<And>x. g (f x) = g x) \<Longrightarrow> g (upd_if c f x) = g x"
  by (simp add: upd_if_def)

section \<open>The state monad\<close>

text \<open>Iterating a reader or a writer, the shape of the \<^verbatim>\<open>for\<close> loops of the codecs.\<close>

primrec write_each :: "('a \<Rightarrow> ('s, unit) state) \<Rightarrow> 'a list \<Rightarrow> ('s, unit) state" where
  "write_each f [] = State_Monad.return ()"
| "write_each f (x # xs) = do { f x; write_each f xs }"

primrec read_times :: "('s, 'a) state \<Rightarrow> nat \<Rightarrow> ('s, 'a list) state" where
  "read_times m 0 = State_Monad.return []"
| "read_times m (Suc n) = do { x \<leftarrow> m; xs \<leftarrow> read_times m n; State_Monad.return (x # xs) }"

section \<open>Splitting strings\<close>

text \<open>\<^verbatim>\<open>strings.Split(s, sep)\<close> for a one-character separator.\<close>

fun split_on :: "char \<Rightarrow> string \<Rightarrow> string list" where
  "split_on c [] = [[]]"
| "split_on c (x # xs) =
     (if x = c then [] # split_on c xs
      else case split_on c xs of s # ss \<Rightarrow> (x # s) # ss | [] \<Rightarrow> [[x]])"

lemma split_on_no_sep: "c \<notin> set s \<Longrightarrow> split_on c s = [s]"
  by (induction s) auto

lemma split_on_join: "c \<notin> set s \<Longrightarrow> split_on c (s @ c # t) = s # split_on c t"
  by (induction s) auto

end
