(* ===== verification/P9_Buffer.thy ===== *)
theory P9_Buffer
  imports P9_Prelude
begin

text \<open>
  The consumed byte slice of \<^verbatim>\<open>p9/buffer.go\<close>: its state, one operation per method, and the
  interface the message codecs are built on. Two predicates describe the two ways the code
  uses a buffer: a \<open>writer\<close> only appends bytes that do not depend on the buffer, a \<open>reader\<close>
  only consumes a prefix and records exhaustion in \<open>overflow\<close>, which is never cleared. The
  locale \<open>codec\<close> is the contract of an \<^verbatim>\<open>encoder\<close> implementation (\<^verbatim>\<open>encode\<close>/\<^verbatim>\<open>decode\<close>): its
  lemmas (round trip, rejection of truncated input, unique decoding) are proved once and
  hold for every structure that interprets it.
\<close>

section \<open>State and primitive operations\<close>

record buffer =
  data :: "byte list"
  overflow :: bool

definition empty_buffer :: buffer where
  "empty_buffer = \<lparr>data = [], overflow = False\<rparr>"

text \<open>
  \<^verbatim>\<open>append\<close> grows the slice by \<open>n\<close> zero bytes and returns the new part, which every caller
  overwrites at once with the \<open>n\<close> bytes of its value: the two steps are one here.
\<close>

definition append_bytes :: "byte list \<Rightarrow> (buffer, unit) state" where
  "append_bytes bs = State (\<lambda>b. ((), b\<lparr>data := data b @ bs\<rparr>))"

definition has :: "nat \<Rightarrow> buffer \<Rightarrow> bool" where
  "has n b \<longleftrightarrow> length (data b) \<ge> n"

definition markOverrun :: "(buffer, unit) state" where
  "markOverrun = State (\<lambda>b. ((), b\<lparr>overflow := True\<rparr>))"

definition isOverrun :: "buffer \<Rightarrow> bool" where
  "isOverrun b = overflow b"

definition consume :: "nat \<Rightarrow> (buffer, byte list option) state" where
  "consume n = State (\<lambda>b.
     if \<not> has n b then (None, b\<lparr>overflow := True\<rparr>)
     else (Some (take n (data b)), b\<lparr>data := drop n (data b)\<rparr>))"

section \<open>Reading\<close>

definition Read8 :: "(buffer, uint8) state" where
  "Read8 = do {
     v \<leftarrow> consume 1;
     State_Monad.return (case v of None \<Rightarrow> 0 | Some v \<Rightarrow> get_le v) }"

definition Read16 :: "(buffer, uint16) state" where
  "Read16 = do {
     v \<leftarrow> consume 2;
     State_Monad.return (case v of None \<Rightarrow> 0 | Some v \<Rightarrow> get_le v) }"

definition Read32 :: "(buffer, uint32) state" where
  "Read32 = do {
     v \<leftarrow> consume 4;
     State_Monad.return (case v of None \<Rightarrow> 0 | Some v \<Rightarrow> get_le v) }"

definition Read64 :: "(buffer, uint64) state" where
  "Read64 = do {
     v \<leftarrow> consume 8;
     State_Monad.return (case v of None \<Rightarrow> 0 | Some v \<Rightarrow> get_le v) }"

text \<open>
  \<^verbatim>\<open>ReadString\<close>: a 16-bit length, a check that so many bytes are left (otherwise the buffer
  is marked corrupted and the string is empty), then one \<^verbatim>\<open>Read8\<close> per byte.
\<close>

definition ReadString :: "(buffer, string) state" where
  "ReadString = do {
     l \<leftarrow> Read16;
     b \<leftarrow> State_Monad.get;
     if \<not> has (unat l) b then do { markOverrun; State_Monad.return [] }
     else do {
       bs \<leftarrow> read_times Read8 (unat l);
       State_Monad.return (map char_of_byte bs) } }"

section \<open>Writing\<close>

definition Write8 :: "uint8 \<Rightarrow> (buffer, unit) state" where
  "Write8 v = append_bytes (put_le 1 v)"

definition Write16 :: "uint16 \<Rightarrow> (buffer, unit) state" where
  "Write16 v = append_bytes (put_le 2 v)"

definition Write32 :: "uint32 \<Rightarrow> (buffer, unit) state" where
  "Write32 v = append_bytes (put_le 4 v)"

definition Write64 :: "uint64 \<Rightarrow> (buffer, unit) state" where
  "Write64 v = append_bytes (put_le 8 v)"

text \<open>
  \<^verbatim>\<open>WriteString\<close> writes \<^verbatim>\<open>uint16(len(s))\<close> and then every byte: a string of 65536 bytes or
  more gets a length field that is too small.
\<close>

definition WriteString :: "string \<Rightarrow> (buffer, unit) state" where
  "WriteString s = do {
     Write16 (of_nat (length s));
     write_each (\<lambda>c. Write8 (byte_of_char c)) s }"

section \<open>Writers\<close>

text \<open>The bytes an encoder produces, and the encoders that only append.\<close>

definition encoded :: "(buffer, unit) state \<Rightarrow> byte list" where
  "encoded m = data (snd (run_state m empty_buffer))"

definition writer :: "(buffer, unit) state \<Rightarrow> bool" where
  "writer m \<longleftrightarrow> (\<forall>b. run_state m b = ((), b\<lparr>data := data b @ encoded m\<rparr>))"

lemma writer_run: "writer m \<Longrightarrow> run_state m b = ((), b\<lparr>data := data b @ encoded m\<rparr>)"
  by (simp add: writer_def)

lemma encoded_append_bytes [wire_simps]: "encoded (append_bytes bs) = bs"
  by (simp add: encoded_def append_bytes_def empty_buffer_def)

lemma writer_append_bytes [writer_intros]: "writer (append_bytes bs)"
  by (simp add: writer_def encoded_append_bytes) (simp add: append_bytes_def)

lemma encoded_return [wire_simps]: "encoded (State_Monad.return ()) = []"
  by (simp add: encoded_def empty_buffer_def)

lemma writer_return [writer_intros]: "writer (State_Monad.return ())"
  by (simp add: writer_def encoded_return)

lemma encoded_bind [wire_simps]:
  assumes "writer m" and "writer n"
  shows "encoded (m \<bind> (\<lambda>_. n)) = encoded m @ encoded n"
proof -
  have "run_state (m \<bind> (\<lambda>_. n)) empty_buffer
      = ((), empty_buffer\<lparr>data := encoded m @ encoded n\<rparr>)"
    by (simp add: writer_run [OF assms(1)] writer_run [OF assms(2)] empty_buffer_def)
  then show ?thesis by (simp add: encoded_def [of "m \<bind> (\<lambda>_. n)"])
qed

lemma writer_bind [writer_intros]:
  assumes "writer m" and "writer n"
  shows "writer (m \<bind> (\<lambda>_. n))"
  by (simp add: writer_def encoded_bind [OF assms] writer_run [OF assms(1)] writer_run [OF assms(2)])

lemma writer_primitives [writer_intros]:
  "writer (Write8 v8)" "writer (Write16 v16)" "writer (Write32 v32)" "writer (Write64 v64)"
  by (simp_all add: Write8_def Write16_def Write32_def Write64_def writer_append_bytes)

lemma encoded_primitives [wire_simps]:
  "encoded (Write8 v8) = put_le 1 v8"
  "encoded (Write16 v16) = put_le 2 v16"
  "encoded (Write32 v32) = put_le 4 v32"
  "encoded (Write64 v64) = put_le 8 v64"
  by (simp_all add: Write8_def Write16_def Write32_def Write64_def encoded_append_bytes)

lemma writer_write_each [writer_intros]: "(\<And>x. writer (f x)) \<Longrightarrow> writer (write_each f xs)"
  by (induction xs) (simp_all add: writer_intros)

lemma encoded_write_each:
  "(\<And>x. writer (f x)) \<Longrightarrow> encoded (write_each f xs) = concat (map (\<lambda>x. encoded (f x)) xs)"
  by (induction xs) (simp_all add: wire_simps writer_intros)

lemma put_le_1_byte: "put_le 1 (v :: byte) = [v]"
  by (simp add: put_le_def)

lemma writer_WriteString [writer_intros]: "writer (WriteString s)"
  unfolding WriteString_def by (intro writer_intros)

lemma encoded_WriteString:
  "encoded (WriteString s) = put_le 2 (of_nat (length s) :: uint16) @ map byte_of_char s"
proof -
  have "concat (map (\<lambda>c. [byte_of_char c]) s) = map byte_of_char s"
    by (induction s) simp_all
  then show ?thesis
    by (simp add: WriteString_def encoded_write_each wire_simps writer_intros put_le_1_byte del: One_nat_def)
qed

section \<open>Readers\<close>

text \<open>
  A reader never clears \<open>overflow\<close>; where it does not overrun, it behaves the same on
  every longer input and leaves the extra bytes in place; and what it leaves of the data is
  always a suffix.
\<close>

definition reader :: "(buffer, 'a) state \<Rightarrow> bool" where
  "reader m \<longleftrightarrow>
     (\<forall>b. overflow b \<longrightarrow> overflow (snd (run_state m b))) \<and>
     (\<forall>d v d' r. run_state m \<lparr>data = d, overflow = False\<rparr> = (v, \<lparr>data = d', overflow = False\<rparr>) \<longrightarrow>
        run_state m \<lparr>data = d @ r, overflow = False\<rparr> = (v, \<lparr>data = d' @ r, overflow = False\<rparr>)) \<and>
     (\<forall>b. \<exists>p. data b = p @ data (snd (run_state m b)))"

lemma reader_suffix: "reader m \<Longrightarrow> \<exists>p. data b = p @ data (snd (run_state m b))"
  by (simp add: reader_def)

lemma reader_length: "reader m \<Longrightarrow> length (data (snd (run_state m b))) \<le> length (data b)"
  using reader_suffix [of m b] by (metis le_add2 length_append)

lemma reader_sticky: "reader m \<Longrightarrow> overflow b \<Longrightarrow> overflow (snd (run_state m b))"
  by (simp add: reader_def)

lemma reader_extend:
  "reader m \<Longrightarrow> run_state m \<lparr>data = d, overflow = False\<rparr> = (v, \<lparr>data = d', overflow = False\<rparr>) \<Longrightarrow>
   run_state m \<lparr>data = d @ r, overflow = False\<rparr> = (v, \<lparr>data = d' @ r, overflow = False\<rparr>)"
  by (simp add: reader_def)

lemma reader_return [reader_intros]: "reader (State_Monad.return x)"
  by (simp add: reader_def)

lemma reader_bind [reader_intros]:
  assumes m: "reader m" and f: "\<And>x. reader (f x)"
  shows "reader (m \<bind> f)"
  unfolding reader_def
proof (intro conjI allI impI)
  fix b :: buffer assume "overflow b"
  then show "overflow (snd (run_state (m \<bind> f) b))"
    using reader_sticky [OF m, of b] reader_sticky [OF f]
    by (cases "run_state m b") simp
next
  fix d v d' r
  assume run: "run_state (m \<bind> f) \<lparr>data = d, overflow = False\<rparr> = (v, \<lparr>data = d', overflow = False\<rparr>)"
  obtain x b where x: "run_state m \<lparr>data = d, overflow = False\<rparr> = (x, b)" by fastforce
  with run have fx: "run_state (f x) b = (v, \<lparr>data = d', overflow = False\<rparr>)" by simp
  have "\<not> overflow b"
    using reader_sticky [OF f, of b x] fx by auto
  then obtain e where b: "b = \<lparr>data = e, overflow = False\<rparr>" by (cases b) simp
  show "run_state (m \<bind> f) \<lparr>data = d @ r, overflow = False\<rparr> = (v, \<lparr>data = d' @ r, overflow = False\<rparr>)"
    using reader_extend [OF m x [unfolded b], of r] reader_extend [OF f fx [unfolded b], of r]
    by simp
next
  fix b
  obtain x b' where x: "run_state m b = (x, b')" by fastforce
  obtain p where "data b = p @ data b'" using reader_suffix [OF m, of b] x by auto
  moreover obtain q where "data b' = q @ data (snd (run_state (f x) b'))"
    using reader_suffix [OF f, of b' x] by auto
  ultimately have "data b = (p @ q) @ data (snd (run_state (m \<bind> f) b))" using x by simp
  then show "\<exists>p. data b = p @ data (snd (run_state (m \<bind> f) b))" by blast
qed

lemma reader_consume [reader_intros]: "reader (consume n)"
  by (auto simp: reader_def consume_def has_def split: if_splits)
    (metis append_take_drop_id)

lemma reader_primitives [reader_intros]:
  "reader Read8" "reader Read16" "reader Read32" "reader Read64"
  unfolding Read8_def Read16_def Read32_def Read64_def by (intro reader_intros)+

lemma reader_markOverrun [reader_intros]: "reader markOverrun"
  by (simp add: reader_def markOverrun_def)

lemma reader_read_times [reader_intros]: "reader m \<Longrightarrow> reader (read_times m n)"
  by (induction n) (simp_all add: reader_intros)

text \<open>A reader that, unless it overruns, consumes at least one byte.\<close>

definition consuming :: "(buffer, 'a) state \<Rightarrow> bool" where
  "consuming m \<longleftrightarrow> (\<forall>b. \<not> overflow (snd (run_state m b)) \<longrightarrow>
     length (data (snd (run_state m b))) < length (data b))"

lemma consuming_less:
  "consuming m \<Longrightarrow> run_state m b = (v, b') \<Longrightarrow> \<not> overflow b' \<Longrightarrow> length (data b') < length (data b)"
  by (metis consuming_def snd_conv)

lemma consuming_bind:
  assumes m: "consuming m" and f: "\<And>x. reader (f x)"
  shows "consuming (m \<bind> f)"
  unfolding consuming_def
proof (intro allI impI)
  fix b assume nov: "\<not> overflow (snd (run_state (m \<bind> f) b))"
  obtain x b' where x: "run_state m b = (x, b')" by fastforce
  have "\<not> overflow b'" using nov reader_sticky [OF f, of b' x] x by auto
  then have "length (data b') < length (data b)" using consuming_less [OF m x] by simp
  then show "length (data (snd (run_state (m \<bind> f) b))) < length (data b)"
    using reader_length [OF f, of x b'] x by simp
qed

lemma consuming_Read8: "consuming Read8"
  by (auto simp: consuming_def Read8_def consume_def has_def)

section \<open>Running readers on encoded data\<close>

lemma consume_append [wire_simps]:
  "length bs = n \<Longrightarrow> run_state (consume n) \<lparr>data = bs @ r, overflow = f\<rparr> = (Some bs, \<lparr>data = r, overflow = f\<rparr>)"
  by (simp add: consume_def has_def)

lemma Read_put_le [wire_simps]:
  "run_state Read8 \<lparr>data = put_le 1 v8 @ r, overflow = f\<rparr> = (v8, \<lparr>data = r, overflow = f\<rparr>)"
  "run_state Read16 \<lparr>data = put_le 2 v16 @ r, overflow = f\<rparr> = (v16, \<lparr>data = r, overflow = f\<rparr>)"
  "run_state Read32 \<lparr>data = put_le 4 v32 @ r, overflow = f\<rparr> = (v32, \<lparr>data = r, overflow = f\<rparr>)"
  "run_state Read64 \<lparr>data = put_le 8 v64 @ r, overflow = f\<rparr> = (v64, \<lparr>data = r, overflow = f\<rparr>)"
  by (simp_all add: Read8_def Read16_def Read32_def Read64_def consume_append del: One_nat_def)

lemma Read8_Cons [wire_simps]:
  "run_state Read8 \<lparr>data = b # r, overflow = f\<rparr> = (b, \<lparr>data = r, overflow = f\<rparr>)"
  by (simp add: Read8_def consume_def has_def)

lemmas Read8_put_le [wire_simps] = Read_put_le(1) [unfolded One_nat_def]

lemma read_times_Read8:
  "length bs = n \<Longrightarrow>
   run_state (read_times Read8 n) \<lparr>data = bs @ r, overflow = f\<rparr> = (bs, \<lparr>data = r, overflow = f\<rparr>)"
  by (induction n arbitrary: bs) (auto simp: length_Suc_conv Read8_Cons)

text \<open>A fixed-width read that fails leaves the bytes, returns 0 and marks the buffer.\<close>

lemma Read_short:
  "length d < 1 \<Longrightarrow> run_state Read8 \<lparr>data = d, overflow = f\<rparr> = (0, \<lparr>data = d, overflow = True\<rparr>)"
  "length d < 2 \<Longrightarrow> run_state Read16 \<lparr>data = d, overflow = f\<rparr> = (0, \<lparr>data = d, overflow = True\<rparr>)"
  "length d < 4 \<Longrightarrow> run_state Read32 \<lparr>data = d, overflow = f\<rparr> = (0, \<lparr>data = d, overflow = True\<rparr>)"
  "length d < 8 \<Longrightarrow> run_state Read64 \<lparr>data = d, overflow = f\<rparr> = (0, \<lparr>data = d, overflow = True\<rparr>)"
  by (simp_all add: Read8_def Read16_def Read32_def Read64_def consume_def has_def)

definition string_ok :: "string \<Rightarrow> bool" where
  "string_ok s \<longleftrightarrow> length s < 65536"

lemma ReadString_encoded [wire_simps]:
  assumes "string_ok s"
  shows "run_state ReadString \<lparr>data = encoded (WriteString s) @ r, overflow = f\<rparr>
         = (s, \<lparr>data = r, overflow = f\<rparr>)"
proof -
  have "unat (of_nat (length s) :: uint16) = length s"
    using assms by (simp add: string_ok_def unat_of_nat_16)
  moreover have "run_state (read_times Read8 (length s)) \<lparr>data = map byte_of_char s @ r, overflow = f\<rparr>
      = (map byte_of_char s, \<lparr>data = r, overflow = f\<rparr>)"
    by (rule read_times_Read8) simp
  ultimately show ?thesis
    by (simp add: ReadString_def encoded_WriteString Read_put_le has_def del: map_map)
qed

text \<open>
  \<^verbatim>\<open>ReadString\<close> is a reader: when the bytes announced by the length are there, they are
  consumed one by one without overrun.
\<close>

lemma reader_check_has:
  assumes "\<And>d. length d \<ge> n \<Longrightarrow> \<not> overflow (snd (run_state m \<lparr>data = d, overflow = False\<rparr>))"
    and "reader m"
  shows "reader (do { b \<leftarrow> State_Monad.get;
                      if \<not> has n b then do { markOverrun; State_Monad.return x } else m })"
  using reader_sticky [OF assms(2)] reader_extend [OF assms(2)] reader_suffix [OF assms(2)]
  by (auto simp: reader_def markOverrun_def has_def split: if_splits)

lemma read_times_Read8_enough:
  "length d \<ge> n \<Longrightarrow> run_state (read_times Read8 n) \<lparr>data = d, overflow = f\<rparr>
     = (take n d, \<lparr>data = drop n d, overflow = f\<rparr>)"
  using read_times_Read8 [of "take n d" n "drop n d" f] by simp

lemma reader_ReadString [reader_intros]: "reader ReadString"
  unfolding ReadString_def
  by (intro reader_bind reader_check_has reader_intros) (simp add: read_times_Read8_enough)

section \<open>The codec interface\<close>

text \<open>
  \<^verbatim>\<open>encoder\<close>: \<open>enc\<close> may not fail, \<open>dec\<close> decodes into an existing instance (its first argument)
  and \<^emph>\<open>must clear any previous state\<close>: on the encoding of a value \<open>x\<close> within the limits
  \<open>ok\<close> of the wire format it returns \<open>x\<close> whatever the instance held before.
\<close>

locale codec =
  fixes enc :: "'a \<Rightarrow> (buffer, unit) state"
    and dec :: "'a \<Rightarrow> (buffer, 'a) state"
    and ok :: "'a \<Rightarrow> bool"
  assumes enc_writer: "writer (enc x)"
    and dec_reader: "reader (dec y)"
    and dec_enc: "ok x \<Longrightarrow> run_state (dec y) \<lparr>data = encoded (enc x) @ r, overflow = f\<rparr>
                   = (x, \<lparr>data = r, overflow = f\<rparr>)"
begin

lemma enc_run: "run_state (enc x) b = ((), b\<lparr>data := data b @ encoded (enc x)\<rparr>)"
  by (rule writer_run [OF enc_writer])

lemma dec_enc_exact:
  "ok x \<Longrightarrow> run_state (dec y) \<lparr>data = encoded (enc x), overflow = f\<rparr> = (x, \<lparr>data = [], overflow = f\<rparr>)"
  using dec_enc [of x y "[]" f] by simp

lemma unique_decoding:
  assumes "ok x" and "ok x'" and "encoded (enc x) @ r = encoded (enc x') @ r'"
  shows "x = x' \<and> r = r'"
  using dec_enc [OF assms(1), of x r False, unfolded assms(3)] dec_enc [OF assms(2), of x r' False]
  by simp

lemma truncated_overruns:
  assumes "ok x" and "encoded (enc x) = p @ q" and "q \<noteq> []"
  shows "overflow (snd (run_state (dec y) \<lparr>data = p, overflow = False\<rparr>))"
proof (rule ccontr)
  assume neg: "\<not> overflow (snd (run_state (dec y) \<lparr>data = p, overflow = False\<rparr>))"
  obtain v b where vb: "run_state (dec y) \<lparr>data = p, overflow = False\<rparr> = (v, b)" by fastforce
  with neg obtain e where b: "b = \<lparr>data = e, overflow = False\<rparr>" by (cases b) simp
  have "run_state (dec y) \<lparr>data = p @ q, overflow = False\<rparr> = (v, \<lparr>data = e @ q, overflow = False\<rparr>)"
    by (rule reader_extend [OF dec_reader vb [unfolded b]])
  with dec_enc_exact [OF assms(1), of y False] assms(2,3) show False by simp
qed

lemma write_each_writer: "writer (write_each enc xs)"
  by (rule writer_write_each) (rule enc_writer)

lemma read_times_enc:
  "\<forall>x\<in>set xs. ok x \<Longrightarrow>
   run_state (read_times (dec y) (length xs)) \<lparr>data = encoded (write_each enc xs) @ r, overflow = f\<rparr>
   = (xs, \<lparr>data = r, overflow = f\<rparr>)"
  by (induction xs)
    (simp_all add: encoded_bind encoded_return enc_writer write_each_writer dec_enc)

end

end
