(* ===== verification/P9_Types.thy ===== *)
theory P9_Types
  imports P9_Buffer
begin

text \<open>
  The protocol's data types of \<^verbatim>\<open>p9/p9.go\<close>: identifiers, open flags, file modes and their
  conversion to and from \<^verbatim>\<open>os.FileMode\<close>, QIDs, \<^verbatim>\<open>FSStat\<close>, \<^verbatim>\<open>AttrMask\<close>/\<^verbatim>\<open>Attr\<close>,
  \<^verbatim>\<open>SetAttrMask\<close>/\<^verbatim>\<open>SetAttr\<close> and directory entries, each with its \<^verbatim>\<open>encode\<close> and \<^verbatim>\<open>decode\<close>;
  and the typed accessors of \<^verbatim>\<open>p9/buffer.go\<close>. Every structure interprets \<open>codec\<close>.
\<close>

section \<open>Identifiers, modes and flags\<close>

type_synonym tag = uint16
type_synonym fid = uint64
type_synonym UID = uint32
type_synonym GID = uint32
type_synonym OpenFlags = uint32
type_synonym FileMode = uint32
type_synonym QIDType = uint8
type_synonym msgType = uint8

definition noTag :: tag where "noTag = 0xFFFF"
definition noFID :: fid where "noFID = 0xFFFFFFFF"
definition NoUID :: UID where "NoUID = 0xFFFFFFFF"
definition NoGID :: GID where "NoGID = 0xFFFFFFFF"

definition UID_Ok :: "UID \<Rightarrow> bool" where "UID_Ok uid \<longleftrightarrow> uid \<noteq> NoUID"
definition GID_Ok :: "GID \<Rightarrow> bool" where "GID_Ok gid \<longleftrightarrow> gid \<noteq> NoGID"

definition ReadOnly :: OpenFlags where "ReadOnly = 0"
definition WriteOnly :: OpenFlags where "WriteOnly = 1"
definition ReadWrite :: OpenFlags where "ReadWrite = 2"
definition OpenFlagsModeMask :: OpenFlags where "OpenFlagsModeMask = 3"

definition OpenFlags_Mode :: "OpenFlags \<Rightarrow> OpenFlags" where
  "OpenFlags_Mode f = f AND OpenFlagsModeMask"

definition OSFlags :: "OpenFlags \<Rightarrow> int" where
  "OSFlags f = uint (f AND OpenFlagsModeMask)"

text \<open>The mode bits; the source writes them in octal.\<close>

definition FileModeMask :: FileMode where "FileModeMask = 0xF000"
definition ModeSocket :: FileMode where "ModeSocket = 0xC000"
definition ModeSymlink :: FileMode where "ModeSymlink = 0xA000"
definition ModeRegular :: FileMode where "ModeRegular = 0x8000"
definition ModeBlockDevice :: FileMode where "ModeBlockDevice = 0x6000"
definition ModeDirectory :: FileMode where "ModeDirectory = 0x4000"
definition ModeCharacterDevice :: FileMode where "ModeCharacterDevice = 0x2000"
definition ModeNamedPipe :: FileMode where "ModeNamedPipe = 0x1000"
definition AllPermissions :: FileMode where "AllPermissions = 0x1FF"
definition Setuid :: FileMode where "Setuid = 0x800"
definition Setgid :: FileMode where "Setgid = 0x400"
definition Sticky :: FileMode where "Sticky = 0x200"
definition permissionsMask :: FileMode where "permissionsMask = 0xFFF"

lemmas mode_consts = FileModeMask_def ModeSocket_def ModeSymlink_def ModeRegular_def
  ModeBlockDevice_def ModeDirectory_def ModeCharacterDevice_def ModeNamedPipe_def
  AllPermissions_def Setuid_def Setgid_def Sticky_def permissionsMask_def

definition FileType :: "FileMode \<Rightarrow> FileMode" where
  "FileType m = m AND FileModeMask"

definition Permissions :: "FileMode \<Rightarrow> FileMode" where
  "Permissions m = m AND permissionsMask"

definition Writable :: "FileMode \<Rightarrow> FileMode" where
  "Writable m = m OR 0x92"

definition IsReadable :: "FileMode \<Rightarrow> bool" where
  "IsReadable m \<longleftrightarrow> m AND 0x124 \<noteq> 0"

definition IsWritable :: "FileMode \<Rightarrow> bool" where
  "IsWritable m \<longleftrightarrow> m AND 0x92 \<noteq> 0"

definition IsExecutable :: "FileMode \<Rightarrow> bool" where
  "IsExecutable m \<longleftrightarrow> m AND 0x49 \<noteq> 0"

definition IsRegular :: "FileMode \<Rightarrow> bool" where
  "IsRegular m \<longleftrightarrow> m AND FileModeMask = ModeRegular"

definition IsDir :: "FileMode \<Rightarrow> bool" where
  "IsDir m \<longleftrightarrow> m AND FileModeMask = ModeDirectory"

definition IsNamedPipe :: "FileMode \<Rightarrow> bool" where
  "IsNamedPipe m \<longleftrightarrow> m AND FileModeMask = ModeNamedPipe"

definition IsCharacterDevice :: "FileMode \<Rightarrow> bool" where
  "IsCharacterDevice m \<longleftrightarrow> m AND FileModeMask = ModeCharacterDevice"

definition IsBlockDevice :: "FileMode \<Rightarrow> bool" where
  "IsBlockDevice m \<longleftrightarrow> m AND FileModeMask = ModeBlockDevice"

definition IsSocket :: "FileMode \<Rightarrow> bool" where
  "IsSocket m \<longleftrightarrow> m AND FileModeMask = ModeSocket"

definition IsSymlink :: "FileMode \<Rightarrow> bool" where
  "IsSymlink m \<longleftrightarrow> m AND FileModeMask = ModeSymlink"

lemmas mode_tests = IsRegular_def IsDir_def IsNamedPipe_def IsCharacterDevice_def
  IsBlockDevice_def IsSocket_def IsSymlink_def

definition TypeDir :: QIDType where "TypeDir = 0x80"
definition TypeAppendOnly :: QIDType where "TypeAppendOnly = 0x40"
definition TypeSymlink :: QIDType where "TypeSymlink = 0x02"
definition TypeRegular :: QIDType where "TypeRegular = 0x00"

definition FileMode_QIDType :: "FileMode \<Rightarrow> QIDType" where
  "FileMode_QIDType m =
     (if IsDir m then TypeDir
      else if IsSocket m \<or> IsNamedPipe m \<or> IsCharacterDevice m then TypeAppendOnly
      else if IsSymlink m then TypeSymlink
      else TypeRegular)"

section \<open>Conversion to and from os.FileMode\<close>

text \<open>The mode bits of Go's package \<^verbatim>\<open>os\<close> (\<^verbatim>\<open>io/fs\<close>), a 32-bit word.\<close>

type_synonym os_FileMode = uint32

definition os_ModeDir :: os_FileMode where "os_ModeDir = 0x80000000"
definition os_ModeSymlink :: os_FileMode where "os_ModeSymlink = 0x08000000"
definition os_ModeDevice :: os_FileMode where "os_ModeDevice = 0x04000000"
definition os_ModeNamedPipe :: os_FileMode where "os_ModeNamedPipe = 0x02000000"
definition os_ModeSocket :: os_FileMode where "os_ModeSocket = 0x01000000"
definition os_ModeSetuid :: os_FileMode where "os_ModeSetuid = 0x00800000"
definition os_ModeSetgid :: os_FileMode where "os_ModeSetgid = 0x00400000"
definition os_ModeCharDevice :: os_FileMode where "os_ModeCharDevice = 0x00200000"
definition os_ModeSticky :: os_FileMode where "os_ModeSticky = 0x00100000"
definition os_ModePerm :: os_FileMode where "os_ModePerm = 0x1FF"

lemmas os_mode_consts = os_ModeDir_def os_ModeSymlink_def os_ModeDevice_def
  os_ModeNamedPipe_def os_ModeSocket_def os_ModeSetuid_def os_ModeSetgid_def
  os_ModeCharDevice_def os_ModeSticky_def os_ModePerm_def

definition set_if :: "bool \<Rightarrow> 'a::len word \<Rightarrow> 'a word \<Rightarrow> 'a word" where
  "set_if c bits m = (if c then m OR bits else m)"

definition ModeFromOS :: "os_FileMode \<Rightarrow> FileMode" where
  "ModeFromOS mode =
     (let m = mode AND os_ModePerm;
          m = (if mode AND os_ModeDir \<noteq> 0 then m OR ModeDirectory
               else if mode AND os_ModeSymlink \<noteq> 0 then m OR ModeSymlink
               else if mode AND os_ModeSocket \<noteq> 0 then m OR ModeSocket
               else if mode AND os_ModeNamedPipe \<noteq> 0 then m OR ModeNamedPipe
               else if mode AND os_ModeCharDevice \<noteq> 0 then m OR ModeCharacterDevice
               else if mode AND os_ModeDevice \<noteq> 0 then m OR ModeBlockDevice
               else m OR ModeRegular);
          m = set_if (mode AND os_ModeSetuid \<noteq> 0) Setuid m;
          m = set_if (mode AND os_ModeSetgid \<noteq> 0) Setgid m
      in set_if (mode AND os_ModeSticky \<noteq> 0) Sticky m)"

definition OSMode :: "FileMode \<Rightarrow> os_FileMode" where
  "OSMode m =
     (let osMode = m AND AllPermissions;
          osMode = (if IsDir m then osMode OR os_ModeDir
                    else if IsSymlink m then osMode OR os_ModeSymlink
                    else if IsSocket m then osMode OR os_ModeSocket
                    else if IsNamedPipe m then osMode OR os_ModeNamedPipe
                    else if IsCharacterDevice m then osMode OR (os_ModeCharDevice OR os_ModeDevice)
                    else if IsBlockDevice m then osMode OR os_ModeDevice
                    else osMode);
          osMode = set_if (m AND Setuid \<noteq> 0) os_ModeSetuid osMode;
          osMode = set_if (m AND Setgid \<noteq> 0) os_ModeSetgid osMode
      in set_if (m AND Sticky \<noteq> 0) os_ModeSticky osMode)"

lemma bit_set_if [simp]: "bit (set_if c v m) n \<longleftrightarrow> (c \<and> bit v n) \<or> bit m n"
  by (auto simp: set_if_def bit_or_iff)

lemma bit_if_word: "bit (if c then x else y) n \<longleftrightarrow> (if c then bit x n else bit y n)"
  by simp

text \<open>Testing one flag bit, in the form the source writes it.\<close>

lemma and_flag_bit:
  fixes w :: "'a::len word"
  shows "w AND 0x1 = 0 \<longleftrightarrow> \<not> bit w 0" "w AND 0x2 = 0 \<longleftrightarrow> \<not> bit w 1"
    "w AND 0x4 = 0 \<longleftrightarrow> \<not> bit w 2" "w AND 0x8 = 0 \<longleftrightarrow> \<not> bit w 3"
    "w AND 0x10 = 0 \<longleftrightarrow> \<not> bit w 4" "w AND 0x20 = 0 \<longleftrightarrow> \<not> bit w 5"
    "w AND 0x40 = 0 \<longleftrightarrow> \<not> bit w 6" "w AND 0x80 = 0 \<longleftrightarrow> \<not> bit w 7"
    "w AND 0x100 = 0 \<longleftrightarrow> \<not> bit w 8" "w AND 0x200 = 0 \<longleftrightarrow> \<not> bit w 9"
    "w AND 0x400 = 0 \<longleftrightarrow> \<not> bit w 10" "w AND 0x800 = 0 \<longleftrightarrow> \<not> bit w 11"
    "w AND 0x1000 = 0 \<longleftrightarrow> \<not> bit w 12" "w AND 0x2000 = 0 \<longleftrightarrow> \<not> bit w 13"
    "w AND 0x100000 = 0 \<longleftrightarrow> \<not> bit w 20" "w AND 0x200000 = 0 \<longleftrightarrow> \<not> bit w 21"
    "w AND 0x400000 = 0 \<longleftrightarrow> \<not> bit w 22" "w AND 0x800000 = 0 \<longleftrightarrow> \<not> bit w 23"
    "w AND 0x1000000 = 0 \<longleftrightarrow> \<not> bit w 24" "w AND 0x2000000 = 0 \<longleftrightarrow> \<not> bit w 25"
    "w AND 0x4000000 = 0 \<longleftrightarrow> \<not> bit w 26" "w AND 0x8000000 = 0 \<longleftrightarrow> \<not> bit w 27"
    "w AND 0x80000000 = 0 \<longleftrightarrow> \<not> bit w 31"
  using and_exp_eq_0_iff_not_bit [of w 0] and_exp_eq_0_iff_not_bit [of w 1]
    and_exp_eq_0_iff_not_bit [of w 2] and_exp_eq_0_iff_not_bit [of w 3]
    and_exp_eq_0_iff_not_bit [of w 4] and_exp_eq_0_iff_not_bit [of w 5]
    and_exp_eq_0_iff_not_bit [of w 6] and_exp_eq_0_iff_not_bit [of w 7]
    and_exp_eq_0_iff_not_bit [of w 8] and_exp_eq_0_iff_not_bit [of w 9]
    and_exp_eq_0_iff_not_bit [of w 10] and_exp_eq_0_iff_not_bit [of w 11]
    and_exp_eq_0_iff_not_bit [of w 12] and_exp_eq_0_iff_not_bit [of w 13]
    and_exp_eq_0_iff_not_bit [of w 20] and_exp_eq_0_iff_not_bit [of w 21]
    and_exp_eq_0_iff_not_bit [of w 22] and_exp_eq_0_iff_not_bit [of w 23]
    and_exp_eq_0_iff_not_bit [of w 24] and_exp_eq_0_iff_not_bit [of w 25]
    and_exp_eq_0_iff_not_bit [of w 26] and_exp_eq_0_iff_not_bit [of w 27]
    and_exp_eq_0_iff_not_bit [of w 31]
  by simp_all


lemma word32_eq_iff_bits:
  "(v :: uint32) = w \<longleftrightarrow> list_all (\<lambda>n. bit v n = bit w n)
     [0, 1, 2, 3, 4, 5, 6, 7, 8, 9, 10, 11, 12, 13, 14, 15, 16, 17, 18, 19, 20, 21, 22, 23,
      24, 25, 26, 27, 28, 29, 30, 31]"
proof -
  have "[0..<32] = [0, 1, 2, 3, 4, 5, 6, 7, 8, 9, 10, 11, 12, 13, 14, 15, 16, 17, 18, 19, 20,
      21, 22, 23, 24, 25, 26, 27, 28, 29, 30, 31]"
    by code_simp
  moreover have "v = w \<longleftrightarrow> list_all (\<lambda>n. bit v n = bit w n) [0..<32]"
    by (auto simp: list_all_iff intro: bit_word_eqI)
  ultimately show ?thesis by (simp only:)
qed

lemma type_bits:
  "IsDir m \<longleftrightarrow> \<not> bit m 15 \<and> bit m 14 \<and> \<not> bit m 13 \<and> \<not> bit m 12"
  "IsRegular m \<longleftrightarrow> bit m 15 \<and> \<not> bit m 14 \<and> \<not> bit m 13 \<and> \<not> bit m 12"
  "IsNamedPipe m \<longleftrightarrow> \<not> bit m 15 \<and> \<not> bit m 14 \<and> \<not> bit m 13 \<and> bit m 12"
  "IsCharacterDevice m \<longleftrightarrow> \<not> bit m 15 \<and> \<not> bit m 14 \<and> bit m 13 \<and> \<not> bit m 12"
  "IsBlockDevice m \<longleftrightarrow> \<not> bit m 15 \<and> bit m 14 \<and> bit m 13 \<and> \<not> bit m 12"
  "IsSocket m \<longleftrightarrow> bit m 15 \<and> bit m 14 \<and> \<not> bit m 13 \<and> \<not> bit m 12"
  "IsSymlink m \<longleftrightarrow> bit m 15 \<and> \<not> bit m 14 \<and> bit m 13 \<and> \<not> bit m 12"
  unfolding mode_tests mode_consts word32_eq_iff_bits
  by (auto simp: bit_and_iff)

text \<open>
  A mode with one of the seven file types of the protocol and no bit above the 16 of a
  POSIX \<^verbatim>\<open>st_mode\<close>: the domain on which the two conversions are inverse.
\<close>

definition known_mode :: "FileMode \<Rightarrow> bool" where
  "known_mode m \<longleftrightarrow> m AND 0xFFFF = m \<and>
     (IsRegular m \<or> IsDir m \<or> IsNamedPipe m \<or> IsCharacterDevice m \<or> IsBlockDevice m \<or>
      IsSocket m \<or> IsSymlink m)"

lemma known_mode_high_bits:
  assumes "known_mode m"
  shows "\<not> bit m 16" "\<not> bit m 17" "\<not> bit m 18" "\<not> bit m 19" "\<not> bit m 20" "\<not> bit m 21"
    "\<not> bit m 22" "\<not> bit m 23" "\<not> bit m 24" "\<not> bit m 25" "\<not> bit m 26" "\<not> bit m 27"
    "\<not> bit m 28" "\<not> bit m 29" "\<not> bit m 30" "\<not> bit m 31"
proof -
  have hi: "bit m n \<longleftrightarrow> bit (m AND 0xFFFF) n" for n
    using assms by (simp add: known_mode_def)
  show "\<not> bit m 16" "\<not> bit m 17" "\<not> bit m 18" "\<not> bit m 19" "\<not> bit m 20" "\<not> bit m 21"
    "\<not> bit m 22" "\<not> bit m 23" "\<not> bit m 24" "\<not> bit m 25" "\<not> bit m 26" "\<not> bit m 27"
    "\<not> bit m 28" "\<not> bit m 29" "\<not> bit m 30" "\<not> bit m 31"
    by (subst hi, simp add: bit_and_iff)+
qed

lemma ModeFromOS_OSMode_known:
  assumes "known_mode m"
  shows "ModeFromOS (OSMode m) = m"
proof -
  note hi = known_mode_high_bits [OF assms]
  from assms have "IsRegular m \<or> IsDir m \<or> IsNamedPipe m \<or> IsCharacterDevice m \<or>
      IsBlockDevice m \<or> IsSocket m \<or> IsSymlink m"
    by (simp add: known_mode_def)
  then show ?thesis
    unfolding type_bits
    by (elim disjE conjE)
      (simp_all add: ModeFromOS_def OSMode_def Let_def os_mode_consts mode_consts and_flag_bit
        type_bits word32_eq_iff_bits bit_and_iff bit_or_iff hi)
qed

section \<open>Typed accessors of the buffer\<close>

definition ReadQIDType :: "(buffer, QIDType) state" where
  "ReadQIDType = Read8"

definition ReadTag :: "(buffer, tag) state" where
  "ReadTag = Read16"

definition ReadFID :: "(buffer, fid) state" where
  "ReadFID = do { v \<leftarrow> Read32; State_Monad.return (ucast v) }"

definition ReadUID :: "(buffer, UID) state" where
  "ReadUID = Read32"

definition ReadGID :: "(buffer, GID) state" where
  "ReadGID = Read32"

definition ReadFileMode :: "(buffer, FileMode) state" where
  "ReadFileMode = Read32"

definition ReadPermissions :: "(buffer, FileMode) state" where
  "ReadPermissions = do { m \<leftarrow> ReadFileMode; State_Monad.return (m AND permissionsMask) }"

definition ReadOpenFlags :: "(buffer, OpenFlags) state" where
  "ReadOpenFlags = Read32"

definition ReadMsgType :: "(buffer, msgType) state" where
  "ReadMsgType = Read8"

definition WriteQIDType :: "QIDType \<Rightarrow> (buffer, unit) state" where
  "WriteQIDType t = Write8 t"

definition WriteTag :: "tag \<Rightarrow> (buffer, unit) state" where
  "WriteTag t = Write16 t"

definition WriteFID :: "fid \<Rightarrow> (buffer, unit) state" where
  "WriteFID f = Write32 (ucast f)"

definition WriteUID :: "UID \<Rightarrow> (buffer, unit) state" where
  "WriteUID u = Write32 u"

definition WriteGID :: "GID \<Rightarrow> (buffer, unit) state" where
  "WriteGID g = Write32 g"

definition WriteFileMode :: "FileMode \<Rightarrow> (buffer, unit) state" where
  "WriteFileMode m = Write32 m"

definition WritePermissions :: "FileMode \<Rightarrow> (buffer, unit) state" where
  "WritePermissions perm = WriteFileMode (perm AND permissionsMask)"

definition WriteOpenFlags :: "OpenFlags \<Rightarrow> (buffer, unit) state" where
  "WriteOpenFlags f = Write32 f"

definition WriteMsgType :: "msgType \<Rightarrow> (buffer, unit) state" where
  "WriteMsgType t = Write8 t"

text \<open>
  A \<^verbatim>\<open>fid\<close> is a 64-bit value in memory and 32 bits on the wire; permissions travel masked.
\<close>

definition fid_ok :: "fid \<Rightarrow> bool" where
  [ok_defs]: "fid_ok f \<longleftrightarrow> unat f < 4294967296"

definition perm_ok :: "FileMode \<Rightarrow> bool" where
  [ok_defs]: "perm_ok m \<longleftrightarrow> m AND permissionsMask = m"

lemmas plain_accessors = ReadQIDType_def ReadTag_def ReadUID_def ReadGID_def ReadFileMode_def
  ReadOpenFlags_def ReadMsgType_def WriteQIDType_def WriteTag_def WriteUID_def WriteGID_def
  WriteFileMode_def WriteOpenFlags_def WriteMsgType_def

lemma reader_accessors [reader_intros]:
  "reader ReadQIDType" "reader ReadTag" "reader ReadFID" "reader ReadUID" "reader ReadGID"
  "reader ReadFileMode" "reader ReadPermissions" "reader ReadOpenFlags" "reader ReadMsgType"
  unfolding plain_accessors ReadFID_def ReadPermissions_def by (intro reader_intros)+

lemma writer_accessors [writer_intros]:
  "writer (WriteQIDType q)" "writer (WriteTag t)" "writer (WriteFID f)" "writer (WriteUID u)"
  "writer (WriteGID g)" "writer (WriteFileMode m)" "writer (WritePermissions m)"
  "writer (WriteOpenFlags fl)" "writer (WriteMsgType mt)"
  unfolding plain_accessors WriteFID_def WritePermissions_def by (intro writer_intros)+

lemma accessors_run [wire_simps]:
  "run_state ReadQIDType \<lparr>data = encoded (WriteQIDType q) @ r, overflow = ov\<rparr> = (q, \<lparr>data = r, overflow = ov\<rparr>)"
  "run_state ReadTag \<lparr>data = encoded (WriteTag t) @ r, overflow = ov\<rparr> = (t, \<lparr>data = r, overflow = ov\<rparr>)"
  "run_state ReadUID \<lparr>data = encoded (WriteUID u) @ r, overflow = ov\<rparr> = (u, \<lparr>data = r, overflow = ov\<rparr>)"
  "run_state ReadGID \<lparr>data = encoded (WriteGID g) @ r, overflow = ov\<rparr> = (g, \<lparr>data = r, overflow = ov\<rparr>)"
  "run_state ReadFileMode \<lparr>data = encoded (WriteFileMode m) @ r, overflow = ov\<rparr> = (m, \<lparr>data = r, overflow = ov\<rparr>)"
  "run_state ReadOpenFlags \<lparr>data = encoded (WriteOpenFlags fl) @ r, overflow = ov\<rparr> = (fl, \<lparr>data = r, overflow = ov\<rparr>)"
  "run_state ReadMsgType \<lparr>data = encoded (WriteMsgType mt) @ r, overflow = ov\<rparr> = (mt, \<lparr>data = r, overflow = ov\<rparr>)"
  unfolding plain_accessors encoded_primitives by (rule Read_put_le)+

lemma ReadFID_run [wire_simps]:
  "run_state ReadFID \<lparr>data = encoded (WriteFID f) @ r, overflow = ov\<rparr> =
     (ucast (ucast f :: uint32), \<lparr>data = r, overflow = ov\<rparr>)"
  by (simp add: ReadFID_def WriteFID_def encoded_primitives Read_put_le)

lemma ReadPermissions_run [wire_simps]:
  "run_state ReadPermissions \<lparr>data = encoded (WritePermissions m) @ r, overflow = ov\<rparr> =
     (m AND permissionsMask, \<lparr>data = r, overflow = ov\<rparr>)"
  by (simp add: ReadPermissions_def WritePermissions_def accessors_run and.assoc)

lemma Read_encoded [wire_simps]:
  "run_state Read8 \<lparr>data = encoded (Write8 v8) @ r, overflow = ov\<rparr> = (v8, \<lparr>data = r, overflow = ov\<rparr>)"
  "run_state Read16 \<lparr>data = encoded (Write16 v16) @ r, overflow = ov\<rparr> = (v16, \<lparr>data = r, overflow = ov\<rparr>)"
  "run_state Read32 \<lparr>data = encoded (Write32 v32) @ r, overflow = ov\<rparr> = (v32, \<lparr>data = r, overflow = ov\<rparr>)"
  "run_state Read64 \<lparr>data = encoded (Write64 v64) @ r, overflow = ov\<rparr> = (v64, \<lparr>data = r, overflow = ov\<rparr>)"
  unfolding encoded_primitives by (rule Read_put_le)+

lemma fid_ok_cast [simp]: "fid_ok f \<Longrightarrow> ucast (ucast f :: uint32) = f"
  by (simp add: fid_ok_def ucast_32_64_id)

lemma perm_ok_mask [simp]: "perm_ok m \<Longrightarrow> m AND permissionsMask = m"
  by (simp add: perm_ok_def)

section \<open>QIDs\<close>

record QID =
  QID_Type :: QIDType
  QID_Version :: uint32
  QID_Path :: uint64

definition QID_decode :: "QID \<Rightarrow> (buffer, QID) state" where
  "QID_decode q = do {
     t \<leftarrow> ReadQIDType; v \<leftarrow> Read32; p \<leftarrow> Read64;
     State_Monad.return (q\<lparr>QID_Type := t, QID_Version := v, QID_Path := p\<rparr>) }"

definition QID_encode :: "QID \<Rightarrow> (buffer, unit) state" where
  "QID_encode q = do { WriteQIDType (QID_Type q); Write32 (QID_Version q); Write64 (QID_Path q) }"

definition QID_zero :: QID where
  "QID_zero = \<lparr>QID_Type = 0, QID_Version = 0, QID_Path = 0\<rparr>"

interpretation QID: codec QID_encode QID_decode "\<lambda>_. True"
  by (unfold_locales; unfold QID_encode_def QID_decode_def)
    (intro writer_intros reader_intros | simp add: wire_simps writer_intros)+

text \<open>\<^verbatim>\<open>QIDGenerator.Get\<close>: the counter is incremented atomically and the new value is the path.\<close>

definition QIDGenerator_Get :: "QIDType \<Rightarrow> (uint64, QID) state" where
  "QIDGenerator_Get t = do {
     uids \<leftarrow> State_Monad.get;
     State_Monad.set (uids + 1);
     State_Monad.return \<lparr>QID_Type = t, QID_Version = 0, QID_Path = uids + 1\<rparr> }"

section \<open>FSStat\<close>

record FSStat =
  FSStat_Type :: uint32
  FSStat_BlockSize :: uint32
  FSStat_Blocks :: uint64
  FSStat_BlocksFree :: uint64
  FSStat_BlocksAvailable :: uint64
  FSStat_Files :: uint64
  FSStat_FilesFree :: uint64
  FSStat_FSID :: uint64
  FSStat_NameLength :: uint32

definition FSStat_zero :: FSStat where
  "FSStat_zero = \<lparr>FSStat_Type = 0, FSStat_BlockSize = 0, FSStat_Blocks = 0, FSStat_BlocksFree = 0,
     FSStat_BlocksAvailable = 0, FSStat_Files = 0, FSStat_FilesFree = 0, FSStat_FSID = 0,
     FSStat_NameLength = 0\<rparr>"

definition FSStat_decode :: "FSStat \<Rightarrow> (buffer, FSStat) state" where
  "FSStat_decode f = do {
     ty \<leftarrow> Read32; bs \<leftarrow> Read32; bl \<leftarrow> Read64; bf \<leftarrow> Read64; ba \<leftarrow> Read64;
     fi \<leftarrow> Read64; ff \<leftarrow> Read64; fs \<leftarrow> Read64; nl \<leftarrow> Read32;
     State_Monad.return (f\<lparr>FSStat_Type := ty, FSStat_BlockSize := bs, FSStat_Blocks := bl,
       FSStat_BlocksFree := bf, FSStat_BlocksAvailable := ba, FSStat_Files := fi,
       FSStat_FilesFree := ff, FSStat_FSID := fs, FSStat_NameLength := nl\<rparr>) }"

definition FSStat_encode :: "FSStat \<Rightarrow> (buffer, unit) state" where
  "FSStat_encode f = do {
     Write32 (FSStat_Type f); Write32 (FSStat_BlockSize f); Write64 (FSStat_Blocks f);
     Write64 (FSStat_BlocksFree f); Write64 (FSStat_BlocksAvailable f); Write64 (FSStat_Files f);
     Write64 (FSStat_FilesFree f); Write64 (FSStat_FSID f); Write32 (FSStat_NameLength f) }"

interpretation FSStat: codec FSStat_encode FSStat_decode "\<lambda>_. True"
  by (unfold_locales; unfold FSStat_encode_def FSStat_decode_def)
    (intro writer_intros reader_intros | simp add: wire_simps writer_intros)+

section \<open>AttrMask\<close>

record AttrMask =
  AttrMask_Mode :: bool
  AttrMask_NLink :: bool
  AttrMask_UID :: bool
  AttrMask_GID :: bool
  AttrMask_RDev :: bool
  AttrMask_ATime :: bool
  AttrMask_MTime :: bool
  AttrMask_CTime :: bool
  AttrMask_INo :: bool
  AttrMask_Size :: bool
  AttrMask_Blocks :: bool
  AttrMask_BTime :: bool
  AttrMask_Gen :: bool
  AttrMask_DataVersion :: bool

definition AttrMask_Contains :: "AttrMask \<Rightarrow> AttrMask \<Rightarrow> bool" where
  "AttrMask_Contains a b =
     (if AttrMask_Mode b \<and> \<not> AttrMask_Mode a then False
      else if AttrMask_NLink b \<and> \<not> AttrMask_NLink a then False
      else if AttrMask_UID b \<and> \<not> AttrMask_UID a then False
      else if AttrMask_GID b \<and> \<not> AttrMask_GID a then False
      else if AttrMask_RDev b \<and> \<not> AttrMask_RDev a then False
      else if AttrMask_ATime b \<and> \<not> AttrMask_ATime a then False
      else if AttrMask_MTime b \<and> \<not> AttrMask_MTime a then False
      else if AttrMask_CTime b \<and> \<not> AttrMask_CTime a then False
      else if AttrMask_INo b \<and> \<not> AttrMask_INo a then False
      else if AttrMask_Size b \<and> \<not> AttrMask_Size a then False
      else if AttrMask_Blocks b \<and> \<not> AttrMask_Blocks a then False
      else if AttrMask_BTime b \<and> \<not> AttrMask_BTime a then False
      else if AttrMask_Gen b \<and> \<not> AttrMask_Gen a then False
      else if AttrMask_DataVersion b \<and> \<not> AttrMask_DataVersion a then False
      else True)"

definition AttrMask_Empty :: "AttrMask \<Rightarrow> bool" where
  "AttrMask_Empty a \<longleftrightarrow> \<not> AttrMask_Mode a \<and> \<not> AttrMask_NLink a \<and> \<not> AttrMask_UID a \<and>
     \<not> AttrMask_GID a \<and> \<not> AttrMask_RDev a \<and> \<not> AttrMask_ATime a \<and> \<not> AttrMask_MTime a \<and>
     \<not> AttrMask_CTime a \<and> \<not> AttrMask_INo a \<and> \<not> AttrMask_Size a \<and> \<not> AttrMask_Blocks a \<and>
     \<not> AttrMask_BTime a \<and> \<not> AttrMask_Gen a \<and> \<not> AttrMask_DataVersion a"

definition AttrMaskAll :: AttrMask where
  "AttrMaskAll = \<lparr>AttrMask_Mode = True, AttrMask_NLink = True, AttrMask_UID = True,
     AttrMask_GID = True, AttrMask_RDev = True, AttrMask_ATime = True, AttrMask_MTime = True,
     AttrMask_CTime = True, AttrMask_INo = True, AttrMask_Size = True, AttrMask_Blocks = True,
     AttrMask_BTime = True, AttrMask_Gen = True, AttrMask_DataVersion = True\<rparr>"

definition AttrMask_zero :: AttrMask where
  "AttrMask_zero = \<lparr>AttrMask_Mode = False, AttrMask_NLink = False, AttrMask_UID = False,
     AttrMask_GID = False, AttrMask_RDev = False, AttrMask_ATime = False, AttrMask_MTime = False,
     AttrMask_CTime = False, AttrMask_INo = False, AttrMask_Size = False, AttrMask_Blocks = False,
     AttrMask_BTime = False, AttrMask_Gen = False, AttrMask_DataVersion = False\<rparr>"

definition AttrMask_decode :: "AttrMask \<Rightarrow> (buffer, AttrMask) state" where
  "AttrMask_decode a = do {
     mask \<leftarrow> Read64;
     State_Monad.return (a\<lparr>
       AttrMask_Mode := mask AND 0x1 \<noteq> 0,
       AttrMask_NLink := mask AND 0x2 \<noteq> 0,
       AttrMask_UID := mask AND 0x4 \<noteq> 0,
       AttrMask_GID := mask AND 0x8 \<noteq> 0,
       AttrMask_RDev := mask AND 0x10 \<noteq> 0,
       AttrMask_ATime := mask AND 0x20 \<noteq> 0,
       AttrMask_MTime := mask AND 0x40 \<noteq> 0,
       AttrMask_CTime := mask AND 0x80 \<noteq> 0,
       AttrMask_INo := mask AND 0x100 \<noteq> 0,
       AttrMask_Size := mask AND 0x200 \<noteq> 0,
       AttrMask_Blocks := mask AND 0x400 \<noteq> 0,
       AttrMask_BTime := mask AND 0x800 \<noteq> 0,
       AttrMask_Gen := mask AND 0x1000 \<noteq> 0,
       AttrMask_DataVersion := mask AND 0x2000 \<noteq> 0\<rparr>) }"

definition AttrMask_encode :: "AttrMask \<Rightarrow> (buffer, unit) state" where
  "AttrMask_encode a =
     (let mask = 0;
          mask = set_if (AttrMask_Mode a) 0x1 mask;
          mask = set_if (AttrMask_NLink a) 0x2 mask;
          mask = set_if (AttrMask_UID a) 0x4 mask;
          mask = set_if (AttrMask_GID a) 0x8 mask;
          mask = set_if (AttrMask_RDev a) 0x10 mask;
          mask = set_if (AttrMask_ATime a) 0x20 mask;
          mask = set_if (AttrMask_MTime a) 0x40 mask;
          mask = set_if (AttrMask_CTime a) 0x80 mask;
          mask = set_if (AttrMask_INo a) 0x100 mask;
          mask = set_if (AttrMask_Size a) 0x200 mask;
          mask = set_if (AttrMask_Blocks a) 0x400 mask;
          mask = set_if (AttrMask_BTime a) 0x800 mask;
          mask = set_if (AttrMask_Gen a) 0x1000 mask;
          mask = set_if (AttrMask_DataVersion a) 0x2000 mask
      in Write64 mask)"

interpretation AttrMask: codec AttrMask_encode AttrMask_decode "\<lambda>_. True"
  by (unfold_locales; unfold AttrMask_encode_def AttrMask_decode_def Let_def)
    (intro writer_intros reader_intros | simp add: wire_simps writer_intros and_flag_bit)+

end
