(* ===== verification/P9_Attr.thy ===== *)
theory P9_Attr
  imports P9_Types
begin

text \<open>
  The attribute structures of \<^verbatim>\<open>p9/p9.go\<close>: \<^verbatim>\<open>Attr\<close> (getattr), \<^verbatim>\<open>SetAttrMask\<close> and \<^verbatim>\<open>SetAttr\<close>
  (setattr), \<^verbatim>\<open>Dirent\<close>, the conversion \<^verbatim>\<open>StatToAttr\<close> from the \<^verbatim>\<open>Stat_t\<close> of
  \<^verbatim>\<open>internal/stat_windows.go\<close>, and the operations on them. Every structure with an
  \<^verbatim>\<open>encode\<close>/\<^verbatim>\<open>decode\<close> pair interprets the locale \<open>codec\<close>.
\<close>

section \<open>Attr\<close>

record Attr =
  Attr_Mode :: FileMode
  Attr_UID :: UID
  Attr_GID :: GID
  Attr_NLink :: uint64
  Attr_RDev :: uint64
  Attr_Size :: uint64
  Attr_BlockSize :: uint64
  Attr_Blocks :: uint64
  Attr_ATimeSeconds :: uint64
  Attr_ATimeNanoSeconds :: uint64
  Attr_MTimeSeconds :: uint64
  Attr_MTimeNanoSeconds :: uint64
  Attr_CTimeSeconds :: uint64
  Attr_CTimeNanoSeconds :: uint64
  Attr_BTimeSeconds :: uint64
  Attr_BTimeNanoSeconds :: uint64
  Attr_Gen :: uint64
  Attr_DataVersion :: uint64

definition Attr_zero :: Attr where
  "Attr_zero = \<lparr>Attr_Mode = 0, Attr_UID = 0, Attr_GID = 0,
     Attr_NLink = 0, Attr_RDev = 0, Attr_Size = 0,
     Attr_BlockSize = 0, Attr_Blocks = 0, Attr_ATimeSeconds = 0,
     Attr_ATimeNanoSeconds = 0, Attr_MTimeSeconds = 0, Attr_MTimeNanoSeconds = 0,
     Attr_CTimeSeconds = 0, Attr_CTimeNanoSeconds = 0, Attr_BTimeSeconds = 0,
     Attr_BTimeNanoSeconds = 0, Attr_Gen = 0, Attr_DataVersion = 0\<rparr>"

definition Attr_encode :: "Attr \<Rightarrow> (buffer, unit) state" where
  "Attr_encode a = do {
     WriteFileMode (Attr_Mode a);
     WriteUID (Attr_UID a);
     WriteGID (Attr_GID a);
     Write64 (Attr_NLink a);
     Write64 (Attr_RDev a);
     Write64 (Attr_Size a);
     Write64 (Attr_BlockSize a);
     Write64 (Attr_Blocks a);
     Write64 (Attr_ATimeSeconds a);
     Write64 (Attr_ATimeNanoSeconds a);
     Write64 (Attr_MTimeSeconds a);
     Write64 (Attr_MTimeNanoSeconds a);
     Write64 (Attr_CTimeSeconds a);
     Write64 (Attr_CTimeNanoSeconds a);
     Write64 (Attr_BTimeSeconds a);
     Write64 (Attr_BTimeNanoSeconds a);
     Write64 (Attr_Gen a);
     Write64 (Attr_DataVersion a) }"

definition Attr_decode :: "Attr \<Rightarrow> (buffer, Attr) state" where
  "Attr_decode a = do {
     vMode \<leftarrow> ReadFileMode;
     vUID \<leftarrow> ReadUID;
     vGID \<leftarrow> ReadGID;
     vNLink \<leftarrow> Read64;
     vRDev \<leftarrow> Read64;
     vSize \<leftarrow> Read64;
     vBlockSize \<leftarrow> Read64;
     vBlocks \<leftarrow> Read64;
     vATimeSeconds \<leftarrow> Read64;
     vATimeNanoSeconds \<leftarrow> Read64;
     vMTimeSeconds \<leftarrow> Read64;
     vMTimeNanoSeconds \<leftarrow> Read64;
     vCTimeSeconds \<leftarrow> Read64;
     vCTimeNanoSeconds \<leftarrow> Read64;
     vBTimeSeconds \<leftarrow> Read64;
     vBTimeNanoSeconds \<leftarrow> Read64;
     vGen \<leftarrow> Read64;
     vDataVersion \<leftarrow> Read64;
     State_Monad.return (a\<lparr>
       Attr_Mode := vMode, Attr_UID := vUID,
       Attr_GID := vGID, Attr_NLink := vNLink,
       Attr_RDev := vRDev, Attr_Size := vSize,
       Attr_BlockSize := vBlockSize, Attr_Blocks := vBlocks,
       Attr_ATimeSeconds := vATimeSeconds, Attr_ATimeNanoSeconds := vATimeNanoSeconds,
       Attr_MTimeSeconds := vMTimeSeconds, Attr_MTimeNanoSeconds := vMTimeNanoSeconds,
       Attr_CTimeSeconds := vCTimeSeconds, Attr_CTimeNanoSeconds := vCTimeNanoSeconds,
       Attr_BTimeSeconds := vBTimeSeconds, Attr_BTimeNanoSeconds := vBTimeNanoSeconds,
       Attr_Gen := vGen, Attr_DataVersion := vDataVersion\<rparr>) }"

interpretation Attr: codec Attr_encode Attr_decode "\<lambda>_. True"
  by (unfold_locales; unfold Attr_encode_def Attr_decode_def)
    (intro writer_intros reader_intros | simp add: wire_simps writer_intros)+

text \<open>\<^verbatim>\<open>Attr.WithMask\<close>: start from the zero value and copy the fields the mask selects.\<close>

definition Attr_WithMask :: "Attr \<Rightarrow> AttrMask \<Rightarrow> Attr" where
  "Attr_WithMask a m =
    (let b = Attr_zero;
         b = upd_if (AttrMask_Mode m) (\<lambda>b. b\<lparr>Attr_Mode := Attr_Mode a\<rparr>) b;
         b = upd_if (AttrMask_NLink m) (\<lambda>b. b\<lparr>Attr_NLink := Attr_NLink a\<rparr>) b;
         b = upd_if (AttrMask_UID m) (\<lambda>b. b\<lparr>Attr_UID := Attr_UID a\<rparr>) b;
         b = upd_if (AttrMask_GID m) (\<lambda>b. b\<lparr>Attr_GID := Attr_GID a\<rparr>) b;
         b = upd_if (AttrMask_RDev m) (\<lambda>b. b\<lparr>Attr_RDev := Attr_RDev a\<rparr>) b;
         b = upd_if (AttrMask_ATime m) (\<lambda>b. b\<lparr>Attr_ATimeSeconds := Attr_ATimeSeconds a,
                Attr_ATimeNanoSeconds := Attr_ATimeNanoSeconds a\<rparr>) b;
         b = upd_if (AttrMask_MTime m) (\<lambda>b. b\<lparr>Attr_MTimeSeconds := Attr_MTimeSeconds a,
                Attr_MTimeNanoSeconds := Attr_MTimeNanoSeconds a\<rparr>) b;
         b = upd_if (AttrMask_CTime m) (\<lambda>b. b\<lparr>Attr_CTimeSeconds := Attr_CTimeSeconds a,
                Attr_CTimeNanoSeconds := Attr_CTimeNanoSeconds a\<rparr>) b;
         b = upd_if (AttrMask_Size m) (\<lambda>b. b\<lparr>Attr_Size := Attr_Size a\<rparr>) b;
         b = upd_if (AttrMask_Blocks m) (\<lambda>b. b\<lparr>Attr_Blocks := Attr_Blocks a, Attr_BlockSize := Attr_BlockSize a\<rparr>) b;
         b = upd_if (AttrMask_BTime m) (\<lambda>b. b\<lparr>Attr_BTimeSeconds := Attr_BTimeSeconds a,
                Attr_BTimeNanoSeconds := Attr_BTimeNanoSeconds a\<rparr>) b;
         b = upd_if (AttrMask_Gen m) (\<lambda>b. b\<lparr>Attr_Gen := Attr_Gen a\<rparr>) b;
         b = upd_if (AttrMask_DataVersion m) (\<lambda>b. b\<lparr>Attr_DataVersion := Attr_DataVersion a\<rparr>) b
     in b)"

section \<open>Conversion from a system stat structure\<close>

record Timespec =
  Sec :: "64 word"
  Nsec :: "64 word"

record Stat_t =
  Stat_Dev :: uint64
  Stat_Ino :: uint64
  Stat_Nlink :: uint64
  Stat_Mode :: uint32
  Stat_Uid :: uint32
  Stat_Gid :: uint32
  Stat_Rdev :: uint64
  Stat_Size :: "64 word"
  Stat_Blksize :: "64 word"
  Stat_Blocks :: "64 word"
  Stat_Atim :: Timespec
  Stat_Mtim :: Timespec
  Stat_Ctim :: Timespec

text \<open>
  \<^verbatim>\<open>StatToAttr\<close>. The 64-bit signed fields of \<^verbatim>\<open>Stat_t\<close> are kept as words, so that the Go
  conversions \<^verbatim>\<open>uint64(s.Size)\<close> are the identity on the bits. The device number is taken from
  \<^verbatim>\<open>s.Dev\<close>, as the code has it.
\<close>

definition StatToAttr :: "Stat_t \<Rightarrow> AttrMask \<Rightarrow> Attr \<times> AttrMask" where
  "StatToAttr s req =
    (let attr = Attr_zero\<lparr>Attr_UID := NoUID, Attr_GID := NoGID\<rparr>;
         attr = upd_if (AttrMask_Mode req) (\<lambda>attr. attr\<lparr>Attr_Mode := Stat_Mode s\<rparr>) attr;
         attr = upd_if (AttrMask_NLink req) (\<lambda>attr. attr\<lparr>Attr_NLink := Stat_Nlink s\<rparr>) attr;
         attr = upd_if (AttrMask_UID req) (\<lambda>attr. attr\<lparr>Attr_UID := Stat_Uid s\<rparr>) attr;
         attr = upd_if (AttrMask_GID req) (\<lambda>attr. attr\<lparr>Attr_GID := Stat_Gid s\<rparr>) attr;
         attr = upd_if (AttrMask_RDev req) (\<lambda>attr. attr\<lparr>Attr_RDev := Stat_Dev s\<rparr>) attr;
         attr = upd_if (AttrMask_ATime req) (\<lambda>attr. attr\<lparr>Attr_ATimeSeconds := Sec (Stat_Atim s),
                Attr_ATimeNanoSeconds := Nsec (Stat_Atim s)\<rparr>) attr;
         attr = upd_if (AttrMask_MTime req) (\<lambda>attr. attr\<lparr>Attr_MTimeSeconds := Sec (Stat_Mtim s),
                Attr_MTimeNanoSeconds := Nsec (Stat_Mtim s)\<rparr>) attr;
         attr = upd_if (AttrMask_CTime req) (\<lambda>attr. attr\<lparr>Attr_CTimeSeconds := Sec (Stat_Ctim s),
                Attr_CTimeNanoSeconds := Nsec (Stat_Ctim s)\<rparr>) attr;
         attr = upd_if (AttrMask_Size req) (\<lambda>attr. attr\<lparr>Attr_Size := Stat_Size s\<rparr>) attr;
         attr = upd_if (AttrMask_Blocks req) (\<lambda>attr. attr\<lparr>Attr_BlockSize := Stat_Blksize s, Attr_Blocks := Stat_Blocks s\<rparr>) attr
     in (attr, req\<lparr>AttrMask_BTime := False, AttrMask_Gen := False, AttrMask_DataVersion := False\<rparr>))"

section \<open>SetAttrMask\<close>

record SetAttrMask =
  SetAttrMask_Permissions :: bool
  SetAttrMask_UID :: bool
  SetAttrMask_GID :: bool
  SetAttrMask_Size :: bool
  SetAttrMask_ATime :: bool
  SetAttrMask_MTime :: bool
  SetAttrMask_CTime :: bool
  SetAttrMask_ATimeNotSystemTime :: bool
  SetAttrMask_MTimeNotSystemTime :: bool

definition SetAttrMask_zero :: SetAttrMask where
  "SetAttrMask_zero = \<lparr>SetAttrMask_Permissions = False, SetAttrMask_UID = False,
     SetAttrMask_GID = False, SetAttrMask_Size = False, SetAttrMask_ATime = False,
     SetAttrMask_MTime = False, SetAttrMask_CTime = False,
     SetAttrMask_ATimeNotSystemTime = False, SetAttrMask_MTimeNotSystemTime = False\<rparr>"

definition SetAttrMask_bitmask :: "SetAttrMask \<Rightarrow> uint32" where
  "SetAttrMask_bitmask s =
     (let mask = 0;
          mask = set_if (SetAttrMask_Permissions s) 0x1 mask;
          mask = set_if (SetAttrMask_UID s) 0x2 mask;
          mask = set_if (SetAttrMask_GID s) 0x4 mask;
          mask = set_if (SetAttrMask_Size s) 0x8 mask;
          mask = set_if (SetAttrMask_ATime s) 0x10 mask;
          mask = set_if (SetAttrMask_MTime s) 0x20 mask;
          mask = set_if (SetAttrMask_CTime s) 0x40 mask;
          mask = set_if (SetAttrMask_ATimeNotSystemTime s) 0x80 mask;
          mask = set_if (SetAttrMask_MTimeNotSystemTime s) 0x100 mask
      in mask)"

definition SetAttrMask_IsSubsetOf :: "SetAttrMask \<Rightarrow> SetAttrMask \<Rightarrow> bool" where
  "SetAttrMask_IsSubsetOf s m =
     (let sb = SetAttrMask_bitmask s; sm = SetAttrMask_bitmask m in sm OR sb = sm)"

definition SetAttrMask_Empty :: "SetAttrMask \<Rightarrow> bool" where
  "SetAttrMask_Empty s \<longleftrightarrow> \<not> SetAttrMask_Permissions s \<and> \<not> SetAttrMask_UID s \<and>
     \<not> SetAttrMask_GID s \<and> \<not> SetAttrMask_Size s \<and> \<not> SetAttrMask_ATime s \<and>
     \<not> SetAttrMask_MTime s \<and> \<not> SetAttrMask_CTime s \<and>
     \<not> SetAttrMask_ATimeNotSystemTime s \<and> \<not> SetAttrMask_MTimeNotSystemTime s"

definition SetAttrMask_decode :: "SetAttrMask \<Rightarrow> (buffer, SetAttrMask) state" where
  "SetAttrMask_decode s = do {
     mask \<leftarrow> Read32;
     State_Monad.return (s\<lparr>
       SetAttrMask_Permissions := mask AND 0x1 \<noteq> 0,
       SetAttrMask_UID := mask AND 0x2 \<noteq> 0,
       SetAttrMask_GID := mask AND 0x4 \<noteq> 0,
       SetAttrMask_Size := mask AND 0x8 \<noteq> 0,
       SetAttrMask_ATime := mask AND 0x10 \<noteq> 0,
       SetAttrMask_MTime := mask AND 0x20 \<noteq> 0,
       SetAttrMask_CTime := mask AND 0x40 \<noteq> 0,
       SetAttrMask_ATimeNotSystemTime := mask AND 0x80 \<noteq> 0,
       SetAttrMask_MTimeNotSystemTime := mask AND 0x100 \<noteq> 0\<rparr>) }"

definition SetAttrMask_encode :: "SetAttrMask \<Rightarrow> (buffer, unit) state" where
  "SetAttrMask_encode s = Write32 (SetAttrMask_bitmask s)"

interpretation SetAttrMask: codec SetAttrMask_encode SetAttrMask_decode "\<lambda>_. True"
  by (unfold_locales; unfold SetAttrMask_encode_def SetAttrMask_decode_def SetAttrMask_bitmask_def Let_def)
    (intro writer_intros reader_intros | simp add: wire_simps writer_intros and_flag_bit)+

section \<open>SetAttr\<close>

record SetAttr =
  SetAttr_Permissions :: FileMode
  SetAttr_UID :: UID
  SetAttr_GID :: GID
  SetAttr_Size :: uint64
  SetAttr_ATimeSeconds :: uint64
  SetAttr_ATimeNanoSeconds :: uint64
  SetAttr_MTimeSeconds :: uint64
  SetAttr_MTimeNanoSeconds :: uint64

definition SetAttr_zero :: SetAttr where
  "SetAttr_zero = \<lparr>SetAttr_Permissions = 0, SetAttr_UID = 0, SetAttr_GID = 0, SetAttr_Size = 0,
     SetAttr_ATimeSeconds = 0, SetAttr_ATimeNanoSeconds = 0,
     SetAttr_MTimeSeconds = 0, SetAttr_MTimeNanoSeconds = 0\<rparr>"

definition SetAttr_decode :: "SetAttr \<Rightarrow> (buffer, SetAttr) state" where
  "SetAttr_decode s = do {
     p \<leftarrow> ReadPermissions;
     u \<leftarrow> ReadUID;
     g \<leftarrow> ReadGID;
     sz \<leftarrow> Read64;
     as \<leftarrow> Read64;
     an \<leftarrow> Read64;
     ms \<leftarrow> Read64;
     mn \<leftarrow> Read64;
     State_Monad.return (s\<lparr>SetAttr_Permissions := p, SetAttr_UID := u, SetAttr_GID := g,
       SetAttr_Size := sz, SetAttr_ATimeSeconds := as, SetAttr_ATimeNanoSeconds := an,
       SetAttr_MTimeSeconds := ms, SetAttr_MTimeNanoSeconds := mn\<rparr>) }"

definition SetAttr_encode :: "SetAttr \<Rightarrow> (buffer, unit) state" where
  "SetAttr_encode s = do {
     WritePermissions (SetAttr_Permissions s);
     WriteUID (SetAttr_UID s);
     WriteGID (SetAttr_GID s);
     Write64 (SetAttr_Size s);
     Write64 (SetAttr_ATimeSeconds s);
     Write64 (SetAttr_ATimeNanoSeconds s);
     Write64 (SetAttr_MTimeSeconds s);
     Write64 (SetAttr_MTimeNanoSeconds s) }"

interpretation SetAttr: codec SetAttr_encode SetAttr_decode "\<lambda>s. perm_ok (SetAttr_Permissions s)"
  by (unfold_locales; unfold SetAttr_encode_def SetAttr_decode_def)
    (intro writer_intros reader_intros | simp add: wire_simps writer_intros)+

text \<open>\<^verbatim>\<open>Attr.Apply\<close>: the permission bits replace those of the mode, the file type stays.\<close>

definition Attr_Apply :: "Attr \<Rightarrow> SetAttrMask \<Rightarrow> SetAttr \<Rightarrow> Attr" where
  "Attr_Apply a m attr =
    (let a = upd_if (SetAttrMask_Permissions m) (\<lambda>a. a\<lparr>Attr_Mode := (Attr_Mode a AND NOT permissionsMask)
                OR (SetAttr_Permissions attr AND permissionsMask)\<rparr>) a;
         a = upd_if (SetAttrMask_UID m) (\<lambda>a. a\<lparr>Attr_UID := SetAttr_UID attr\<rparr>) a;
         a = upd_if (SetAttrMask_GID m) (\<lambda>a. a\<lparr>Attr_GID := SetAttr_GID attr\<rparr>) a;
         a = upd_if (SetAttrMask_Size m) (\<lambda>a. a\<lparr>Attr_Size := SetAttr_Size attr\<rparr>) a;
         a = upd_if (SetAttrMask_ATime m) (\<lambda>a. a\<lparr>Attr_ATimeSeconds := SetAttr_ATimeSeconds attr,
                Attr_ATimeNanoSeconds := SetAttr_ATimeNanoSeconds attr\<rparr>) a;
         a = upd_if (SetAttrMask_MTime m) (\<lambda>a. a\<lparr>Attr_MTimeSeconds := SetAttr_MTimeSeconds attr,
                Attr_MTimeNanoSeconds := SetAttr_MTimeNanoSeconds attr\<rparr>) a
     in a)"

section \<open>Directory entries\<close>

record Dirent =
  Dirent_QID :: QID
  Dirent_Offset :: uint64
  Dirent_Type :: QIDType
  Dirent_Name :: string

definition Dirent_zero :: Dirent where
  "Dirent_zero = \<lparr>Dirent_QID = QID_zero, Dirent_Offset = 0, Dirent_Type = 0, Dirent_Name = []\<rparr>"

definition Dirent_decode :: "Dirent \<Rightarrow> (buffer, Dirent) state" where
  "Dirent_decode d = do {
     q \<leftarrow> QID_decode (Dirent_QID d);
     off \<leftarrow> Read64;
     ty \<leftarrow> ReadQIDType;
     n \<leftarrow> ReadString;
     State_Monad.return (d\<lparr>Dirent_QID := q, Dirent_Offset := off, Dirent_Type := ty, Dirent_Name := n\<rparr>) }"

definition Dirent_encode :: "Dirent \<Rightarrow> (buffer, unit) state" where
  "Dirent_encode d = do {
     QID_encode (Dirent_QID d);
     Write64 (Dirent_Offset d);
     WriteQIDType (Dirent_Type d);
     WriteString (Dirent_Name d) }"

fun Dirents_Find :: "Dirent list \<Rightarrow> string \<Rightarrow> Dirent option" where
  "Dirents_Find [] name = None"
| "Dirents_Find (dir # ds) name = (if Dirent_Name dir = name then Some dir else Dirents_Find ds name)"

section \<open>The structures as codecs\<close>

text \<open>
  The codec facts of the structures, in the form the automation of the message codecs uses:
  a nested \<^verbatim>\<open>encode\<close> is a writer, a nested \<^verbatim>\<open>decode\<close> a reader, and they are inverse.
\<close>

lemmas struct_writers [writer_intros] =
  QID.enc_writer FSStat.enc_writer AttrMask.enc_writer Attr.enc_writer
  SetAttrMask.enc_writer SetAttr.enc_writer

lemmas struct_readers [reader_intros] =
  QID.dec_reader FSStat.dec_reader AttrMask.dec_reader Attr.dec_reader
  SetAttrMask.dec_reader SetAttr.dec_reader

lemmas struct_round_trips [wire_simps] =
  QID.dec_enc FSStat.dec_enc AttrMask.dec_enc Attr.dec_enc
  SetAttrMask.dec_enc SetAttr.dec_enc

interpretation Dirent: codec Dirent_encode Dirent_decode "\<lambda>d. string_ok (Dirent_Name d)"
  by (unfold_locales; unfold Dirent_encode_def Dirent_decode_def)
    (intro writer_intros reader_intros | simp add: wire_simps writer_intros)+

lemmas dirent_codec [wire_simps] = Dirent.dec_enc
lemmas dirent_writer [writer_intros] = Dirent.enc_writer
lemmas dirent_reader [reader_intros] = Dirent.dec_reader

section \<open>Masks, application and lookup\<close>

lemma AttrMask_Contains_refl: "AttrMask_Contains a a"
  by (simp add: AttrMask_Contains_def)

lemma AttrMask_Contains_iff:
  "AttrMask_Contains a b \<longleftrightarrow>
     (AttrMask_Mode b \<longrightarrow> AttrMask_Mode a) \<and> (AttrMask_NLink b \<longrightarrow> AttrMask_NLink a) \<and>
     (AttrMask_UID b \<longrightarrow> AttrMask_UID a) \<and> (AttrMask_GID b \<longrightarrow> AttrMask_GID a) \<and>
     (AttrMask_RDev b \<longrightarrow> AttrMask_RDev a) \<and> (AttrMask_ATime b \<longrightarrow> AttrMask_ATime a) \<and>
     (AttrMask_MTime b \<longrightarrow> AttrMask_MTime a) \<and> (AttrMask_CTime b \<longrightarrow> AttrMask_CTime a) \<and>
     (AttrMask_INo b \<longrightarrow> AttrMask_INo a) \<and> (AttrMask_Size b \<longrightarrow> AttrMask_Size a) \<and>
     (AttrMask_Blocks b \<longrightarrow> AttrMask_Blocks a) \<and> (AttrMask_BTime b \<longrightarrow> AttrMask_BTime a) \<and>
     (AttrMask_Gen b \<longrightarrow> AttrMask_Gen a) \<and> (AttrMask_DataVersion b \<longrightarrow> AttrMask_DataVersion a)"
  unfolding AttrMask_Contains_def by (simp split: if_split)

text \<open>The fields of a masked attribute set, and the attributes that agree on a mask.\<close>

lemma WithMask_fields [simp]:
  "Attr_Mode (Attr_WithMask a m) = (if AttrMask_Mode m then Attr_Mode a else 0)"
  "Attr_UID (Attr_WithMask a m) = (if AttrMask_UID m then Attr_UID a else 0)"
  "Attr_GID (Attr_WithMask a m) = (if AttrMask_GID m then Attr_GID a else 0)"
  "Attr_NLink (Attr_WithMask a m) = (if AttrMask_NLink m then Attr_NLink a else 0)"
  "Attr_RDev (Attr_WithMask a m) = (if AttrMask_RDev m then Attr_RDev a else 0)"
  "Attr_Size (Attr_WithMask a m) = (if AttrMask_Size m then Attr_Size a else 0)"
  "Attr_BlockSize (Attr_WithMask a m) = (if AttrMask_Blocks m then Attr_BlockSize a else 0)"
  "Attr_Blocks (Attr_WithMask a m) = (if AttrMask_Blocks m then Attr_Blocks a else 0)"
  "Attr_ATimeSeconds (Attr_WithMask a m) = (if AttrMask_ATime m then Attr_ATimeSeconds a else 0)"
  "Attr_ATimeNanoSeconds (Attr_WithMask a m) = (if AttrMask_ATime m then Attr_ATimeNanoSeconds a else 0)"
  "Attr_MTimeSeconds (Attr_WithMask a m) = (if AttrMask_MTime m then Attr_MTimeSeconds a else 0)"
  "Attr_MTimeNanoSeconds (Attr_WithMask a m) = (if AttrMask_MTime m then Attr_MTimeNanoSeconds a else 0)"
  "Attr_CTimeSeconds (Attr_WithMask a m) = (if AttrMask_CTime m then Attr_CTimeSeconds a else 0)"
  "Attr_CTimeNanoSeconds (Attr_WithMask a m) = (if AttrMask_CTime m then Attr_CTimeNanoSeconds a else 0)"
  "Attr_BTimeSeconds (Attr_WithMask a m) = (if AttrMask_BTime m then Attr_BTimeSeconds a else 0)"
  "Attr_BTimeNanoSeconds (Attr_WithMask a m) = (if AttrMask_BTime m then Attr_BTimeNanoSeconds a else 0)"
  "Attr_Gen (Attr_WithMask a m) = (if AttrMask_Gen m then Attr_Gen a else 0)"
  "Attr_DataVersion (Attr_WithMask a m) = (if AttrMask_DataVersion m then Attr_DataVersion a else 0)"
  by (simp_all add: Attr_WithMask_def Let_def upd_if_def Attr_zero_def)

lemma WithMask_idem: "Attr_WithMask (Attr_WithMask a m) m = Attr_WithMask a m"
  by (rule Attr.equality) simp_all

lemma StatToAttr_mask_contained: "AttrMask_Contains req (snd (StatToAttr s req))"
  by (simp add: StatToAttr_def AttrMask_Contains_iff Let_def)

lemma Dirents_Find_eq_find: "Dirents_Find ds name = find (\<lambda>d. Dirent_Name d = name) ds"
  by (induction ds) simp_all

end
