(* ===== verification/P9_MsgSession.thy ===== *)
theory P9_MsgSession
  imports P9_Attr
begin

text \<open>
  The message structures of \<^verbatim>\<open>p9/messages.go\<close> from \<^verbatim>\<open>tversion\<close> to \<^verbatim>\<open>rreadlink\<close>: session setup,
  walking, opening, creating, linking and renaming. Each structure is a record with the
  fields of the source (a structure without fields is \<^typ>\<open>unit\<close>), its \<^verbatim>\<open>decode\<close> and \<^verbatim>\<open>encode\<close>
  methods, the limits \<open>_ok\<close> the wire format puts on its fields (fids of 32 bits, strings and
  lists whose length fits 16 bits, permissions within the permission mask), and an
  interpretation of the locale \<open>codec\<close>: within these limits \<^verbatim>\<open>decode\<close> inverts \<^verbatim>\<open>encode\<close>
  whatever the reused instance held before.
\<close>

section \<open>Lists of strings and of QIDs\<close>

interpretation Str: codec WriteString "\<lambda>_. ReadString" string_ok
  by unfold_locales (simp_all add: writer_intros reader_intros wire_simps)

lemma read_names [wire_simps]:
  "length xs < 65536 \<Longrightarrow> \<forall>s\<in>set xs. string_ok s \<Longrightarrow>
   run_state (read_times ReadString (unat (of_nat (length xs) :: uint16)))
     \<lparr>data = encoded (write_each WriteString xs) @ r, overflow = f\<rparr> = (xs, \<lparr>data = r, overflow = f\<rparr>)"
  by (simp only: unat_of_nat_16 Str.read_times_enc)

lemma read_qids [wire_simps]:
  "length xs < 65536 \<Longrightarrow>
   run_state (read_times (QID_decode QID_zero) (unat (of_nat (length xs) :: uint16)))
     \<lparr>data = encoded (write_each QID_encode xs) @ r, overflow = f\<rparr> = (xs, \<lparr>data = r, overflow = f\<rparr>)"
  by (simp only: unat_of_nat_16 QID.read_times_enc simp_thms ball_triv)

section \<open>Tversion and Rversion\<close>

record tversion =
  tversion_MSize :: uint32
  tversion_Version :: string

definition tversion_zero :: tversion where
  "tversion_zero = \<lparr>tversion_MSize = 0, tversion_Version = []\<rparr>"

definition tversion_decode :: "tversion \<Rightarrow> (buffer, tversion) state" where
  "tversion_decode t = do {
     msize \<leftarrow> Read32;
     version \<leftarrow> ReadString;
     State_Monad.return (t\<lparr>tversion_MSize := msize, tversion_Version := version\<rparr>) }"

definition tversion_encode :: "tversion \<Rightarrow> (buffer, unit) state" where
  "tversion_encode t = do {
     Write32 (tversion_MSize t);
     WriteString (tversion_Version t) }"

definition tversion_ok :: "tversion \<Rightarrow> bool" where
  "tversion_ok t \<longleftrightarrow> string_ok (tversion_Version t)"

interpretation tversion: codec tversion_encode tversion_decode tversion_ok
  by (unfold_locales; unfold tversion_encode_def tversion_decode_def tversion_ok_def)
    (intro writer_intros reader_intros | simp add: wire_simps writer_intros)+

record rversion =
  rversion_MSize :: uint32
  rversion_Version :: string

definition rversion_zero :: rversion where
  "rversion_zero = \<lparr>rversion_MSize = 0, rversion_Version = []\<rparr>"

definition rversion_decode :: "rversion \<Rightarrow> (buffer, rversion) state" where
  "rversion_decode r = do {
     msize \<leftarrow> Read32;
     version \<leftarrow> ReadString;
     State_Monad.return (r\<lparr>rversion_MSize := msize, rversion_Version := version\<rparr>) }"

definition rversion_encode :: "rversion \<Rightarrow> (buffer, unit) state" where
  "rversion_encode r = do {
     Write32 (rversion_MSize r);
     WriteString (rversion_Version r) }"

definition rversion_ok :: "rversion \<Rightarrow> bool" where
  "rversion_ok r \<longleftrightarrow> string_ok (rversion_Version r)"

interpretation rversion: codec rversion_encode rversion_decode rversion_ok
  by (unfold_locales; unfold rversion_encode_def rversion_decode_def rversion_ok_def)
    (intro writer_intros reader_intros | simp add: wire_simps writer_intros)+

section \<open>Tflush and Rflush\<close>

record tflush =
  tflush_OldTag :: tag

definition tflush_zero :: tflush where
  "tflush_zero = \<lparr>tflush_OldTag = 0\<rparr>"

definition tflush_decode :: "tflush \<Rightarrow> (buffer, tflush) state" where
  "tflush_decode t = do {
     oldTag \<leftarrow> ReadTag;
     State_Monad.return (t\<lparr>tflush_OldTag := oldTag\<rparr>) }"

definition tflush_encode :: "tflush \<Rightarrow> (buffer, unit) state" where
  "tflush_encode t = WriteTag (tflush_OldTag t)"

interpretation tflush: codec tflush_encode tflush_decode "\<lambda>_. True"
  by (unfold_locales; unfold tflush_encode_def tflush_decode_def)
    (intro writer_intros reader_intros | simp add: wire_simps writer_intros)+

type_synonym rflush = unit

definition rflush_decode :: "rflush \<Rightarrow> (buffer, rflush) state" where
  "rflush_decode r = State_Monad.return r"

definition rflush_encode :: "rflush \<Rightarrow> (buffer, unit) state" where
  "rflush_encode r = State_Monad.return ()"

interpretation rflush: codec rflush_encode rflush_decode "\<lambda>_. True"
  by (unfold_locales; unfold rflush_encode_def rflush_decode_def)
    (intro writer_intros reader_intros | simp add: wire_simps writer_intros)+

section \<open>Twalk and Rwalk\<close>

record twalk =
  twalk_fid :: fid
  twalk_newFID :: fid
  twalk_Names :: "string list"

definition twalk_zero :: twalk where
  "twalk_zero = \<lparr>twalk_fid = 0, twalk_newFID = 0, twalk_Names = []\<rparr>"

definition twalk_decode :: "twalk \<Rightarrow> (buffer, twalk) state" where
  "twalk_decode t = do {
     fid \<leftarrow> ReadFID;
     newFID \<leftarrow> ReadFID;
     n \<leftarrow> Read16;
     names \<leftarrow> read_times ReadString (unat n);
     State_Monad.return (t\<lparr>twalk_fid := fid, twalk_newFID := newFID, twalk_Names := names\<rparr>) }"

definition twalk_encode :: "twalk \<Rightarrow> (buffer, unit) state" where
  "twalk_encode t = do {
     WriteFID (twalk_fid t);
     WriteFID (twalk_newFID t);
     Write16 (of_nat (length (twalk_Names t)));
     write_each WriteString (twalk_Names t) }"

definition twalk_ok :: "twalk \<Rightarrow> bool" where
  "twalk_ok t \<longleftrightarrow> fid_ok (twalk_fid t) \<and> fid_ok (twalk_newFID t) \<and> length (twalk_Names t) < 65536 \<and>
     (\<forall>s\<in>set (twalk_Names t). string_ok s)"

interpretation twalk: codec twalk_encode twalk_decode twalk_ok
  by (unfold_locales; unfold twalk_encode_def twalk_decode_def twalk_ok_def)
    (intro writer_intros reader_intros | simp add: wire_simps writer_intros)+

record rwalk =
  rwalk_QIDs :: "QID list"

definition rwalk_zero :: rwalk where
  "rwalk_zero = \<lparr>rwalk_QIDs = []\<rparr>"

definition rwalk_decode :: "rwalk \<Rightarrow> (buffer, rwalk) state" where
  "rwalk_decode r = do {
     n \<leftarrow> Read16;
     qids \<leftarrow> read_times (QID_decode QID_zero) (unat n);
     State_Monad.return (r\<lparr>rwalk_QIDs := qids\<rparr>) }"

definition rwalk_encode :: "rwalk \<Rightarrow> (buffer, unit) state" where
  "rwalk_encode r = do {
     Write16 (of_nat (length (rwalk_QIDs r)));
     write_each QID_encode (rwalk_QIDs r) }"

definition rwalk_ok :: "rwalk \<Rightarrow> bool" where
  "rwalk_ok r \<longleftrightarrow> length (rwalk_QIDs r) < 65536"

interpretation rwalk: codec rwalk_encode rwalk_decode rwalk_ok
  by (unfold_locales; unfold rwalk_encode_def rwalk_decode_def rwalk_ok_def)
    (intro writer_intros reader_intros | simp add: wire_simps writer_intros)+

section \<open>Tclunk and Rclunk\<close>

record tclunk =
  tclunk_fid :: fid

definition tclunk_zero :: tclunk where
  "tclunk_zero = \<lparr>tclunk_fid = 0\<rparr>"

definition tclunk_decode :: "tclunk \<Rightarrow> (buffer, tclunk) state" where
  "tclunk_decode t = do {
     fid \<leftarrow> ReadFID;
     State_Monad.return (t\<lparr>tclunk_fid := fid\<rparr>) }"

definition tclunk_encode :: "tclunk \<Rightarrow> (buffer, unit) state" where
  "tclunk_encode t = WriteFID (tclunk_fid t)"

definition tclunk_ok :: "tclunk \<Rightarrow> bool" where
  "tclunk_ok t \<longleftrightarrow> fid_ok (tclunk_fid t)"

interpretation tclunk: codec tclunk_encode tclunk_decode tclunk_ok
  by (unfold_locales; unfold tclunk_encode_def tclunk_decode_def tclunk_ok_def)
    (intro writer_intros reader_intros | simp add: wire_simps writer_intros)+

type_synonym rclunk = unit

definition rclunk_decode :: "rclunk \<Rightarrow> (buffer, rclunk) state" where
  "rclunk_decode r = State_Monad.return r"

definition rclunk_encode :: "rclunk \<Rightarrow> (buffer, unit) state" where
  "rclunk_encode r = State_Monad.return ()"

interpretation rclunk: codec rclunk_encode rclunk_decode "\<lambda>_. True"
  by (unfold_locales; unfold rclunk_encode_def rclunk_decode_def)
    (intro writer_intros reader_intros | simp add: wire_simps writer_intros)+

section \<open>Tremove and Rremove\<close>

record tremove =
  tremove_fid :: fid

definition tremove_zero :: tremove where
  "tremove_zero = \<lparr>tremove_fid = 0\<rparr>"

definition tremove_decode :: "tremove \<Rightarrow> (buffer, tremove) state" where
  "tremove_decode t = do {
     fid \<leftarrow> ReadFID;
     State_Monad.return (t\<lparr>tremove_fid := fid\<rparr>) }"

definition tremove_encode :: "tremove \<Rightarrow> (buffer, unit) state" where
  "tremove_encode t = WriteFID (tremove_fid t)"

definition tremove_ok :: "tremove \<Rightarrow> bool" where
  "tremove_ok t \<longleftrightarrow> fid_ok (tremove_fid t)"

interpretation tremove: codec tremove_encode tremove_decode tremove_ok
  by (unfold_locales; unfold tremove_encode_def tremove_decode_def tremove_ok_def)
    (intro writer_intros reader_intros | simp add: wire_simps writer_intros)+

type_synonym rremove = unit

definition rremove_decode :: "rremove \<Rightarrow> (buffer, rremove) state" where
  "rremove_decode r = State_Monad.return r"

definition rremove_encode :: "rremove \<Rightarrow> (buffer, unit) state" where
  "rremove_encode r = State_Monad.return ()"

interpretation rremove: codec rremove_encode rremove_decode "\<lambda>_. True"
  by (unfold_locales; unfold rremove_encode_def rremove_decode_def)
    (intro writer_intros reader_intros | simp add: wire_simps writer_intros)+

section \<open>Rlerror\<close>

record rlerror =
  rlerror_Error :: uint32

definition rlerror_zero :: rlerror where
  "rlerror_zero = \<lparr>rlerror_Error = 0\<rparr>"

definition rlerror_decode :: "rlerror \<Rightarrow> (buffer, rlerror) state" where
  "rlerror_decode r = do {
     error \<leftarrow> Read32;
     State_Monad.return (r\<lparr>rlerror_Error := error\<rparr>) }"

definition rlerror_encode :: "rlerror \<Rightarrow> (buffer, unit) state" where
  "rlerror_encode r = Write32 (rlerror_Error r)"

interpretation rlerror: codec rlerror_encode rlerror_decode "\<lambda>_. True"
  by (unfold_locales; unfold rlerror_encode_def rlerror_decode_def)
    (intro writer_intros reader_intros | simp add: wire_simps writer_intros)+

section \<open>Tauth and Rauth\<close>

record tauth =
  tauth_Authenticationfid :: fid
  tauth_UserName :: string
  tauth_AttachName :: string
  tauth_UID :: UID

definition tauth_zero :: tauth where
  "tauth_zero = \<lparr>tauth_Authenticationfid = 0, tauth_UserName = [], tauth_AttachName = [],
     tauth_UID = 0\<rparr>"

definition tauth_decode :: "tauth \<Rightarrow> (buffer, tauth) state" where
  "tauth_decode t = do {
     authenticationfid \<leftarrow> ReadFID;
     userName \<leftarrow> ReadString;
     attachName \<leftarrow> ReadString;
     uid \<leftarrow> ReadUID;
     State_Monad.return (t\<lparr>tauth_Authenticationfid := authenticationfid,
       tauth_UserName := userName, tauth_AttachName := attachName, tauth_UID := uid\<rparr>) }"

definition tauth_encode :: "tauth \<Rightarrow> (buffer, unit) state" where
  "tauth_encode t = do {
     WriteFID (tauth_Authenticationfid t);
     WriteString (tauth_UserName t);
     WriteString (tauth_AttachName t);
     WriteUID (tauth_UID t) }"

definition tauth_ok :: "tauth \<Rightarrow> bool" where
  "tauth_ok t \<longleftrightarrow> fid_ok (tauth_Authenticationfid t) \<and> string_ok (tauth_UserName t) \<and>
     string_ok (tauth_AttachName t)"

interpretation tauth: codec tauth_encode tauth_decode tauth_ok
  by (unfold_locales; unfold tauth_encode_def tauth_decode_def tauth_ok_def)
    (intro writer_intros reader_intros | simp add: wire_simps writer_intros)+

lemmas tauth_nested [writer_intros] = tauth.enc_writer
lemmas tauth_nested_reader [reader_intros] = tauth.dec_reader
lemmas tauth_nested_run [wire_simps] = tauth.dec_enc

record rauth =
  rauth_QID :: QID

definition rauth_zero :: rauth where
  "rauth_zero = \<lparr>rauth_QID = QID_zero\<rparr>"

definition rauth_decode :: "rauth \<Rightarrow> (buffer, rauth) state" where
  "rauth_decode r = do {
     qid \<leftarrow> QID_decode (rauth_QID r);
     State_Monad.return (r\<lparr>rauth_QID := qid\<rparr>) }"

definition rauth_encode :: "rauth \<Rightarrow> (buffer, unit) state" where
  "rauth_encode r = QID_encode (rauth_QID r)"

interpretation rauth: codec rauth_encode rauth_decode "\<lambda>_. True"
  by (unfold_locales; unfold rauth_encode_def rauth_decode_def)
    (intro writer_intros reader_intros | simp add: wire_simps writer_intros)+

section \<open>Tattach and Rattach\<close>

record tattach =
  tattach_fid :: fid
  tattach_Auth :: tauth

definition tattach_zero :: tattach where
  "tattach_zero = \<lparr>tattach_fid = 0, tattach_Auth = tauth_zero\<rparr>"

definition tattach_decode :: "tattach \<Rightarrow> (buffer, tattach) state" where
  "tattach_decode t = do {
     fid \<leftarrow> ReadFID;
     auth \<leftarrow> tauth_decode (tattach_Auth t);
     State_Monad.return (t\<lparr>tattach_fid := fid, tattach_Auth := auth\<rparr>) }"

definition tattach_encode :: "tattach \<Rightarrow> (buffer, unit) state" where
  "tattach_encode t = do {
     WriteFID (tattach_fid t);
     tauth_encode (tattach_Auth t) }"

definition tattach_ok :: "tattach \<Rightarrow> bool" where
  "tattach_ok t \<longleftrightarrow> fid_ok (tattach_fid t) \<and> tauth_ok (tattach_Auth t)"

interpretation tattach: codec tattach_encode tattach_decode tattach_ok
  by (unfold_locales; unfold tattach_encode_def tattach_decode_def tattach_ok_def)
    (intro writer_intros reader_intros | simp add: wire_simps writer_intros)+

record rattach =
  rattach_QID :: QID

definition rattach_zero :: rattach where
  "rattach_zero = \<lparr>rattach_QID = QID_zero\<rparr>"

definition rattach_decode :: "rattach \<Rightarrow> (buffer, rattach) state" where
  "rattach_decode r = do {
     qid \<leftarrow> QID_decode (rattach_QID r);
     State_Monad.return (r\<lparr>rattach_QID := qid\<rparr>) }"

definition rattach_encode :: "rattach \<Rightarrow> (buffer, unit) state" where
  "rattach_encode r = QID_encode (rattach_QID r)"

interpretation rattach: codec rattach_encode rattach_decode "\<lambda>_. True"
  by (unfold_locales; unfold rattach_encode_def rattach_decode_def)
    (intro writer_intros reader_intros | simp add: wire_simps writer_intros)+

section \<open>Tlopen and Rlopen\<close>

record tlopen =
  tlopen_fid :: fid
  tlopen_Flags :: OpenFlags

definition tlopen_zero :: tlopen where
  "tlopen_zero = \<lparr>tlopen_fid = 0, tlopen_Flags = 0\<rparr>"

definition tlopen_decode :: "tlopen \<Rightarrow> (buffer, tlopen) state" where
  "tlopen_decode t = do {
     fid \<leftarrow> ReadFID;
     flags \<leftarrow> ReadOpenFlags;
     State_Monad.return (t\<lparr>tlopen_fid := fid, tlopen_Flags := flags\<rparr>) }"

definition tlopen_encode :: "tlopen \<Rightarrow> (buffer, unit) state" where
  "tlopen_encode t = do {
     WriteFID (tlopen_fid t);
     WriteOpenFlags (tlopen_Flags t) }"

definition tlopen_ok :: "tlopen \<Rightarrow> bool" where
  "tlopen_ok t \<longleftrightarrow> fid_ok (tlopen_fid t)"

interpretation tlopen: codec tlopen_encode tlopen_decode tlopen_ok
  by (unfold_locales; unfold tlopen_encode_def tlopen_decode_def tlopen_ok_def)
    (intro writer_intros reader_intros | simp add: wire_simps writer_intros)+

record rlopen =
  rlopen_QID :: QID
  rlopen_IoUnit :: uint32

definition rlopen_zero :: rlopen where
  "rlopen_zero = \<lparr>rlopen_QID = QID_zero, rlopen_IoUnit = 0\<rparr>"

definition rlopen_decode :: "rlopen \<Rightarrow> (buffer, rlopen) state" where
  "rlopen_decode r = do {
     qid \<leftarrow> QID_decode (rlopen_QID r);
     ioUnit \<leftarrow> Read32;
     State_Monad.return (r\<lparr>rlopen_QID := qid, rlopen_IoUnit := ioUnit\<rparr>) }"

definition rlopen_encode :: "rlopen \<Rightarrow> (buffer, unit) state" where
  "rlopen_encode r = do {
     QID_encode (rlopen_QID r);
     Write32 (rlopen_IoUnit r) }"

interpretation rlopen: codec rlopen_encode rlopen_decode "\<lambda>_. True"
  by (unfold_locales; unfold rlopen_encode_def rlopen_decode_def)
    (intro writer_intros reader_intros | simp add: wire_simps writer_intros)+

lemmas rlopen_nested [writer_intros] = rlopen.enc_writer
lemmas rlopen_nested_reader [reader_intros] = rlopen.dec_reader
lemmas rlopen_nested_run [wire_simps] = rlopen.dec_enc

section \<open>Tlcreate and Rlcreate\<close>

record tlcreate =
  tlcreate_fid :: fid
  tlcreate_Name :: string
  tlcreate_OpenFlags :: OpenFlags
  tlcreate_Permissions :: FileMode
  tlcreate_GID :: GID

definition tlcreate_zero :: tlcreate where
  "tlcreate_zero = \<lparr>tlcreate_fid = 0, tlcreate_Name = [], tlcreate_OpenFlags = 0,
     tlcreate_Permissions = 0, tlcreate_GID = 0\<rparr>"

definition tlcreate_decode :: "tlcreate \<Rightarrow> (buffer, tlcreate) state" where
  "tlcreate_decode t = do {
     fid \<leftarrow> ReadFID;
     name \<leftarrow> ReadString;
     openFlags \<leftarrow> ReadOpenFlags;
     permissions \<leftarrow> ReadPermissions;
     gid \<leftarrow> ReadGID;
     State_Monad.return (t\<lparr>tlcreate_fid := fid, tlcreate_Name := name,
       tlcreate_OpenFlags := openFlags, tlcreate_Permissions := permissions,
       tlcreate_GID := gid\<rparr>) }"

definition tlcreate_encode :: "tlcreate \<Rightarrow> (buffer, unit) state" where
  "tlcreate_encode t = do {
     WriteFID (tlcreate_fid t);
     WriteString (tlcreate_Name t);
     WriteOpenFlags (tlcreate_OpenFlags t);
     WritePermissions (tlcreate_Permissions t);
     WriteGID (tlcreate_GID t) }"

definition tlcreate_ok :: "tlcreate \<Rightarrow> bool" where
  "tlcreate_ok t \<longleftrightarrow> fid_ok (tlcreate_fid t) \<and> string_ok (tlcreate_Name t) \<and>
     perm_ok (tlcreate_Permissions t)"

interpretation tlcreate: codec tlcreate_encode tlcreate_decode tlcreate_ok
  by (unfold_locales; unfold tlcreate_encode_def tlcreate_decode_def tlcreate_ok_def)
    (intro writer_intros reader_intros | simp add: wire_simps writer_intros)+

lemmas tlcreate_nested [writer_intros] = tlcreate.enc_writer
lemmas tlcreate_nested_reader [reader_intros] = tlcreate.dec_reader
lemmas tlcreate_nested_run [wire_simps] = tlcreate.dec_enc

record rlcreate =
  rlcreate_rlopen :: rlopen

definition rlcreate_zero :: rlcreate where
  "rlcreate_zero = \<lparr>rlcreate_rlopen = rlopen_zero\<rparr>"

definition rlcreate_decode :: "rlcreate \<Rightarrow> (buffer, rlcreate) state" where
  "rlcreate_decode r = do {
     rlopen \<leftarrow> rlopen_decode (rlcreate_rlopen r);
     State_Monad.return (r\<lparr>rlcreate_rlopen := rlopen\<rparr>) }"

definition rlcreate_encode :: "rlcreate \<Rightarrow> (buffer, unit) state" where
  "rlcreate_encode r = rlopen_encode (rlcreate_rlopen r)"

interpretation rlcreate: codec rlcreate_encode rlcreate_decode "\<lambda>_. True"
  by (unfold_locales; unfold rlcreate_encode_def rlcreate_decode_def)
    (intro writer_intros reader_intros | simp add: wire_simps writer_intros)+

lemmas rlcreate_nested [writer_intros] = rlcreate.enc_writer
lemmas rlcreate_nested_reader [reader_intros] = rlcreate.dec_reader
lemmas rlcreate_nested_run [wire_simps] = rlcreate.dec_enc

section \<open>Tsymlink and Rsymlink\<close>

record tsymlink =
  tsymlink_Directory :: fid
  tsymlink_Name :: string
  tsymlink_Target :: string
  tsymlink_GID :: GID

definition tsymlink_zero :: tsymlink where
  "tsymlink_zero = \<lparr>tsymlink_Directory = 0, tsymlink_Name = [], tsymlink_Target = [],
     tsymlink_GID = 0\<rparr>"

definition tsymlink_decode :: "tsymlink \<Rightarrow> (buffer, tsymlink) state" where
  "tsymlink_decode t = do {
     directory \<leftarrow> ReadFID;
     name \<leftarrow> ReadString;
     target \<leftarrow> ReadString;
     gid \<leftarrow> ReadGID;
     State_Monad.return (t\<lparr>tsymlink_Directory := directory, tsymlink_Name := name,
       tsymlink_Target := target, tsymlink_GID := gid\<rparr>) }"

definition tsymlink_encode :: "tsymlink \<Rightarrow> (buffer, unit) state" where
  "tsymlink_encode t = do {
     WriteFID (tsymlink_Directory t);
     WriteString (tsymlink_Name t);
     WriteString (tsymlink_Target t);
     WriteGID (tsymlink_GID t) }"

definition tsymlink_ok :: "tsymlink \<Rightarrow> bool" where
  "tsymlink_ok t \<longleftrightarrow> fid_ok (tsymlink_Directory t) \<and> string_ok (tsymlink_Name t) \<and>
     string_ok (tsymlink_Target t)"

interpretation tsymlink: codec tsymlink_encode tsymlink_decode tsymlink_ok
  by (unfold_locales; unfold tsymlink_encode_def tsymlink_decode_def tsymlink_ok_def)
    (intro writer_intros reader_intros | simp add: wire_simps writer_intros)+

lemmas tsymlink_nested [writer_intros] = tsymlink.enc_writer
lemmas tsymlink_nested_reader [reader_intros] = tsymlink.dec_reader
lemmas tsymlink_nested_run [wire_simps] = tsymlink.dec_enc

record rsymlink =
  rsymlink_QID :: QID

definition rsymlink_zero :: rsymlink where
  "rsymlink_zero = \<lparr>rsymlink_QID = QID_zero\<rparr>"

definition rsymlink_decode :: "rsymlink \<Rightarrow> (buffer, rsymlink) state" where
  "rsymlink_decode r = do {
     qid \<leftarrow> QID_decode (rsymlink_QID r);
     State_Monad.return (r\<lparr>rsymlink_QID := qid\<rparr>) }"

definition rsymlink_encode :: "rsymlink \<Rightarrow> (buffer, unit) state" where
  "rsymlink_encode r = QID_encode (rsymlink_QID r)"

interpretation rsymlink: codec rsymlink_encode rsymlink_decode "\<lambda>_. True"
  by (unfold_locales; unfold rsymlink_encode_def rsymlink_decode_def)
    (intro writer_intros reader_intros | simp add: wire_simps writer_intros)+

lemmas rsymlink_nested [writer_intros] = rsymlink.enc_writer
lemmas rsymlink_nested_reader [reader_intros] = rsymlink.dec_reader
lemmas rsymlink_nested_run [wire_simps] = rsymlink.dec_enc

section \<open>Tlink and Rlink\<close>

record tlink =
  tlink_Directory :: fid
  tlink_Target :: fid
  tlink_Name :: string

definition tlink_zero :: tlink where
  "tlink_zero = \<lparr>tlink_Directory = 0, tlink_Target = 0, tlink_Name = []\<rparr>"

definition tlink_decode :: "tlink \<Rightarrow> (buffer, tlink) state" where
  "tlink_decode t = do {
     directory \<leftarrow> ReadFID;
     target \<leftarrow> ReadFID;
     name \<leftarrow> ReadString;
     State_Monad.return (t\<lparr>tlink_Directory := directory, tlink_Target := target,
       tlink_Name := name\<rparr>) }"

definition tlink_encode :: "tlink \<Rightarrow> (buffer, unit) state" where
  "tlink_encode t = do {
     WriteFID (tlink_Directory t);
     WriteFID (tlink_Target t);
     WriteString (tlink_Name t) }"

definition tlink_ok :: "tlink \<Rightarrow> bool" where
  "tlink_ok t \<longleftrightarrow> fid_ok (tlink_Directory t) \<and> fid_ok (tlink_Target t) \<and> string_ok (tlink_Name t)"

interpretation tlink: codec tlink_encode tlink_decode tlink_ok
  by (unfold_locales; unfold tlink_encode_def tlink_decode_def tlink_ok_def)
    (intro writer_intros reader_intros | simp add: wire_simps writer_intros)+

type_synonym rlink = unit

definition rlink_decode :: "rlink \<Rightarrow> (buffer, rlink) state" where
  "rlink_decode r = State_Monad.return r"

definition rlink_encode :: "rlink \<Rightarrow> (buffer, unit) state" where
  "rlink_encode r = State_Monad.return ()"

interpretation rlink: codec rlink_encode rlink_decode "\<lambda>_. True"
  by (unfold_locales; unfold rlink_encode_def rlink_decode_def)
    (intro writer_intros reader_intros | simp add: wire_simps writer_intros)+

section \<open>Trenameat and Rrenameat\<close>

record trenameat =
  trenameat_OldDirectory :: fid
  trenameat_OldName :: string
  trenameat_NewDirectory :: fid
  trenameat_NewName :: string

definition trenameat_zero :: trenameat where
  "trenameat_zero = \<lparr>trenameat_OldDirectory = 0, trenameat_OldName = [],
     trenameat_NewDirectory = 0, trenameat_NewName = []\<rparr>"

definition trenameat_decode :: "trenameat \<Rightarrow> (buffer, trenameat) state" where
  "trenameat_decode t = do {
     oldDirectory \<leftarrow> ReadFID;
     oldName \<leftarrow> ReadString;
     newDirectory \<leftarrow> ReadFID;
     newName \<leftarrow> ReadString;
     State_Monad.return (t\<lparr>trenameat_OldDirectory := oldDirectory, trenameat_OldName := oldName,
       trenameat_NewDirectory := newDirectory, trenameat_NewName := newName\<rparr>) }"

definition trenameat_encode :: "trenameat \<Rightarrow> (buffer, unit) state" where
  "trenameat_encode t = do {
     WriteFID (trenameat_OldDirectory t);
     WriteString (trenameat_OldName t);
     WriteFID (trenameat_NewDirectory t);
     WriteString (trenameat_NewName t) }"

definition trenameat_ok :: "trenameat \<Rightarrow> bool" where
  "trenameat_ok t \<longleftrightarrow> fid_ok (trenameat_OldDirectory t) \<and> string_ok (trenameat_OldName t) \<and>
     fid_ok (trenameat_NewDirectory t) \<and> string_ok (trenameat_NewName t)"

interpretation trenameat: codec trenameat_encode trenameat_decode trenameat_ok
  by (unfold_locales; unfold trenameat_encode_def trenameat_decode_def trenameat_ok_def)
    (intro writer_intros reader_intros | simp add: wire_simps writer_intros)+

type_synonym rrenameat = unit

definition rrenameat_decode :: "rrenameat \<Rightarrow> (buffer, rrenameat) state" where
  "rrenameat_decode r = State_Monad.return r"

definition rrenameat_encode :: "rrenameat \<Rightarrow> (buffer, unit) state" where
  "rrenameat_encode r = State_Monad.return ()"

interpretation rrenameat: codec rrenameat_encode rrenameat_decode "\<lambda>_. True"
  by (unfold_locales; unfold rrenameat_encode_def rrenameat_decode_def)
    (intro writer_intros reader_intros | simp add: wire_simps writer_intros)+

section \<open>Tunlinkat and Runlinkat\<close>

record tunlinkat =
  tunlinkat_Directory :: fid
  tunlinkat_Name :: string
  tunlinkat_Flags :: uint32

definition tunlinkat_zero :: tunlinkat where
  "tunlinkat_zero = \<lparr>tunlinkat_Directory = 0, tunlinkat_Name = [], tunlinkat_Flags = 0\<rparr>"

definition tunlinkat_decode :: "tunlinkat \<Rightarrow> (buffer, tunlinkat) state" where
  "tunlinkat_decode t = do {
     directory \<leftarrow> ReadFID;
     name \<leftarrow> ReadString;
     flags \<leftarrow> Read32;
     State_Monad.return (t\<lparr>tunlinkat_Directory := directory, tunlinkat_Name := name,
       tunlinkat_Flags := flags\<rparr>) }"

definition tunlinkat_encode :: "tunlinkat \<Rightarrow> (buffer, unit) state" where
  "tunlinkat_encode t = do {
     WriteFID (tunlinkat_Directory t);
     WriteString (tunlinkat_Name t);
     Write32 (tunlinkat_Flags t) }"

definition tunlinkat_ok :: "tunlinkat \<Rightarrow> bool" where
  "tunlinkat_ok t \<longleftrightarrow> fid_ok (tunlinkat_Directory t) \<and> string_ok (tunlinkat_Name t)"

interpretation tunlinkat: codec tunlinkat_encode tunlinkat_decode tunlinkat_ok
  by (unfold_locales; unfold tunlinkat_encode_def tunlinkat_decode_def tunlinkat_ok_def)
    (intro writer_intros reader_intros | simp add: wire_simps writer_intros)+

type_synonym runlinkat = unit

definition runlinkat_decode :: "runlinkat \<Rightarrow> (buffer, runlinkat) state" where
  "runlinkat_decode r = State_Monad.return r"

definition runlinkat_encode :: "runlinkat \<Rightarrow> (buffer, unit) state" where
  "runlinkat_encode r = State_Monad.return ()"

interpretation runlinkat: codec runlinkat_encode runlinkat_decode "\<lambda>_. True"
  by (unfold_locales; unfold runlinkat_encode_def runlinkat_decode_def)
    (intro writer_intros reader_intros | simp add: wire_simps writer_intros)+

section \<open>Trename and Rrename\<close>

record trename =
  trename_fid :: fid
  trename_Directory :: fid
  trename_Name :: string

definition trename_zero :: trename where
  "trename_zero = \<lparr>trename_fid = 0, trename_Directory = 0, trename_Name = []\<rparr>"

definition trename_decode :: "trename \<Rightarrow> (buffer, trename) state" where
  "trename_decode t = do {
     fid \<leftarrow> ReadFID;
     directory \<leftarrow> ReadFID;
     name \<leftarrow> ReadString;
     State_Monad.return (t\<lparr>trename_fid := fid, trename_Directory := directory,
       trename_Name := name\<rparr>) }"

definition trename_encode :: "trename \<Rightarrow> (buffer, unit) state" where
  "trename_encode t = do {
     WriteFID (trename_fid t);
     WriteFID (trename_Directory t);
     WriteString (trename_Name t) }"

definition trename_ok :: "trename \<Rightarrow> bool" where
  "trename_ok t \<longleftrightarrow> fid_ok (trename_fid t) \<and> fid_ok (trename_Directory t) \<and>
     string_ok (trename_Name t)"

interpretation trename: codec trename_encode trename_decode trename_ok
  by (unfold_locales; unfold trename_encode_def trename_decode_def trename_ok_def)
    (intro writer_intros reader_intros | simp add: wire_simps writer_intros)+

type_synonym rrename = unit

definition rrename_decode :: "rrename \<Rightarrow> (buffer, rrename) state" where
  "rrename_decode r = State_Monad.return r"

definition rrename_encode :: "rrename \<Rightarrow> (buffer, unit) state" where
  "rrename_encode r = State_Monad.return ()"

interpretation rrename: codec rrename_encode rrename_decode "\<lambda>_. True"
  by (unfold_locales; unfold rrename_encode_def rrename_decode_def)
    (intro writer_intros reader_intros | simp add: wire_simps writer_intros)+

section \<open>Treadlink and Rreadlink\<close>

record treadlink =
  treadlink_fid :: fid

definition treadlink_zero :: treadlink where
  "treadlink_zero = \<lparr>treadlink_fid = 0\<rparr>"

definition treadlink_decode :: "treadlink \<Rightarrow> (buffer, treadlink) state" where
  "treadlink_decode t = do {
     fid \<leftarrow> ReadFID;
     State_Monad.return (t\<lparr>treadlink_fid := fid\<rparr>) }"

definition treadlink_encode :: "treadlink \<Rightarrow> (buffer, unit) state" where
  "treadlink_encode t = WriteFID (treadlink_fid t)"

definition treadlink_ok :: "treadlink \<Rightarrow> bool" where
  "treadlink_ok t \<longleftrightarrow> fid_ok (treadlink_fid t)"

interpretation treadlink: codec treadlink_encode treadlink_decode treadlink_ok
  by (unfold_locales; unfold treadlink_encode_def treadlink_decode_def treadlink_ok_def)
    (intro writer_intros reader_intros | simp add: wire_simps writer_intros)+

record rreadlink =
  rreadlink_Target :: string

definition rreadlink_zero :: rreadlink where
  "rreadlink_zero = \<lparr>rreadlink_Target = []\<rparr>"

definition rreadlink_decode :: "rreadlink \<Rightarrow> (buffer, rreadlink) state" where
  "rreadlink_decode r = do {
     target \<leftarrow> ReadString;
     State_Monad.return (r\<lparr>rreadlink_Target := target\<rparr>) }"

definition rreadlink_encode :: "rreadlink \<Rightarrow> (buffer, unit) state" where
  "rreadlink_encode r = WriteString (rreadlink_Target r)"

definition rreadlink_ok :: "rreadlink \<Rightarrow> bool" where
  "rreadlink_ok r \<longleftrightarrow> string_ok (rreadlink_Target r)"

interpretation rreadlink: codec rreadlink_encode rreadlink_decode rreadlink_ok
  by (unfold_locales; unfold rreadlink_encode_def rreadlink_decode_def rreadlink_ok_def)
    (intro writer_intros reader_intros | simp add: wire_simps writer_intros)+

end
