(* ===== verification/P9_MsgIO.thy ===== *)
theory P9_MsgIO
  imports P9_MsgSession
begin

text \<open>
  The message structures of \<^verbatim>\<open>p9/messages.go\<close> from \<^verbatim>\<open>tread\<close> to \<^verbatim>\<open>rlock\<close>: reading, writing,
  attributes, directories and locks. The three messages with an inline payload
  (\<^verbatim>\<open>rread\<close>, \<^verbatim>\<open>twrite\<close>, \<^verbatim>\<open>rreaddir\<close>) implement \<^verbatim>\<open>payloader\<close>: the locale \<open>payload_codec\<close> is its
  contract, in which the receiver gets the payload by \<^verbatim>\<open>SetPayload\<close> before \<^verbatim>\<open>decode\<close> runs on the
  fixed part. \<^verbatim>\<open>rreaddir.encode\<close> also changes the message: it cuts the entries at the byte
  limit and stores the payload.
\<close>

section \<open>The payloader interface\<close>

text \<open>
  \<open>enc\<close> returns the message as \<^verbatim>\<open>encode\<close> leaves it; \<open>sent\<close> is the message the receiver must
  obtain. The fixed part always has \<open>fixed\<close> bytes, which is what lets \<^verbatim>\<open>recv\<close> split the frame.
\<close>

locale payload_codec =
  fixes enc :: "'a \<Rightarrow> (buffer, 'a) state"
    and dec :: "'a \<Rightarrow> (buffer, 'a) state"
    and payload :: "'a \<Rightarrow> byte list"
    and setPayload :: "byte list \<Rightarrow> 'a \<Rightarrow> 'a"
    and fixed :: uint32
    and sent :: "'a \<Rightarrow> 'a"
    and ok :: "'a \<Rightarrow> bool"
  assumes enc_appends: "run_state (enc x) b =
      (fst (run_state (enc x) empty_buffer),
       b\<lparr>data := data b @ data (snd (run_state (enc x) empty_buffer))\<rparr>)"
    and enc_fixed: "length (data (snd (run_state (enc x) empty_buffer))) = unat fixed"
    and dec_enc: "ok x \<Longrightarrow> run_state (dec (setPayload (payload (fst (run_state (enc x) empty_buffer))) y))
        \<lparr>data = data (snd (run_state (enc x) empty_buffer)) @ r, overflow = f\<rparr>
        = (sent x, \<lparr>data = r, overflow = f\<rparr>)"
begin

lemma dec_enc_exact:
  "ok x \<Longrightarrow> run_state (dec (setPayload (payload (fst (run_state (enc x) empty_buffer))) y))
        \<lparr>data = data (snd (run_state (enc x) empty_buffer)), overflow = f\<rparr>
        = (sent x, \<lparr>data = [], overflow = f\<rparr>)"
  using dec_enc [of x y "[]" f] by simp

lemma enc_not_empty: "fixed \<noteq> 0 \<Longrightarrow> data (snd (run_state (enc x) empty_buffer)) \<noteq> []"
  using enc_fixed [of x] by (auto simp: unsigned_eq_0_iff)

end

section \<open>Tread and Rread\<close>

record tread =
  tread_fid :: fid
  tread_Offset :: uint64
  tread_Count :: uint32

definition tread_zero :: tread where
  "tread_zero = \<lparr>tread_fid = 0, tread_Offset = 0, tread_Count = 0\<rparr>"

definition tread_decode :: "tread \<Rightarrow> (buffer, tread) state" where
  "tread_decode t = do {
     fid \<leftarrow> ReadFID;
     offset \<leftarrow> Read64;
     count \<leftarrow> Read32;
     State_Monad.return (t\<lparr>tread_fid := fid, tread_Offset := offset, tread_Count := count\<rparr>) }"

definition tread_encode :: "tread \<Rightarrow> (buffer, unit) state" where
  "tread_encode t = do {
     WriteFID (tread_fid t);
     Write64 (tread_Offset t);
     Write32 (tread_Count t) }"

definition tread_ok :: "tread \<Rightarrow> bool" where
  "tread_ok t \<longleftrightarrow> fid_ok (tread_fid t)"

interpretation tread: codec tread_encode tread_decode tread_ok
  by (unfold_locales; unfold tread_encode_def tread_decode_def tread_ok_def)
    (intro writer_intros reader_intros | simp add: wire_simps writer_intros)+

record rread =
  rread_Data :: "byte list"

definition rread_zero :: rread where
  "rread_zero = \<lparr>rread_Data = []\<rparr>"
definition rread_decode :: "rread \<Rightarrow> (buffer, rread) state" where
  "rread_decode r = do {
     count \<leftarrow> Read32;
     (if count \<noteq> of_nat (length (rread_Data r)) then markOverrun else State_Monad.return ());
     State_Monad.return r }"

definition rread_encode :: "rread \<Rightarrow> (buffer, unit) state" where
  "rread_encode r = Write32 (of_nat (length (rread_Data r)))"

definition rread_FixedSize :: uint32 where
  "rread_FixedSize = 4"

definition rread_Payload :: "rread \<Rightarrow> byte list" where
  "rread_Payload r = rread_Data r"

definition rread_SetPayload :: "byte list \<Rightarrow> rread \<Rightarrow> rread" where
  "rread_SetPayload p r = r\<lparr>rread_Data := p\<rparr>"

interpretation rread: payload_codec "\<lambda>r. do { rread_encode r; State_Monad.return r }" rread_decode
  rread_Payload rread_SetPayload rread_FixedSize "\<lambda>r. r" "\<lambda>_. True"
  by unfold_locales
    (simp_all add: rread_encode_def rread_decode_def rread_Payload_def rread_SetPayload_def
      rread_FixedSize_def writer_run [OF writer_primitives(3)] encoded_primitives empty_buffer_def
      Read_put_le)

section \<open>Twrite and Rwrite\<close>

record twrite =
  twrite_fid :: fid
  twrite_Offset :: uint64
  twrite_Data :: "byte list"

definition twrite_zero :: twrite where
  "twrite_zero = \<lparr>twrite_fid = 0, twrite_Offset = 0, twrite_Data = []\<rparr>"
definition twrite_decode :: "twrite \<Rightarrow> (buffer, twrite) state" where
  "twrite_decode t = do {
     fid \<leftarrow> ReadFID;
     offset \<leftarrow> Read64;
     count \<leftarrow> Read32;
     (if count \<noteq> of_nat (length (twrite_Data t)) then markOverrun else State_Monad.return ());
     State_Monad.return (t\<lparr>twrite_fid := fid, twrite_Offset := offset\<rparr>) }"

definition twrite_encode :: "twrite \<Rightarrow> (buffer, unit) state" where
  "twrite_encode t = do {
     WriteFID (twrite_fid t);
     Write64 (twrite_Offset t);
     Write32 (of_nat (length (twrite_Data t))) }"

definition twrite_FixedSize :: uint32 where
  "twrite_FixedSize = 16"

definition twrite_Payload :: "twrite \<Rightarrow> byte list" where
  "twrite_Payload t = twrite_Data t"

definition twrite_SetPayload :: "byte list \<Rightarrow> twrite \<Rightarrow> twrite" where
  "twrite_SetPayload p t = t\<lparr>twrite_Data := p\<rparr>"

lemma twrite_encode_run:
  "run_state (twrite_encode t) b = ((), b\<lparr>data := data b @ put_le 4 (ucast (twrite_fid t) :: uint32)
     @ put_le 8 (twrite_Offset t) @ put_le 4 (of_nat (length (twrite_Data t)) :: uint32)\<rparr>)"
  by (simp add: twrite_encode_def WriteFID_def writer_run [OF writer_primitives(3)]
      writer_run [OF writer_primitives(4)] encoded_primitives)

interpretation twrite: payload_codec "\<lambda>t. do { twrite_encode t; State_Monad.return t }" twrite_decode
  twrite_Payload twrite_SetPayload twrite_FixedSize "\<lambda>t. t" "\<lambda>t. fid_ok (twrite_fid t)"
  by unfold_locales
    (simp_all add: twrite_encode_run twrite_decode_def twrite_Payload_def twrite_SetPayload_def
      twrite_FixedSize_def empty_buffer_def Read_put_le ReadFID_def)

record rwrite =
  rwrite_Count :: uint32

definition rwrite_zero :: rwrite where
  "rwrite_zero = \<lparr>rwrite_Count = 0\<rparr>"

definition rwrite_decode :: "rwrite \<Rightarrow> (buffer, rwrite) state" where
  "rwrite_decode r = do {
     count \<leftarrow> Read32;
     State_Monad.return (r\<lparr>rwrite_Count := count\<rparr>) }"

definition rwrite_encode :: "rwrite \<Rightarrow> (buffer, unit) state" where
  "rwrite_encode r = Write32 (rwrite_Count r)"

interpretation rwrite: codec rwrite_encode rwrite_decode "\<lambda>_. True"
  by (unfold_locales; unfold rwrite_encode_def rwrite_decode_def)
    (intro writer_intros reader_intros | simp add: wire_simps writer_intros)+

section \<open>Tmknod and Rmknod\<close>

record tmknod =
  tmknod_Directory :: fid
  tmknod_Name :: string
  tmknod_Mode :: FileMode
  tmknod_Major :: uint32
  tmknod_Minor :: uint32
  tmknod_GID :: GID

definition tmknod_zero :: tmknod where
  "tmknod_zero = \<lparr>tmknod_Directory = 0, tmknod_Name = [], tmknod_Mode = 0, tmknod_Major = 0,
     tmknod_Minor = 0, tmknod_GID = 0\<rparr>"

definition tmknod_decode :: "tmknod \<Rightarrow> (buffer, tmknod) state" where
  "tmknod_decode t = do {
     directory \<leftarrow> ReadFID;
     name \<leftarrow> ReadString;
     mode \<leftarrow> ReadFileMode;
     major \<leftarrow> Read32;
     minor \<leftarrow> Read32;
     gid \<leftarrow> ReadGID;
     State_Monad.return (t\<lparr>tmknod_Directory := directory, tmknod_Name := name,
       tmknod_Mode := mode, tmknod_Major := major, tmknod_Minor := minor, tmknod_GID := gid\<rparr>) }"

definition tmknod_encode :: "tmknod \<Rightarrow> (buffer, unit) state" where
  "tmknod_encode t = do {
     WriteFID (tmknod_Directory t);
     WriteString (tmknod_Name t);
     WriteFileMode (tmknod_Mode t);
     Write32 (tmknod_Major t);
     Write32 (tmknod_Minor t);
     WriteGID (tmknod_GID t) }"

definition tmknod_ok :: "tmknod \<Rightarrow> bool" where
  "tmknod_ok t \<longleftrightarrow> fid_ok (tmknod_Directory t) \<and> string_ok (tmknod_Name t)"

interpretation tmknod: codec tmknod_encode tmknod_decode tmknod_ok
  by (unfold_locales; unfold tmknod_encode_def tmknod_decode_def tmknod_ok_def)
    (intro writer_intros reader_intros | simp add: wire_simps writer_intros)+

lemmas tmknod_nested [writer_intros] = tmknod.enc_writer
lemmas tmknod_nested_reader [reader_intros] = tmknod.dec_reader
lemmas tmknod_nested_run [wire_simps] = tmknod.dec_enc

record rmknod =
  rmknod_QID :: QID

definition rmknod_zero :: rmknod where
  "rmknod_zero = \<lparr>rmknod_QID = QID_zero\<rparr>"

definition rmknod_decode :: "rmknod \<Rightarrow> (buffer, rmknod) state" where
  "rmknod_decode r = do {
     qid \<leftarrow> QID_decode (rmknod_QID r);
     State_Monad.return (r\<lparr>rmknod_QID := qid\<rparr>) }"

definition rmknod_encode :: "rmknod \<Rightarrow> (buffer, unit) state" where
  "rmknod_encode r = QID_encode (rmknod_QID r)"

interpretation rmknod: codec rmknod_encode rmknod_decode "\<lambda>_. True"
  by (unfold_locales; unfold rmknod_encode_def rmknod_decode_def)
    (intro writer_intros reader_intros | simp add: wire_simps writer_intros)+

lemmas rmknod_nested [writer_intros] = rmknod.enc_writer
lemmas rmknod_nested_reader [reader_intros] = rmknod.dec_reader
lemmas rmknod_nested_run [wire_simps] = rmknod.dec_enc

section \<open>Tmkdir and Rmkdir\<close>

record tmkdir =
  tmkdir_Directory :: fid
  tmkdir_Name :: string
  tmkdir_Permissions :: FileMode
  tmkdir_GID :: GID

definition tmkdir_zero :: tmkdir where
  "tmkdir_zero = \<lparr>tmkdir_Directory = 0, tmkdir_Name = [], tmkdir_Permissions = 0, tmkdir_GID = 0\<rparr>"

definition tmkdir_decode :: "tmkdir \<Rightarrow> (buffer, tmkdir) state" where
  "tmkdir_decode t = do {
     directory \<leftarrow> ReadFID;
     name \<leftarrow> ReadString;
     permissions \<leftarrow> ReadPermissions;
     gid \<leftarrow> ReadGID;
     State_Monad.return (t\<lparr>tmkdir_Directory := directory, tmkdir_Name := name,
       tmkdir_Permissions := permissions, tmkdir_GID := gid\<rparr>) }"

definition tmkdir_encode :: "tmkdir \<Rightarrow> (buffer, unit) state" where
  "tmkdir_encode t = do {
     WriteFID (tmkdir_Directory t);
     WriteString (tmkdir_Name t);
     WritePermissions (tmkdir_Permissions t);
     WriteGID (tmkdir_GID t) }"

definition tmkdir_ok :: "tmkdir \<Rightarrow> bool" where
  "tmkdir_ok t \<longleftrightarrow> fid_ok (tmkdir_Directory t) \<and> string_ok (tmkdir_Name t) \<and>
     perm_ok (tmkdir_Permissions t)"

interpretation tmkdir: codec tmkdir_encode tmkdir_decode tmkdir_ok
  by (unfold_locales; unfold tmkdir_encode_def tmkdir_decode_def tmkdir_ok_def)
    (intro writer_intros reader_intros | simp add: wire_simps writer_intros)+

lemmas tmkdir_nested [writer_intros] = tmkdir.enc_writer
lemmas tmkdir_nested_reader [reader_intros] = tmkdir.dec_reader
lemmas tmkdir_nested_run [wire_simps] = tmkdir.dec_enc

record rmkdir =
  rmkdir_QID :: QID

definition rmkdir_zero :: rmkdir where
  "rmkdir_zero = \<lparr>rmkdir_QID = QID_zero\<rparr>"

definition rmkdir_decode :: "rmkdir \<Rightarrow> (buffer, rmkdir) state" where
  "rmkdir_decode r = do {
     qid \<leftarrow> QID_decode (rmkdir_QID r);
     State_Monad.return (r\<lparr>rmkdir_QID := qid\<rparr>) }"

definition rmkdir_encode :: "rmkdir \<Rightarrow> (buffer, unit) state" where
  "rmkdir_encode r = QID_encode (rmkdir_QID r)"

interpretation rmkdir: codec rmkdir_encode rmkdir_decode "\<lambda>_. True"
  by (unfold_locales; unfold rmkdir_encode_def rmkdir_decode_def)
    (intro writer_intros reader_intros | simp add: wire_simps writer_intros)+

lemmas rmkdir_nested [writer_intros] = rmkdir.enc_writer
lemmas rmkdir_nested_reader [reader_intros] = rmkdir.dec_reader
lemmas rmkdir_nested_run [wire_simps] = rmkdir.dec_enc

section \<open>Tgetattr and Rgetattr\<close>

record tgetattr =
  tgetattr_fid :: fid
  tgetattr_AttrMask :: AttrMask

definition tgetattr_zero :: tgetattr where
  "tgetattr_zero = \<lparr>tgetattr_fid = 0, tgetattr_AttrMask = AttrMask_zero\<rparr>"

definition tgetattr_decode :: "tgetattr \<Rightarrow> (buffer, tgetattr) state" where
  "tgetattr_decode t = do {
     fid \<leftarrow> ReadFID;
     attrMask \<leftarrow> AttrMask_decode (tgetattr_AttrMask t);
     State_Monad.return (t\<lparr>tgetattr_fid := fid, tgetattr_AttrMask := attrMask\<rparr>) }"

definition tgetattr_encode :: "tgetattr \<Rightarrow> (buffer, unit) state" where
  "tgetattr_encode t = do {
     WriteFID (tgetattr_fid t);
     AttrMask_encode (tgetattr_AttrMask t) }"

definition tgetattr_ok :: "tgetattr \<Rightarrow> bool" where
  "tgetattr_ok t \<longleftrightarrow> fid_ok (tgetattr_fid t)"

interpretation tgetattr: codec tgetattr_encode tgetattr_decode tgetattr_ok
  by (unfold_locales; unfold tgetattr_encode_def tgetattr_decode_def tgetattr_ok_def)
    (intro writer_intros reader_intros | simp add: wire_simps writer_intros)+

record rgetattr =
  rgetattr_Valid :: AttrMask
  rgetattr_QID :: QID
  rgetattr_Attr :: Attr

definition rgetattr_zero :: rgetattr where
  "rgetattr_zero = \<lparr>rgetattr_Valid = AttrMask_zero, rgetattr_QID = QID_zero,
     rgetattr_Attr = Attr_zero\<rparr>"

definition rgetattr_decode :: "rgetattr \<Rightarrow> (buffer, rgetattr) state" where
  "rgetattr_decode r = do {
     valid \<leftarrow> AttrMask_decode (rgetattr_Valid r);
     qid \<leftarrow> QID_decode (rgetattr_QID r);
     attr \<leftarrow> Attr_decode (rgetattr_Attr r);
     State_Monad.return (r\<lparr>rgetattr_Valid := valid, rgetattr_QID := qid,
       rgetattr_Attr := attr\<rparr>) }"

definition rgetattr_encode :: "rgetattr \<Rightarrow> (buffer, unit) state" where
  "rgetattr_encode r = do {
     AttrMask_encode (rgetattr_Valid r);
     QID_encode (rgetattr_QID r);
     Attr_encode (rgetattr_Attr r) }"

interpretation rgetattr: codec rgetattr_encode rgetattr_decode "\<lambda>_. True"
  by (unfold_locales; unfold rgetattr_encode_def rgetattr_decode_def)
    (intro writer_intros reader_intros | simp add: wire_simps writer_intros)+

section \<open>Tsetattr and Rsetattr\<close>

record tsetattr =
  tsetattr_fid :: fid
  tsetattr_Valid :: SetAttrMask
  tsetattr_SetAttr :: SetAttr

definition tsetattr_zero :: tsetattr where
  "tsetattr_zero = \<lparr>tsetattr_fid = 0, tsetattr_Valid = SetAttrMask_zero,
     tsetattr_SetAttr = SetAttr_zero\<rparr>"

definition tsetattr_decode :: "tsetattr \<Rightarrow> (buffer, tsetattr) state" where
  "tsetattr_decode t = do {
     fid \<leftarrow> ReadFID;
     valid \<leftarrow> SetAttrMask_decode (tsetattr_Valid t);
     setAttr \<leftarrow> SetAttr_decode (tsetattr_SetAttr t);
     State_Monad.return (t\<lparr>tsetattr_fid := fid, tsetattr_Valid := valid,
       tsetattr_SetAttr := setAttr\<rparr>) }"

definition tsetattr_encode :: "tsetattr \<Rightarrow> (buffer, unit) state" where
  "tsetattr_encode t = do {
     WriteFID (tsetattr_fid t);
     SetAttrMask_encode (tsetattr_Valid t);
     SetAttr_encode (tsetattr_SetAttr t) }"

definition tsetattr_ok :: "tsetattr \<Rightarrow> bool" where
  "tsetattr_ok t \<longleftrightarrow> fid_ok (tsetattr_fid t) \<and> perm_ok (SetAttr_Permissions (tsetattr_SetAttr t))"

interpretation tsetattr: codec tsetattr_encode tsetattr_decode tsetattr_ok
  by (unfold_locales; unfold tsetattr_encode_def tsetattr_decode_def tsetattr_ok_def)
    (intro writer_intros reader_intros | simp add: wire_simps writer_intros)+

type_synonym rsetattr = unit

definition rsetattr_decode :: "rsetattr \<Rightarrow> (buffer, rsetattr) state" where
  "rsetattr_decode r = State_Monad.return r"

definition rsetattr_encode :: "rsetattr \<Rightarrow> (buffer, unit) state" where
  "rsetattr_encode r = State_Monad.return ()"

interpretation rsetattr: codec rsetattr_encode rsetattr_decode "\<lambda>_. True"
  by (unfold_locales; unfold rsetattr_encode_def rsetattr_decode_def)
    (intro writer_intros reader_intros | simp add: wire_simps writer_intros)+

section \<open>Txattrwalk and Rxattrwalk\<close>

record txattrwalk =
  txattrwalk_fid :: fid
  txattrwalk_newFID :: fid
  txattrwalk_Name :: string

definition txattrwalk_zero :: txattrwalk where
  "txattrwalk_zero = \<lparr>txattrwalk_fid = 0, txattrwalk_newFID = 0, txattrwalk_Name = []\<rparr>"

definition txattrwalk_decode :: "txattrwalk \<Rightarrow> (buffer, txattrwalk) state" where
  "txattrwalk_decode t = do {
     fid \<leftarrow> ReadFID;
     newFID \<leftarrow> ReadFID;
     name \<leftarrow> ReadString;
     State_Monad.return (t\<lparr>txattrwalk_fid := fid, txattrwalk_newFID := newFID,
       txattrwalk_Name := name\<rparr>) }"

definition txattrwalk_encode :: "txattrwalk \<Rightarrow> (buffer, unit) state" where
  "txattrwalk_encode t = do {
     WriteFID (txattrwalk_fid t);
     WriteFID (txattrwalk_newFID t);
     WriteString (txattrwalk_Name t) }"

definition txattrwalk_ok :: "txattrwalk \<Rightarrow> bool" where
  "txattrwalk_ok t \<longleftrightarrow> fid_ok (txattrwalk_fid t) \<and> fid_ok (txattrwalk_newFID t) \<and>
     string_ok (txattrwalk_Name t)"

interpretation txattrwalk: codec txattrwalk_encode txattrwalk_decode txattrwalk_ok
  by (unfold_locales; unfold txattrwalk_encode_def txattrwalk_decode_def txattrwalk_ok_def)
    (intro writer_intros reader_intros | simp add: wire_simps writer_intros)+

record rxattrwalk =
  rxattrwalk_Size :: uint64

definition rxattrwalk_zero :: rxattrwalk where
  "rxattrwalk_zero = \<lparr>rxattrwalk_Size = 0\<rparr>"

definition rxattrwalk_decode :: "rxattrwalk \<Rightarrow> (buffer, rxattrwalk) state" where
  "rxattrwalk_decode r = do {
     size \<leftarrow> Read64;
     State_Monad.return (r\<lparr>rxattrwalk_Size := size\<rparr>) }"

definition rxattrwalk_encode :: "rxattrwalk \<Rightarrow> (buffer, unit) state" where
  "rxattrwalk_encode r = Write64 (rxattrwalk_Size r)"

interpretation rxattrwalk: codec rxattrwalk_encode rxattrwalk_decode "\<lambda>_. True"
  by (unfold_locales; unfold rxattrwalk_encode_def rxattrwalk_decode_def)
    (intro writer_intros reader_intros | simp add: wire_simps writer_intros)+

section \<open>Txattrcreate and Rxattrcreate\<close>

record txattrcreate =
  txattrcreate_fid :: fid
  txattrcreate_Name :: string
  txattrcreate_AttrSize :: uint64
  txattrcreate_Flags :: uint32

definition txattrcreate_zero :: txattrcreate where
  "txattrcreate_zero = \<lparr>txattrcreate_fid = 0, txattrcreate_Name = [], txattrcreate_AttrSize = 0,
     txattrcreate_Flags = 0\<rparr>"

definition txattrcreate_decode :: "txattrcreate \<Rightarrow> (buffer, txattrcreate) state" where
  "txattrcreate_decode t = do {
     fid \<leftarrow> ReadFID;
     name \<leftarrow> ReadString;
     attrSize \<leftarrow> Read64;
     flags \<leftarrow> Read32;
     State_Monad.return (t\<lparr>txattrcreate_fid := fid, txattrcreate_Name := name,
       txattrcreate_AttrSize := attrSize, txattrcreate_Flags := flags\<rparr>) }"

definition txattrcreate_encode :: "txattrcreate \<Rightarrow> (buffer, unit) state" where
  "txattrcreate_encode t = do {
     WriteFID (txattrcreate_fid t);
     WriteString (txattrcreate_Name t);
     Write64 (txattrcreate_AttrSize t);
     Write32 (txattrcreate_Flags t) }"

definition txattrcreate_ok :: "txattrcreate \<Rightarrow> bool" where
  "txattrcreate_ok t \<longleftrightarrow> fid_ok (txattrcreate_fid t) \<and> string_ok (txattrcreate_Name t)"

interpretation txattrcreate: codec txattrcreate_encode txattrcreate_decode txattrcreate_ok
  by (unfold_locales; unfold txattrcreate_encode_def txattrcreate_decode_def txattrcreate_ok_def)
    (intro writer_intros reader_intros | simp add: wire_simps writer_intros)+

type_synonym rxattrcreate = unit

definition rxattrcreate_decode :: "rxattrcreate \<Rightarrow> (buffer, rxattrcreate) state" where
  "rxattrcreate_decode r = State_Monad.return r"

definition rxattrcreate_encode :: "rxattrcreate \<Rightarrow> (buffer, unit) state" where
  "rxattrcreate_encode r = State_Monad.return ()"

interpretation rxattrcreate: codec rxattrcreate_encode rxattrcreate_decode "\<lambda>_. True"
  by (unfold_locales; unfold rxattrcreate_encode_def rxattrcreate_decode_def)
    (intro writer_intros reader_intros | simp add: wire_simps writer_intros)+

section \<open>Treaddir and Rreaddir\<close>

record treaddir =
  treaddir_Directory :: fid
  treaddir_Offset :: uint64
  treaddir_Count :: uint32

definition treaddir_zero :: treaddir where
  "treaddir_zero = \<lparr>treaddir_Directory = 0, treaddir_Offset = 0, treaddir_Count = 0\<rparr>"

definition treaddir_decode :: "treaddir \<Rightarrow> (buffer, treaddir) state" where
  "treaddir_decode t = do {
     directory \<leftarrow> ReadFID;
     offset \<leftarrow> Read64;
     count \<leftarrow> Read32;
     State_Monad.return (t\<lparr>treaddir_Directory := directory, treaddir_Offset := offset,
       treaddir_Count := count\<rparr>) }"

definition treaddir_encode :: "treaddir \<Rightarrow> (buffer, unit) state" where
  "treaddir_encode t = do {
     WriteFID (treaddir_Directory t);
     Write64 (treaddir_Offset t);
     Write32 (treaddir_Count t) }"

definition treaddir_ok :: "treaddir \<Rightarrow> bool" where
  "treaddir_ok t \<longleftrightarrow> fid_ok (treaddir_Directory t)"

interpretation treaddir: codec treaddir_encode treaddir_decode treaddir_ok
  by (unfold_locales; unfold treaddir_encode_def treaddir_decode_def treaddir_ok_def)
    (intro writer_intros reader_intros | simp add: wire_simps writer_intros)+

record rreaddir =
  rreaddir_Count :: uint32
  rreaddir_Entries :: "Dirent list"
  rreaddir_payload :: "byte list"

definition rreaddir_zero :: rreaddir where
  "rreaddir_zero = \<lparr>rreaddir_Count = 0, rreaddir_Entries = [], rreaddir_payload = []\<rparr>"
text \<open>
  The loop of \<^verbatim>\<open>decode\<close> reads entries until one overruns the payload. It ends because an
  entry that does not overrun consumes at least its type byte.
\<close>

lemma consuming_Dirent_decode: "consuming (Dirent_decode d)"
proof -
  have "consuming ReadQIDType"
    unfolding ReadQIDType_def by (intro consuming_Read8)
  then have "consuming (QID_decode q)" for q
    unfolding QID_decode_def by (intro consuming_bind reader_intros)
  then show ?thesis
    unfolding Dirent_decode_def by (intro consuming_bind reader_intros)
qed

function decode_entries :: "buffer \<Rightarrow> Dirent list" where
  "decode_entries entriesBuf =
     (case run_state (Dirent_decode Dirent_zero) entriesBuf of
        (d, entriesBuf') \<Rightarrow>
          if isOverrun entriesBuf' then [] else d # decode_entries entriesBuf')"
  by auto

termination
  by (relation "measure (\<lambda>b. length (data b))")
    (auto simp: isOverrun_def intro: consuming_less [OF consuming_Dirent_decode] sym)

declare decode_entries.simps [simp del]

definition rreaddir_decode :: "rreaddir \<Rightarrow> (buffer, rreaddir) state" where
  "rreaddir_decode r = do {
     count \<leftarrow> Read32;
     State_Monad.return (r\<lparr>rreaddir_Count := count,
       rreaddir_Entries := decode_entries \<lparr>data = rreaddir_payload r, overflow = False\<rparr>\<rparr>) }"

text \<open>
  The loop of \<^verbatim>\<open>encode\<close>: entries are appended until the buffer exceeds the byte limit;
  \<open>payloadSize\<close> is the length up to the last entry that fitted.
\<close>

fun encode_entries :: "uint32 \<Rightarrow> Dirent list \<Rightarrow> buffer \<Rightarrow> nat \<Rightarrow> buffer \<times> nat" where
  "encode_entries count [] entriesBuf payloadSize = (entriesBuf, payloadSize)"
| "encode_entries count (d # ds) entriesBuf payloadSize =
     (let entriesBuf = snd (run_state (Dirent_encode d) entriesBuf) in
      if length (data entriesBuf) > unat count then (entriesBuf, payloadSize)
      else encode_entries count ds entriesBuf (length (data entriesBuf)))"

definition rreaddir_encode :: "rreaddir \<Rightarrow> (buffer, rreaddir) state" where
  "rreaddir_encode r =
     (case encode_entries (rreaddir_Count r) (rreaddir_Entries r) empty_buffer 0 of
        (entriesBuf, payloadSize) \<Rightarrow>
          let r = r\<lparr>rreaddir_Count := of_nat payloadSize,
                    rreaddir_payload := take payloadSize (data entriesBuf)\<rparr>
          in do { Write32 (rreaddir_Count r); State_Monad.return r })"

definition rreaddir_FixedSize :: uint32 where
  "rreaddir_FixedSize = 4"

definition rreaddir_Payload :: "rreaddir \<Rightarrow> byte list" where
  "rreaddir_Payload r = rreaddir_payload r"

definition rreaddir_SetPayload :: "byte list \<Rightarrow> rreaddir \<Rightarrow> rreaddir" where
  "rreaddir_SetPayload p r = r\<lparr>rreaddir_payload := p\<rparr>"

text \<open>
  The specification of the cut: the longest prefix of the entries whose encoding has at most
  \<open>limit\<close> bytes.
\<close>

fun fitting :: "nat \<Rightarrow> Dirent list \<Rightarrow> Dirent list" where
  "fitting limit [] = []"
| "fitting limit (d # ds) =
     (let n = length (encoded (Dirent_encode d)) in
      if n > limit then [] else d # fitting (limit - n) ds)"

definition entries_bytes :: "Dirent list \<Rightarrow> byte list" where
  "entries_bytes ds = concat (map (\<lambda>d. encoded (Dirent_encode d)) ds)"

lemma entries_bytes_simps [simp]:
  "entries_bytes [] = []"
  "entries_bytes (d # ds) = encoded (Dirent_encode d) @ entries_bytes ds"
  by (simp_all add: entries_bytes_def)

lemma fitting_length: "length (entries_bytes (fitting limit ds)) \<le> limit"
proof (induction ds arbitrary: limit)
  case (Cons d ds)
  from Cons.IH [of "limit - length (encoded (Dirent_encode d))"] show ?case
    by (auto simp: Let_def)
qed simp

lemma fitting_prefix: "\<exists>rest. ds = fitting limit ds @ rest"
  by (induction ds arbitrary: limit) (auto simp: Let_def)

lemma fitting_maximal:
  "ds = fitting limit ds @ d # rest \<Longrightarrow> length (entries_bytes (fitting limit ds @ [d])) > limit"
  by (induction ds arbitrary: limit) (force simp: Let_def split: if_splits)+

lemma fitting_set: "set (fitting limit ds) \<subseteq> set ds"
  by (induction ds arbitrary: limit) (auto simp: Let_def)

lemma encode_entries_spec:
  assumes "payloadSize = length (data b)" and "length (data b) \<le> unat count"
  shows "\<exists>rest ov. encode_entries count ds b payloadSize =
    (\<lparr>data = data b @ entries_bytes (fitting (unat count - length (data b)) ds) @ rest, overflow = ov\<rparr>,
     length (data b) + length (entries_bytes (fitting (unat count - length (data b)) ds)))"
  using assms
proof (induction ds arbitrary: b payloadSize)
  case Nil
  then show ?case by (cases b) auto
next
  case (Cons d ds)
  let ?b = "b\<lparr>data := data b @ encoded (Dirent_encode d)\<rparr>"
  have b: "snd (run_state (Dirent_encode d) b) = ?b" by (simp add: Dirent.enc_run)
  show ?case
  proof (cases "length (data ?b) > unat count")
    case True
    then have "length (encoded (Dirent_encode d)) > unat count - length (data b)"
      using Cons.prems by simp
    with True Cons.prems show ?thesis by (cases b) (simp add: Dirent.enc_run Let_def)
  next
    case False
    then have le: "length (data ?b) \<le> unat count" by simp
    then have nfit: "\<not> length (encoded (Dirent_encode d)) > unat count - length (data b)" by simp
    from Cons.IH [OF refl le] show ?thesis
      using False nfit by (simp add: b Let_def add.assoc)
  qed
qed

lemma decode_entries_spec:
  "\<forall>d\<in>set ds. string_ok (Dirent_Name d) \<Longrightarrow>
   decode_entries \<lparr>data = entries_bytes ds, overflow = False\<rparr> = ds"
proof (induction ds)
  case Nil
  have "overflow (snd (run_state (Dirent_decode Dirent_zero) \<lparr>data = [], overflow = False\<rparr>))"
    using consuming_Dirent_decode [unfolded consuming_def, rule_format,
        of Dirent_zero "\<lparr>data = [], overflow = False\<rparr>"] by auto
  then show ?case
    by (subst decode_entries.simps) (auto simp: isOverrun_def split: prod.split)
next
  case (Cons d ds)
  then show ?case
    by (subst decode_entries.simps) (simp add: Dirent.dec_enc isOverrun_def)
qed

text \<open>The message a receiver obtains from an encoded \<^verbatim>\<open>rreaddir\<close>.\<close>

definition rreaddir_sent :: "rreaddir \<Rightarrow> rreaddir" where
  "rreaddir_sent r =
     (let es = fitting (unat (rreaddir_Count r)) (rreaddir_Entries r) in
      \<lparr>rreaddir_Count = of_nat (length (entries_bytes es)), rreaddir_Entries = es,
       rreaddir_payload = entries_bytes es\<rparr>)"

definition rreaddir_ok :: "rreaddir \<Rightarrow> bool" where
  "rreaddir_ok r \<longleftrightarrow> (\<forall>d\<in>set (rreaddir_Entries r). string_ok (Dirent_Name d))"

lemma rreaddir_encode_run:
  "run_state (rreaddir_encode r) b =
     (r\<lparr>rreaddir_Count := rreaddir_Count (rreaddir_sent r),
        rreaddir_payload := rreaddir_payload (rreaddir_sent r)\<rparr>,
      b\<lparr>data := data b @ put_le 4 (rreaddir_Count (rreaddir_sent r))\<rparr>)"
proof -
  obtain rest ov where
    "encode_entries (rreaddir_Count r) (rreaddir_Entries r) empty_buffer 0 =
      (\<lparr>data = entries_bytes (fitting (unat (rreaddir_Count r)) (rreaddir_Entries r)) @ rest, overflow = ov\<rparr>,
       length (entries_bytes (fitting (unat (rreaddir_Count r)) (rreaddir_Entries r))))"
    using encode_entries_spec [of 0 empty_buffer "rreaddir_Count r" "rreaddir_Entries r"]
    by (auto simp: empty_buffer_def)
  then show ?thesis
    by (simp add: rreaddir_encode_def rreaddir_sent_def Let_def writer_run [OF writer_primitives(3)]
        encoded_primitives)
qed

interpretation rreaddir: payload_codec rreaddir_encode rreaddir_decode
  rreaddir_Payload rreaddir_SetPayload rreaddir_FixedSize rreaddir_sent rreaddir_ok
proof
  fix x y :: rreaddir and r f
  assume "rreaddir_ok x"
  then have "\<forall>d\<in>set (fitting (unat (rreaddir_Count x)) (rreaddir_Entries x)). string_ok (Dirent_Name d)"
    using fitting_set by (fastforce simp: rreaddir_ok_def)
  then show "run_state (rreaddir_decode (rreaddir_SetPayload
      (rreaddir_Payload (fst (run_state (rreaddir_encode x) empty_buffer))) y))
      \<lparr>data = data (snd (run_state (rreaddir_encode x) empty_buffer)) @ r, overflow = f\<rparr>
      = (rreaddir_sent x, \<lparr>data = r, overflow = f\<rparr>)"
    by (simp add: rreaddir_encode_run rreaddir_decode_def rreaddir_Payload_def rreaddir_SetPayload_def
        empty_buffer_def Read_put_le rreaddir_sent_def decode_entries_spec Let_def)
qed (simp_all add: rreaddir_encode_run empty_buffer_def rreaddir_FixedSize_def)


section \<open>Tfsync and Rfsync\<close>

record tfsync =
  tfsync_fid :: fid

definition tfsync_zero :: tfsync where
  "tfsync_zero = \<lparr>tfsync_fid = 0\<rparr>"

definition tfsync_decode :: "tfsync \<Rightarrow> (buffer, tfsync) state" where
  "tfsync_decode t = do {
     fid \<leftarrow> ReadFID;
     State_Monad.return (t\<lparr>tfsync_fid := fid\<rparr>) }"

definition tfsync_encode :: "tfsync \<Rightarrow> (buffer, unit) state" where
  "tfsync_encode t = WriteFID (tfsync_fid t)"

definition tfsync_ok :: "tfsync \<Rightarrow> bool" where
  "tfsync_ok t \<longleftrightarrow> fid_ok (tfsync_fid t)"

interpretation tfsync: codec tfsync_encode tfsync_decode tfsync_ok
  by (unfold_locales; unfold tfsync_encode_def tfsync_decode_def tfsync_ok_def)
    (intro writer_intros reader_intros | simp add: wire_simps writer_intros)+

type_synonym rfsync = unit

definition rfsync_decode :: "rfsync \<Rightarrow> (buffer, rfsync) state" where
  "rfsync_decode r = State_Monad.return r"

definition rfsync_encode :: "rfsync \<Rightarrow> (buffer, unit) state" where
  "rfsync_encode r = State_Monad.return ()"

interpretation rfsync: codec rfsync_encode rfsync_decode "\<lambda>_. True"
  by (unfold_locales; unfold rfsync_encode_def rfsync_decode_def)
    (intro writer_intros reader_intros | simp add: wire_simps writer_intros)+

section \<open>Tstatfs and Rstatfs\<close>

record tstatfs =
  tstatfs_fid :: fid

definition tstatfs_zero :: tstatfs where
  "tstatfs_zero = \<lparr>tstatfs_fid = 0\<rparr>"

definition tstatfs_decode :: "tstatfs \<Rightarrow> (buffer, tstatfs) state" where
  "tstatfs_decode t = do {
     fid \<leftarrow> ReadFID;
     State_Monad.return (t\<lparr>tstatfs_fid := fid\<rparr>) }"

definition tstatfs_encode :: "tstatfs \<Rightarrow> (buffer, unit) state" where
  "tstatfs_encode t = WriteFID (tstatfs_fid t)"

definition tstatfs_ok :: "tstatfs \<Rightarrow> bool" where
  "tstatfs_ok t \<longleftrightarrow> fid_ok (tstatfs_fid t)"

interpretation tstatfs: codec tstatfs_encode tstatfs_decode tstatfs_ok
  by (unfold_locales; unfold tstatfs_encode_def tstatfs_decode_def tstatfs_ok_def)
    (intro writer_intros reader_intros | simp add: wire_simps writer_intros)+

record rstatfs =
  rstatfs_FSStat :: FSStat

definition rstatfs_zero :: rstatfs where
  "rstatfs_zero = \<lparr>rstatfs_FSStat = FSStat_zero\<rparr>"

definition rstatfs_decode :: "rstatfs \<Rightarrow> (buffer, rstatfs) state" where
  "rstatfs_decode r = do {
     fsstat \<leftarrow> FSStat_decode (rstatfs_FSStat r);
     State_Monad.return (r\<lparr>rstatfs_FSStat := fsstat\<rparr>) }"

definition rstatfs_encode :: "rstatfs \<Rightarrow> (buffer, unit) state" where
  "rstatfs_encode r = FSStat_encode (rstatfs_FSStat r)"

interpretation rstatfs: codec rstatfs_encode rstatfs_decode "\<lambda>_. True"
  by (unfold_locales; unfold rstatfs_encode_def rstatfs_decode_def)
    (intro writer_intros reader_intros | simp add: wire_simps writer_intros)+

section \<open>Twalkgetattr and Rwalkgetattr\<close>

record twalkgetattr =
  twalkgetattr_fid :: fid
  twalkgetattr_newFID :: fid
  twalkgetattr_Names :: "string list"

definition twalkgetattr_zero :: twalkgetattr where
  "twalkgetattr_zero = \<lparr>twalkgetattr_fid = 0, twalkgetattr_newFID = 0, twalkgetattr_Names = []\<rparr>"

definition twalkgetattr_decode :: "twalkgetattr \<Rightarrow> (buffer, twalkgetattr) state" where
  "twalkgetattr_decode t = do {
     fid \<leftarrow> ReadFID;
     newFID \<leftarrow> ReadFID;
     n \<leftarrow> Read16;
     names \<leftarrow> read_times ReadString (unat n);
     State_Monad.return (t\<lparr>twalkgetattr_fid := fid, twalkgetattr_newFID := newFID,
       twalkgetattr_Names := names\<rparr>) }"

definition twalkgetattr_encode :: "twalkgetattr \<Rightarrow> (buffer, unit) state" where
  "twalkgetattr_encode t = do {
     WriteFID (twalkgetattr_fid t);
     WriteFID (twalkgetattr_newFID t);
     Write16 (of_nat (length (twalkgetattr_Names t)));
     write_each WriteString (twalkgetattr_Names t) }"

definition twalkgetattr_ok :: "twalkgetattr \<Rightarrow> bool" where
  "twalkgetattr_ok t \<longleftrightarrow> fid_ok (twalkgetattr_fid t) \<and> fid_ok (twalkgetattr_newFID t) \<and>
     length (twalkgetattr_Names t) < 65536 \<and> (\<forall>s\<in>set (twalkgetattr_Names t). string_ok s)"

interpretation twalkgetattr: codec twalkgetattr_encode twalkgetattr_decode twalkgetattr_ok
  by (unfold_locales; unfold twalkgetattr_encode_def twalkgetattr_decode_def twalkgetattr_ok_def)
    (intro writer_intros reader_intros | simp add: wire_simps writer_intros)+

record rwalkgetattr =
  rwalkgetattr_Valid :: AttrMask
  rwalkgetattr_Attr :: Attr
  rwalkgetattr_QIDs :: "QID list"

definition rwalkgetattr_zero :: rwalkgetattr where
  "rwalkgetattr_zero = \<lparr>rwalkgetattr_Valid = AttrMask_zero, rwalkgetattr_Attr = Attr_zero,
     rwalkgetattr_QIDs = []\<rparr>"

definition rwalkgetattr_decode :: "rwalkgetattr \<Rightarrow> (buffer, rwalkgetattr) state" where
  "rwalkgetattr_decode r = do {
     valid \<leftarrow> AttrMask_decode (rwalkgetattr_Valid r);
     attr \<leftarrow> Attr_decode (rwalkgetattr_Attr r);
     n \<leftarrow> Read16;
     qids \<leftarrow> read_times (QID_decode QID_zero) (unat n);
     State_Monad.return (r\<lparr>rwalkgetattr_Valid := valid, rwalkgetattr_Attr := attr,
       rwalkgetattr_QIDs := qids\<rparr>) }"

definition rwalkgetattr_encode :: "rwalkgetattr \<Rightarrow> (buffer, unit) state" where
  "rwalkgetattr_encode r = do {
     AttrMask_encode (rwalkgetattr_Valid r);
     Attr_encode (rwalkgetattr_Attr r);
     Write16 (of_nat (length (rwalkgetattr_QIDs r)));
     write_each QID_encode (rwalkgetattr_QIDs r) }"

definition rwalkgetattr_ok :: "rwalkgetattr \<Rightarrow> bool" where
  "rwalkgetattr_ok r \<longleftrightarrow> length (rwalkgetattr_QIDs r) < 65536"

interpretation rwalkgetattr: codec rwalkgetattr_encode rwalkgetattr_decode rwalkgetattr_ok
  by (unfold_locales; unfold rwalkgetattr_encode_def rwalkgetattr_decode_def rwalkgetattr_ok_def)
    (intro writer_intros reader_intros | simp add: wire_simps writer_intros)+

section \<open>Tucreate and Rucreate\<close>

record tucreate =
  tucreate_tlcreate :: tlcreate
  tucreate_UID :: UID

definition tucreate_zero :: tucreate where
  "tucreate_zero = \<lparr>tucreate_tlcreate = tlcreate_zero, tucreate_UID = 0\<rparr>"

definition tucreate_decode :: "tucreate \<Rightarrow> (buffer, tucreate) state" where
  "tucreate_decode t = do {
     tlcreate \<leftarrow> tlcreate_decode (tucreate_tlcreate t);
     uid \<leftarrow> ReadUID;
     State_Monad.return (t\<lparr>tucreate_tlcreate := tlcreate, tucreate_UID := uid\<rparr>) }"

definition tucreate_encode :: "tucreate \<Rightarrow> (buffer, unit) state" where
  "tucreate_encode t = do {
     tlcreate_encode (tucreate_tlcreate t);
     WriteUID (tucreate_UID t) }"

definition tucreate_ok :: "tucreate \<Rightarrow> bool" where
  "tucreate_ok t \<longleftrightarrow> tlcreate_ok (tucreate_tlcreate t)"

interpretation tucreate: codec tucreate_encode tucreate_decode tucreate_ok
  by (unfold_locales; unfold tucreate_encode_def tucreate_decode_def tucreate_ok_def)
    (intro writer_intros reader_intros | simp add: wire_simps writer_intros)+

record rucreate =
  rucreate_rlcreate :: rlcreate

definition rucreate_zero :: rucreate where
  "rucreate_zero = \<lparr>rucreate_rlcreate = rlcreate_zero\<rparr>"

definition rucreate_decode :: "rucreate \<Rightarrow> (buffer, rucreate) state" where
  "rucreate_decode r = do {
     rlcreate \<leftarrow> rlcreate_decode (rucreate_rlcreate r);
     State_Monad.return (r\<lparr>rucreate_rlcreate := rlcreate\<rparr>) }"

definition rucreate_encode :: "rucreate \<Rightarrow> (buffer, unit) state" where
  "rucreate_encode r = rlcreate_encode (rucreate_rlcreate r)"

interpretation rucreate: codec rucreate_encode rucreate_decode "\<lambda>_. True"
  by (unfold_locales; unfold rucreate_encode_def rucreate_decode_def)
    (intro writer_intros reader_intros | simp add: wire_simps writer_intros)+

section \<open>Tumkdir and Rumkdir\<close>

record tumkdir =
  tumkdir_tmkdir :: tmkdir
  tumkdir_UID :: UID

definition tumkdir_zero :: tumkdir where
  "tumkdir_zero = \<lparr>tumkdir_tmkdir = tmkdir_zero, tumkdir_UID = 0\<rparr>"

definition tumkdir_decode :: "tumkdir \<Rightarrow> (buffer, tumkdir) state" where
  "tumkdir_decode t = do {
     tmkdir \<leftarrow> tmkdir_decode (tumkdir_tmkdir t);
     uid \<leftarrow> ReadUID;
     State_Monad.return (t\<lparr>tumkdir_tmkdir := tmkdir, tumkdir_UID := uid\<rparr>) }"

definition tumkdir_encode :: "tumkdir \<Rightarrow> (buffer, unit) state" where
  "tumkdir_encode t = do {
     tmkdir_encode (tumkdir_tmkdir t);
     WriteUID (tumkdir_UID t) }"

definition tumkdir_ok :: "tumkdir \<Rightarrow> bool" where
  "tumkdir_ok t \<longleftrightarrow> tmkdir_ok (tumkdir_tmkdir t)"

interpretation tumkdir: codec tumkdir_encode tumkdir_decode tumkdir_ok
  by (unfold_locales; unfold tumkdir_encode_def tumkdir_decode_def tumkdir_ok_def)
    (intro writer_intros reader_intros | simp add: wire_simps writer_intros)+

record rumkdir =
  rumkdir_rmkdir :: rmkdir

definition rumkdir_zero :: rumkdir where
  "rumkdir_zero = \<lparr>rumkdir_rmkdir = rmkdir_zero\<rparr>"

definition rumkdir_decode :: "rumkdir \<Rightarrow> (buffer, rumkdir) state" where
  "rumkdir_decode r = do {
     rmkdir \<leftarrow> rmkdir_decode (rumkdir_rmkdir r);
     State_Monad.return (r\<lparr>rumkdir_rmkdir := rmkdir\<rparr>) }"

definition rumkdir_encode :: "rumkdir \<Rightarrow> (buffer, unit) state" where
  "rumkdir_encode r = rmkdir_encode (rumkdir_rmkdir r)"

interpretation rumkdir: codec rumkdir_encode rumkdir_decode "\<lambda>_. True"
  by (unfold_locales; unfold rumkdir_encode_def rumkdir_decode_def)
    (intro writer_intros reader_intros | simp add: wire_simps writer_intros)+

section \<open>Tumknod and Rumknod\<close>

record tumknod =
  tumknod_tmknod :: tmknod
  tumknod_UID :: UID

definition tumknod_zero :: tumknod where
  "tumknod_zero = \<lparr>tumknod_tmknod = tmknod_zero, tumknod_UID = 0\<rparr>"

definition tumknod_decode :: "tumknod \<Rightarrow> (buffer, tumknod) state" where
  "tumknod_decode t = do {
     tmknod \<leftarrow> tmknod_decode (tumknod_tmknod t);
     uid \<leftarrow> ReadUID;
     State_Monad.return (t\<lparr>tumknod_tmknod := tmknod, tumknod_UID := uid\<rparr>) }"

definition tumknod_encode :: "tumknod \<Rightarrow> (buffer, unit) state" where
  "tumknod_encode t = do {
     tmknod_encode (tumknod_tmknod t);
     WriteUID (tumknod_UID t) }"

definition tumknod_ok :: "tumknod \<Rightarrow> bool" where
  "tumknod_ok t \<longleftrightarrow> tmknod_ok (tumknod_tmknod t)"

interpretation tumknod: codec tumknod_encode tumknod_decode tumknod_ok
  by (unfold_locales; unfold tumknod_encode_def tumknod_decode_def tumknod_ok_def)
    (intro writer_intros reader_intros | simp add: wire_simps writer_intros)+

record rumknod =
  rumknod_rmknod :: rmknod

definition rumknod_zero :: rumknod where
  "rumknod_zero = \<lparr>rumknod_rmknod = rmknod_zero\<rparr>"

definition rumknod_decode :: "rumknod \<Rightarrow> (buffer, rumknod) state" where
  "rumknod_decode r = do {
     rmknod \<leftarrow> rmknod_decode (rumknod_rmknod r);
     State_Monad.return (r\<lparr>rumknod_rmknod := rmknod\<rparr>) }"

definition rumknod_encode :: "rumknod \<Rightarrow> (buffer, unit) state" where
  "rumknod_encode r = rmknod_encode (rumknod_rmknod r)"

interpretation rumknod: codec rumknod_encode rumknod_decode "\<lambda>_. True"
  by (unfold_locales; unfold rumknod_encode_def rumknod_decode_def)
    (intro writer_intros reader_intros | simp add: wire_simps writer_intros)+

section \<open>Tusymlink and Rusymlink\<close>

record tusymlink =
  tusymlink_tsymlink :: tsymlink
  tusymlink_UID :: UID

definition tusymlink_zero :: tusymlink where
  "tusymlink_zero = \<lparr>tusymlink_tsymlink = tsymlink_zero, tusymlink_UID = 0\<rparr>"

definition tusymlink_decode :: "tusymlink \<Rightarrow> (buffer, tusymlink) state" where
  "tusymlink_decode t = do {
     tsymlink \<leftarrow> tsymlink_decode (tusymlink_tsymlink t);
     uid \<leftarrow> ReadUID;
     State_Monad.return (t\<lparr>tusymlink_tsymlink := tsymlink, tusymlink_UID := uid\<rparr>) }"

definition tusymlink_encode :: "tusymlink \<Rightarrow> (buffer, unit) state" where
  "tusymlink_encode t = do {
     tsymlink_encode (tusymlink_tsymlink t);
     WriteUID (tusymlink_UID t) }"

definition tusymlink_ok :: "tusymlink \<Rightarrow> bool" where
  "tusymlink_ok t \<longleftrightarrow> tsymlink_ok (tusymlink_tsymlink t)"

interpretation tusymlink: codec tusymlink_encode tusymlink_decode tusymlink_ok
  by (unfold_locales; unfold tusymlink_encode_def tusymlink_decode_def tusymlink_ok_def)
    (intro writer_intros reader_intros | simp add: wire_simps writer_intros)+

record rusymlink =
  rusymlink_rsymlink :: rsymlink

definition rusymlink_zero :: rusymlink where
  "rusymlink_zero = \<lparr>rusymlink_rsymlink = rsymlink_zero\<rparr>"

definition rusymlink_decode :: "rusymlink \<Rightarrow> (buffer, rusymlink) state" where
  "rusymlink_decode r = do {
     rsymlink \<leftarrow> rsymlink_decode (rusymlink_rsymlink r);
     State_Monad.return (r\<lparr>rusymlink_rsymlink := rsymlink\<rparr>) }"

definition rusymlink_encode :: "rusymlink \<Rightarrow> (buffer, unit) state" where
  "rusymlink_encode r = rsymlink_encode (rusymlink_rsymlink r)"

interpretation rusymlink: codec rusymlink_encode rusymlink_decode "\<lambda>_. True"
  by (unfold_locales; unfold rusymlink_encode_def rusymlink_decode_def)
    (intro writer_intros reader_intros | simp add: wire_simps writer_intros)+

section \<open>Tlock and Rlock\<close>

type_synonym LockType = uint8
type_synonym LockFlags = uint32
type_synonym LockStatus = uint8

definition ReadLock :: LockType where "ReadLock = 0"
definition WriteLock :: LockType where "WriteLock = 1"
definition Unlock :: LockType where "Unlock = 2"

definition LockFlagsBlock :: LockFlags where "LockFlagsBlock = 1"
definition LockFlagsReclaim :: LockFlags where "LockFlagsReclaim = 2"

definition LockStatusOK :: LockStatus where "LockStatusOK = 0"
definition LockStatusBlocked :: LockStatus where "LockStatusBlocked = 1"
definition LockStatusError :: LockStatus where "LockStatusError = 2"
definition LockStatusGrace :: LockStatus where "LockStatusGrace = 3"

record tlock =
  tlock_fid :: fid
  tlock_Type :: LockType
  tlock_Flags :: LockFlags
  tlock_Start :: uint64
  tlock_Length :: uint64
  tlock_PID :: uint32
  tlock_Client :: string

definition tlock_zero :: tlock where
  "tlock_zero = \<lparr>tlock_fid = 0, tlock_Type = 0, tlock_Flags = 0, tlock_Start = 0,
     tlock_Length = 0, tlock_PID = 0, tlock_Client = []\<rparr>"

definition tlock_decode :: "tlock \<Rightarrow> (buffer, tlock) state" where
  "tlock_decode t = do {
     fid \<leftarrow> ReadFID;
     type \<leftarrow> Read8;
     flags \<leftarrow> Read32;
     start \<leftarrow> Read64;
     length \<leftarrow> Read64;
     pid \<leftarrow> Read32;
     client \<leftarrow> ReadString;
     State_Monad.return (t\<lparr>tlock_fid := fid, tlock_Type := type, tlock_Flags := flags,
       tlock_Start := start, tlock_Length := length, tlock_PID := pid, tlock_Client := client\<rparr>) }"

definition tlock_encode :: "tlock \<Rightarrow> (buffer, unit) state" where
  "tlock_encode t = do {
     WriteFID (tlock_fid t);
     Write8 (tlock_Type t);
     Write32 (tlock_Flags t);
     Write64 (tlock_Start t);
     Write64 (tlock_Length t);
     Write32 (tlock_PID t);
     WriteString (tlock_Client t) }"

definition tlock_ok :: "tlock \<Rightarrow> bool" where
  "tlock_ok t \<longleftrightarrow> fid_ok (tlock_fid t) \<and> string_ok (tlock_Client t)"

interpretation tlock: codec tlock_encode tlock_decode tlock_ok
  by (unfold_locales; unfold tlock_encode_def tlock_decode_def tlock_ok_def)
    (intro writer_intros reader_intros | simp add: wire_simps writer_intros)+

record rlock =
  rlock_Status :: LockStatus

definition rlock_zero :: rlock where
  "rlock_zero = \<lparr>rlock_Status = 0\<rparr>"

definition rlock_decode :: "rlock \<Rightarrow> (buffer, rlock) state" where
  "rlock_decode r = do {
     status \<leftarrow> Read8;
     State_Monad.return (r\<lparr>rlock_Status := status\<rparr>) }"

definition rlock_encode :: "rlock \<Rightarrow> (buffer, unit) state" where
  "rlock_encode r = Write8 (rlock_Status r)"

interpretation rlock: codec rlock_encode rlock_decode "\<lambda>_. True"
  by (unfold_locales; unfold rlock_encode_def rlock_decode_def)
    (intro writer_intros reader_intros | simp add: wire_simps writer_intros)+

end
