(* ===== verification/P9_Messages.thy ===== *)
theory P9_Messages
  imports P9_MsgIO
begin

text \<open>
  The 9P2000.L messages of \<^verbatim>\<open>p9/messages.go\<close> as one datatype, with the \<^verbatim>\<open>message\<close> and
  \<^verbatim>\<open>payloader\<close> interfaces as functions on it, and the registry that creates and caches message
  instances by type. The main facts: decoding an encoded message gives the message back for
  every constructor, and the registry only ever hands out a message of the requested type.
\<close>

section \<open>Message types\<close>

definition msgRlerror :: msgType where "msgRlerror = 7"
definition msgTstatfs :: msgType where "msgTstatfs = 8"
definition msgRstatfs :: msgType where "msgRstatfs = 9"
definition msgTlopen :: msgType where "msgTlopen = 12"
definition msgRlopen :: msgType where "msgRlopen = 13"
definition msgTlcreate :: msgType where "msgTlcreate = 14"
definition msgRlcreate :: msgType where "msgRlcreate = 15"
definition msgTsymlink :: msgType where "msgTsymlink = 16"
definition msgRsymlink :: msgType where "msgRsymlink = 17"
definition msgTmknod :: msgType where "msgTmknod = 18"
definition msgRmknod :: msgType where "msgRmknod = 19"
definition msgTrename :: msgType where "msgTrename = 20"
definition msgRrename :: msgType where "msgRrename = 21"
definition msgTreadlink :: msgType where "msgTreadlink = 22"
definition msgRreadlink :: msgType where "msgRreadlink = 23"
definition msgTgetattr :: msgType where "msgTgetattr = 24"
definition msgRgetattr :: msgType where "msgRgetattr = 25"
definition msgTsetattr :: msgType where "msgTsetattr = 26"
definition msgRsetattr :: msgType where "msgRsetattr = 27"
definition msgTxattrwalk :: msgType where "msgTxattrwalk = 30"
definition msgRxattrwalk :: msgType where "msgRxattrwalk = 31"
definition msgTxattrcreate :: msgType where "msgTxattrcreate = 32"
definition msgRxattrcreate :: msgType where "msgRxattrcreate = 33"
definition msgTreaddir :: msgType where "msgTreaddir = 40"
definition msgRreaddir :: msgType where "msgRreaddir = 41"
definition msgTfsync :: msgType where "msgTfsync = 50"
definition msgRfsync :: msgType where "msgRfsync = 51"
definition msgTlock :: msgType where "msgTlock = 52"
definition msgRlock :: msgType where "msgRlock = 53"
definition msgTgetlock :: msgType where "msgTgetlock = 54"
definition msgRgetlock :: msgType where "msgRgetlock = 55"
definition msgTlink :: msgType where "msgTlink = 70"
definition msgRlink :: msgType where "msgRlink = 71"
definition msgTmkdir :: msgType where "msgTmkdir = 72"
definition msgRmkdir :: msgType where "msgRmkdir = 73"
definition msgTrenameat :: msgType where "msgTrenameat = 74"
definition msgRrenameat :: msgType where "msgRrenameat = 75"
definition msgTunlinkat :: msgType where "msgTunlinkat = 76"
definition msgRunlinkat :: msgType where "msgRunlinkat = 77"
definition msgTversion :: msgType where "msgTversion = 100"
definition msgRversion :: msgType where "msgRversion = 101"
definition msgTauth :: msgType where "msgTauth = 102"
definition msgRauth :: msgType where "msgRauth = 103"
definition msgTattach :: msgType where "msgTattach = 104"
definition msgRattach :: msgType where "msgRattach = 105"
definition msgTflush :: msgType where "msgTflush = 108"
definition msgRflush :: msgType where "msgRflush = 109"
definition msgTwalk :: msgType where "msgTwalk = 110"
definition msgRwalk :: msgType where "msgRwalk = 111"
definition msgTread :: msgType where "msgTread = 116"
definition msgRread :: msgType where "msgRread = 117"
definition msgTwrite :: msgType where "msgTwrite = 118"
definition msgRwrite :: msgType where "msgRwrite = 119"
definition msgTclunk :: msgType where "msgTclunk = 120"
definition msgRclunk :: msgType where "msgRclunk = 121"
definition msgTremove :: msgType where "msgTremove = 122"
definition msgRremove :: msgType where "msgRremove = 123"
definition msgTflushf :: msgType where "msgTflushf = 124"
definition msgRflushf :: msgType where "msgRflushf = 125"
definition msgTwalkgetattr :: msgType where "msgTwalkgetattr = 126"
definition msgRwalkgetattr :: msgType where "msgRwalkgetattr = 127"
definition msgTucreate :: msgType where "msgTucreate = 128"
definition msgRucreate :: msgType where "msgRucreate = 129"
definition msgTumkdir :: msgType where "msgTumkdir = 130"
definition msgRumkdir :: msgType where "msgRumkdir = 131"
definition msgTumknod :: msgType where "msgTumknod = 132"
definition msgRumknod :: msgType where "msgRumknod = 133"
definition msgTusymlink :: msgType where "msgTusymlink = 134"
definition msgRusymlink :: msgType where "msgRusymlink = 135"

lemmas msgType_defs =
  msgRlerror_def msgTstatfs_def msgRstatfs_def msgTlopen_def
  msgRlopen_def msgTlcreate_def msgRlcreate_def msgTsymlink_def
  msgRsymlink_def msgTmknod_def msgRmknod_def msgTrename_def
  msgRrename_def msgTreadlink_def msgRreadlink_def msgTgetattr_def
  msgRgetattr_def msgTsetattr_def msgRsetattr_def msgTxattrwalk_def
  msgRxattrwalk_def msgTxattrcreate_def msgRxattrcreate_def msgTreaddir_def
  msgRreaddir_def msgTfsync_def msgRfsync_def msgTlock_def
  msgRlock_def msgTgetlock_def msgRgetlock_def msgTlink_def
  msgRlink_def msgTmkdir_def msgRmkdir_def msgTrenameat_def
  msgRrenameat_def msgTunlinkat_def msgRunlinkat_def msgTversion_def
  msgRversion_def msgTauth_def msgRauth_def msgTattach_def
  msgRattach_def msgTflush_def msgRflush_def msgTwalk_def
  msgRwalk_def msgTread_def msgRread_def msgTwrite_def
  msgRwrite_def msgTclunk_def msgRclunk_def msgTremove_def
  msgRremove_def msgTflushf_def msgRflushf_def msgTwalkgetattr_def
  msgRwalkgetattr_def msgTucreate_def msgRucreate_def msgTumkdir_def
  msgRumkdir_def msgTumknod_def msgRumknod_def msgTusymlink_def
  msgRusymlink_def

section \<open>Messages\<close>

datatype (plugins only: code size) message =
    Tversion tversion
  | Rversion rversion
  | Tflush tflush
  | Rflush rflush
  | Twalk twalk
  | Rwalk rwalk
  | Tclunk tclunk
  | Rclunk rclunk
  | Tremove tremove
  | Rremove rremove
  | Rlerror rlerror
  | Tauth tauth
  | Rauth rauth
  | Tattach tattach
  | Rattach rattach
  | Tlopen tlopen
  | Rlopen rlopen
  | Tlcreate tlcreate
  | Rlcreate rlcreate
  | Tsymlink tsymlink
  | Rsymlink rsymlink
  | Tlink tlink
  | Rlink rlink
  | Trenameat trenameat
  | Rrenameat rrenameat
  | Tunlinkat tunlinkat
  | Runlinkat runlinkat
  | Trename trename
  | Rrename rrename
  | Treadlink treadlink
  | Rreadlink rreadlink
  | Tread tread
  | Rread rread
  | Twrite twrite
  | Rwrite rwrite
  | Tmknod tmknod
  | Rmknod rmknod
  | Tmkdir tmkdir
  | Rmkdir rmkdir
  | Tgetattr tgetattr
  | Rgetattr rgetattr
  | Tsetattr tsetattr
  | Rsetattr rsetattr
  | Txattrwalk txattrwalk
  | Rxattrwalk rxattrwalk
  | Txattrcreate txattrcreate
  | Rxattrcreate rxattrcreate
  | Treaddir treaddir
  | Rreaddir rreaddir
  | Tfsync tfsync
  | Rfsync rfsync
  | Tstatfs tstatfs
  | Rstatfs rstatfs
  | Twalkgetattr twalkgetattr
  | Rwalkgetattr rwalkgetattr
  | Tucreate tucreate
  | Rucreate rucreate
  | Tumkdir tumkdir
  | Rumkdir rumkdir
  | Tumknod tumknod
  | Rumknod rumknod
  | Tusymlink tusymlink
  | Rusymlink rusymlink
  | Tlock tlock
  | Rlock rlock

primrec msg_typ :: "message \<Rightarrow> msgType" where
    "msg_typ (Tversion m) = msgTversion"
  | "msg_typ (Rversion m) = msgRversion"
  | "msg_typ (Tflush m) = msgTflush"
  | "msg_typ (Rflush m) = msgRflush"
  | "msg_typ (Twalk m) = msgTwalk"
  | "msg_typ (Rwalk m) = msgRwalk"
  | "msg_typ (Tclunk m) = msgTclunk"
  | "msg_typ (Rclunk m) = msgRclunk"
  | "msg_typ (Tremove m) = msgTremove"
  | "msg_typ (Rremove m) = msgRremove"
  | "msg_typ (Rlerror m) = msgRlerror"
  | "msg_typ (Tauth m) = msgTauth"
  | "msg_typ (Rauth m) = msgRauth"
  | "msg_typ (Tattach m) = msgTattach"
  | "msg_typ (Rattach m) = msgRattach"
  | "msg_typ (Tlopen m) = msgTlopen"
  | "msg_typ (Rlopen m) = msgRlopen"
  | "msg_typ (Tlcreate m) = msgTlcreate"
  | "msg_typ (Rlcreate m) = msgRlcreate"
  | "msg_typ (Tsymlink m) = msgTsymlink"
  | "msg_typ (Rsymlink m) = msgRsymlink"
  | "msg_typ (Tlink m) = msgTlink"
  | "msg_typ (Rlink m) = msgRlink"
  | "msg_typ (Trenameat m) = msgTrenameat"
  | "msg_typ (Rrenameat m) = msgRrenameat"
  | "msg_typ (Tunlinkat m) = msgTunlinkat"
  | "msg_typ (Runlinkat m) = msgRunlinkat"
  | "msg_typ (Trename m) = msgTrename"
  | "msg_typ (Rrename m) = msgRrename"
  | "msg_typ (Treadlink m) = msgTreadlink"
  | "msg_typ (Rreadlink m) = msgRreadlink"
  | "msg_typ (Tread m) = msgTread"
  | "msg_typ (Rread m) = msgRread"
  | "msg_typ (Twrite m) = msgTwrite"
  | "msg_typ (Rwrite m) = msgRwrite"
  | "msg_typ (Tmknod m) = msgTmknod"
  | "msg_typ (Rmknod m) = msgRmknod"
  | "msg_typ (Tmkdir m) = msgTmkdir"
  | "msg_typ (Rmkdir m) = msgRmkdir"
  | "msg_typ (Tgetattr m) = msgTgetattr"
  | "msg_typ (Rgetattr m) = msgRgetattr"
  | "msg_typ (Tsetattr m) = msgTsetattr"
  | "msg_typ (Rsetattr m) = msgRsetattr"
  | "msg_typ (Txattrwalk m) = msgTxattrwalk"
  | "msg_typ (Rxattrwalk m) = msgRxattrwalk"
  | "msg_typ (Txattrcreate m) = msgTxattrcreate"
  | "msg_typ (Rxattrcreate m) = msgRxattrcreate"
  | "msg_typ (Treaddir m) = msgTreaddir"
  | "msg_typ (Rreaddir m) = msgRreaddir"
  | "msg_typ (Tfsync m) = msgTfsync"
  | "msg_typ (Rfsync m) = msgRfsync"
  | "msg_typ (Tstatfs m) = msgTstatfs"
  | "msg_typ (Rstatfs m) = msgRstatfs"
  | "msg_typ (Twalkgetattr m) = msgTwalkgetattr"
  | "msg_typ (Rwalkgetattr m) = msgRwalkgetattr"
  | "msg_typ (Tucreate m) = msgTucreate"
  | "msg_typ (Rucreate m) = msgRucreate"
  | "msg_typ (Tumkdir m) = msgTumkdir"
  | "msg_typ (Rumkdir m) = msgRumkdir"
  | "msg_typ (Tumknod m) = msgTumknod"
  | "msg_typ (Rumknod m) = msgRumknod"
  | "msg_typ (Tusymlink m) = msgTusymlink"
  | "msg_typ (Rusymlink m) = msgRusymlink"
  | "msg_typ (Tlock m) = msgTlock"
  | "msg_typ (Rlock m) = msgRlock"

text \<open>
  \<^verbatim>\<open>encode\<close> returns the message as it leaves it: only \<^verbatim>\<open>rreaddir\<close> changes itself.
\<close>

primrec encode :: "message \<Rightarrow> (buffer, message) state" where
    "encode (Tversion m) = do { tversion_encode m; State_Monad.return (Tversion m) }"
  | "encode (Rversion m) = do { rversion_encode m; State_Monad.return (Rversion m) }"
  | "encode (Tflush m) = do { tflush_encode m; State_Monad.return (Tflush m) }"
  | "encode (Rflush m) = do { rflush_encode m; State_Monad.return (Rflush m) }"
  | "encode (Twalk m) = do { twalk_encode m; State_Monad.return (Twalk m) }"
  | "encode (Rwalk m) = do { rwalk_encode m; State_Monad.return (Rwalk m) }"
  | "encode (Tclunk m) = do { tclunk_encode m; State_Monad.return (Tclunk m) }"
  | "encode (Rclunk m) = do { rclunk_encode m; State_Monad.return (Rclunk m) }"
  | "encode (Tremove m) = do { tremove_encode m; State_Monad.return (Tremove m) }"
  | "encode (Rremove m) = do { rremove_encode m; State_Monad.return (Rremove m) }"
  | "encode (Rlerror m) = do { rlerror_encode m; State_Monad.return (Rlerror m) }"
  | "encode (Tauth m) = do { tauth_encode m; State_Monad.return (Tauth m) }"
  | "encode (Rauth m) = do { rauth_encode m; State_Monad.return (Rauth m) }"
  | "encode (Tattach m) = do { tattach_encode m; State_Monad.return (Tattach m) }"
  | "encode (Rattach m) = do { rattach_encode m; State_Monad.return (Rattach m) }"
  | "encode (Tlopen m) = do { tlopen_encode m; State_Monad.return (Tlopen m) }"
  | "encode (Rlopen m) = do { rlopen_encode m; State_Monad.return (Rlopen m) }"
  | "encode (Tlcreate m) = do { tlcreate_encode m; State_Monad.return (Tlcreate m) }"
  | "encode (Rlcreate m) = do { rlcreate_encode m; State_Monad.return (Rlcreate m) }"
  | "encode (Tsymlink m) = do { tsymlink_encode m; State_Monad.return (Tsymlink m) }"
  | "encode (Rsymlink m) = do { rsymlink_encode m; State_Monad.return (Rsymlink m) }"
  | "encode (Tlink m) = do { tlink_encode m; State_Monad.return (Tlink m) }"
  | "encode (Rlink m) = do { rlink_encode m; State_Monad.return (Rlink m) }"
  | "encode (Trenameat m) = do { trenameat_encode m; State_Monad.return (Trenameat m) }"
  | "encode (Rrenameat m) = do { rrenameat_encode m; State_Monad.return (Rrenameat m) }"
  | "encode (Tunlinkat m) = do { tunlinkat_encode m; State_Monad.return (Tunlinkat m) }"
  | "encode (Runlinkat m) = do { runlinkat_encode m; State_Monad.return (Runlinkat m) }"
  | "encode (Trename m) = do { trename_encode m; State_Monad.return (Trename m) }"
  | "encode (Rrename m) = do { rrename_encode m; State_Monad.return (Rrename m) }"
  | "encode (Treadlink m) = do { treadlink_encode m; State_Monad.return (Treadlink m) }"
  | "encode (Rreadlink m) = do { rreadlink_encode m; State_Monad.return (Rreadlink m) }"
  | "encode (Tread m) = do { tread_encode m; State_Monad.return (Tread m) }"
  | "encode (Rread m) = do { rread_encode m; State_Monad.return (Rread m) }"
  | "encode (Twrite m) = do { twrite_encode m; State_Monad.return (Twrite m) }"
  | "encode (Rwrite m) = do { rwrite_encode m; State_Monad.return (Rwrite m) }"
  | "encode (Tmknod m) = do { tmknod_encode m; State_Monad.return (Tmknod m) }"
  | "encode (Rmknod m) = do { rmknod_encode m; State_Monad.return (Rmknod m) }"
  | "encode (Tmkdir m) = do { tmkdir_encode m; State_Monad.return (Tmkdir m) }"
  | "encode (Rmkdir m) = do { rmkdir_encode m; State_Monad.return (Rmkdir m) }"
  | "encode (Tgetattr m) = do { tgetattr_encode m; State_Monad.return (Tgetattr m) }"
  | "encode (Rgetattr m) = do { rgetattr_encode m; State_Monad.return (Rgetattr m) }"
  | "encode (Tsetattr m) = do { tsetattr_encode m; State_Monad.return (Tsetattr m) }"
  | "encode (Rsetattr m) = do { rsetattr_encode m; State_Monad.return (Rsetattr m) }"
  | "encode (Txattrwalk m) = do { txattrwalk_encode m; State_Monad.return (Txattrwalk m) }"
  | "encode (Rxattrwalk m) = do { rxattrwalk_encode m; State_Monad.return (Rxattrwalk m) }"
  | "encode (Txattrcreate m) = do { txattrcreate_encode m; State_Monad.return (Txattrcreate m) }"
  | "encode (Rxattrcreate m) = do { rxattrcreate_encode m; State_Monad.return (Rxattrcreate m) }"
  | "encode (Treaddir m) = do { treaddir_encode m; State_Monad.return (Treaddir m) }"
  | "encode (Rreaddir m) = do { r \<leftarrow> rreaddir_encode m; State_Monad.return (Rreaddir r) }"
  | "encode (Tfsync m) = do { tfsync_encode m; State_Monad.return (Tfsync m) }"
  | "encode (Rfsync m) = do { rfsync_encode m; State_Monad.return (Rfsync m) }"
  | "encode (Tstatfs m) = do { tstatfs_encode m; State_Monad.return (Tstatfs m) }"
  | "encode (Rstatfs m) = do { rstatfs_encode m; State_Monad.return (Rstatfs m) }"
  | "encode (Twalkgetattr m) = do { twalkgetattr_encode m; State_Monad.return (Twalkgetattr m) }"
  | "encode (Rwalkgetattr m) = do { rwalkgetattr_encode m; State_Monad.return (Rwalkgetattr m) }"
  | "encode (Tucreate m) = do { tucreate_encode m; State_Monad.return (Tucreate m) }"
  | "encode (Rucreate m) = do { rucreate_encode m; State_Monad.return (Rucreate m) }"
  | "encode (Tumkdir m) = do { tumkdir_encode m; State_Monad.return (Tumkdir m) }"
  | "encode (Rumkdir m) = do { rumkdir_encode m; State_Monad.return (Rumkdir m) }"
  | "encode (Tumknod m) = do { tumknod_encode m; State_Monad.return (Tumknod m) }"
  | "encode (Rumknod m) = do { rumknod_encode m; State_Monad.return (Rumknod m) }"
  | "encode (Tusymlink m) = do { tusymlink_encode m; State_Monad.return (Tusymlink m) }"
  | "encode (Rusymlink m) = do { rusymlink_encode m; State_Monad.return (Rusymlink m) }"
  | "encode (Tlock m) = do { tlock_encode m; State_Monad.return (Tlock m) }"
  | "encode (Rlock m) = do { rlock_encode m; State_Monad.return (Rlock m) }"

primrec decode :: "message \<Rightarrow> (buffer, message) state" where
    "decode (Tversion m) = do { r \<leftarrow> tversion_decode m; State_Monad.return (Tversion r) }"
  | "decode (Rversion m) = do { r \<leftarrow> rversion_decode m; State_Monad.return (Rversion r) }"
  | "decode (Tflush m) = do { r \<leftarrow> tflush_decode m; State_Monad.return (Tflush r) }"
  | "decode (Rflush m) = do { r \<leftarrow> rflush_decode m; State_Monad.return (Rflush r) }"
  | "decode (Twalk m) = do { r \<leftarrow> twalk_decode m; State_Monad.return (Twalk r) }"
  | "decode (Rwalk m) = do { r \<leftarrow> rwalk_decode m; State_Monad.return (Rwalk r) }"
  | "decode (Tclunk m) = do { r \<leftarrow> tclunk_decode m; State_Monad.return (Tclunk r) }"
  | "decode (Rclunk m) = do { r \<leftarrow> rclunk_decode m; State_Monad.return (Rclunk r) }"
  | "decode (Tremove m) = do { r \<leftarrow> tremove_decode m; State_Monad.return (Tremove r) }"
  | "decode (Rremove m) = do { r \<leftarrow> rremove_decode m; State_Monad.return (Rremove r) }"
  | "decode (Rlerror m) = do { r \<leftarrow> rlerror_decode m; State_Monad.return (Rlerror r) }"
  | "decode (Tauth m) = do { r \<leftarrow> tauth_decode m; State_Monad.return (Tauth r) }"
  | "decode (Rauth m) = do { r \<leftarrow> rauth_decode m; State_Monad.return (Rauth r) }"
  | "decode (Tattach m) = do { r \<leftarrow> tattach_decode m; State_Monad.return (Tattach r) }"
  | "decode (Rattach m) = do { r \<leftarrow> rattach_decode m; State_Monad.return (Rattach r) }"
  | "decode (Tlopen m) = do { r \<leftarrow> tlopen_decode m; State_Monad.return (Tlopen r) }"
  | "decode (Rlopen m) = do { r \<leftarrow> rlopen_decode m; State_Monad.return (Rlopen r) }"
  | "decode (Tlcreate m) = do { r \<leftarrow> tlcreate_decode m; State_Monad.return (Tlcreate r) }"
  | "decode (Rlcreate m) = do { r \<leftarrow> rlcreate_decode m; State_Monad.return (Rlcreate r) }"
  | "decode (Tsymlink m) = do { r \<leftarrow> tsymlink_decode m; State_Monad.return (Tsymlink r) }"
  | "decode (Rsymlink m) = do { r \<leftarrow> rsymlink_decode m; State_Monad.return (Rsymlink r) }"
  | "decode (Tlink m) = do { r \<leftarrow> tlink_decode m; State_Monad.return (Tlink r) }"
  | "decode (Rlink m) = do { r \<leftarrow> rlink_decode m; State_Monad.return (Rlink r) }"
  | "decode (Trenameat m) = do { r \<leftarrow> trenameat_decode m; State_Monad.return (Trenameat r) }"
  | "decode (Rrenameat m) = do { r \<leftarrow> rrenameat_decode m; State_Monad.return (Rrenameat r) }"
  | "decode (Tunlinkat m) = do { r \<leftarrow> tunlinkat_decode m; State_Monad.return (Tunlinkat r) }"
  | "decode (Runlinkat m) = do { r \<leftarrow> runlinkat_decode m; State_Monad.return (Runlinkat r) }"
  | "decode (Trename m) = do { r \<leftarrow> trename_decode m; State_Monad.return (Trename r) }"
  | "decode (Rrename m) = do { r \<leftarrow> rrename_decode m; State_Monad.return (Rrename r) }"
  | "decode (Treadlink m) = do { r \<leftarrow> treadlink_decode m; State_Monad.return (Treadlink r) }"
  | "decode (Rreadlink m) = do { r \<leftarrow> rreadlink_decode m; State_Monad.return (Rreadlink r) }"
  | "decode (Tread m) = do { r \<leftarrow> tread_decode m; State_Monad.return (Tread r) }"
  | "decode (Rread m) = do { r \<leftarrow> rread_decode m; State_Monad.return (Rread r) }"
  | "decode (Twrite m) = do { r \<leftarrow> twrite_decode m; State_Monad.return (Twrite r) }"
  | "decode (Rwrite m) = do { r \<leftarrow> rwrite_decode m; State_Monad.return (Rwrite r) }"
  | "decode (Tmknod m) = do { r \<leftarrow> tmknod_decode m; State_Monad.return (Tmknod r) }"
  | "decode (Rmknod m) = do { r \<leftarrow> rmknod_decode m; State_Monad.return (Rmknod r) }"
  | "decode (Tmkdir m) = do { r \<leftarrow> tmkdir_decode m; State_Monad.return (Tmkdir r) }"
  | "decode (Rmkdir m) = do { r \<leftarrow> rmkdir_decode m; State_Monad.return (Rmkdir r) }"
  | "decode (Tgetattr m) = do { r \<leftarrow> tgetattr_decode m; State_Monad.return (Tgetattr r) }"
  | "decode (Rgetattr m) = do { r \<leftarrow> rgetattr_decode m; State_Monad.return (Rgetattr r) }"
  | "decode (Tsetattr m) = do { r \<leftarrow> tsetattr_decode m; State_Monad.return (Tsetattr r) }"
  | "decode (Rsetattr m) = do { r \<leftarrow> rsetattr_decode m; State_Monad.return (Rsetattr r) }"
  | "decode (Txattrwalk m) = do { r \<leftarrow> txattrwalk_decode m; State_Monad.return (Txattrwalk r) }"
  | "decode (Rxattrwalk m) = do { r \<leftarrow> rxattrwalk_decode m; State_Monad.return (Rxattrwalk r) }"
  | "decode (Txattrcreate m) = do { r \<leftarrow> txattrcreate_decode m; State_Monad.return (Txattrcreate r) }"
  | "decode (Rxattrcreate m) = do { r \<leftarrow> rxattrcreate_decode m; State_Monad.return (Rxattrcreate r) }"
  | "decode (Treaddir m) = do { r \<leftarrow> treaddir_decode m; State_Monad.return (Treaddir r) }"
  | "decode (Rreaddir m) = do { r \<leftarrow> rreaddir_decode m; State_Monad.return (Rreaddir r) }"
  | "decode (Tfsync m) = do { r \<leftarrow> tfsync_decode m; State_Monad.return (Tfsync r) }"
  | "decode (Rfsync m) = do { r \<leftarrow> rfsync_decode m; State_Monad.return (Rfsync r) }"
  | "decode (Tstatfs m) = do { r \<leftarrow> tstatfs_decode m; State_Monad.return (Tstatfs r) }"
  | "decode (Rstatfs m) = do { r \<leftarrow> rstatfs_decode m; State_Monad.return (Rstatfs r) }"
  | "decode (Twalkgetattr m) = do { r \<leftarrow> twalkgetattr_decode m; State_Monad.return (Twalkgetattr r) }"
  | "decode (Rwalkgetattr m) = do { r \<leftarrow> rwalkgetattr_decode m; State_Monad.return (Rwalkgetattr r) }"
  | "decode (Tucreate m) = do { r \<leftarrow> tucreate_decode m; State_Monad.return (Tucreate r) }"
  | "decode (Rucreate m) = do { r \<leftarrow> rucreate_decode m; State_Monad.return (Rucreate r) }"
  | "decode (Tumkdir m) = do { r \<leftarrow> tumkdir_decode m; State_Monad.return (Tumkdir r) }"
  | "decode (Rumkdir m) = do { r \<leftarrow> rumkdir_decode m; State_Monad.return (Rumkdir r) }"
  | "decode (Tumknod m) = do { r \<leftarrow> tumknod_decode m; State_Monad.return (Tumknod r) }"
  | "decode (Rumknod m) = do { r \<leftarrow> rumknod_decode m; State_Monad.return (Rumknod r) }"
  | "decode (Tusymlink m) = do { r \<leftarrow> tusymlink_decode m; State_Monad.return (Tusymlink r) }"
  | "decode (Rusymlink m) = do { r \<leftarrow> rusymlink_decode m; State_Monad.return (Rusymlink r) }"
  | "decode (Tlock m) = do { r \<leftarrow> tlock_decode m; State_Monad.return (Tlock r) }"
  | "decode (Rlock m) = do { r \<leftarrow> rlock_decode m; State_Monad.return (Rlock r) }"
section \<open>The payloader interface on messages\<close>

text \<open>
  \<open>payloader\<close> is the type assertion \<^verbatim>\<open>m.(payloader)\<close>; the methods are only called on messages
  for which it holds.
\<close>

definition payloader :: "message \<Rightarrow> bool" where
  "payloader m = (case m of Rread _ \<Rightarrow> True | Twrite _ \<Rightarrow> True | Rreaddir _ \<Rightarrow> True | _ \<Rightarrow> False)"

definition FixedSize :: "message \<Rightarrow> uint32" where
  "FixedSize m = (case m of
      Rread _ \<Rightarrow> rread_FixedSize
    | Twrite _ \<Rightarrow> twrite_FixedSize
    | Rreaddir _ \<Rightarrow> rreaddir_FixedSize
    | _ \<Rightarrow> 0)"

definition Payload :: "message \<Rightarrow> byte list" where
  "Payload m = (case m of
      Rread r \<Rightarrow> rread_Payload r
    | Twrite t \<Rightarrow> twrite_Payload t
    | Rreaddir r \<Rightarrow> rreaddir_Payload r
    | _ \<Rightarrow> [])"

definition SetPayload :: "byte list \<Rightarrow> message \<Rightarrow> message" where
  "SetPayload p m = (case m of
      Rread r \<Rightarrow> Rread (rread_SetPayload p r)
    | Twrite t \<Rightarrow> Twrite (twrite_SetPayload p t)
    | Rreaddir r \<Rightarrow> Rreaddir (rreaddir_SetPayload p r)
    | _ \<Rightarrow> m)"

lemma msg_typ_iff:
  "msg_typ m = msgTversion \<longleftrightarrow> (\<exists>x. m = Tversion x)"
  "msg_typ m = msgRversion \<longleftrightarrow> (\<exists>x. m = Rversion x)"
  "msg_typ m = msgTflush \<longleftrightarrow> (\<exists>x. m = Tflush x)"
  "msg_typ m = msgRflush \<longleftrightarrow> (\<exists>x. m = Rflush x)"
  "msg_typ m = msgTwalk \<longleftrightarrow> (\<exists>x. m = Twalk x)"
  "msg_typ m = msgRwalk \<longleftrightarrow> (\<exists>x. m = Rwalk x)"
  "msg_typ m = msgTclunk \<longleftrightarrow> (\<exists>x. m = Tclunk x)"
  "msg_typ m = msgRclunk \<longleftrightarrow> (\<exists>x. m = Rclunk x)"
  "msg_typ m = msgTremove \<longleftrightarrow> (\<exists>x. m = Tremove x)"
  "msg_typ m = msgRremove \<longleftrightarrow> (\<exists>x. m = Rremove x)"
  "msg_typ m = msgRlerror \<longleftrightarrow> (\<exists>x. m = Rlerror x)"
  "msg_typ m = msgTauth \<longleftrightarrow> (\<exists>x. m = Tauth x)"
  "msg_typ m = msgRauth \<longleftrightarrow> (\<exists>x. m = Rauth x)"
  "msg_typ m = msgTattach \<longleftrightarrow> (\<exists>x. m = Tattach x)"
  "msg_typ m = msgRattach \<longleftrightarrow> (\<exists>x. m = Rattach x)"
  "msg_typ m = msgTlopen \<longleftrightarrow> (\<exists>x. m = Tlopen x)"
  "msg_typ m = msgRlopen \<longleftrightarrow> (\<exists>x. m = Rlopen x)"
  "msg_typ m = msgTlcreate \<longleftrightarrow> (\<exists>x. m = Tlcreate x)"
  "msg_typ m = msgRlcreate \<longleftrightarrow> (\<exists>x. m = Rlcreate x)"
  "msg_typ m = msgTsymlink \<longleftrightarrow> (\<exists>x. m = Tsymlink x)"
  "msg_typ m = msgRsymlink \<longleftrightarrow> (\<exists>x. m = Rsymlink x)"
  "msg_typ m = msgTlink \<longleftrightarrow> (\<exists>x. m = Tlink x)"
  "msg_typ m = msgRlink \<longleftrightarrow> (\<exists>x. m = Rlink x)"
  "msg_typ m = msgTrenameat \<longleftrightarrow> (\<exists>x. m = Trenameat x)"
  "msg_typ m = msgRrenameat \<longleftrightarrow> (\<exists>x. m = Rrenameat x)"
  "msg_typ m = msgTunlinkat \<longleftrightarrow> (\<exists>x. m = Tunlinkat x)"
  "msg_typ m = msgRunlinkat \<longleftrightarrow> (\<exists>x. m = Runlinkat x)"
  "msg_typ m = msgTrename \<longleftrightarrow> (\<exists>x. m = Trename x)"
  "msg_typ m = msgRrename \<longleftrightarrow> (\<exists>x. m = Rrename x)"
  "msg_typ m = msgTreadlink \<longleftrightarrow> (\<exists>x. m = Treadlink x)"
  "msg_typ m = msgRreadlink \<longleftrightarrow> (\<exists>x. m = Rreadlink x)"
  "msg_typ m = msgTread \<longleftrightarrow> (\<exists>x. m = Tread x)"
  "msg_typ m = msgRread \<longleftrightarrow> (\<exists>x. m = Rread x)"
  "msg_typ m = msgTwrite \<longleftrightarrow> (\<exists>x. m = Twrite x)"
  "msg_typ m = msgRwrite \<longleftrightarrow> (\<exists>x. m = Rwrite x)"
  "msg_typ m = msgTmknod \<longleftrightarrow> (\<exists>x. m = Tmknod x)"
  "msg_typ m = msgRmknod \<longleftrightarrow> (\<exists>x. m = Rmknod x)"
  "msg_typ m = msgTmkdir \<longleftrightarrow> (\<exists>x. m = Tmkdir x)"
  "msg_typ m = msgRmkdir \<longleftrightarrow> (\<exists>x. m = Rmkdir x)"
  "msg_typ m = msgTgetattr \<longleftrightarrow> (\<exists>x. m = Tgetattr x)"
  "msg_typ m = msgRgetattr \<longleftrightarrow> (\<exists>x. m = Rgetattr x)"
  "msg_typ m = msgTsetattr \<longleftrightarrow> (\<exists>x. m = Tsetattr x)"
  "msg_typ m = msgRsetattr \<longleftrightarrow> (\<exists>x. m = Rsetattr x)"
  "msg_typ m = msgTxattrwalk \<longleftrightarrow> (\<exists>x. m = Txattrwalk x)"
  "msg_typ m = msgRxattrwalk \<longleftrightarrow> (\<exists>x. m = Rxattrwalk x)"
  "msg_typ m = msgTxattrcreate \<longleftrightarrow> (\<exists>x. m = Txattrcreate x)"
  "msg_typ m = msgRxattrcreate \<longleftrightarrow> (\<exists>x. m = Rxattrcreate x)"
  "msg_typ m = msgTreaddir \<longleftrightarrow> (\<exists>x. m = Treaddir x)"
  "msg_typ m = msgRreaddir \<longleftrightarrow> (\<exists>x. m = Rreaddir x)"
  "msg_typ m = msgTfsync \<longleftrightarrow> (\<exists>x. m = Tfsync x)"
  "msg_typ m = msgRfsync \<longleftrightarrow> (\<exists>x. m = Rfsync x)"
  "msg_typ m = msgTstatfs \<longleftrightarrow> (\<exists>x. m = Tstatfs x)"
  "msg_typ m = msgRstatfs \<longleftrightarrow> (\<exists>x. m = Rstatfs x)"
  "msg_typ m = msgTwalkgetattr \<longleftrightarrow> (\<exists>x. m = Twalkgetattr x)"
  "msg_typ m = msgRwalkgetattr \<longleftrightarrow> (\<exists>x. m = Rwalkgetattr x)"
  "msg_typ m = msgTucreate \<longleftrightarrow> (\<exists>x. m = Tucreate x)"
  "msg_typ m = msgRucreate \<longleftrightarrow> (\<exists>x. m = Rucreate x)"
  "msg_typ m = msgTumkdir \<longleftrightarrow> (\<exists>x. m = Tumkdir x)"
  "msg_typ m = msgRumkdir \<longleftrightarrow> (\<exists>x. m = Rumkdir x)"
  "msg_typ m = msgTumknod \<longleftrightarrow> (\<exists>x. m = Tumknod x)"
  "msg_typ m = msgRumknod \<longleftrightarrow> (\<exists>x. m = Rumknod x)"
  "msg_typ m = msgTusymlink \<longleftrightarrow> (\<exists>x. m = Tusymlink x)"
  "msg_typ m = msgRusymlink \<longleftrightarrow> (\<exists>x. m = Rusymlink x)"
  "msg_typ m = msgTlock \<longleftrightarrow> (\<exists>x. m = Tlock x)"
  "msg_typ m = msgRlock \<longleftrightarrow> (\<exists>x. m = Rlock x)"
  by (cases m; simp add: msgType_defs)+

end
