(* ===== verification/P9_Errno.thy ===== *)
theory P9_Errno
  imports P9_Prelude
begin

text \<open>
  Package \<^verbatim>\<open>linux\<close> (\<^verbatim>\<open>errno.go\<close>, \<^verbatim>\<open>errors.go\<close>, \<^verbatim>\<open>errors_linux.go\<close>, \<^verbatim>\<open>errors_unix.go\<close>): Linux error numbers
  and \<^verbatim>\<open>ExtractErrno\<close>, which every error of a file operation passes through before it is sent in
  an Rlerror. Go's \<^verbatim>\<open>error\<close> values are a datatype of the cases that \<^verbatim>\<open>errors.Is\<close> and \<^verbatim>\<open>errors.As\<close>
  distinguish.
\<close>

section \<open>Error numbers\<close>

type_synonym Errno = uint64

definition EPERM :: Errno where "EPERM = 0x1"
definition ENOENT :: Errno where "ENOENT = 0x2"
definition EIO :: Errno where "EIO = 0x5"
definition EBADF :: Errno where "EBADF = 0x9"
definition EAGAIN :: Errno where "EAGAIN = 0xb"
definition EACCES :: Errno where "EACCES = 0xd"
definition EFAULT :: Errno where "EFAULT = 0xe"
definition EBUSY :: Errno where "EBUSY = 0x10"
definition EEXIST :: Errno where "EEXIST = 0x11"
definition ENOTDIR :: Errno where "ENOTDIR = 0x14"
definition EISDIR :: Errno where "EISDIR = 0x15"
definition EINVAL :: Errno where "EINVAL = 0x16"
definition EROFS :: Errno where "EROFS = 0x1e"
definition ENOSYS :: Errno where "ENOSYS = 0x26"
definition ENOTEMPTY :: Errno where "ENOTEMPTY = 0x27"
definition ENODATA :: Errno where "ENODATA = 0x3d"
definition ENOBUFS :: Errno where "ENOBUFS = 0x69"

lemmas errno_defs =
  EPERM_def ENOENT_def EIO_def EBADF_def EAGAIN_def EACCES_def EFAULT_def EBUSY_def EEXIST_def
  ENOTDIR_def EISDIR_def EINVAL_def EROFS_def ENOSYS_def ENOTEMPTY_def ENODATA_def ENOBUFS_def

section \<open>Go errors\<close>

text \<open>
  The sentinels of package \<^verbatim>\<open>os\<close>, an \<^verbatim>\<open>Errno\<close> of this package, a \<^verbatim>\<open>syscall.Errno\<close>, an error without
  structure, \<^verbatim>\<open>io.EOF\<close>, an error that wraps another one (\<^verbatim>\<open>*os.PathError\<close>, \<^verbatim>\<open>%w\<close>) and the result of
  \<^verbatim>\<open>errors.Join\<close>, whose members \<^verbatim>\<open>errors.Is\<close> and \<^verbatim>\<open>errors.As\<close> try in order.
\<close>

datatype goerror =
    ErrNotExist
  | ErrExist
  | ErrPermission
  | ErrInvalid
  | LinuxErrno Errno
  | SyscallErrno uint64
  | OpaqueError string
  | IoEOF
  | WrapError string goerror
  | JoinError "goerror list"

text \<open>\<^verbatim>\<open>syscall.Errno.Is\<close> on Linux, and \<^verbatim>\<open>errors.Is\<close> for the sentinels.\<close>

definition syscall_Is :: "uint64 \<Rightarrow> goerror \<Rightarrow> bool" where
  "syscall_Is e target \<longleftrightarrow>
     (target = ErrPermission \<and> (e = EACCES \<or> e = EPERM)) \<or>
     (target = ErrExist \<and> (e = EEXIST \<or> e = ENOTEMPTY)) \<or>
     (target = ErrNotExist \<and> e = ENOENT)"

fun errors_Is :: "goerror \<Rightarrow> goerror \<Rightarrow> bool" where
  "errors_Is (WrapError s err) target \<longleftrightarrow> WrapError s err = target \<or> errors_Is err target"
| "errors_Is (JoinError errs) target \<longleftrightarrow> JoinError errs = target \<or> (\<exists>err\<in>set errs. errors_Is err target)"
| "errors_Is (SyscallErrno e) target \<longleftrightarrow> SyscallErrno e = target \<or> syscall_Is e target"
| "errors_Is err target \<longleftrightarrow> err = target"

text \<open>\<^verbatim>\<open>errors.As\<close> with a target of type \<^verbatim>\<open>Errno\<close> and of type \<^verbatim>\<open>syscall.Errno\<close>.\<close>

fun first_some :: "('a \<Rightarrow> 'b option) \<Rightarrow> 'a list \<Rightarrow> 'b option" where
  "first_some f [] = None"
| "first_some f (x # xs) = (case f x of Some y \<Rightarrow> Some y | None \<Rightarrow> first_some f xs)"

lemma first_some_cong [fundef_cong]:
  "xs = ys \<Longrightarrow> (\<And>x. x \<in> set ys \<Longrightarrow> f x = g x) \<Longrightarrow> first_some f xs = first_some g ys"
  by (induction xs arbitrary: ys) (auto split: option.split)

fun errors_As_Errno :: "goerror \<Rightarrow> Errno option" where
  "errors_As_Errno (LinuxErrno e) = Some e"
| "errors_As_Errno (WrapError s err) = errors_As_Errno err"
| "errors_As_Errno (JoinError errs) = first_some errors_As_Errno errs"
| "errors_As_Errno err = None"

fun errors_As_Syscall :: "goerror \<Rightarrow> uint64 option" where
  "errors_As_Syscall (SyscallErrno e) = Some e"
| "errors_As_Syscall (WrapError s err) = errors_As_Syscall err"
| "errors_As_Syscall (JoinError errs) = first_some errors_As_Syscall errs"
| "errors_As_Syscall err = None"

definition sysErrno :: "goerror \<Rightarrow> Errno" where
  "sysErrno err = (case errors_As_Syscall err of Some systemErr \<Rightarrow> systemErr | None \<Rightarrow> 0)"

text \<open>The loop over the pairs of sentinel and error number, then the two conversions.\<close>

fun first_match :: "goerror \<Rightarrow> (goerror \<times> Errno) list \<Rightarrow> Errno option" where
  "first_match err [] = None"
| "first_match err ((target, e) # pairs) =
     (if errors_Is err target then Some e else first_match err pairs)"

definition ExtractErrno :: "goerror \<Rightarrow> Errno" where
  "ExtractErrno err =
     (case first_match err [(ErrNotExist, ENOENT), (ErrExist, EEXIST),
                            (ErrPermission, EACCES), (ErrInvalid, EINVAL)] of
        Some e \<Rightarrow> e
      | None \<Rightarrow>
          (case errors_As_Errno err of
             Some errno \<Rightarrow> errno
           | None \<Rightarrow> let e = sysErrno err in if e \<noteq> 0 then e else EIO))"

text \<open>\<^verbatim>\<open>errors.Join\<close> of the errors that are not nil; \<open>None\<close> is \<^verbatim>\<open>nil\<close>.\<close>

definition errors_Join :: "goerror list \<Rightarrow> goerror option" where
  "errors_Join errs = (if errs = [] then None else Some (JoinError errs))"

section \<open>Properties\<close>

text \<open>Wrapping an error, any number of times, does not change its number.\<close>

lemma errors_Is_sentinel_Wrap [simp]:
  "errors_Is (WrapError s err) ErrNotExist = errors_Is err ErrNotExist"
  "errors_Is (WrapError s err) ErrExist = errors_Is err ErrExist"
  "errors_Is (WrapError s err) ErrPermission = errors_Is err ErrPermission"
  "errors_Is (WrapError s err) ErrInvalid = errors_Is err ErrInvalid"
  by simp_all

lemma ExtractErrno_Wrap [simp]: "ExtractErrno (WrapError s err) = ExtractErrno err"
proof -
  have "sysErrno (WrapError s err) = sysErrno err" by (simp add: sysErrno_def)
  then show ?thesis by (simp add: ExtractErrno_def split: option.split)
qed

lemma ExtractErrno_SyscallErrno:
  "ExtractErrno (SyscallErrno e) =
     (if e = EPERM then EACCES else if e = ENOTEMPTY then EEXIST else if e = 0 then EIO else e)"
  by (simp add: ExtractErrno_def sysErrno_def syscall_Is_def Let_def) (simp add: errno_defs)

lemma ExtractErrno_LinuxErrno [simp]: "ExtractErrno (LinuxErrno e) = e"
  by (simp add: ExtractErrno_def)

lemma ExtractErrno_foldr_Wrap: "ExtractErrno (foldr WrapError ctx err) = ExtractErrno err"
  by (induction ctx) simp_all

lemma ExtractErrno_OpaqueError: "ExtractErrno (OpaqueError s) = EIO"
  by (simp add: ExtractErrno_def sysErrno_def)

text \<open>C36: \<^verbatim>\<open>ExtractErrno\<close> of an error that wraps, at any depth, an error number of this package is
  that number; of a system error number it is that number, except that EPERM becomes EACCES and
  ENOTEMPTY becomes EEXIST (the sentinels of package os are tested first) and 0 becomes EIO; of
  an error without a number it is EIO.\<close>

theorem ExtractErrno_correct:
  "ExtractErrno (foldr WrapError ctx (LinuxErrno e)) = e \<and>
   ExtractErrno (foldr WrapError ctx (SyscallErrno e)) =
     (if e = EPERM then EACCES else if e = ENOTEMPTY then EEXIST else if e = 0 then EIO else e) \<and>
   ExtractErrno (foldr WrapError ctx (OpaqueError s)) = EIO"
  by (simp only: ExtractErrno_foldr_Wrap ExtractErrno_LinuxErrno ExtractErrno_SyscallErrno
      ExtractErrno_OpaqueError simp_thms)

end
