(* ===== verification/P9_File.thy ===== *)
theory P9_File
  imports P9_Messages P9_Errno
begin

text \<open>
  The interfaces \<^verbatim>\<open>File\<close> and \<^verbatim>\<open>Attacher\<close> of \<^verbatim>\<open>p9/file.go\<close>. The server calls a file system it does not
  own through them: the model takes the file system as a record of functions over file handles
  \<open>'f\<close> and a world \<open>'w\<close> that every call may change. An error result is \<open>Inl\<close> (or \<open>Some\<close> where the
  method returns only an error). \<^verbatim>\<open>ReadAt\<close> returns the bytes it stored in the buffer together with
  the error, since Go's contract allows both.
\<close>

type_synonym XattrFlags = uint64

definition XattrCreate :: XattrFlags where "XattrCreate = 1"
definition XattrReplace :: XattrFlags where "XattrReplace = 2"

record ('w, 'f) backend =
  Attach :: "'w \<Rightarrow> (goerror + 'f) \<times> 'w"
  Walk :: "'f \<Rightarrow> string list \<Rightarrow> 'w \<Rightarrow> (goerror + QID list \<times> 'f) \<times> 'w"
  WalkGetAttr :: "'f \<Rightarrow> string list \<Rightarrow> 'w \<Rightarrow> (goerror + QID list \<times> 'f \<times> AttrMask \<times> Attr) \<times> 'w"
  StatFS :: "'f \<Rightarrow> 'w \<Rightarrow> (goerror + FSStat) \<times> 'w"
  GetAttr :: "'f \<Rightarrow> AttrMask \<Rightarrow> 'w \<Rightarrow> (goerror + QID \<times> AttrMask \<times> Attr) \<times> 'w"
  File_SetAttr :: "'f \<Rightarrow> SetAttrMask \<Rightarrow> SetAttr \<Rightarrow> 'w \<Rightarrow> goerror option \<times> 'w"
  Close :: "'f \<Rightarrow> 'w \<Rightarrow> goerror option \<times> 'w"
  Open :: "'f \<Rightarrow> OpenFlags \<Rightarrow> 'w \<Rightarrow> (goerror + QID \<times> uint32) \<times> 'w"
  ReadAt :: "'f \<Rightarrow> nat \<Rightarrow> uint64 \<Rightarrow> 'w \<Rightarrow> (byte list \<times> goerror option) \<times> 'w"
  WriteAt :: "'f \<Rightarrow> byte list \<Rightarrow> uint64 \<Rightarrow> 'w \<Rightarrow> (goerror + nat) \<times> 'w"
  SetXattr :: "'f \<Rightarrow> string \<Rightarrow> byte list \<Rightarrow> XattrFlags \<Rightarrow> 'w \<Rightarrow> goerror option \<times> 'w"
  GetXattr :: "'f \<Rightarrow> string \<Rightarrow> 'w \<Rightarrow> (goerror + byte list) \<times> 'w"
  ListXattrs :: "'f \<Rightarrow> 'w \<Rightarrow> (goerror + string list) \<times> 'w"
  RemoveXattr :: "'f \<Rightarrow> string \<Rightarrow> 'w \<Rightarrow> goerror option \<times> 'w"
  FSync :: "'f \<Rightarrow> 'w \<Rightarrow> goerror option \<times> 'w"
  Lock :: "'f \<Rightarrow> uint32 \<Rightarrow> LockType \<Rightarrow> LockFlags \<Rightarrow> uint64 \<Rightarrow> uint64 \<Rightarrow> string \<Rightarrow> 'w
    \<Rightarrow> (goerror + LockStatus) \<times> 'w"
  Create :: "'f \<Rightarrow> string \<Rightarrow> OpenFlags \<Rightarrow> FileMode \<Rightarrow> UID \<Rightarrow> GID \<Rightarrow> 'w \<Rightarrow> (goerror + 'f \<times> QID \<times> uint32) \<times> 'w"
  Mkdir :: "'f \<Rightarrow> string \<Rightarrow> FileMode \<Rightarrow> UID \<Rightarrow> GID \<Rightarrow> 'w \<Rightarrow> (goerror + QID) \<times> 'w"
  Symlink :: "'f \<Rightarrow> string \<Rightarrow> string \<Rightarrow> UID \<Rightarrow> GID \<Rightarrow> 'w \<Rightarrow> (goerror + QID) \<times> 'w"
  Link :: "'f \<Rightarrow> 'f \<Rightarrow> string \<Rightarrow> 'w \<Rightarrow> goerror option \<times> 'w"
  Mknod :: "'f \<Rightarrow> string \<Rightarrow> FileMode \<Rightarrow> uint32 \<Rightarrow> uint32 \<Rightarrow> UID \<Rightarrow> GID \<Rightarrow> 'w \<Rightarrow> (goerror + QID) \<times> 'w"
  RenameAt :: "'f \<Rightarrow> string \<Rightarrow> 'f \<Rightarrow> string \<Rightarrow> 'w \<Rightarrow> goerror option \<times> 'w"
  UnlinkAt :: "'f \<Rightarrow> string \<Rightarrow> uint32 \<Rightarrow> 'w \<Rightarrow> goerror option \<times> 'w"
  Readdir :: "'f \<Rightarrow> uint64 \<Rightarrow> uint32 \<Rightarrow> 'w \<Rightarrow> (Dirent list \<times> goerror option) \<times> 'w"
  Readlink :: "'f \<Rightarrow> 'w \<Rightarrow> (goerror + string) \<times> 'w"
  Renamed :: "'f \<Rightarrow> 'f \<Rightarrow> string \<Rightarrow> 'w \<Rightarrow> 'w"

text \<open>\<^verbatim>\<open>DefaultWalkGetAttr.WalkGetAttr\<close>.\<close>

definition DefaultWalkGetAttr ::
  "'f \<Rightarrow> string list \<Rightarrow> 'w \<Rightarrow> (goerror + QID list \<times> 'f \<times> AttrMask \<times> Attr) \<times> 'w" where
  "DefaultWalkGetAttr f names w = (Inl (LinuxErrno ENOSYS), w)"

end
