(* ===== verification/P9_PathTree.thy ===== *)
theory P9_PathTree
  imports P9_Prelude
begin

text \<open>
  \<^verbatim>\<open>p9/path_tree.go\<close>: one node of the path tree, shared by all fids that point to the same path.
  Go maps are association lists, whose order stands for the unspecified iteration order; a
  pointer to a fidRef or to a pathNode is an address. The operations are functions on a node;
  \<open>None\<close> is a panic of the source. The invariant \<open>node_ok\<close> says that the two maps of child
  references describe the same relation; under it no operation panics when its precondition
  holds, and every operation keeps it.
\<close>

section \<open>State and operations\<close>

type_synonym ref_addr = nat
type_synonym node_addr = nat

record pathNode =
  deleted :: bool
  childNodes :: "(string \<times> node_addr) list"
  childRefs :: "(string \<times> ref_addr list) list"
  childRefNames :: "(ref_addr \<times> string) list"

definition newPathNode :: pathNode where
  "newPathNode = \<lparr>deleted = False, childNodes = [], childRefs = [], childRefNames = []\<rparr>"

definition nameFor :: "pathNode \<Rightarrow> ref_addr \<Rightarrow> string option" where
  "nameFor p ref = map_of (childRefNames p) ref"

definition addChildLocked :: "ref_addr \<Rightarrow> string \<Rightarrow> pathNode \<Rightarrow> pathNode option" where
  "addChildLocked ref name p =
     (if map_of (childRefNames p) ref \<noteq> None then None
      else
        let m = (case map_of (childRefs p) name of Some m \<Rightarrow> m | None \<Rightarrow> [])
        in Some (p\<lparr>childRefNames := AList.update ref name (childRefNames p),
                   childRefs := AList.update name (List.insert ref m) (childRefs p)\<rparr>))"

definition removeChild_node :: "ref_addr \<Rightarrow> pathNode \<Rightarrow> pathNode option" where
  "removeChild_node ref p =
     (case map_of (childRefNames p) ref of
        None \<Rightarrow> Some (p\<lparr>childRefNames := AList.delete ref (childRefNames p)\<rparr>)
      | Some name \<Rightarrow>
          (case map_of (childRefs p) name of
             None \<Rightarrow> None
           | Some m \<Rightarrow>
               let m = removeAll ref m in
               Some (p\<lparr>childRefs := (if length m = 0 then AList.delete name (childRefs p)
                                     else AList.update name m (childRefs p)),
                       childRefNames := AList.delete ref (childRefNames p)\<rparr>)))"

definition addPathNodeFor :: "string \<Rightarrow> node_addr \<Rightarrow> pathNode \<Rightarrow> pathNode option" where
  "addPathNodeFor name pn p =
     (if map_of (childNodes p) name \<noteq> None then None
      else Some (p\<lparr>childNodes := AList.update name pn (childNodes p)\<rparr>))"

text \<open>The body of the loop of \<^verbatim>\<open>removeWithName\<close>: one reference leaves both maps.\<close>

definition dropRef :: "string \<Rightarrow> ref_addr \<Rightarrow> pathNode \<Rightarrow> pathNode" where
  "dropRef name ref p =
     p\<lparr>childRefs := (case map_of (childRefs p) name of
          Some m \<Rightarrow> AList.update name (removeAll ref m) (childRefs p) | None \<Rightarrow> childRefs p),
       childRefNames := AList.delete ref (childRefNames p)\<rparr>"

section \<open>Invariant\<close>

text \<open>The references registered under a name.\<close>

definition refs_named :: "pathNode \<Rightarrow> string \<Rightarrow> ref_addr set" where
  "refs_named p name = (case map_of (childRefs p) name of Some m \<Rightarrow> set m | None \<Rightarrow> {})"

definition node_ok :: "pathNode \<Rightarrow> bool" where
  "node_ok p \<longleftrightarrow> distinct (map fst (childRefs p)) \<and>
     (\<forall>ref name. map_of (childRefNames p) ref = Some name \<longleftrightarrow> ref \<in> refs_named p name)"

lemma node_ok_new: "node_ok newPathNode"
  by (simp add: node_ok_def newPathNode_def refs_named_def)

lemma node_ok_unique:
  "node_ok p \<Longrightarrow> ref \<in> refs_named p n \<Longrightarrow> ref \<in> refs_named p n' \<Longrightarrow> n = n'"
  by (metis node_ok_def option.inject)

lemma nameFor_iff: "node_ok p \<Longrightarrow> nameFor p ref = Some name \<longleftrightarrow> ref \<in> refs_named p name"
  by (simp add: nameFor_def node_ok_def)

lemma addChildLocked_ok:
  assumes "node_ok p" and "nameFor p ref = None"
  obtains p' where "addChildLocked ref name p = Some p'" and "node_ok p'"
    and "nameFor p' = (nameFor p)(ref \<mapsto> name)"
    and "childNodes p' = childNodes p" and "deleted p' = deleted p"
proof -
  let ?m = "case map_of (childRefs p) name of Some m \<Rightarrow> m | None \<Rightarrow> []"
  let ?p = "p\<lparr>childRefNames := AList.update ref name (childRefNames p),
              childRefs := AList.update name (List.insert ref ?m) (childRefs p)\<rparr>"
  have nf: "nameFor ?p = (nameFor p)(ref \<mapsto> name)"
    by (simp add: nameFor_def fun_eq_iff update_conv')
  have named: "refs_named ?p n = (if n = name then insert ref (refs_named p name) else refs_named p n)" for n
    by (auto simp: refs_named_def update_conv' split: option.splits)
  have fresh: "ref \<notin> refs_named p n" for n
    using assms by (auto simp: nameFor_iff [symmetric])
  have "distinct (map fst (childRefs ?p))" using assms(1) by (simp add: node_ok_def distinct_update)
  then have "node_ok ?p"
    unfolding node_ok_def nameFor_def [symmetric] nf named
    using assms(1) fresh by (auto simp: nameFor_iff [symmetric] split: if_splits)
  with nf assms(2) show thesis
    by (intro that [of ?p]) (simp_all add: addChildLocked_def Let_def nameFor_def)
qed

lemma dropRef_ok:
  assumes "node_ok p" and "ref \<in> refs_named p name"
  shows "node_ok (dropRef name ref p)" and "nameFor (dropRef name ref p) = (nameFor p)(ref := None)"
    and "refs_named (dropRef name ref p) name = refs_named p name - {ref}"
proof -
  show nf: "nameFor (dropRef name ref p) = (nameFor p)(ref := None)"
    by (auto simp: nameFor_def dropRef_def fun_eq_iff delete_conv')
  have named: "refs_named (dropRef name ref p) n =
      (if n = name then refs_named p name - {ref} else refs_named p n)" for n
    by (auto simp: refs_named_def dropRef_def update_conv' split: option.splits)
  then show "refs_named (dropRef name ref p) name = refs_named p name - {ref}" by simp
  have "distinct (map fst (childRefs (dropRef name ref p)))"
    using assms(1) by (simp add: node_ok_def dropRef_def distinct_update split: option.split)
  then show "node_ok (dropRef name ref p)"
    unfolding node_ok_def nameFor_def [symmetric] nf named
    using assms node_ok_unique [OF assms(1)]
    by (auto simp: nameFor_iff [symmetric] split: if_splits)
qed

lemma dropRef_simps [simp]:
  "childNodes (dropRef name ref p) = childNodes p" "deleted (dropRef name ref p) = deleted p"
  by (simp_all add: dropRef_def)

lemma removeChild_node_ok:
  assumes "node_ok p"
  obtains p' where "removeChild_node ref p = Some p'" and "node_ok p'"
    and "nameFor p' = (nameFor p)(ref := None)"
    and "childNodes p' = childNodes p" and "deleted p' = deleted p"
proof (cases "nameFor p ref")
  case None
  then have "AList.delete ref (childRefNames p) = childRefNames p"
    by (simp add: nameFor_def delete_idem map_of_eq_None_iff)
  with None assms show thesis
    by (intro that [of p]) (auto simp: removeChild_node_def nameFor_def)
next
  case (Some name)
  then have mem: "ref \<in> refs_named p name" using assms by (simp add: nameFor_iff)
  then obtain m where m: "map_of (childRefs p) name = Some m"
    by (auto simp: refs_named_def split: option.splits)
  let ?p = "p\<lparr>childRefs := (if length (removeAll ref m) = 0 then AList.delete name (childRefs p)
                            else AList.update name (removeAll ref m) (childRefs p)),
              childRefNames := AList.delete ref (childRefNames p)\<rparr>"
  have nf: "nameFor ?p = (nameFor p)(ref := None)"
    by (auto simp: nameFor_def fun_eq_iff delete_conv')
  have named: "refs_named ?p n = refs_named (dropRef name ref p) n" for n
    using m by (auto simp: refs_named_def dropRef_def delete_conv' update_conv'
        removeAll_filter_not_eq filter_empty_conv split: option.splits)
  have "distinct (map fst (childRefs ?p))"
    using assms by (simp add: node_ok_def distinct_update distinct_delete)
  then have "node_ok ?p"
    using dropRef_ok [OF assms mem]
    unfolding node_ok_def nameFor_def [symmetric] nf named by simp
  moreover have "removeChild_node ref p = Some ?p"
    using Some m by (simp add: removeChild_node_def nameFor_def Let_def)
  ultimately show thesis using nf by (intro that [of ?p]) simp_all
qed

lemma addPathNodeFor_ok:
  "map_of (childNodes p) name = None \<Longrightarrow>
   addPathNodeFor name pn p = Some (p\<lparr>childNodes := AList.update name pn (childNodes p)\<rparr>)"
  by (simp add: addPathNodeFor_def)

lemma node_ok_childNodes [simp]:
  "node_ok (p\<lparr>childNodes := cn\<rparr>) = node_ok p" "node_ok (p\<lparr>deleted := d\<rparr>) = node_ok p"
  "nameFor (p\<lparr>childNodes := cn\<rparr>) = nameFor p" "nameFor (p\<lparr>deleted := d\<rparr>) = nameFor p"
  "refs_named (p\<lparr>childNodes := cn\<rparr>) = refs_named p" "refs_named (p\<lparr>deleted := d\<rparr>) = refs_named p"
  by (simp_all add: node_ok_def refs_named_def nameFor_def fun_eq_iff)

end
