(* ===== verification/P9_Server.thy ===== *)
theory P9_Server
  imports P9_File P9_PathTree
begin

text \<open>
  The server state of \<^verbatim>\<open>p9/server.go\<close> and the operations the handlers share: reference counting
  of fidRefs, the fid table of a connection, deletion and renaming in the path tree. The state
  is a store of fidRefs and a store of path nodes (addresses are list positions), the world of
  the backing file system, and the fields of one \<^verbatim>\<open>connState\<close> that handlers use (its tags are in
  \<open>P9_Conn\<close>); references held by other
  connections and by requests in flight are a parameter of the invariant. Results are options:
  \<open>None\<close> is a panic of the source (a nil or dangling pointer, or an explicit \<^verbatim>\<open>panic\<close>).
  Locks are not part of the state: each operation is the body of its critical section.
\<close>

section \<open>State\<close>

datatype xattrOp = xattrNone | xattrCreate | xattrWalk

record pendingXattr =
  px_op :: xattrOp
  px_name :: string
  px_size :: uint64
  px_flags :: XattrFlags
  px_buf :: "byte list"

definition noXattr :: pendingXattr where
  "noXattr = \<lparr>px_op = xattrNone, px_name = [], px_size = 0, px_flags = 0, px_buf = []\<rparr>"

record 'f fidRef =
  ref_file :: 'f
  ref_xattr :: pendingXattr
  refs :: int
  opened :: bool
  ref_mode :: FileMode
  openFlags :: OpenFlags
  ref_node :: node_addr
  ref_parent :: "ref_addr option"

text \<open>
  \<open>readBufPool\<close> is the size of the buffers of \<^verbatim>\<open>cs.readBufPool\<close>, \<open>None\<close> before the first Tversion.
  The root of the path tree (\<^verbatim>\<open>Server.pathTree\<close>) is the node at address 0.
\<close>

record ('w, 'f) srv =
  refHeap :: "'f fidRef list"
  nodeHeap :: "pathNode list"
  world :: 'w
  fids :: "(fid \<times> ref_addr) list"
  messageSize :: uint32
  cs_version :: uint32
  cs_baseVersion :: string
  readBufPool :: "uint32 option"

definition pathTree :: node_addr where
  "pathTree = 0"

text \<open>\<^verbatim>\<open>NewServer\<close> and the connection state \<^verbatim>\<open>Handle\<close> starts with.\<close>

definition NewServer :: "'w \<Rightarrow> ('w, 'f) srv" where
  "NewServer w = \<lparr>refHeap = [], nodeHeap = [newPathNode], world = w, fids = [],
     messageSize = 0, cs_version = 0, cs_baseVersion = [], readBufPool = None\<rparr>"

section \<open>Access to the stores\<close>

definition getRef :: "('w, 'f) srv \<Rightarrow> ref_addr \<Rightarrow> 'f fidRef option" where
  "getRef s r = (if r < length (refHeap s) then Some (refHeap s ! r) else None)"

definition setRef :: "ref_addr \<Rightarrow> 'f fidRef \<Rightarrow> ('w, 'f) srv \<Rightarrow> ('w, 'f) srv" where
  "setRef r x s = s\<lparr>refHeap := (refHeap s)[r := x]\<rparr>"

definition allocRef :: "'f fidRef \<Rightarrow> ('w, 'f) srv \<Rightarrow> ref_addr \<times> ('w, 'f) srv" where
  "allocRef x s = (length (refHeap s), s\<lparr>refHeap := refHeap s @ [x]\<rparr>)"

definition getNode :: "('w, 'f) srv \<Rightarrow> node_addr \<Rightarrow> pathNode option" where
  "getNode s p = (if p < length (nodeHeap s) then Some (nodeHeap s ! p) else None)"

definition setNode :: "node_addr \<Rightarrow> pathNode \<Rightarrow> ('w, 'f) srv \<Rightarrow> ('w, 'f) srv" where
  "setNode p x s = s\<lparr>nodeHeap := (nodeHeap s)[p := x]\<rparr>"

definition allocNode :: "pathNode \<Rightarrow> ('w, 'f) srv \<Rightarrow> node_addr \<times> ('w, 'f) srv" where
  "allocNode x s = (length (nodeHeap s), s\<lparr>nodeHeap := nodeHeap s @ [x]\<rparr>)"

section \<open>Path nodes\<close>

definition pathNodeFor :: "node_addr \<Rightarrow> string \<Rightarrow> ('w, 'f) srv \<Rightarrow> (node_addr \<times> ('w, 'f) srv) option" where
  "pathNodeFor p name s = do {
     x \<leftarrow> getNode s p;
     case map_of (childNodes x) name of
       Some pn \<Rightarrow> Some (pn, s)
     | None \<Rightarrow>
         let (pn, s) = allocNode newPathNode s
         in Some (pn, setNode p (x\<lparr>childNodes := AList.update name pn (childNodes x)\<rparr>) s) }"

definition addChild :: "node_addr \<Rightarrow> ref_addr \<Rightarrow> string \<Rightarrow> ('w, 'f) srv \<Rightarrow> ('w, 'f) srv option" where
  "addChild p ref name s = do {
     x \<leftarrow> getNode s p;
     x \<leftarrow> addChildLocked ref name x;
     Some (setNode p x s) }"

definition removeChild :: "node_addr \<Rightarrow> ref_addr \<Rightarrow> ('w, 'f) srv \<Rightarrow> ('w, 'f) srv option" where
  "removeChild p ref s = do {
     x \<leftarrow> getNode s p;
     x \<leftarrow> removeChild_node ref x;
     Some (setNode p x s) }"

section \<open>Reference counting\<close>

definition IncRef :: "ref_addr \<Rightarrow> ('w, 'f) srv \<Rightarrow> ('w, 'f) srv option" where
  "IncRef r s = do {
     x \<leftarrow> getRef s r;
     Some (setRef r (x\<lparr>refs := refs x + 1\<rparr>) s) }"

definition TryIncRef :: "ref_addr \<Rightarrow> ('w, 'f) srv \<Rightarrow> (bool \<times> ('w, 'f) srv) option" where
  "TryIncRef r s = do {
     x \<leftarrow> getRef s r;
     if refs x \<le> 0 then Some (False, s)
     else Some (True, setRef r (x\<lparr>refs := refs x + 1\<rparr>) s) }"

lemma removeChild_refHeap: "removeChild p r s = Some s' \<Longrightarrow> refHeap s' = refHeap s"
  by (auto simp: removeChild_def setNode_def split: bind_splits)

lemma sum_refs_decreases:
  assumes "getRef s r = Some x" and "refs x = 1"
  shows "sum_list (map (\<lambda>x. nat (refs x)) ((refHeap s)[r := x\<lparr>refs := 0\<rparr>]))
    < sum_list (map (\<lambda>x. nat (refs x)) (refHeap s))"
proof -
  have r: "r < length (refHeap s)" and x: "refHeap s ! r = x"
    using assms(1) by (auto simp: getRef_def split: if_splits)
  have "1 \<le> sum_list (map (\<lambda>x. nat (refs x)) (refHeap s))"
    using r x assms(2) elem_le_sum_list [of r "map (\<lambda>x. nat (refs x)) (refHeap s)"] by simp
  with r x assms(2) show ?thesis by (simp add: map_update sum_list_update)
qed

text \<open>
  \<^verbatim>\<open>DecRef\<close>: when the last reference goes, the file is closed and the reference to the parent is
  dropped in turn. The recursion ends because every step that continues takes one reference
  from the store.
\<close>

definition wrapErr :: "string \<Rightarrow> goerror option \<Rightarrow> goerror list" where
  "wrapErr ctx err = (case err of None \<Rightarrow> [] | Some e \<Rightarrow> [WrapError ctx e])"

function DecRef :: "('w, 'f) backend \<Rightarrow> ref_addr \<Rightarrow> ('w, 'f) srv \<Rightarrow> (goerror option \<times> ('w, 'f) srv) option" where
  "DecRef B r s =
     (case getRef s r of
        None \<Rightarrow> None
      | Some x \<Rightarrow>
          let s = setRef r (x\<lparr>refs := refs x - 1\<rparr>) s in
          if refs x - 1 = 0 then
            (case Close B (ref_file x) (world s) of (err, w) \<Rightarrow>
               let s = s\<lparr>world := w\<rparr>; errs = wrapErr ''file'' err in
               (case ref_parent x of
                  None \<Rightarrow> Some (errors_Join errs, s)
                | Some q \<Rightarrow>
                    (case getRef s q of
                       None \<Rightarrow> None
                     | Some y \<Rightarrow>
                         (case removeChild (ref_node y) r s of
                            None \<Rightarrow> None
                          | Some s \<Rightarrow>
                              (case DecRef B q s of
                                 None \<Rightarrow> None
                               | Some (pErr, s) \<Rightarrow>
                                   Some (errors_Join (errs @ wrapErr ''parent'' pErr), s))))))
          else Some (None, s))"
  by pat_completeness auto

termination
  by (relation "measure (\<lambda>(B, r, s). sum_list (map (\<lambda>x. nat (refs x)) (refHeap s)))")
    (auto simp: setRef_def dest!: removeChild_refHeap intro: sum_refs_decreases)

declare DecRef.simps [simp del]

definition isDeleted :: "('w, 'f) srv \<Rightarrow> ref_addr \<Rightarrow> bool option" where
  "isDeleted s r = do {
     x \<leftarrow> getRef s r;
     p \<leftarrow> getNode s (ref_node x);
     Some (deleted p) }"

text \<open>\<^verbatim>\<open>hasParent\<close> is true of root references, as in the source.\<close>

definition hasParent :: "('w, 'f) srv \<Rightarrow> ref_addr \<Rightarrow> bool option" where
  "hasParent s r = do { x \<leftarrow> getRef s r; Some (ref_parent x = None) }"

definition maybeParent :: "('w, 'f) srv \<Rightarrow> ref_addr \<Rightarrow> ref_addr option" where
  "maybeParent s r = do {
     x \<leftarrow> getRef s r;
     Some (case ref_parent x of Some q \<Rightarrow> q | None \<Rightarrow> r) }"

section \<open>Deletion\<close>

text \<open>
  \<^verbatim>\<open>notifyDelete\<close> marks a node and, recursively, its children. The recursion is an explicit stack
  of nodes still to visit, in the same order; on a cyclic graph it would not return, which is
  \<open>None\<close>.
\<close>

partial_function (option) notifyDelete :: "node_addr list \<Rightarrow> ('w, 'f) srv \<Rightarrow> ('w, 'f) srv option" where
  "notifyDelete work s =
     (case work of
        [] \<Rightarrow> Some s
      | pn # rest \<Rightarrow> do {
          x \<leftarrow> getNode s pn;
          notifyDelete (map snd (childNodes x) @ rest) (setNode pn (x\<lparr>deleted := True\<rparr>) s) })"

text \<open>
  The loop of \<^verbatim>\<open>removeWithName\<close> over the references with a name. Each reference that is still there
  leaves both maps; then the callback runs on it, if there is one and the reference is still
  alive, under a reference of its own.
\<close>

fun remove_refs ::
  "('w, 'f) backend \<Rightarrow> node_addr \<Rightarrow> string \<Rightarrow> (ref_addr \<Rightarrow> ('w, 'f) srv \<Rightarrow> ('w, 'f) srv option) option
   \<Rightarrow> ref_addr list \<Rightarrow> ('w, 'f) srv \<Rightarrow> ('w, 'f) srv option" where
  "remove_refs B p name fn [] s = Some s"
| "remove_refs B p name fn (ref # rest) s = do {
     x \<leftarrow> getNode s p;
     if ref \<notin> refs_named x name then remove_refs B p name fn rest s
     else
       let s = setNode p (dropRef name ref x) s in
       (case fn of
          None \<Rightarrow> remove_refs B p name fn rest s
        | Some callback \<Rightarrow> do {
            (held, s) \<leftarrow> TryIncRef ref s;
            if held then do {
              s \<leftarrow> callback ref s;
              (err, s) \<leftarrow> DecRef B ref s;
              remove_refs B p name fn rest s }
            else remove_refs B p name fn rest s }) }"

definition removeWithName ::
  "('w, 'f) backend \<Rightarrow> node_addr \<Rightarrow> string \<Rightarrow> (ref_addr \<Rightarrow> ('w, 'f) srv \<Rightarrow> ('w, 'f) srv option) option
   \<Rightarrow> ('w, 'f) srv \<Rightarrow> (node_addr option \<times> ('w, 'f) srv) option" where
  "removeWithName B p name fn s = do {
     x \<leftarrow> getNode s p;
     s \<leftarrow> remove_refs B p name fn (case map_of (childRefs x) name of Some m \<Rightarrow> m | None \<Rightarrow> []) s;
     x \<leftarrow> getNode s p;
     Some (map_of (childNodes x) name,
           setNode p (x\<lparr>childNodes := AList.delete name (childNodes x)\<rparr>) s) }"

definition markChildDeleted ::
  "('w, 'f) backend \<Rightarrow> ref_addr \<Rightarrow> string \<Rightarrow> ('w, 'f) srv \<Rightarrow> ('w, 'f) srv option" where
  "markChildDeleted B f name s = do {
     x \<leftarrow> getRef s f;
     (origPathNode, s) \<leftarrow> removeWithName B (ref_node x) name None s;
     case origPathNode of
       None \<Rightarrow> Some s
     | Some pn \<Rightarrow> notifyDelete [pn] s }"

section \<open>Renaming\<close>

fun notify_refs :: "('w, 'f) backend \<Rightarrow> string \<Rightarrow> ref_addr list \<Rightarrow> ('w, 'f) srv \<Rightarrow> ('w, 'f) srv option" where
  "notify_refs B name [] s = Some s"
| "notify_refs B name (ref # rest) s = do {
     x \<leftarrow> getRef s ref;
     q \<leftarrow> ref_parent x;
     y \<leftarrow> getRef s q;
     notify_refs B name rest (s\<lparr>world := Renamed B (ref_file x) (ref_file y) name (world s)\<rparr>) }"

fun forEachChildRef :: "('w, 'f) backend \<Rightarrow> (string \<times> ref_addr list) list \<Rightarrow> ('w, 'f) srv \<Rightarrow> ('w, 'f) srv option" where
  "forEachChildRef B [] s = Some s"
| "forEachChildRef B ((name, m) # rest) s = do {
     s \<leftarrow> notify_refs B name m s;
     forEachChildRef B rest s }"

partial_function (option) notifyNameChange ::
  "('w, 'f) backend \<Rightarrow> node_addr list \<Rightarrow> ('w, 'f) srv \<Rightarrow> ('w, 'f) srv option" where
  "notifyNameChange B work s =
     (case work of
        [] \<Rightarrow> Some s
      | pn # rest \<Rightarrow> do {
          x \<leftarrow> getNode s pn;
          s \<leftarrow> forEachChildRef B (childRefs x) s;
          notifyNameChange B (map snd (childNodes x) @ rest) s })"

text \<open>The callback of \<^verbatim>\<open>renameChildTo\<close>: a reference moves from its parent to the target.\<close>

definition moveRef ::
  "('w, 'f) backend \<Rightarrow> ref_addr \<Rightarrow> string \<Rightarrow> ref_addr \<Rightarrow> ('w, 'f) srv \<Rightarrow> ('w, 'f) srv option" where
  "moveRef B target newName ref s = do {
     x \<leftarrow> getRef s ref;
     q \<leftarrow> ref_parent x;
     (err, s) \<leftarrow> DecRef B q s;
     x \<leftarrow> getRef s ref;
     s \<leftarrow> IncRef target (setRef ref (x\<lparr>ref_parent := Some target\<rparr>) s);
     y \<leftarrow> getRef s target;
     s \<leftarrow> addChild (ref_node y) ref newName s;
     Some (s\<lparr>world := Renamed B (ref_file x) (ref_file y) newName (world s)\<rparr>) }"

definition renameChildTo ::
  "('w, 'f) backend \<Rightarrow> ref_addr \<Rightarrow> string \<Rightarrow> ref_addr \<Rightarrow> string \<Rightarrow> ('w, 'f) srv \<Rightarrow> ('w, 'f) srv option" where
  "renameChildTo B f oldName target newName s = do {
     s \<leftarrow> markChildDeleted B target newName s;
     x \<leftarrow> getRef s f;
     (origPathNode, s) \<leftarrow> removeWithName B (ref_node x) oldName (Some (moveRef B target newName)) s;
     case origPathNode of
       None \<Rightarrow> Some s
     | Some pn \<Rightarrow> do {
         y \<leftarrow> getRef s target;
         t \<leftarrow> getNode s (ref_node y);
         t \<leftarrow> addPathNodeFor newName pn t;
         notifyNameChange B [pn] (setNode (ref_node y) t s) } }"

section \<open>The fid table of a connection\<close>

definition LookupFID :: "fid \<Rightarrow> ('w, 'f) srv \<Rightarrow> (ref_addr option \<times> ('w, 'f) srv) option" where
  "LookupFID f s =
     (case map_of (fids s) f of
        None \<Rightarrow> Some (None, s)
      | Some r \<Rightarrow> do { s \<leftarrow> IncRef r s; Some (Some r, s) })"

definition InsertFID :: "('w, 'f) backend \<Rightarrow> fid \<Rightarrow> ref_addr \<Rightarrow> ('w, 'f) srv \<Rightarrow> ('w, 'f) srv option" where
  "InsertFID B f newRef s = do {
     s \<leftarrow> IncRef newRef s;
     let t = s\<lparr>fids := AList.update f newRef (fids s)\<rparr> in
     (case map_of (fids s) f of
        None \<Rightarrow> Some t
      | Some origRef \<Rightarrow> do { (err, t) \<leftarrow> DecRef B origRef t; Some t }) }"

definition DeleteFID :: "('w, 'f) backend \<Rightarrow> fid \<Rightarrow> ('w, 'f) srv \<Rightarrow> (goerror option \<times> ('w, 'f) srv) option" where
  "DeleteFID B f s =
     (case map_of (fids s) f of
        None \<Rightarrow> Some (Some (LinuxErrno EBADF), s)
      | Some r \<Rightarrow> DecRef B r (s\<lparr>fids := AList.delete f (fids s)\<rparr>))"

text \<open>\<^verbatim>\<open>stop\<close>: the final references of the fid table are dropped.\<close>

fun stop_refs :: "('w, 'f) backend \<Rightarrow> (fid \<times> ref_addr) list \<Rightarrow> ('w, 'f) srv \<Rightarrow> ('w, 'f) srv option" where
  "stop_refs B [] s = Some s"
| "stop_refs B ((f, r) # rest) s = do { (err, s) \<leftarrow> DecRef B r s; stop_refs B rest s }"

definition stop :: "('w, 'f) backend \<Rightarrow> ('w, 'f) srv \<Rightarrow> ('w, 'f) srv option" where
  "stop B s = stop_refs B (fids s) s"

end
