(* ===== verification/P9_Version.thy ===== *)
theory P9_Version
  imports P9_Prelude
begin

text \<open>
  \<^verbatim>\<open>p9/version.go\<close>: the version strings of Tversion, their parser and printer, and the feature
  predicates. The standard functions \<^verbatim>\<open>strings.Split\<close>, \<^verbatim>\<open>strconv.ParseUint\<close> and the \<^verbatim>\<open>%d\<close> verb are
  modelled as the source uses them. The main fact is that the parser inverts the printer for
  every 32-bit version number.
\<close>

section \<open>Constants\<close>

definition highestSupportedVersion :: uint32 where
  "highestSupportedVersion = 7"

definition lowestSupportedVersion :: uint32 where
  "lowestSupportedVersion = 0"

type_synonym baseVersion = string

definition undetermined :: baseVersion where "undetermined = ''''"
definition version9P2000 :: baseVersion where "version9P2000 = ''9P2000''"
definition version9P2000U :: baseVersion where "version9P2000U = ''9P2000.u''"
definition version9P2000L :: baseVersion where "version9P2000L = ''9P2000.L''"

section \<open>Library functions\<close>

text \<open>\<^verbatim>\<open>strconv.ParseUint(s, 10, bits)\<close>: \<open>None\<close> is any error (empty, a non-digit, out of range).\<close>

definition digit_value :: "char \<Rightarrow> nat option" where
  "digit_value c = (if 48 \<le> (of_char c :: nat) \<and> (of_char c :: nat) \<le> 57 then Some (of_char c - 48) else None)"

fun parse_digits :: "nat \<Rightarrow> string \<Rightarrow> nat option" where
  "parse_digits acc [] = Some acc"
| "parse_digits acc (c # cs) =
     (case digit_value c of None \<Rightarrow> None | Some d \<Rightarrow> parse_digits (acc * 10 + d) cs)"

definition ParseUint :: "string \<Rightarrow> nat \<Rightarrow> nat option" where
  "ParseUint s bits =
     (if s = [] then None
      else case parse_digits 0 s of None \<Rightarrow> None | Some n \<Rightarrow> if n < 2 ^ bits then Some n else None)"

text \<open>The decimal digits of a number (\<^verbatim>\<open>%d\<close>).\<close>

definition digit_char :: "nat \<Rightarrow> char" where
  "digit_char d = char_of (48 + d)"

fun decimal :: "nat \<Rightarrow> string" where
  "decimal n = (if n < 10 then [digit_char n] else decimal (n div 10) @ [digit_char (n mod 10)])"

declare decimal.simps [simp del]

section \<open>Parsing and printing versions\<close>

definition parseVersion :: "string \<Rightarrow> (baseVersion \<times> uint32) option" where
  "parseVersion str =
     (if str = ''9P2000.L'' then Some (version9P2000L, 0)
      else if str = ''9P2000.u'' then Some (version9P2000U, 0)
      else if str = ''9P2000'' then Some (version9P2000, 0)
      else
        let substr = split_on (CHR ''.'') str in
        if length substr \<noteq> 4 then None
        else if substr ! 0 \<noteq> ''9P2000'' \<or> substr ! 1 \<noteq> ''L'' \<or> substr ! 2 \<noteq> ''Google'' \<or>
                length (substr ! 3) = 0 then None
        else case ParseUint (substr ! 3) 32 of
               None \<Rightarrow> None
             | Some version \<Rightarrow> Some (version9P2000L, of_nat version))"

definition versionString :: "baseVersion \<Rightarrow> uint32 \<Rightarrow> string" where
  "versionString base version =
     (if version = 0 then base else ''9P2000.L.Google.'' @ decimal (unat version))"

definition HighestVersionString :: string where
  "HighestVersionString = versionString version9P2000L highestSupportedVersion"

definition versionSupportsTwalkgetattr :: "uint32 \<Rightarrow> bool" where
  "versionSupportsTwalkgetattr v \<longleftrightarrow> v \<ge> 2"

definition versionSupportsTucreation :: "uint32 \<Rightarrow> bool" where
  "versionSupportsTucreation v \<longleftrightarrow> v \<ge> 3"

definition VersionSupportsMultiUser :: "uint32 \<Rightarrow> bool" where
  "VersionSupportsMultiUser v \<longleftrightarrow> v \<ge> 6"

section \<open>Lemmas\<close>

lemma digit_value_digit_char: "d < 10 \<Longrightarrow> digit_value (digit_char d) = Some d"
  by (simp add: digit_value_def digit_char_def of_char_of)

lemma parse_digits_append:
  "parse_digits acc (s @ t) = (case parse_digits acc s of None \<Rightarrow> None | Some n \<Rightarrow> parse_digits n t)"
  by (induction acc s rule: parse_digits.induct) (auto split: option.splits)

lemma parse_digits_decimal: "parse_digits 0 (decimal n) = Some n"
proof (induction n rule: decimal.induct)
  case (1 n)
  then show ?case
    by (cases "n < 10")
      (subst decimal.simps, simp add: digit_value_digit_char parse_digits_append)+
qed

lemma decimal_not_Nil [simp]: "decimal n \<noteq> []"
  by (subst decimal.simps) simp

lemma ParseUint_decimal: "n < 2 ^ bits \<Longrightarrow> ParseUint (decimal n) bits = Some n"
  by (simp add: ParseUint_def parse_digits_decimal)

lemma digit_char_not_dot: "d < 10 \<Longrightarrow> digit_char d \<noteq> CHR ''.''"
proof
  assume "d < 10" and "digit_char d = CHR ''.''"
  then have "digit_value (CHR ''.'') = Some d" using digit_value_digit_char by metis
  then show False by (simp add: digit_value_def)
qed

lemma decimal_no_dot: "CHR ''.'' \<notin> set (decimal n)"
proof (induction n rule: decimal.induct)
  case (1 n)
  have "CHR ''.'' \<noteq> digit_char (n mod 10)" using digit_char_not_dot [of "n mod 10"] by simp
  moreover have "n < 10 \<Longrightarrow> CHR ''.'' \<noteq> digit_char n" using digit_char_not_dot by metis
  ultimately show ?case using 1 by (subst decimal.simps) simp
qed

lemma versionString_nonzero: "v \<noteq> 0 \<Longrightarrow>
  split_on (CHR ''.'') (versionString base v) = [''9P2000'', ''L'', ''Google'', decimal (unat v)]"
  using split_on_join [of "CHR ''.''" "''9P2000''" "''L.Google.'' @ decimal (unat v)"]
    split_on_join [of "CHR ''.''" "''L''" "''Google.'' @ decimal (unat v)"]
    split_on_join [of "CHR ''.''" "''Google''" "decimal (unat v)"]
    split_on_no_sep [OF decimal_no_dot, of "unat v"]
  by (simp add: versionString_def)

lemma parse_print:
  "parseVersion (versionString version9P2000L v) = Some (version9P2000L, v)"
proof (cases "v = 0")
  case True
  then show ?thesis by (simp add: parseVersion_def versionString_def version9P2000L_def)
next
  case False
  have "unat v < 2 ^ 32" using unat_lt_2p32 [of v] by simp
  then have "ParseUint (decimal (unat v)) 32 = Some (unat v)" by (rule ParseUint_decimal)
  then show ?thesis
    using False versionString_nonzero [OF False, of version9P2000L]
    by (simp add: parseVersion_def Let_def) (simp add: versionString_def)
qed

lemma parseVersion_bases:
  "parseVersion str = Some (base, v) \<Longrightarrow>
   base = version9P2000L \<or> base = version9P2000U \<and> v = 0 \<or> base = version9P2000 \<and> v = 0"
  by (auto simp: parseVersion_def Let_def split: if_splits option.splits)

text \<open>C37: \<^verbatim>\<open>parseVersion\<close> inverts \<^verbatim>\<open>versionString\<close> for every 32-bit version number of the .L
  dialect, the special case 0 included.\<close>

theorem parseVersion_versionString:
  "parseVersion (versionString version9P2000L v) = Some (version9P2000L, v)"
  by (rule parse_print)

text \<open>C38: \<^verbatim>\<open>parseVersion\<close> accepts exactly the three base versions and the strings
  \<^verbatim>\<open>9P2000.L.Google.X\<close> whose X is a decimal number below 2^32; the extension number is X, and the
  dialect is .L.\<close>

theorem parseVersion_iff:
  "parseVersion str = Some (base, v) \<longleftrightarrow>
     (str, base, v) \<in> {(''9P2000.L'', version9P2000L, 0), (''9P2000.u'', version9P2000U, 0),
                       (''9P2000'', version9P2000, 0)} \<or>
     (\<exists>x n. split_on (CHR ''.'') str = [''9P2000'', ''L'', ''Google'', x] \<and> ParseUint x 32 = Some n \<and>
            base = version9P2000L \<and> v = of_nat n)"
proof -
  have list4: "length xs = 4 \<and> xs ! 0 = a \<and> xs ! 1 = b \<and> xs ! 2 = c \<longleftrightarrow> (\<exists>x. xs = [a, b, c, x])"
    for xs :: "string list" and a b c
  proof
    assume *: "length xs = 4 \<and> xs ! 0 = a \<and> xs ! 1 = b \<and> xs ! 2 = c"
    then have "xs = [xs ! 0, xs ! 1, xs ! 2, xs ! 3]"
      by (intro nth_equalityI) (auto simp: nth_Cons numeral_eq_Suc less_Suc_eq split: nat.split)
    with * show "\<exists>x. xs = [a, b, c, x]" by auto
  qed auto
  have base: "split_on (CHR ''.'') ''9P2000.L'' = [''9P2000'', ''L'']"
    "split_on (CHR ''.'') ''9P2000.u'' = [''9P2000'', ''u'']" "split_on (CHR ''.'') ''9P2000'' = [''9P2000'']"
    by simp_all
  have empty: "ParseUint [] 32 = None" by (simp add: ParseUint_def)
  let ?s = "split_on (CHR ''.'') str"
  show ?thesis
  proof (cases "str = ''9P2000.L'' \<or> str = ''9P2000.u'' \<or> str = ''9P2000''")
    case True
    then show ?thesis using base by (auto simp: parseVersion_def)
  next
    case False
    have "parseVersion str = Some (base, v) \<longleftrightarrow>
        (length ?s = 4 \<and> ?s ! 0 = ''9P2000'' \<and> ?s ! 1 = ''L'' \<and> ?s ! 2 = ''Google'') \<and>
        (\<exists>n. ParseUint (?s ! 3) 32 = Some n \<and> base = version9P2000L \<and> v = of_nat n)"
      using False empty by (auto simp: parseVersion_def Let_def split: option.splits)
    also have "\<dots> \<longleftrightarrow> (\<exists>x n. ?s = [''9P2000'', ''L'', ''Google'', x] \<and> ParseUint x 32 = Some n \<and>
            base = version9P2000L \<and> v = of_nat n)"
      unfolding list4 by auto
    finally show ?thesis using False by auto
  qed
qed

end
