(* ===== verification/P9_MsgCodec.thy ===== *)
theory P9_MsgCodec
  imports P9_Messages
begin

text \<open>
  Round trip of all messages: for every constructor of \<^typ>\<open>message\<close>, decoding the encoded
  message into any instance of the same type gives the message back (for \<^verbatim>\<open>rreaddir\<close> the
  message with the entries that fit its byte limit), consuming exactly its bytes. The cases
  are the interpretations of \<open>codec\<close> and \<open>payload_codec\<close> for the structures.
\<close>

section \<open>Encoding and decoding messages\<close>

definition fixed_part :: "message \<Rightarrow> byte list" where
  "fixed_part m = data (snd (run_state (encode m) empty_buffer))"

definition encoded_msg :: "message \<Rightarrow> message" where
  "encoded_msg m = fst (run_state (encode m) empty_buffer)"

text \<open>The limits of the wire format, and the message a receiver must obtain.\<close>

primrec message_ok :: "message \<Rightarrow> bool" where
    "message_ok (Tversion m) \<longleftrightarrow> tversion_ok m"
  | "message_ok (Rversion m) \<longleftrightarrow> rversion_ok m"
  | "message_ok (Tflush m) \<longleftrightarrow> True"
  | "message_ok (Rflush m) \<longleftrightarrow> True"
  | "message_ok (Twalk m) \<longleftrightarrow> twalk_ok m"
  | "message_ok (Rwalk m) \<longleftrightarrow> rwalk_ok m"
  | "message_ok (Tclunk m) \<longleftrightarrow> tclunk_ok m"
  | "message_ok (Rclunk m) \<longleftrightarrow> True"
  | "message_ok (Tremove m) \<longleftrightarrow> tremove_ok m"
  | "message_ok (Rremove m) \<longleftrightarrow> True"
  | "message_ok (Rlerror m) \<longleftrightarrow> True"
  | "message_ok (Tauth m) \<longleftrightarrow> tauth_ok m"
  | "message_ok (Rauth m) \<longleftrightarrow> True"
  | "message_ok (Tattach m) \<longleftrightarrow> tattach_ok m"
  | "message_ok (Rattach m) \<longleftrightarrow> True"
  | "message_ok (Tlopen m) \<longleftrightarrow> tlopen_ok m"
  | "message_ok (Rlopen m) \<longleftrightarrow> True"
  | "message_ok (Tlcreate m) \<longleftrightarrow> tlcreate_ok m"
  | "message_ok (Rlcreate m) \<longleftrightarrow> True"
  | "message_ok (Tsymlink m) \<longleftrightarrow> tsymlink_ok m"
  | "message_ok (Rsymlink m) \<longleftrightarrow> True"
  | "message_ok (Tlink m) \<longleftrightarrow> tlink_ok m"
  | "message_ok (Rlink m) \<longleftrightarrow> True"
  | "message_ok (Trenameat m) \<longleftrightarrow> trenameat_ok m"
  | "message_ok (Rrenameat m) \<longleftrightarrow> True"
  | "message_ok (Tunlinkat m) \<longleftrightarrow> tunlinkat_ok m"
  | "message_ok (Runlinkat m) \<longleftrightarrow> True"
  | "message_ok (Trename m) \<longleftrightarrow> trename_ok m"
  | "message_ok (Rrename m) \<longleftrightarrow> True"
  | "message_ok (Treadlink m) \<longleftrightarrow> treadlink_ok m"
  | "message_ok (Rreadlink m) \<longleftrightarrow> rreadlink_ok m"
  | "message_ok (Tread m) \<longleftrightarrow> tread_ok m"
  | "message_ok (Rread m) \<longleftrightarrow> True"
  | "message_ok (Twrite m) \<longleftrightarrow> fid_ok (twrite_fid m)"
  | "message_ok (Rwrite m) \<longleftrightarrow> True"
  | "message_ok (Tmknod m) \<longleftrightarrow> tmknod_ok m"
  | "message_ok (Rmknod m) \<longleftrightarrow> True"
  | "message_ok (Tmkdir m) \<longleftrightarrow> tmkdir_ok m"
  | "message_ok (Rmkdir m) \<longleftrightarrow> True"
  | "message_ok (Tgetattr m) \<longleftrightarrow> tgetattr_ok m"
  | "message_ok (Rgetattr m) \<longleftrightarrow> True"
  | "message_ok (Tsetattr m) \<longleftrightarrow> tsetattr_ok m"
  | "message_ok (Rsetattr m) \<longleftrightarrow> True"
  | "message_ok (Txattrwalk m) \<longleftrightarrow> txattrwalk_ok m"
  | "message_ok (Rxattrwalk m) \<longleftrightarrow> True"
  | "message_ok (Txattrcreate m) \<longleftrightarrow> txattrcreate_ok m"
  | "message_ok (Rxattrcreate m) \<longleftrightarrow> True"
  | "message_ok (Treaddir m) \<longleftrightarrow> treaddir_ok m"
  | "message_ok (Rreaddir m) \<longleftrightarrow> rreaddir_ok m"
  | "message_ok (Tfsync m) \<longleftrightarrow> tfsync_ok m"
  | "message_ok (Rfsync m) \<longleftrightarrow> True"
  | "message_ok (Tstatfs m) \<longleftrightarrow> tstatfs_ok m"
  | "message_ok (Rstatfs m) \<longleftrightarrow> True"
  | "message_ok (Twalkgetattr m) \<longleftrightarrow> twalkgetattr_ok m"
  | "message_ok (Rwalkgetattr m) \<longleftrightarrow> rwalkgetattr_ok m"
  | "message_ok (Tucreate m) \<longleftrightarrow> tucreate_ok m"
  | "message_ok (Rucreate m) \<longleftrightarrow> True"
  | "message_ok (Tumkdir m) \<longleftrightarrow> tumkdir_ok m"
  | "message_ok (Rumkdir m) \<longleftrightarrow> True"
  | "message_ok (Tumknod m) \<longleftrightarrow> tumknod_ok m"
  | "message_ok (Rumknod m) \<longleftrightarrow> True"
  | "message_ok (Tusymlink m) \<longleftrightarrow> tusymlink_ok m"
  | "message_ok (Rusymlink m) \<longleftrightarrow> True"
  | "message_ok (Tlock m) \<longleftrightarrow> tlock_ok m"
  | "message_ok (Rlock m) \<longleftrightarrow> True"

definition sent :: "message \<Rightarrow> message" where
  "sent m = (case m of Rreaddir r \<Rightarrow> Rreaddir (rreaddir_sent r) | _ \<Rightarrow> m)"

lemmas struct_encoders =
  tversion.enc_run rversion.enc_run tflush.enc_run rflush.enc_run
  twalk.enc_run rwalk.enc_run tclunk.enc_run rclunk.enc_run
  tremove.enc_run rremove.enc_run rlerror.enc_run tauth.enc_run
  rauth.enc_run tattach.enc_run rattach.enc_run tlopen.enc_run
  rlopen.enc_run tlcreate.enc_run rlcreate.enc_run tsymlink.enc_run
  rsymlink.enc_run tlink.enc_run rlink.enc_run trenameat.enc_run
  rrenameat.enc_run tunlinkat.enc_run runlinkat.enc_run trename.enc_run
  rrename.enc_run treadlink.enc_run rreadlink.enc_run tread.enc_run
  rwrite.enc_run tmknod.enc_run rmknod.enc_run tmkdir.enc_run
  rmkdir.enc_run tgetattr.enc_run rgetattr.enc_run tsetattr.enc_run
  rsetattr.enc_run txattrwalk.enc_run rxattrwalk.enc_run txattrcreate.enc_run
  rxattrcreate.enc_run treaddir.enc_run tfsync.enc_run rfsync.enc_run
  tstatfs.enc_run rstatfs.enc_run twalkgetattr.enc_run rwalkgetattr.enc_run
  tucreate.enc_run rucreate.enc_run tumkdir.enc_run rumkdir.enc_run
  tumknod.enc_run rumknod.enc_run tusymlink.enc_run rusymlink.enc_run
  tlock.enc_run rlock.enc_run

lemmas struct_decoders =
  tversion.dec_enc rversion.dec_enc tflush.dec_enc rflush.dec_enc
  twalk.dec_enc rwalk.dec_enc tclunk.dec_enc rclunk.dec_enc
  tremove.dec_enc rremove.dec_enc rlerror.dec_enc tauth.dec_enc
  rauth.dec_enc tattach.dec_enc rattach.dec_enc tlopen.dec_enc
  rlopen.dec_enc tlcreate.dec_enc rlcreate.dec_enc tsymlink.dec_enc
  rsymlink.dec_enc tlink.dec_enc rlink.dec_enc trenameat.dec_enc
  rrenameat.dec_enc tunlinkat.dec_enc runlinkat.dec_enc trename.dec_enc
  rrename.dec_enc treadlink.dec_enc rreadlink.dec_enc tread.dec_enc
  rwrite.dec_enc tmknod.dec_enc rmknod.dec_enc tmkdir.dec_enc
  rmkdir.dec_enc tgetattr.dec_enc rgetattr.dec_enc tsetattr.dec_enc
  rsetattr.dec_enc txattrwalk.dec_enc rxattrwalk.dec_enc txattrcreate.dec_enc
  rxattrcreate.dec_enc treaddir.dec_enc tfsync.dec_enc rfsync.dec_enc
  tstatfs.dec_enc rstatfs.dec_enc twalkgetattr.dec_enc rwalkgetattr.dec_enc
  tucreate.dec_enc rucreate.dec_enc tumkdir.dec_enc rumkdir.dec_enc
  tumknod.dec_enc rumknod.dec_enc tusymlink.dec_enc rusymlink.dec_enc
  tlock.dec_enc rlock.dec_enc

lemma rread_encode_run:
  "run_state (rread_encode r) b = ((), b\<lparr>data := data b @ put_le 4 (of_nat (length (rread_Data r)) :: uint32)\<rparr>)"
  by (simp add: rread_encode_def writer_run [OF writer_primitives(3)] encoded_primitives)

lemmas encode_runs = struct_encoders rread_encode_run twrite_encode_run rreaddir_encode_run

lemma encode_run:
  "run_state (encode m) b = (encoded_msg m, b\<lparr>data := data b @ fixed_part m\<rparr>)"
  by (cases m) (simp_all add: fixed_part_def encoded_msg_def encode_runs empty_buffer_def)

lemma encoded_msg_typ [simp]: "msg_typ (encoded_msg m) = msg_typ m"
  by (cases m) (simp_all add: encoded_msg_def encode_runs)

lemma payloader_encoded_msg [simp]: "payloader (encoded_msg m) = payloader m"
  by (cases m) (simp_all add: encoded_msg_def encode_runs payloader_def)

lemma FixedSize_encoded_msg [simp]: "FixedSize (encoded_msg m) = FixedSize m"
  by (cases m) (simp_all add: encoded_msg_def encode_runs FixedSize_def)

lemma sent_typ [simp]: "msg_typ (sent m) = msg_typ m"
  by (cases m) (simp_all add: sent_def)

lemma Payload_not_payloader: "\<not> payloader m \<Longrightarrow> Payload m = []"
  by (cases m) (simp_all add: payloader_def Payload_def)

lemma SetPayload_not_payloader: "\<not> payloader m \<Longrightarrow> SetPayload p m = m"
  by (cases m) (simp_all add: payloader_def SetPayload_def)

lemma SetPayload_typ [simp]: "msg_typ (SetPayload p m) = msg_typ m"
  by (cases m) (simp_all add: SetPayload_def)

lemma payloader_typ:
  "payloader m \<longleftrightarrow> msg_typ m = msgRread \<or> msg_typ m = msgTwrite \<or> msg_typ m = msgRreaddir"
  by (cases m) (simp_all add: payloader_def msgType_defs)

lemma payloader_cong: "msg_typ y = msg_typ m \<Longrightarrow> payloader y = payloader m"
  by (simp add: payloader_typ)

lemma FixedSize_typ:
  "FixedSize m = (if msg_typ m = msgTwrite then 16 else if payloader m then 4 else 0)"
  by (cases m) (simp_all add: FixedSize_def payloader_def msgType_defs rread_FixedSize_def
      twrite_FixedSize_def rreaddir_FixedSize_def)

lemma FixedSize_cong: "msg_typ y = msg_typ m \<Longrightarrow> FixedSize y = FixedSize m"
  by (simp add: FixedSize_typ payloader_typ)

text \<open>The fixed part of a payloader has its \<^verbatim>\<open>FixedSize\<close>.\<close>

lemma fixed_part_length: "payloader m \<Longrightarrow> length (fixed_part m) = unat (FixedSize m)"
  by (cases m) (simp_all add: payloader_def fixed_part_def FixedSize_def encode_runs
      rread_FixedSize_def twrite_FixedSize_def rreaddir_FixedSize_def empty_buffer_def)

section \<open>Round trip\<close>

text \<open>The three payloaders, by their interpretations of \<open>payload_codec\<close>.\<close>

lemma decode_payloads:
  "run_state (rread_decode (rread_SetPayload (rread_Data x) y))
     \<lparr>data = put_le 4 (of_nat (length (rread_Data x)) :: uint32) @ r, overflow = f\<rparr>
     = (x, \<lparr>data = r, overflow = f\<rparr>)"
  "fid_ok (twrite_fid t) \<Longrightarrow> run_state (twrite_decode (twrite_SetPayload (twrite_Data t) u))
     \<lparr>data = put_le 4 (ucast (twrite_fid t) :: uint32) @ put_le 8 (twrite_Offset t)
        @ put_le 4 (of_nat (length (twrite_Data t)) :: uint32) @ r, overflow = f\<rparr>
     = (t, \<lparr>data = r, overflow = f\<rparr>)"
  "rreaddir_ok d \<Longrightarrow>
     run_state (rreaddir_decode (rreaddir_SetPayload (rreaddir_payload (rreaddir_sent d)) e))
     \<lparr>data = put_le 4 (rreaddir_Count (rreaddir_sent d)) @ r, overflow = f\<rparr>
     = (rreaddir_sent d, \<lparr>data = r, overflow = f\<rparr>)"
  using rread.dec_enc [of x y r f] twrite.dec_enc [of t u r f] rreaddir.dec_enc [of d e r f]
  by (simp_all add: encode_runs rread_Payload_def twrite_Payload_def rreaddir_Payload_def
      empty_buffer_def)

text \<open>
  One step of the proof: the instance \<open>y\<close> has the constructor of \<open>m\<close>, and its structure's
  codec applies.
\<close>

lemma decode_encode:
  assumes "message_ok m" and "msg_typ y = msg_typ m"
  shows "run_state (decode (SetPayload (Payload (encoded_msg m)) y))
      \<lparr>data = fixed_part m @ r, overflow = f\<rparr> = (sent m, \<lparr>data = r, overflow = f\<rparr>)"
  using assms
  by (cases m)
    (auto simp: msg_typ_iff fixed_part_def encoded_msg_def encode_runs empty_buffer_def sent_def
      SetPayload_def Payload_def struct_decoders decode_payloads rread_Payload_def twrite_Payload_def
      rreaddir_Payload_def)

section \<open>Truncated messages\<close>

lemmas struct_decode_readers [reader_intros] =
  tversion.dec_reader rversion.dec_reader tflush.dec_reader rflush.dec_reader
  twalk.dec_reader rwalk.dec_reader tclunk.dec_reader rclunk.dec_reader
  tremove.dec_reader rremove.dec_reader rlerror.dec_reader tauth.dec_reader
  rauth.dec_reader tattach.dec_reader rattach.dec_reader tlopen.dec_reader
  rlopen.dec_reader tlcreate.dec_reader rlcreate.dec_reader tsymlink.dec_reader
  rsymlink.dec_reader tlink.dec_reader rlink.dec_reader trenameat.dec_reader
  rrenameat.dec_reader tunlinkat.dec_reader runlinkat.dec_reader trename.dec_reader
  rrename.dec_reader treadlink.dec_reader rreadlink.dec_reader tread.dec_reader
  rwrite.dec_reader tmknod.dec_reader rmknod.dec_reader tmkdir.dec_reader
  rmkdir.dec_reader tgetattr.dec_reader rgetattr.dec_reader tsetattr.dec_reader
  rsetattr.dec_reader txattrwalk.dec_reader rxattrwalk.dec_reader txattrcreate.dec_reader
  rxattrcreate.dec_reader treaddir.dec_reader tfsync.dec_reader rfsync.dec_reader
  tstatfs.dec_reader rstatfs.dec_reader twalkgetattr.dec_reader rwalkgetattr.dec_reader
  tucreate.dec_reader rucreate.dec_reader tumkdir.dec_reader rumkdir.dec_reader
  tumknod.dec_reader rumknod.dec_reader tusymlink.dec_reader rusymlink.dec_reader
  tlock.dec_reader rlock.dec_reader

lemma reader_if [reader_intros]: "reader m \<Longrightarrow> reader n \<Longrightarrow> reader (if c then m else n)"
  by simp

lemma reader_payload_decoders [reader_intros]:
  "reader (rread_decode r)" "reader (twrite_decode t)" "reader (rreaddir_decode d)"
  unfolding rread_decode_def twrite_decode_def rreaddir_decode_def by (intro reader_intros)+

lemma decode_reader: "reader (decode m)"
  by (cases m) (simp_all add: reader_intros)

text \<open>Every proper prefix of the fixed part is reported as an overrun.\<close>

lemma decode_truncated:
  assumes "message_ok m" and "msg_typ y = msg_typ m" and "fixed_part m = p @ q" and "q \<noteq> []"
  shows "overflow (snd (run_state (decode (SetPayload (Payload (encoded_msg m)) y))
      \<lparr>data = p, overflow = False\<rparr>))"
proof (rule ccontr)
  let ?dec = "decode (SetPayload (Payload (encoded_msg m)) y)"
  assume neg: "\<not> overflow (snd (run_state ?dec \<lparr>data = p, overflow = False\<rparr>))"
  obtain v b where vb: "run_state ?dec \<lparr>data = p, overflow = False\<rparr> = (v, b)" by fastforce
  with neg obtain e where b: "b = \<lparr>data = e, overflow = False\<rparr>" by (cases b) simp
  have "run_state ?dec \<lparr>data = p @ q, overflow = False\<rparr> = (v, \<lparr>data = e @ q, overflow = False\<rparr>)"
    by (rule reader_extend [OF decode_reader vb [unfolded b]])
  with decode_encode [OF assms(1,2), of "[]" False] assms(3,4) show False by simp
qed

end
