(* ===== verification/P9_Registry.thy ===== *)
theory P9_Registry
  imports P9_MsgCodec
begin

text \<open>
  The message registry of \<^verbatim>\<open>p9/messages.go\<close>: a factory per message type and a bounded cache of
  instances for reuse. The factories of \<^verbatim>\<open>init\<close> are registered without a duplicate (no panic),
  \<^verbatim>\<open>get\<close> hands out a message of the requested type or reports an invalid type, and a cached
  payload is dropped by \<^verbatim>\<open>put\<close>.
\<close>

section \<open>State and operations\<close>

definition maxCacheSize :: nat where
  "maxCacheSize = 3"

text \<open>
  \<open>create\<close> is the message the factory function returns, \<open>cache\<close> the buffered channel (first
  element is received first).
\<close>

record msgFactory =
  create :: message
  cache :: "message list"

record registry =
  factories :: "msgType \<Rightarrow> msgFactory option"
  largestFixedSize :: uint32

definition empty_registry :: registry where
  "empty_registry = \<lparr>factories = (\<lambda>_. None), largestFixedSize = 0\<rparr>"

datatype ErrInvalidMsgType = ErrInvalidMsgType msgType

definition registry_get :: "registry \<Rightarrow> msgType \<Rightarrow> (ErrInvalidMsgType + message) \<times> registry" where
  "registry_get r t =
     (case factories r t of
        None \<Rightarrow> (Inl (ErrInvalidMsgType t), r)
      | Some entry \<Rightarrow>
          (case cache entry of
             msg # rest \<Rightarrow> (Inr msg, r\<lparr>factories := (factories r)(t \<mapsto> entry\<lparr>cache := rest\<rparr>)\<rparr>)
           | [] \<Rightarrow> (Inr (create entry), r)))"

definition registry_put :: "registry \<Rightarrow> message \<Rightarrow> registry" where
  "registry_put r msg =
     (let msg = (if payloader msg then SetPayload [] msg else msg) in
      case factories r (msg_typ msg) of
        None \<Rightarrow> r
      | Some entry \<Rightarrow>
          if length (cache entry) < maxCacheSize
          then r\<lparr>factories := (factories r)(msg_typ msg \<mapsto> entry\<lparr>cache := cache entry @ [msg]\<rparr>)\<rparr>
          else r)"

definition calculateSize :: "message \<Rightarrow> uint32" where
  "calculateSize m =
     (if payloader m then FixedSize m
      else of_nat (length (data (snd (run_state (encode m) empty_buffer)))))"

text \<open>\<^verbatim>\<open>register\<close>: \<open>None\<close> is the panic on a duplicate type.\<close>

definition registry_register :: "msgType \<Rightarrow> message \<Rightarrow> registry \<Rightarrow> registry option" where
  "registry_register t fn r =
     (if factories r t \<noteq> None then None
      else let r = r\<lparr>factories := (factories r)(t \<mapsto> \<lparr>create = fn, cache = []\<rparr>)\<rparr>;
               size = calculateSize fn
           in Some (if size > largestFixedSize r then r\<lparr>largestFixedSize := size\<rparr> else r))"

fun register_all :: "(msgType \<times> message) list \<Rightarrow> registry \<Rightarrow> registry option" where
  "register_all [] r = Some r"
| "register_all ((t, fn) # rest) r =
     (case registry_register t fn r of None \<Rightarrow> None | Some r \<Rightarrow> register_all rest r)"

text \<open>The calls of \<^verbatim>\<open>init\<close>, in order.\<close>

definition init_table :: "(msgType \<times> message) list" where
  "init_table = [
     (msgRlerror, Rlerror rlerror_zero),
     (msgTstatfs, Tstatfs tstatfs_zero),
     (msgRstatfs, Rstatfs rstatfs_zero),
     (msgTlopen, Tlopen tlopen_zero),
     (msgRlopen, Rlopen rlopen_zero),
     (msgTlcreate, Tlcreate tlcreate_zero),
     (msgRlcreate, Rlcreate rlcreate_zero),
     (msgTsymlink, Tsymlink tsymlink_zero),
     (msgRsymlink, Rsymlink rsymlink_zero),
     (msgTmknod, Tmknod tmknod_zero),
     (msgRmknod, Rmknod rmknod_zero),
     (msgTrename, Trename trename_zero),
     (msgRrename, Rrename ()),
     (msgTreadlink, Treadlink treadlink_zero),
     (msgRreadlink, Rreadlink rreadlink_zero),
     (msgTgetattr, Tgetattr tgetattr_zero),
     (msgRgetattr, Rgetattr rgetattr_zero),
     (msgTsetattr, Tsetattr tsetattr_zero),
     (msgRsetattr, Rsetattr ()),
     (msgTxattrwalk, Txattrwalk txattrwalk_zero),
     (msgRxattrwalk, Rxattrwalk rxattrwalk_zero),
     (msgTxattrcreate, Txattrcreate txattrcreate_zero),
     (msgRxattrcreate, Rxattrcreate ()),
     (msgTreaddir, Treaddir treaddir_zero),
     (msgRreaddir, Rreaddir rreaddir_zero),
     (msgTfsync, Tfsync tfsync_zero),
     (msgRfsync, Rfsync ()),
     (msgTlink, Tlink tlink_zero),
     (msgRlink, Rlink ()),
     (msgTlock, Tlock tlock_zero),
     (msgRlock, Rlock rlock_zero),
     (msgTmkdir, Tmkdir tmkdir_zero),
     (msgRmkdir, Rmkdir rmkdir_zero),
     (msgTrenameat, Trenameat trenameat_zero),
     (msgRrenameat, Rrenameat ()),
     (msgTunlinkat, Tunlinkat tunlinkat_zero),
     (msgRunlinkat, Runlinkat ()),
     (msgTversion, Tversion tversion_zero),
     (msgRversion, Rversion rversion_zero),
     (msgTauth, Tauth tauth_zero),
     (msgRauth, Rauth rauth_zero),
     (msgTattach, Tattach tattach_zero),
     (msgRattach, Rattach rattach_zero),
     (msgTflush, Tflush tflush_zero),
     (msgRflush, Rflush ()),
     (msgTwalk, Twalk twalk_zero),
     (msgRwalk, Rwalk rwalk_zero),
     (msgTread, Tread tread_zero),
     (msgRread, Rread rread_zero),
     (msgTwrite, Twrite twrite_zero),
     (msgRwrite, Rwrite rwrite_zero),
     (msgTclunk, Tclunk tclunk_zero),
     (msgRclunk, Rclunk ()),
     (msgTremove, Tremove tremove_zero),
     (msgRremove, Rremove ()),
     (msgTwalkgetattr, Twalkgetattr twalkgetattr_zero),
     (msgRwalkgetattr, Rwalkgetattr rwalkgetattr_zero),
     (msgTucreate, Tucreate tucreate_zero),
     (msgRucreate, Rucreate rucreate_zero),
     (msgTumkdir, Tumkdir tumkdir_zero),
     (msgRumkdir, Rumkdir rumkdir_zero),
     (msgTumknod, Tumknod tumknod_zero),
     (msgRumknod, Rumknod rumknod_zero),
     (msgTusymlink, Tusymlink tusymlink_zero),
     (msgRusymlink, Rusymlink rusymlink_zero)]"

definition msgDotLRegistry :: "registry option" where
  "msgDotLRegistry = register_all init_table empty_registry"

section \<open>Invariant\<close>

text \<open>Every factory creates and caches messages of its own type, at most \<^verbatim>\<open>maxCacheSize\<close> of them.\<close>

definition registry_ok :: "registry \<Rightarrow> bool" where
  "registry_ok r \<longleftrightarrow> (\<forall>t entry. factories r t = Some entry \<longrightarrow>
     msg_typ (create entry) = t \<and> (\<forall>m\<in>set (cache entry). msg_typ m = t) \<and>
     length (cache entry) \<le> maxCacheSize)"

lemma registry_ok_empty: "registry_ok empty_registry"
  by (simp add: registry_ok_def empty_registry_def)

lemma registry_ok_register:
  "registry_ok r \<Longrightarrow> msg_typ fn = t \<Longrightarrow> registry_register t fn r = Some r' \<Longrightarrow> registry_ok r'"
  by (auto simp: registry_ok_def registry_register_def Let_def split: if_splits)

lemma registry_ok_register_all:
  "registry_ok r \<Longrightarrow> \<forall>(t, fn)\<in>set tbl. msg_typ fn = t \<Longrightarrow> register_all tbl r = Some r' \<Longrightarrow> registry_ok r'"
proof (induction tbl arbitrary: r)
  case (Cons e tbl)
  obtain t fn where "e = (t, fn)" by fastforce
  with Cons show ?case
    by (auto split: option.splits intro: registry_ok_register)
qed simp

lemma registry_ok_get: "registry_ok r \<Longrightarrow> registry_ok (snd (registry_get r t))"
  by (fastforce simp: registry_ok_def registry_get_def split: option.splits list.splits)

lemma registry_ok_put: "registry_ok r \<Longrightarrow> registry_ok (registry_put r m)"
  unfolding registry_put_def Let_def
  by (auto simp: registry_ok_def split: option.splits)

lemma registry_get_typ:
  "registry_ok r \<Longrightarrow> fst (registry_get r t) = Inr m \<Longrightarrow> msg_typ m = t"
  by (auto simp: registry_ok_def registry_get_def split: option.splits list.splits)

lemma registry_get_Inl:
  "fst (registry_get r t) = Inl e \<longleftrightarrow> factories r t = None \<and> e = ErrInvalidMsgType t"
  by (auto simp: registry_get_def split: option.splits list.splits)

section \<open>The 9P2000.L registry\<close>

text \<open>\<^verbatim>\<open>register_all\<close> on a table without duplicates and with an empty registry.\<close>

lemma register_all_domain:
  "register_all tbl r = Some r' \<Longrightarrow> factories r' t = None \<longleftrightarrow> factories r t = None \<and> t \<notin> fst ` set tbl"
proof (induction tbl arbitrary: r)
  case (Cons e tbl)
  obtain u fn where e: "e = (u, fn)" by fastforce
  with Cons.prems obtain r1 where r1: "registry_register u fn r = Some r1" "register_all tbl r1 = Some r'"
    by (auto split: option.splits)
  have "factories r1 t = None \<longleftrightarrow> factories r t = None \<and> t \<noteq> u"
    using r1(1) by (auto simp: registry_register_def Let_def split: if_splits)
  with Cons.IH [OF r1(2)] e show ?case by auto
qed simp

lemma register_all_Some:
  "distinct (map fst tbl) \<Longrightarrow> (\<forall>t\<in>fst ` set tbl. factories r t = None) \<Longrightarrow> register_all tbl r \<noteq> None"
proof (induction tbl arbitrary: r)
  case (Cons e tbl)
  obtain t fn where e: "e = (t, fn)" by fastforce
  with Cons.prems obtain r1 where r1: "registry_register t fn r = Some r1"
    by (auto simp: registry_register_def Let_def)
  then have "factories r1 u = None" if "u \<in> fst ` set tbl" for u
    using Cons.prems e that r1
    by (force simp: registry_register_def Let_def split: if_splits)
  with Cons.IH [of r1] Cons.prems e r1 show ?case by auto
qed simp

lemma register_all_size:
  "register_all tbl r = Some r' \<Longrightarrow>
   largestFixedSize r' = fold (\<lambda>s m. max m s) (map (\<lambda>(t, fn). calculateSize fn) tbl) (largestFixedSize r)"
proof (induction tbl arbitrary: r)
  case (Cons e tbl)
  obtain t fn where e: "e = (t, fn)" by fastforce
  with Cons.prems obtain r1 where r1: "registry_register t fn r = Some r1" "register_all tbl r1 = Some r'"
    by (auto split: option.splits)
  have "largestFixedSize r1 = max (largestFixedSize r) (calculateSize fn)"
    using r1(1) by (auto simp: registry_register_def Let_def max_def split: if_splits)
  with Cons.IH [OF r1(2)] e show ?case by (simp add: max.commute)
qed simp

lemma init_table_distinct: "distinct (map fst init_table)"
  unfolding init_table_def msgType_defs by code_simp

lemma init_table_typ: "\<forall>(t, fn)\<in>set init_table. msg_typ fn = t"
  by (simp add: init_table_def)

text \<open>
  The sizes of the registered zero messages. \<^verbatim>\<open>rgetattr\<close> has the largest fixed part, 153 bytes:
  8 for the mask, 13 for the QID and 132 for the attributes.
\<close>

lemma Write_run:
  "run_state (Write8 v8) b = ((), b\<lparr>data := data b @ put_le 1 v8\<rparr>)"
  "run_state (Write16 v16) b = ((), b\<lparr>data := data b @ put_le 2 v16\<rparr>)"
  "run_state (Write32 v32) b = ((), b\<lparr>data := data b @ put_le 4 v32\<rparr>)"
  "run_state (Write64 v64) b = ((), b\<lparr>data := data b @ put_le 8 v64\<rparr>)"
  by (simp_all add: Write8_def Write16_def Write32_def Write64_def append_bytes_def)

lemmas zero_defs =
  tversion_zero_def rversion_zero_def tflush_zero_def twalk_zero_def rwalk_zero_def
  tclunk_zero_def tremove_zero_def rlerror_zero_def tauth_zero_def rauth_zero_def
  tattach_zero_def rattach_zero_def tlopen_zero_def rlopen_zero_def tlcreate_zero_def
  rlcreate_zero_def tsymlink_zero_def rsymlink_zero_def tlink_zero_def trenameat_zero_def
  tunlinkat_zero_def trename_zero_def treadlink_zero_def rreadlink_zero_def tread_zero_def
  rread_zero_def twrite_zero_def rwrite_zero_def tmknod_zero_def rmknod_zero_def
  tmkdir_zero_def rmkdir_zero_def tgetattr_zero_def rgetattr_zero_def tsetattr_zero_def
  txattrwalk_zero_def rxattrwalk_zero_def txattrcreate_zero_def treaddir_zero_def rreaddir_zero_def
  tfsync_zero_def tstatfs_zero_def rstatfs_zero_def twalkgetattr_zero_def rwalkgetattr_zero_def
  tucreate_zero_def rucreate_zero_def tumkdir_zero_def rumkdir_zero_def tumknod_zero_def
  rumknod_zero_def tusymlink_zero_def rusymlink_zero_def tlock_zero_def rlock_zero_def

lemmas struct_encode_defs =
  tversion_encode_def rversion_encode_def tflush_encode_def rflush_encode_def
  twalk_encode_def rwalk_encode_def tclunk_encode_def rclunk_encode_def
  tremove_encode_def rremove_encode_def rlerror_encode_def tauth_encode_def
  rauth_encode_def tattach_encode_def rattach_encode_def tlopen_encode_def
  rlopen_encode_def tlcreate_encode_def rlcreate_encode_def tsymlink_encode_def
  rsymlink_encode_def tlink_encode_def rlink_encode_def trenameat_encode_def
  rrenameat_encode_def tunlinkat_encode_def runlinkat_encode_def trename_encode_def
  rrename_encode_def treadlink_encode_def rreadlink_encode_def tread_encode_def
  rwrite_encode_def tmknod_encode_def rmknod_encode_def tmkdir_encode_def
  rmkdir_encode_def tgetattr_encode_def rgetattr_encode_def tsetattr_encode_def
  rsetattr_encode_def txattrwalk_encode_def rxattrwalk_encode_def txattrcreate_encode_def
  rxattrcreate_encode_def treaddir_encode_def tfsync_encode_def rfsync_encode_def
  tstatfs_encode_def rstatfs_encode_def twalkgetattr_encode_def rwalkgetattr_encode_def
  tucreate_encode_def rucreate_encode_def tumkdir_encode_def rumkdir_encode_def
  tumknod_encode_def rumknod_encode_def tusymlink_encode_def rusymlink_encode_def
  tlock_encode_def rlock_encode_def
  QID_encode_def FSStat_encode_def AttrMask_encode_def Attr_encode_def SetAttrMask_encode_def
  SetAttr_encode_def WriteString_def WriteQIDType_def WriteTag_def WriteFID_def WriteUID_def
  WriteGID_def WritePermissions_def WriteFileMode_def WriteOpenFlags_def

lemma init_table_sizes:
  "map (\<lambda>(t, fn). calculateSize fn) init_table =
     [4, 4, 60, 8, 17, 18, 17, 12, 13, 22, 13, 10, 0, 4, 2, 12, 153, 60, 0, 10, 8, 18, 0, 16, 4, 4,
      0, 10, 0, 31, 1, 14, 13, 12, 0, 10, 0, 6, 6, 12, 13, 16, 13, 2, 0, 10, 2, 16, 4, 16, 4, 4, 0,
      4, 0, 10, 142, 22, 17, 18, 13, 26, 13, 16, 13]"
  by (simp add: init_table_def calculateSize_def payloader_def FixedSize_def
      rread_FixedSize_def twrite_FixedSize_def rreaddir_FixedSize_def
      struct_encode_defs zero_defs Write_run empty_buffer_def Let_def)

lemma msgDotLRegistry_Some:
  obtains r where "msgDotLRegistry = Some r"
proof -
  have "register_all init_table empty_registry \<noteq> None"
    by (rule register_all_Some [OF init_table_distinct]) (simp add: empty_registry_def)
  then show ?thesis using that by (auto simp: msgDotLRegistry_def)
qed

lemma msgDotLRegistry_ok: "msgDotLRegistry = Some r \<Longrightarrow> registry_ok r"
  using registry_ok_register_all [OF registry_ok_empty init_table_typ]
  by (auto simp: msgDotLRegistry_def)

lemma msgDotLRegistry_largest: "msgDotLRegistry = Some r \<Longrightarrow> largestFixedSize r = 153"
  unfolding msgDotLRegistry_def
  by (drule register_all_size) (simp add: init_table_sizes empty_registry_def)

lemma msgDotLRegistry_domain:
  "msgDotLRegistry = Some r \<Longrightarrow> factories r t = None \<longleftrightarrow> t \<notin> fst ` set init_table"
  unfolding msgDotLRegistry_def by (simp add: register_all_domain empty_registry_def)

text \<open>Every message has a registered type.\<close>

lemma msg_typ_registered: "msg_typ m \<in> fst ` set init_table"
  by (cases m) (simp_all add: init_table_def)

end
