(* ===== verification/P9_Vecnet.thy ===== *)
theory P9_Vecnet
  imports P9_Prelude
begin

text \<open>
  Package \<^verbatim>\<open>vecnet\<close> (\<^verbatim>\<open>vecnet.go\<close>, \<^verbatim>\<open>vecnet_linux.go\<close>) and the parts of Go's \<^verbatim>\<open>io\<close> package the
  transport reads with. An \<^verbatim>\<open>io.Reader\<close> is the list of the results its \<^verbatim>\<open>Read\<close> calls will
  deliver, so that every fragmentation of the byte stream, including short reads, empty reads
  and errors in the middle, is a value of the model. The lemmas show that on a stream without
  errors the generic loop, the \<^verbatim>\<open>recvmsg\<close> loop, \<^verbatim>\<open>io.ReadAtLeast\<close> and the discarding copy all
  consume exactly the requested bytes, whatever the fragmentation.
\<close>

section \<open>Readers\<close>

datatype io_error = EOF | ErrUnexpectedEOF | OtherError nat

type_synonym io_reader = "(byte list \<times> io_error option) list"

text \<open>
  One \<^verbatim>\<open>Read\<close> with a buffer of \<open>k\<close> bytes: the next chunk, cut at \<open>k\<close> bytes; an exhausted reader
  reports \<^verbatim>\<open>io.EOF\<close>.
\<close>

fun io_Read :: "nat \<Rightarrow> io_reader \<Rightarrow> byte list \<times> io_error option \<times> io_reader" where
  "io_Read k [] = ([], Some EOF, [])"
| "io_Read k ((bs, err) # r) =
     (if length bs \<le> k then (bs, err, r) else (take k bs, None, (drop k bs, err) # r))"

definition bytes_of :: "io_reader \<Rightarrow> byte list" where
  "bytes_of r = concat (map fst r)"

text \<open>The work left in a reader, the measure of the loops.\<close>

definition io_size :: "io_reader \<Rightarrow> nat" where
  "io_size r = (\<Sum>(bs, err)\<leftarrow>r. Suc (length bs))"

lemma io_Read_progress: "(bs, None, r') = io_Read k r \<Longrightarrow> k > 0 \<Longrightarrow> io_size r' < io_size r"
  by (cases r) (auto simp: io_size_def split: if_splits)

section \<open>Reading all buffers\<close>

text \<open>
  The inner loop of \<^verbatim>\<open>Buffers.ReadFrom\<close> for one buffer with \<open>need\<close> bytes left to fill. A read
  that reports \<^verbatim>\<open>io.EOF\<close> ends the loop with \<^verbatim>\<open>io.EOF\<close> even when it filled the buffer.
\<close>

function fill_buf :: "nat \<Rightarrow> io_reader \<Rightarrow> byte list \<times> io_error option \<times> io_reader" where
  "fill_buf need r =
     (if need = 0 then ([], None, r)
      else case io_Read need r of (bs, err, r') \<Rightarrow>
        if (bs = [] \<and> err = None) \<or> err = Some EOF then (bs, Some EOF, r')
        else if err \<noteq> None then (bs, err, r')
        else (case fill_buf (need - length bs) r' of (cs, err', r'') \<Rightarrow> (bs @ cs, err', r'')))"
  by auto

termination
  by (relation "measure fst") (auto simp: length_greater_0_conv)

declare fill_buf.simps [simp del]

fun ReadFrom_generic :: "nat list \<Rightarrow> io_reader \<Rightarrow> byte list list \<times> io_error option \<times> io_reader" where
  "ReadFrom_generic [] r = ([], None, r)"
| "ReadFrom_generic (len # lens) r =
     (case fill_buf len r of (bs, err, r') \<Rightarrow>
        if err \<noteq> None then ([bs], err, r')
        else (case ReadFrom_generic lens r' of (bss, err', r'') \<Rightarrow> (bs # bss, err', r'')))"

text \<open>
  \<^verbatim>\<open>recvmsg\<close>: one scatter read into all buffers; a read of 0 bytes means that the other end is
  closed.
\<close>

definition recvmsg :: "nat list \<Rightarrow> io_reader \<Rightarrow> byte list \<times> io_error option \<times> io_reader" where
  "recvmsg lens r =
     (case io_Read (sum_list lens) r of (bs, err, r') \<Rightarrow>
        if err \<noteq> None \<and> err \<noteq> Some EOF then ([], err, r')
        else if bs = [] then ([], Some EOF, r')
        else (bs, None, r'))"

lemma recvmsg_nonempty: "(cur, None, r') = recvmsg lens r \<Longrightarrow> cur \<noteq> []"
  by (auto simp: recvmsg_def split: prod.splits if_splits)

text \<open>The loop that consumes the filled vectors, and the outer loop of \<^verbatim>\<open>readFromBuffersLinux\<close>.\<close>

fun consume_iovecs :: "nat \<Rightarrow> nat list \<Rightarrow> nat list" where
  "consume_iovecs cur [] = []"
| "consume_iovecs cur (len # lens) =
     (if cur = 0 then len # lens
      else if len \<le> cur then consume_iovecs (cur - len) lens
      else (len - cur) # lens)"

lemma consume_iovecs_sum: "sum_list (consume_iovecs cur lens) = sum_list lens - cur"
  by (induction cur lens rule: consume_iovecs.induct) auto

function readFromBuffersLinux :: "nat list \<Rightarrow> io_reader \<Rightarrow> byte list \<times> io_error option \<times> io_reader" where
  "readFromBuffersLinux lens r =
     (if sum_list lens = 0 then ([], None, r)
      else case recvmsg lens r of (cur, err, r') \<Rightarrow>
        if err \<noteq> None then ([], err, r')
        else (case readFromBuffersLinux (consume_iovecs (length cur) lens) r' of
                (more, err', r'') \<Rightarrow> (cur @ more, err', r'')))"
  by auto

termination
  by (relation "measure (\<lambda>(lens, r). sum_list lens)")
    (auto simp: consume_iovecs_sum simp del: sum_list_eq_0_iff dest!: recvmsg_nonempty)

declare readFromBuffersLinux.simps [simp del]

text \<open>
  \<^verbatim>\<open>Buffers.ReadFrom\<close>: the batched variant when the reader is a \<^verbatim>\<open>syscall.Conn\<close>. The result is the
  concatenation of the filled buffers, in order.
\<close>

definition ReadFrom :: "bool \<Rightarrow> nat list \<Rightarrow> io_reader \<Rightarrow> byte list \<times> io_error option \<times> io_reader" where
  "ReadFrom isSyscallConn bufs r =
     (if isSyscallConn then readFromBuffersLinux bufs r
      else case ReadFrom_generic bufs r of (bss, err, r') \<Rightarrow> (concat bss, err, r'))"

section \<open>Reading a header and discarding\<close>

text \<open>\<^verbatim>\<open>io.ReadAtLeast\<close> with a buffer of exactly \<open>min\<close> bytes.\<close>

function ReadAtLeast :: "nat \<Rightarrow> io_reader \<Rightarrow> byte list \<times> io_error option \<times> io_reader" where
  "ReadAtLeast need r =
     (if need = 0 then ([], None, r)
      else case io_Read need r of (bs, err, r') \<Rightarrow>
        if length bs \<ge> need then (bs, None, r')
        else if err \<noteq> None then
          (bs, (if bs \<noteq> [] \<and> err = Some EOF then Some ErrUnexpectedEOF else err), r')
        else (case ReadAtLeast (need - length bs) r' of (cs, err', r'') \<Rightarrow>
                (bs @ cs, (if bs \<noteq> [] \<and> err' = Some EOF then Some ErrUnexpectedEOF else err'), r'')))"
  by auto

termination
  by (relation "measure (\<lambda>(need, r). io_size r)")
    (auto intro: io_Read_progress)

declare ReadAtLeast.simps [simp del]

text \<open>
  \<^verbatim>\<open>io.Copy(ioutil.Discard, io.LimitReader(r, n))\<close>: reads of at most 8192 bytes until \<open>n\<close> bytes
  are gone or the reader fails; the error is ignored by the callers.
\<close>

function discard :: "nat \<Rightarrow> io_reader \<Rightarrow> io_reader" where
  "discard n r =
     (if n = 0 then r
      else case io_Read (min 8192 n) r of (bs, err, r') \<Rightarrow>
        if err \<noteq> None then r' else discard (n - length bs) r')"
  by auto

termination
  by (relation "measure (\<lambda>(n, r). io_size r)")
    (auto intro: io_Read_progress)

declare discard.simps [simp del]

section \<open>Streams without errors\<close>

text \<open>A stream of non-empty chunks without errors: what a healthy connection delivers.\<close>

definition clean :: "io_reader \<Rightarrow> bool" where
  "clean r \<longleftrightarrow> (\<forall>(bs, err)\<in>set r. bs \<noteq> [] \<and> err = None)"

lemma bytes_of_simps [simp]: "bytes_of [] = []" "bytes_of ((bs, err) # r) = bs @ bytes_of r"
  by (simp_all add: bytes_of_def)

lemma clean_simps [simp]:
  "clean []" "clean ((bs, err) # r) \<longleftrightarrow> bs \<noteq> [] \<and> err = None \<and> clean r"
  by (simp_all add: clean_def)

text \<open>One read on a clean stream makes progress and takes a prefix of the bytes.\<close>

lemma io_Read_clean:
  assumes "clean r" and "k > 0" and "bytes_of r \<noteq> []"
  obtains bs r' where "io_Read k r = (bs, None, r')" and "bs \<noteq> []" and "length bs \<le> k"
    and "bytes_of r = bs @ bytes_of r'" and "clean r'"
proof -
  obtain c rest where r: "r = (c, None) # rest" "c \<noteq> []" "clean rest"
    using assms(1,3) by (cases r) auto
  show thesis
  proof (cases "length c \<le> k")
    case True
    with r show thesis by (intro that [of c rest]) auto
  next
    case False
    with r assms(2) show thesis by (intro that [of "take k c" "(drop k c, None) # rest"]) auto
  qed
qed

lemma io_Read_empty: "clean r \<Longrightarrow> bytes_of r = [] \<Longrightarrow> r = []"
  by (cases r) auto

text \<open>
  The common contract of the loops: \<open>reads_exactly f\<close> says that on a clean stream with enough
  bytes, \<open>f n\<close> returns the first \<open>n\<close> bytes without error and leaves the others.
\<close>

definition reads_exactly ::
  "(nat \<Rightarrow> io_reader \<Rightarrow> byte list \<times> io_error option \<times> io_reader) \<Rightarrow> bool" where
  "reads_exactly f \<longleftrightarrow> (\<forall>n r. clean r \<longrightarrow> n \<le> length (bytes_of r) \<longrightarrow>
     (\<exists>r'. f n r = (take n (bytes_of r), None, r') \<and> clean r' \<and> bytes_of r' = drop n (bytes_of r)))"

lemma reads_exactlyE:
  assumes "reads_exactly f" and "clean r" and "n \<le> length (bytes_of r)"
  obtains r' where "f n r = (take n (bytes_of r), None, r')" and "clean r'"
    and "bytes_of r' = drop n (bytes_of r)"
  using assms by (auto simp: reads_exactly_def)

text \<open>A loop that reads once and continues with the rest has the contract.\<close>

lemma reads_exactlyI:
  assumes zero: "\<And>r. f 0 r = ([], None, r)"
    and step: "\<And>n r bs r' cs r''. n > 0 \<Longrightarrow> io_Read n r = (bs, None, r') \<Longrightarrow> bs \<noteq> [] \<Longrightarrow> length bs \<le> n \<Longrightarrow>
      f (n - length bs) r' = (cs, None, r'') \<Longrightarrow> f n r = (bs @ cs, None, r'')"
  shows "reads_exactly f"
  unfolding reads_exactly_def
proof (intro allI impI)
  fix n r assume "clean r" and "n \<le> length (bytes_of r)"
  then show "\<exists>r'. f n r = (take n (bytes_of r), None, r') \<and> clean r' \<and> bytes_of r' = drop n (bytes_of r)"
  proof (induction n arbitrary: r rule: less_induct)
    case (less n)
    show ?case
    proof (cases "n = 0")
      case True
      with zero less.prems show ?thesis by auto
    next
      case False
      then have "n > 0" and "bytes_of r \<noteq> []" using less.prems by auto
      with less.prems(1) obtain bs r1 where r1: "io_Read n r = (bs, None, r1)" "bs \<noteq> []"
        "length bs \<le> n" "bytes_of r = bs @ bytes_of r1" "clean r1"
        by (metis io_Read_clean)
      then have "n - length bs < n" "n - length bs \<le> length (bytes_of r1)"
        using less.prems \<open>n > 0\<close> by auto
      with less.IH r1(5) obtain r2 where r2: "f (n - length bs) r1 =
          (take (n - length bs) (bytes_of r1), None, r2)" "clean r2"
          "bytes_of r2 = drop (n - length bs) (bytes_of r1)" by blast
      have "f n r = (bs @ take (n - length bs) (bytes_of r1), None, r2)"
        by (rule step [OF \<open>n > 0\<close> r1(1,2,3) r2(1)])
      with r1 r2 show ?thesis by simp
    qed
  qed
qed

lemma fill_buf_exact: "reads_exactly fill_buf"
  by (rule reads_exactlyI) (simp_all add: fill_buf.simps)

lemma ReadAtLeast_exact: "reads_exactly ReadAtLeast"
proof (rule reads_exactlyI)
  show "ReadAtLeast 0 r = ([], None, r)" for r by (simp add: ReadAtLeast.simps)
next
  fix n r bs r' cs r''
  assume *: "n > 0" "io_Read n r = (bs, None, r')" "bs \<noteq> []" "length bs \<le> n"
    "ReadAtLeast (n - length bs) r' = (cs, None, r'')"
  show "ReadAtLeast n r = (bs @ cs, None, r'')"
  proof (cases "length bs = n")
    case True
    with * show ?thesis by (simp add: ReadAtLeast.simps)
  next
    case False
    with * show ?thesis by (subst ReadAtLeast.simps) simp
  qed
qed

lemma ReadFrom_generic_exact:
  assumes "clean r" and "sum_list lens \<le> length (bytes_of r)"
  obtains bss r' where "ReadFrom_generic lens r = (bss, None, r')" and "clean r'"
    and "concat bss = take (sum_list lens) (bytes_of r)" and "map length bss = lens"
    and "bytes_of r' = drop (sum_list lens) (bytes_of r)"
proof -
  have "\<exists>bss r'. ReadFrom_generic lens r = (bss, None, r') \<and> clean r' \<and>
      concat bss = take (sum_list lens) (bytes_of r) \<and> map length bss = lens \<and>
      bytes_of r' = drop (sum_list lens) (bytes_of r)"
    using assms
  proof (induction lens arbitrary: r)
    case Nil
    then show ?case by simp
  next
    case (Cons len lens)
    then have "len \<le> length (bytes_of r)" by simp
    then obtain r1 where r1: "fill_buf len r = (take len (bytes_of r), None, r1)" "clean r1"
      "bytes_of r1 = drop len (bytes_of r)"
      using reads_exactlyE [OF fill_buf_exact Cons.prems(1)] by metis
    have "sum_list lens \<le> length (bytes_of r1)" using Cons.prems(2) r1(3) by simp
    from Cons.IH [OF r1(2) this] obtain bss r2 where
      "ReadFrom_generic lens r1 = (bss, None, r2)" "clean r2"
      "concat bss = take (sum_list lens) (bytes_of r1)" "map length bss = lens"
      "bytes_of r2 = drop (sum_list lens) (bytes_of r1)" by blast
    with r1 Cons.prems(2) show ?case by (simp add: take_add add.commute)
  qed
  then show thesis using that by blast
qed

lemma readFromBuffersLinux_exact:
  assumes "clean r" and "sum_list lens \<le> length (bytes_of r)"
  shows "\<exists>r'. readFromBuffersLinux lens r = (take (sum_list lens) (bytes_of r), None, r') \<and>
    clean r' \<and> bytes_of r' = drop (sum_list lens) (bytes_of r)"
  using assms
proof (induction "sum_list lens" arbitrary: lens r rule: less_induct)
  case less
  show ?case
  proof (cases "sum_list lens = 0")
    case True
    with less.prems show ?thesis by (simp add: readFromBuffersLinux.simps del: sum_list_eq_0_iff)
  next
    case False
    then have "sum_list lens > 0" and "bytes_of r \<noteq> []" using less.prems by (auto simp del: sum_list_eq_0_iff)
    with less.prems(1) obtain bs r1 where r1: "io_Read (sum_list lens) r = (bs, None, r1)" "bs \<noteq> []"
      "length bs \<le> sum_list lens" "bytes_of r = bs @ bytes_of r1" "clean r1"
      by (metis io_Read_clean)
    let ?lens = "consume_iovecs (length bs) lens"
    have s: "sum_list ?lens = sum_list lens - length bs" by (rule consume_iovecs_sum)
    then have "sum_list ?lens < sum_list lens" "sum_list ?lens \<le> length (bytes_of r1)"
      using r1 less.prems \<open>sum_list lens > 0\<close> by (auto simp del: sum_list_eq_0_iff)
    with less.hyps r1(5) obtain r2 where "readFromBuffersLinux ?lens r1 =
        (take (sum_list ?lens) (bytes_of r1), None, r2)" "clean r2"
        "bytes_of r2 = drop (sum_list ?lens) (bytes_of r1)" by blast
    moreover have "recvmsg lens r = (bs, None, r1)" using r1 by (simp add: recvmsg_def)
    ultimately show ?thesis
      using r1 False s by (subst readFromBuffersLinux.simps) (simp del: sum_list_eq_0_iff)
  qed
qed

lemma ReadFrom_exact:
  assumes "clean r" and "sum_list lens \<le> length (bytes_of r)"
  obtains r' where "ReadFrom sc lens r = (take (sum_list lens) (bytes_of r), None, r')" and "clean r'"
    and "bytes_of r' = drop (sum_list lens) (bytes_of r)"
proof (cases sc)
  case True
  with readFromBuffersLinux_exact [OF assms] that show ?thesis by (auto simp: ReadFrom_def)
next
  case False
  from ReadFrom_generic_exact [OF assms] obtain bss r' where
    "ReadFrom_generic lens r = (bss, None, r')" "clean r'"
    "concat bss = take (sum_list lens) (bytes_of r)" "bytes_of r' = drop (sum_list lens) (bytes_of r)" .
  with False that show ?thesis by (simp add: ReadFrom_def)
qed

lemma discard_exact:
  assumes "clean r" and "n \<le> length (bytes_of r)"
  shows "clean (discard n r) \<and> bytes_of (discard n r) = drop n (bytes_of r)"
  using assms
proof (induction n arbitrary: r rule: less_induct)
  case (less n)
  show ?case
  proof (cases "n = 0")
    case True
    with less.prems show ?thesis by (simp add: discard.simps)
  next
    case False
    then have "min 8192 n > 0" and "bytes_of r \<noteq> []" using less.prems by auto
    from io_Read_clean [OF less.prems(1) this] obtain bs r1 where
      r1: "io_Read (min 8192 n) r = (bs, None, r1)" "bs \<noteq> []" "length bs \<le> min 8192 n"
        "bytes_of r = bs @ bytes_of r1" "clean r1" .
    then have "n - length bs < n" "n - length bs \<le> length (bytes_of r1)"
      using less.prems False by auto
    with less.IH r1(5) have "clean (discard (n - length bs) r1) \<and>
      bytes_of (discard (n - length bs) r1) = drop (n - length bs) (bytes_of r1)" by blast
    moreover have "discard n r = discard (n - length bs) r1"
      using r1(1) False by (subst discard.simps) simp
    ultimately show ?thesis using r1(3,4) by simp
  qed
qed

section \<open>Streams that end early\<close>

text \<open>Whatever the fragmentation, a clean stream that is too short makes every loop fail.\<close>

lemma ReadAtLeast_short:
  "clean r \<Longrightarrow> length (bytes_of r) < n \<Longrightarrow>
   \<exists>bs err r'. ReadAtLeast n r = (bs, Some err, r')"
proof (induction n r rule: ReadAtLeast.induct)
  case (1 n r)
  show ?case
  proof (cases "bytes_of r = []")
    case True
    then have "r = []" using "1.prems" by (simp add: io_Read_empty)
    with "1.prems" show ?thesis by (simp add: ReadAtLeast.simps)
  next
    case False
    from io_Read_clean [OF "1.prems"(1) _ this, of n] "1.prems" obtain bs r1 where
      r1: "io_Read n r = (bs, None, r1)" "bs \<noteq> []" "length bs \<le> n" "bytes_of r = bs @ bytes_of r1"
        "clean r1" by auto
    then have "\<not> n \<le> length bs" using "1.prems" by simp
    moreover have "\<exists>cs err r2. ReadAtLeast (n - length bs) r1 = (cs, Some err, r2)"
      using "1.IH" [of bs "(None, r1)" None r1] "1.prems" r1 by auto
    ultimately show ?thesis using r1 "1.prems" by (subst ReadAtLeast.simps) auto
  qed
qed

lemma fill_buf_short:
  "clean r \<Longrightarrow> length (bytes_of r) < n \<Longrightarrow> \<exists>bs err r'. fill_buf n r = (bs, Some err, r')"
proof (induction n r rule: fill_buf.induct)
  case (1 n r)
  show ?case
  proof (cases "bytes_of r = []")
    case True
    then have "r = []" using "1.prems" by (simp add: io_Read_empty)
    with "1.prems" show ?thesis by (simp add: fill_buf.simps)
  next
    case False
    from io_Read_clean [OF "1.prems"(1) _ this, of n] "1.prems" obtain bs r1 where
      r1: "io_Read n r = (bs, None, r1)" "bs \<noteq> []" "length bs \<le> n" "bytes_of r = bs @ bytes_of r1"
        "clean r1" by auto
    then have "\<exists>cs err r2. fill_buf (n - length bs) r1 = (cs, Some err, r2)"
      using "1.IH" [of bs "(None, r1)" None r1] "1.prems" by auto
    then show ?thesis using r1 "1.prems" by (subst fill_buf.simps) auto
  qed
qed

lemma ReadFrom_generic_short:
  "clean r \<Longrightarrow> length (bytes_of r) < sum_list lens \<Longrightarrow>
   \<exists>bss err r'. ReadFrom_generic lens r = (bss, Some err, r')"
proof (induction lens arbitrary: r)
  case (Cons len lens)
  show ?case
  proof (cases "len \<le> length (bytes_of r)")
    case True
    then obtain r1 where r1: "fill_buf len r = (take len (bytes_of r), None, r1)" "clean r1"
      "bytes_of r1 = drop len (bytes_of r)"
      using reads_exactlyE [OF fill_buf_exact Cons.prems(1)] by metis
    moreover have "length (bytes_of r1) < sum_list lens" using Cons.prems(2) r1(3) True by simp
    ultimately show ?thesis using Cons.IH [OF r1(2)] by fastforce
  next
    case False
    with fill_buf_short [OF Cons.prems(1), of len] show ?thesis by auto
  qed
qed simp

lemma readFromBuffersLinux_short:
  "clean r \<Longrightarrow> length (bytes_of r) < sum_list lens \<Longrightarrow>
   \<exists>bs err r'. readFromBuffersLinux lens r = (bs, Some err, r')"
proof (induction lens r rule: readFromBuffersLinux.induct)
  case (1 lens r)
  then have pos: "sum_list lens > 0" by (auto simp del: sum_list_eq_0_iff)
  show ?case
  proof (cases "bytes_of r = []")
    case True
    then have "r = []" using "1.prems" by (simp add: io_Read_empty)
    with pos show ?thesis
      by (subst readFromBuffersLinux.simps) (simp add: recvmsg_def del: sum_list_eq_0_iff)
  next
    case False
    from io_Read_clean [OF "1.prems"(1) pos this] obtain bs r1 where
      r1: "io_Read (sum_list lens) r = (bs, None, r1)" "bs \<noteq> []" "length bs \<le> sum_list lens"
        "bytes_of r = bs @ bytes_of r1" "clean r1" .
    then have rm: "recvmsg lens r = (bs, None, r1)" by (simp add: recvmsg_def)
    have "length (bytes_of r1) < sum_list (consume_iovecs (length bs) lens)"
      using "1.prems"(2) r1(4) by (simp add: consume_iovecs_sum)
    with "1.IH" [of bs "(None, r1)" None r1] rm pos r1(5)
    have "\<exists>cs err r2. readFromBuffersLinux (consume_iovecs (length bs) lens) r1 = (cs, Some err, r2)"
      by (auto simp del: sum_list_eq_0_iff)
    then show ?thesis
      using rm pos by (subst readFromBuffersLinux.simps) (auto simp del: sum_list_eq_0_iff)
  qed
qed

lemma ReadFrom_short:
  assumes "clean r" and "length (bytes_of r) < sum_list lens"
  obtains bs err r' where "ReadFrom sc lens r = (bs, Some err, r')"
  using ReadFrom_generic_short [OF assms] readFromBuffersLinux_short [OF assms]
  by (cases sc) (auto simp: ReadFrom_def)

end
