(* ===== verification/P9_Transport.thy ===== *)
theory P9_Transport
  imports P9_Registry P9_Vecnet
begin

text \<open>
  \<^verbatim>\<open>p9/transport.go\<close>: framing of messages on a byte stream. \<open>send\<close> writes a header (total length,
  type, tag), the fixed part and the payload; \<open>recv\<close> reads a header, looks up a message
  instance, reads the rest of the frame and decodes it. The writer (\<^verbatim>\<open>net.Buffers.WriteTo\<close>) and
  the lookup function are arguments. The lemmas: a sent message is received whatever the
  fragmentation of the stream; a malformed, unknown or oversized message is reported and, where
  the error is not a connection error, the frame is consumed to its last byte; a stream that
  ends inside a frame never yields a message.
\<close>

section \<open>Errors and constants\<close>

datatype conn_cause =
    IOError io_error
  | NoValidMessage
  | ErrMessageTooLarge uint32 uint32

datatype 'e recv_error =
    ConnError conn_cause
  | ErrNoValidMessage
  | LookupError 'e

definition headerLength :: uint32 where
  "headerLength = 7"

definition maximumLength :: uint32 where
  "maximumLength = 4 * 1024 * 1024"

section \<open>Sending\<close>

text \<open>
  The vectors of one frame: the header, the fixed part if it is not empty, the payload if there
  is one. \<open>totalLength\<close> is computed in 32 bits. The second component is the message as
  \<^verbatim>\<open>encode\<close> leaves it.
\<close>

definition header :: "uint32 \<Rightarrow> msgType \<Rightarrow> tag \<Rightarrow> byte list" where
  "header totalLength t tg =
     data (snd (run_state (do { Write32 totalLength; WriteMsgType t; WriteTag tg }) empty_buffer))"

definition send_vecs :: "tag \<Rightarrow> message \<Rightarrow> byte list list \<times> message" where
  "send_vecs tg m =
     (case run_state (encode m) empty_buffer of (m, dataBuf) \<Rightarrow>
        let totalLength = headerLength + of_nat (length (data dataBuf));
            p = Payload m;
            totalLength =
              (if payloader m \<and> length p > 0 then totalLength + of_nat (length p) else totalLength);
            vecs = [header totalLength (msg_typ m) tg]
              @ (if length (data dataBuf) > 0 then [data dataBuf] else [])
              @ (if payloader m \<and> length p > 0 then [p] else [])
        in (vecs, m))"

text \<open>
  \<^verbatim>\<open>send\<close>, with the writer as an argument: it takes the vectors and the connection state and
  returns an error or nothing.
\<close>

definition send ::
  "(byte list list \<Rightarrow> 'w \<Rightarrow> io_error option \<times> 'w) \<Rightarrow> tag \<Rightarrow> message \<Rightarrow> 'w \<Rightarrow> conn_cause option \<times> 'w" where
  "send WriteTo tg m w =
     (case WriteTo (fst (send_vecs tg m)) w of
        (Some err, w) \<Rightarrow> (Some (IOError err), w)
      | (None, w) \<Rightarrow> (None, w))"

section \<open>Receiving\<close>

text \<open>
  The rest of \<^verbatim>\<open>recv\<close> once the message instance \<open>m\<close> is found: the vectors to fill, the read, and
  the decoding of the fixed part. A payload slice of the right length is reused and overwritten
  by the read, any other is replaced by \<^verbatim>\<open>SetPayload\<close>: in both cases the payload is what was read.
\<close>

definition recv_body ::
  "bool \<Rightarrow> tag \<Rightarrow> uint32 \<Rightarrow> message \<Rightarrow> io_reader \<Rightarrow> (tag \<times> ('e recv_error + message)) \<times> io_reader" where
  "recv_body sc tg remaining m r =
     (if payloader m \<and> FixedSize m > remaining
      then ((noTag, Inl ErrNoValidMessage), if remaining > 0 then discard (unat remaining) r else r)
      else
        let fixedSize = (if payloader m then FixedSize m else remaining);
            payloadSize = remaining - fixedSize;
            vecs = (if fixedSize \<noteq> 0 then [unat fixedSize] else [])
              @ (if payloader m \<and> payloadSize > 0 then [unat payloadSize] else [])
        in case (if vecs \<noteq> [] then ReadFrom sc vecs r else ([], None, r)) of
             (bs, Some err, r) \<Rightarrow> ((noTag, Inl (ConnError (IOError err))), r)
           | (bs, None, r) \<Rightarrow>
               let m = (if payloader m then SetPayload (drop (unat fixedSize) bs) m else m) in
               (case run_state (decode m) \<lparr>data = take (unat fixedSize) bs, overflow = False\<rparr> of
                 (m, dataBuf) \<Rightarrow>
                   if isOverrun dataBuf then ((noTag, Inl ErrNoValidMessage), r)
                   else ((tg, Inr m), r)))"

definition recv ::
  "bool \<Rightarrow> uint32 \<Rightarrow> (tag \<Rightarrow> msgType \<Rightarrow> 's \<Rightarrow> ('e + message) \<times> 's) \<Rightarrow> io_reader \<Rightarrow> 's
   \<Rightarrow> (tag \<times> ('e recv_error + message)) \<times> io_reader \<times> 's" where
  "recv sc msize lookup r s =
     (case ReadAtLeast (unat headerLength) r of
        (hdr, Some err, r) \<Rightarrow> ((noTag, Inl (ConnError (IOError err))), r, s)
      | (hdr, None, r) \<Rightarrow>
          (case run_state (do { sz \<leftarrow> Read32; t \<leftarrow> ReadMsgType; tg \<leftarrow> ReadTag;
                               State_Monad.return (sz, t, tg) }) \<lparr>data = hdr, overflow = False\<rparr> of
            ((sz, t, tg), headerBuf) \<Rightarrow>
              if sz < headerLength then ((noTag, Inl (ConnError NoValidMessage)), r, s)
              else if sz > maximumLength \<or> sz > msize
              then ((noTag, Inl (ConnError (ErrMessageTooLarge sz msize))), r, s)
              else
                let remaining = sz - headerLength in
                (case lookup tg t s of
                  (Inl err, s) \<Rightarrow>
                    ((tg, Inl (LookupError err)), if remaining > 0 then discard (unat remaining) r else r, s)
                | (Inr m, s) \<Rightarrow>
                    (case recv_body sc tg remaining m r of (res, r) \<Rightarrow> (res, r, s)))))"

text \<open>The registry as a lookup function (\<^verbatim>\<open>msgDotLRegistry.get\<close>).\<close>

definition registry_lookup ::
  "tag \<Rightarrow> msgType \<Rightarrow> registry \<Rightarrow> (ErrInvalidMsgType + message) \<times> registry" where
  "registry_lookup tg t r = registry_get r t"

section \<open>Frames\<close>

definition frame :: "tag \<Rightarrow> message \<Rightarrow> byte list" where
  "frame tg m = concat (fst (send_vecs tg m))"

definition frame_length :: "message \<Rightarrow> nat" where
  "frame_length m = 7 + length (fixed_part m) + length (Payload (encoded_msg m))"

lemma header_eq: "header n t tg = put_le 4 n @ put_le 1 t @ put_le 2 tg"
  by (simp add: header_def Write_run WriteMsgType_def WriteTag_def empty_buffer_def)

lemma header_length [simp]: "length (header n t tg) = 7"
  by (simp add: header_eq)

lemma header_run:
  "run_state (do { size \<leftarrow> Read32; t \<leftarrow> ReadMsgType; tg \<leftarrow> ReadTag; State_Monad.return (size, t, tg) })
     \<lparr>data = header n t' tg', overflow = False\<rparr> = ((n, t', tg'), empty_buffer)"
  using Read_put_le(1) [of t' "put_le 2 tg'" False] Read_put_le(2) [of tg' "[]" False]
  by (simp add: header_eq Read_put_le ReadMsgType_def ReadTag_def empty_buffer_def)

lemma frame_eq:
  "frame tg m = header (of_nat (frame_length m)) (msg_typ m) tg @ fixed_part m @ Payload (encoded_msg m)"
proof (cases "payloader m")
  case True
  then show ?thesis
    by (auto simp: frame_def send_vecs_def encode_run empty_buffer_def Let_def frame_length_def
        headerLength_def add.assoc)
next
  case False
  then have "Payload (encoded_msg m) = []" by (simp add: Payload_not_payloader)
  with False show ?thesis
    by (auto simp: frame_def send_vecs_def encode_run empty_buffer_def Let_def frame_length_def
        headerLength_def)
qed

lemma length_frame: "length (frame tg m) = frame_length m"
  by (simp add: frame_eq frame_length_def)

section \<open>Reading one frame\<close>

text \<open>The result of decoding the body of a frame, as a function of its bytes.\<close>

definition decode_body :: "tag \<Rightarrow> message \<Rightarrow> byte list \<Rightarrow> tag \<times> ('e recv_error + message)" where
  "decode_body tg m body =
     (if payloader m \<and> unat (FixedSize m) > length body then (noTag, Inl ErrNoValidMessage)
      else
        let n = (if payloader m then unat (FixedSize m) else length body) in
        case run_state (decode (SetPayload (drop n body) m)) \<lparr>data = take n body, overflow = False\<rparr> of
          (m, b) \<Rightarrow> if isOverrun b then (noTag, Inl ErrNoValidMessage) else (tg, Inr m))"

lemma body_vecs_sum:
  fixes remaining fixed :: uint32
  assumes "fixed \<le> remaining"
  shows "sum_list ((if fixed \<noteq> 0 then [unat fixed] else [])
      @ (if c \<and> remaining - fixed > 0 then [unat (remaining - fixed)] else []))
    = (if c then unat remaining else unat fixed)"
proof -
  have "unat (remaining - fixed) = unat remaining - unat fixed" and "unat fixed \<le> unat remaining"
    using assms by (simp_all add: unat_sub word_le_nat_alt)
  then show ?thesis by (auto simp: word_less_nat_alt unsigned_eq_0_iff)
qed

text \<open>On a clean stream \<open>recv_body\<close> consumes exactly \<open>remaining\<close> bytes and decodes them.\<close>

lemma recv_body_exact:
  assumes "clean r" and "unat remaining \<le> length (bytes_of r)"
  obtains r' where "clean r'" and "bytes_of r' = drop (unat remaining) (bytes_of r)"
    and "recv_body sc tg remaining m r = (decode_body tg m (take (unat remaining) (bytes_of r)), r')"
proof (cases "payloader m \<and> FixedSize m > remaining")
  case True
  then have "recv_body sc tg remaining m r =
      ((noTag, Inl ErrNoValidMessage), discard (unat remaining) r)"
    by (auto simp: recv_body_def discard.simps word_gt_0)
  moreover have "unat (FixedSize m) > unat remaining" using True by (simp add: word_less_nat_alt)
  ultimately show ?thesis
    using True discard_exact [OF assms] assms(2) that [of "discard (unat remaining) r"]
    by (simp add: decode_body_def)
next
  case False
  define n where "n = (if payloader m then FixedSize m else remaining)"
  define vecs where "vecs = (if n \<noteq> 0 then [unat n] else [])
      @ (if payloader m \<and> remaining - n > 0 then [unat (remaining - n)] else [])"
  have "n \<le> remaining" using False by (auto simp: n_def)
  then have sum: "sum_list vecs = unat remaining"
    using body_vecs_sum [of n remaining "payloader m"] by (auto simp: vecs_def n_def)
  have "sum_list vecs \<le> length (bytes_of r)" using sum assms(2) by simp
  from ReadFrom_exact [OF assms(1) this] obtain r1 where
    "ReadFrom sc vecs r = (take (sum_list vecs) (bytes_of r), None, r1)" "clean r1"
    "bytes_of r1 = drop (sum_list vecs) (bytes_of r)" .
  then obtain r' where r': "(if vecs \<noteq> [] then ReadFrom sc vecs r else ([], None, r))
      = (take (unat remaining) (bytes_of r), None, r')"
      "clean r'" "bytes_of r' = drop (unat remaining) (bytes_of r)"
    using assms(1) sum by (cases "vecs = []") auto
  have "recv_body sc tg remaining m r = (decode_body tg m (take (unat remaining) (bytes_of r)), r')"
  proof (cases "payloader m")
    case True
    then have "unat (FixedSize m) \<le> unat remaining" using False by (simp add: word_less_nat_alt)
    with True False assms(2) r'(1) show ?thesis
      unfolding recv_body_def decode_body_def Let_def vecs_def n_def by (simp split: prod.split)
  next
    case unstructured: False
    with False assms(2) r'(1) show ?thesis
      unfolding recv_body_def decode_body_def Let_def vecs_def n_def
      by (simp add: SetPayload_not_payloader split: prod.split)
  qed
  with r' that show ?thesis by blast
qed

lemma recv_body_frame:
  assumes "clean r" and "bytes_of r = body @ rest" and "unat remaining = length body"
  obtains r' where "clean r'" and "bytes_of r' = rest"
    and "recv_body sc tg remaining m r = (decode_body tg m body :: tag \<times> ('e recv_error + message), r')"
proof -
  have "unat remaining \<le> length (bytes_of r)" using assms(2,3) by simp
  from recv_body_exact [OF assms(1) this] obtain r' where "clean r'"
    "bytes_of r' = drop (unat remaining) (bytes_of r)"
    "recv_body sc tg remaining m r =
      (decode_body tg m (take (unat remaining) (bytes_of r)) :: tag \<times> ('e recv_error + message), r')" .
  with assms(2,3) show thesis by (intro that [of r']) simp_all
qed

text \<open>On a clean stream that ends too early \<open>recv_body\<close> yields no message.\<close>

lemma recv_body_short:
  assumes "clean r" and "length (bytes_of r) < unat remaining"
  shows "\<nexists>m'. snd (fst (recv_body sc tg remaining m r)) = Inr m'"
proof (cases "payloader m \<and> FixedSize m > remaining")
  case True
  then show ?thesis by (auto simp: recv_body_def)
next
  case False
  define n where "n = (if payloader m then FixedSize m else remaining)"
  define vecs where "vecs = (if n \<noteq> 0 then [unat n] else [])
      @ (if payloader m \<and> remaining - n > 0 then [unat (remaining - n)] else [])"
  have "n \<le> remaining" using False by (auto simp: n_def)
  then have "sum_list vecs = unat remaining"
    using body_vecs_sum [of n remaining "payloader m"] by (auto simp: vecs_def n_def)
  with assms(2) have short: "length (bytes_of r) < sum_list vecs" and "vecs \<noteq> []" by auto
  from ReadFrom_short [OF assms(1) short] obtain bs err r' where "ReadFrom sc vecs r = (bs, Some err, r')" .
  with False \<open>vecs \<noteq> []\<close> show ?thesis
    unfolding recv_body_def Let_def n_def [symmetric] vecs_def [symmetric] by auto
qed

lemma recv_header:
  assumes "clean r" and "bytes_of r = header n t tg @ rest"
  obtains r1 where "clean r1" and "bytes_of r1 = rest"
    and "recv sc msize lookup r s =
      (if n < headerLength then ((noTag, Inl (ConnError NoValidMessage)), r1, s)
       else if n > maximumLength \<or> n > msize
       then ((noTag, Inl (ConnError (ErrMessageTooLarge n msize))), r1, s)
       else case lookup tg t s of
          (Inl err, s') \<Rightarrow> ((tg, Inl (LookupError err)), discard (unat (n - headerLength)) r1, s')
        | (Inr m, s') \<Rightarrow>
            (case recv_body sc tg (n - headerLength) m r1 of (res, r2) \<Rightarrow> (res, r2, s')))"
proof -
  have "unat headerLength = 7" by (simp add: headerLength_def)
  with reads_exactlyE [OF ReadAtLeast_exact assms(1), of 7] assms(2) obtain r1 where
    r1: "ReadAtLeast (unat headerLength) r = (header n t tg, None, r1)" "clean r1" "bytes_of r1 = rest"
    by auto
  have disc: "(if n - headerLength > 0 then discard (unat (n - headerLength)) r1 else r1)
      = discard (unat (n - headerLength)) r1"
    by (auto simp: discard.simps word_gt_0)
  show ?thesis
    by (rule that [OF r1(2,3)])
      (simp only: recv_def r1(1) prod.case option.case header_run Let_def disc)
qed

lemma unat_headerLength [simp]: "unat headerLength = 7"
  by (simp add: headerLength_def)

lemma unat_maximumLength: "unat maximumLength = 4194304"
  by (simp add: maximumLength_def)

lemma size_in_range:
  assumes "7 \<le> n" and "n \<le> unat msize" and "n \<le> unat maximumLength"
  shows "\<not> (of_nat n :: uint32) < headerLength" "\<not> (of_nat n :: uint32) > maximumLength"
    "\<not> (of_nat n :: uint32) > msize" "unat ((of_nat n :: uint32) - headerLength) = n - 7"
proof -
  have n: "unat (of_nat n :: uint32) = n"
    using assms(3) by (intro unat_of_nat_32) (simp add: unat_maximumLength)
  show "\<not> (of_nat n :: uint32) < headerLength" "\<not> (of_nat n :: uint32) > maximumLength"
    "\<not> (of_nat n :: uint32) > msize"
    using assms by (simp_all add: word_less_nat_alt n)
  then show "unat ((of_nat n :: uint32) - headerLength) = n - 7"
    by (simp add: unat_sub n not_less)
qed

lemma recv_header_ok:
  assumes "clean r" and "bytes_of r = header (of_nat n) t tg @ rest"
    and "7 \<le> n" and "n \<le> unat msize" and "n \<le> unat maximumLength"
  obtains r1 where "clean r1" and "bytes_of r1 = rest"
    and "recv sc msize lookup r s =
      (case lookup tg t s of
          (Inl err, s') \<Rightarrow> ((tg, Inl (LookupError err)), discard (n - 7) r1, s')
        | (Inr m, s') \<Rightarrow>
            (case recv_body sc tg (of_nat n - headerLength) m r1 of (res, r2) \<Rightarrow> (res, r2, s')))"
proof (rule recv_header [OF assms(1,2), where sc = sc and msize = msize and lookup = lookup and s = s])
  fix r1
  assume r1: "clean r1" "bytes_of r1 = rest"
  assume rcv: "recv sc msize lookup r s =
      (if (of_nat n :: uint32) < headerLength then ((noTag, Inl (ConnError NoValidMessage)), r1, s)
       else if (of_nat n :: uint32) > maximumLength \<or> (of_nat n :: uint32) > msize
       then ((noTag, Inl (ConnError (ErrMessageTooLarge (of_nat n) msize))), r1, s)
       else case lookup tg t s of
          (Inl err, s') \<Rightarrow>
            ((tg, Inl (LookupError err)), discard (unat ((of_nat n :: uint32) - headerLength)) r1, s')
        | (Inr m, s') \<Rightarrow>
            (case recv_body sc tg (of_nat n - headerLength) m r1 of (res, r2) \<Rightarrow> (res, r2, s')))"
  show thesis
    by (rule that [OF r1]) (simp only: rcv size_in_range [OF assms(3,4,5)] if_False simp_thms)
qed

lemma decode_body_frame:
  assumes "message_ok m" and "msg_typ y = msg_typ m"
  shows "decode_body tg y (fixed_part m @ Payload (encoded_msg m)) = (tg, Inr (sent m))"
proof -
  have pay: "payloader y = payloader m" "FixedSize y = FixedSize m"
    by (rule payloader_cong [OF assms(2)], rule FixedSize_cong [OF assms(2)])
  have run: "run_state (decode (SetPayload (Payload (encoded_msg m)) y))
      \<lparr>data = fixed_part m, overflow = False\<rparr> = (sent m, \<lparr>data = [], overflow = False\<rparr>)"
    using decode_encode [OF assms, of "[]" False] by simp
  show ?thesis
  proof (cases "payloader m")
    case True
    then have "unat (FixedSize m) = length (fixed_part m)" by (simp add: fixed_part_length)
    with run True show ?thesis by (simp add: decode_body_def pay Let_def isOverrun_def)
  next
    case False
    then have "Payload (encoded_msg m) = []" by (simp add: Payload_not_payloader)
    with run False show ?thesis by (simp add: decode_body_def pay Let_def isOverrun_def)
  qed
qed

section \<open>Properties of the transport\<close>

lemma recv_frame:
  fixes lookup :: "tag \<Rightarrow> msgType \<Rightarrow> 's \<Rightarrow> ('e + message) \<times> 's"
  assumes "message_ok m" and "frame_length m \<le> unat msize" and "frame_length m \<le> unat maximumLength"
    and "clean r" and "bytes_of r = frame tg m @ rest"
    and "lookup tg (msg_typ m) s = (Inr y, s')" and "msg_typ y = msg_typ m"
  shows "\<exists>r'. recv sc msize lookup r s = ((tg, Inr (sent m)), r', s') \<and> clean r' \<and> bytes_of r' = rest"
proof -
  let ?body = "fixed_part m @ Payload (encoded_msg m)"
  have len: "7 \<le> frame_length m" "frame_length m - 7 = length ?body"
    by (simp_all add: frame_length_def)
  have "bytes_of r = header (of_nat (frame_length m)) (msg_typ m) tg @ ?body @ rest"
    using assms(5) by (simp add: frame_eq)
  from recv_header_ok [OF assms(4) this len(1) assms(2,3), where sc = sc and lookup = lookup and s = s]
  obtain r1 where r1: "clean r1" "bytes_of r1 = ?body @ rest"
    and rcv: "recv sc msize lookup r s =
      (case recv_body sc tg (of_nat (frame_length m) - headerLength) y r1 of (res, r2) \<Rightarrow> (res, r2, s'))"
    unfolding assms(6) prod.case sum.case by blast
  have "unat ((of_nat (frame_length m) :: uint32) - headerLength) = length ?body"
    using size_in_range(4) [OF len(1) assms(2,3)] len(2) by simp
  from recv_body_frame [OF r1 this] obtain r' where "clean r'" "bytes_of r' = rest"
    "recv_body sc tg (of_nat (frame_length m) - headerLength) y r1
      = (decode_body tg y ?body :: tag \<times> ('e recv_error + message), r')" .
  then show ?thesis by (simp add: rcv decode_body_frame [OF assms(1,7)])
qed

text \<open>
  A concrete connection for the witnesses: a Tclunk of fid 5 under tag 1, delivered in two
  chunks and followed by one byte of the next frame.
\<close>

definition clunk5 :: message where
  "clunk5 = Tclunk \<lparr>tclunk_fid = 5\<rparr>"

definition clunk_lookup :: "tag \<Rightarrow> msgType \<Rightarrow> unit \<Rightarrow> (ErrInvalidMsgType + message) \<times> unit" where
  "clunk_lookup tg t s = (Inr (Tclunk tclunk_zero), s)"

lemma clunk5_facts:
  "message_ok clunk5" "msg_typ clunk5 = msgTclunk" "frame_length clunk5 = 11"
  "frame tg clunk5 = [11, 0, 0, 0, 120] @ put_le 2 tg @ [5, 0, 0, 0]"
proof -
  have fp: "fixed_part clunk5 = put_le 4 (5 :: uint32)"
    by (simp add: clunk5_def fixed_part_def tclunk_encode_def WriteFID_def Write_run empty_buffer_def)
  have pl: "Payload (encoded_msg clunk5) = []"
    by (rule Payload_not_payloader) (simp only: payloader_encoded_msg, simp add: clunk5_def payloader_def)
  show "message_ok clunk5" and ty: "msg_typ clunk5 = msgTclunk"
    by (simp_all add: clunk5_def tclunk_ok_def fid_ok_def)
  show len: "frame_length clunk5 = 11" by (simp add: frame_length_def fp pl)
  have le: "put_le 4 (of_nat 11 :: uint32) = [11, 0, 0, 0]" "put_le 4 (5 :: uint32) = [5, 0, 0, 0]"
    "put_le 1 (120 :: uint8) = [120]" by code_simp+
  show "frame tg clunk5 = [11, 0, 0, 0, 120] @ put_le 2 tg @ [5, 0, 0, 0]"
    unfolding frame_eq fp pl len ty header_eq msgTclunk_def le by simp
qed

lemma tag_bytes: "put_le 2 (1 :: uint16) = [1, 0]" "put_le 2 (2 :: uint16) = [2, 0]"
  by code_simp+

text \<open>C14: A message sent with \<^verbatim>\<open>send\<close> is received by \<^verbatim>\<open>recv\<close> with its tag, whatever the
  fragmentation of the stream: for a message within the limits of the wire format and of the
  message size, \<^verbatim>\<open>recv\<close> returns the message (for a directory listing, with the entries that fit
  its byte limit), consumes exactly its frame and leaves the following bytes.\<close>

theorem recv_send:
  fixes lookup :: "tag \<Rightarrow> msgType \<Rightarrow> 's \<Rightarrow> ('e + message) \<times> 's"
  assumes "message_ok m" and "frame_length m \<le> unat msize" and "frame_length m \<le> unat maximumLength"
    and "clean r" and "bytes_of r = frame tg m @ rest"
    and "lookup tg (msg_typ m) s = (Inr y, s')" and "msg_typ y = msg_typ m"
  shows "\<exists>r'. recv sc msize lookup r s = ((tg, Inr (sent m)), r', s') \<and> clean r' \<and> bytes_of r' = rest"
  using assms by (rule recv_frame)

theorem recv_send_witness:
  "\<exists>r'. recv False 8192 clunk_lookup
      [([11, 0, 0], None), ([0, 120, 1, 0, 5, 0, 0, 0, 42], None)] () =
      ((1, Inr (sent clunk5)), r', ()) \<and> clean r' \<and> bytes_of r' = [42]"
  by (rule recv_send [where y = "Tclunk tclunk_zero"])
    (simp_all add: clunk5_facts tag_bytes clunk_lookup_def unat_maximumLength)

text \<open>C15: The stream never loses synchronisation on a bad message: for every frame whose size
  field is in range, whatever its type, its tag and the bytes of its body, and whatever the
  lookup decides, \<^verbatim>\<open>recv\<close> consumes exactly the frame and does not report a connection error.\<close>

theorem recv_resynchronises:
  fixes lookup :: "tag \<Rightarrow> msgType \<Rightarrow> 's \<Rightarrow> ('e + message) \<times> 's"
  assumes "clean r" and "bytes_of r = header (of_nat n) t tg @ body @ rest"
    and "7 \<le> n" and "n \<le> unat msize" and "n \<le> unat maximumLength" and "length body = n - 7"
  shows "\<exists>res r' s'. recv sc msize lookup r s = (res, r', s') \<and> clean r' \<and> bytes_of r' = rest \<and>
    (\<forall>c. snd res \<noteq> Inl (ConnError c))"
proof -
  from recv_header_ok [OF assms(1-5)] obtain r1 where r1: "clean r1" "bytes_of r1 = body @ rest"
    and rcv: "recv sc msize lookup r s =
      (case lookup tg t s of
          (Inl err, s') \<Rightarrow> ((tg, Inl (LookupError err)), discard (n - 7) r1, s')
        | (Inr m, s') \<Rightarrow>
            (case recv_body sc tg (of_nat n - headerLength) m r1 of (res, r2) \<Rightarrow> (res, r2, s')))" .
  obtain l s' where l: "lookup tg t s = (l, s')" by fastforce
  show ?thesis
  proof (cases l)
    case (Inl err)
    have "clean (discard (n - 7) r1) \<and> bytes_of (discard (n - 7) r1) = rest"
      using discard_exact [OF r1(1), of "n - 7"] r1(2) assms(6) by simp
    then show ?thesis unfolding rcv l Inl prod.case sum.case by auto
  next
    case (Inr m)
    have "unat ((of_nat n :: uint32) - headerLength) = length body"
      using size_in_range(4) [OF assms(3-5)] assms(6) by simp
    from recv_body_frame [OF r1 this] obtain r' where "clean r'" "bytes_of r' = rest"
      "recv_body sc tg (of_nat n - headerLength) m r1
        = (decode_body tg m body :: tag \<times> ('e recv_error + message), r')" .
    moreover have "snd (decode_body tg m body :: tag \<times> ('e recv_error + message)) \<noteq> Inl (ConnError c)" for c
      by (auto simp: decode_body_def Let_def split: prod.split)
    ultimately show ?thesis unfolding rcv l Inr prod.case sum.case by auto
  qed
qed

theorem recv_resynchronises_witness:
  "\<exists>res r' s'. recv True 8192 clunk_lookup
      [(header (of_nat 8) 77 3 @ [9], None), ([42], None)] () = (res, r', s') \<and> clean r' \<and>
      bytes_of r' = [42] \<and> (\<forall>c. snd res \<noteq> Inl (ConnError c))"
  by (rule recv_resynchronises [where body = "[9]" and t = 77 and tg = 3 and n = 8])
    (simp_all add: unat_maximumLength header_eq)

text \<open>C33: A frame whose size field is smaller than a header or larger than the limits is refused
  as a connection error before any lookup, and nothing of its body is read.\<close>

theorem recv_refuses_sizes:
  assumes "clean r" and "bytes_of r = header n t tg @ rest"
    and "n < headerLength \<or> n > maximumLength \<or> n > msize"
  shows "\<exists>r'. clean r' \<and> bytes_of r' = rest \<and> recv sc msize lookup r s =
    ((noTag, Inl (ConnError (if n < headerLength then NoValidMessage else ErrMessageTooLarge n msize))), r', s)"
  by (rule recv_header [OF assms(1,2), where sc = sc and msize = msize and lookup = lookup and s = s])
    (use assms(3) in auto)

theorem recv_refuses_sizes_witness:
  "\<exists>r'. clean r' \<and> bytes_of r' = [1, 2] \<and> recv True 8192 clunk_lookup
      [(header 9000 77 3, None), ([1, 2], None)] () =
    ((noTag, Inl (ConnError (if (9000 :: uint32) < headerLength then NoValidMessage
      else ErrMessageTooLarge 9000 8192))), r', ())"
  by (rule recv_refuses_sizes [where t = 77 and tg = 3]) (simp_all add: header_eq)

text \<open>C34: A stream that ends inside a frame never yields a message.\<close>

theorem recv_incomplete:
  fixes lookup :: "tag \<Rightarrow> msgType \<Rightarrow> 's \<Rightarrow> ('e + message) \<times> 's"
  assumes "clean r"
    and "length (bytes_of r) < 7 \<or>
      (\<exists>n t tg body. bytes_of r = header (of_nat n) t tg @ body \<and> 7 \<le> n \<and> n \<le> unat maximumLength \<and>
         length body < n - 7)"
  shows "\<nexists>m. snd (fst (recv sc msize lookup r s)) = Inr m"
  using assms(2)
proof
  assume "length (bytes_of r) < 7"
  with ReadAtLeast_short [OF assms(1)] obtain bs err r' where
    "ReadAtLeast (unat headerLength) r = (bs, Some err, r')" by fastforce
  then show ?thesis by (simp add: recv_def)
next
  assume "\<exists>n t tg body. bytes_of r = header (of_nat n) t tg @ body \<and> 7 \<le> n \<and> n \<le> unat maximumLength \<and>
         length body < n - 7"
  then obtain n t tg body where b: "bytes_of r = header (of_nat n) t tg @ body" "7 \<le> n"
    "n \<le> unat maximumLength" "length body < n - 7" by blast
  have n: "unat ((of_nat n :: uint32) - headerLength) = n - 7"
    using size_in_range(4) [OF b(2) b(3) b(3)] by simp
  have body: "recv_body sc tg (of_nat n - headerLength) y r1 \<noteq> ((a, Inr m :: 'e recv_error + message), r2)"
    if "clean r1" "bytes_of r1 = body" for y r1 a m r2
    using recv_body_short [OF that(1), of "of_nat n - headerLength" sc tg y, where 'a = 'e] that(2) b(4) n
    by auto
  show ?thesis
    by (rule recv_header [OF assms(1) b(1), where sc = sc and msize = msize and lookup = lookup and s = s])
      (auto dest: body split: if_splits prod.splits sum.splits)
qed

theorem recv_incomplete_witness:
  "\<nexists>m. snd (fst (recv False 8192 clunk_lookup [([11, 0, 0, 0, 120], None)] ())) = Inr m"
  by (rule recv_incomplete) simp_all

section \<open>Pipelined messages\<close>

text \<open>Receiving up to \<open>n\<close> messages with the registry as lookup, as the server's loop does.\<close>

fun recv_many :: "bool \<Rightarrow> uint32 \<Rightarrow> nat \<Rightarrow> io_reader \<Rightarrow> registry \<Rightarrow> (tag \<times> message) list" where
  "recv_many sc msize 0 r reg = []"
| "recv_many sc msize (Suc n) r reg =
     (case recv sc msize registry_lookup r reg of
        ((tg, Inr m), r', reg') \<Rightarrow> (tg, m) # recv_many sc msize n r' reg'
      | ((tg, Inl err), r', reg') \<Rightarrow> [])"

lemma registry_lookup_registered:
  assumes "registry_ok reg" and "factories reg t \<noteq> None"
  obtains y reg' where "registry_lookup tg t reg = (Inr y, reg')" and "msg_typ y = t"
    and "registry_ok reg'" and "\<forall>u. factories reg' u = None \<longleftrightarrow> factories reg u = None"
proof -
  obtain l reg' where l: "registry_get reg t = (l, reg')" by fastforce
  with assms(2) obtain y where y: "l = Inr y"
    by (auto simp: registry_get_def split: option.splits list.splits)
  have "\<forall>u. factories reg' u = None \<longleftrightarrow> factories reg u = None"
    using l by (auto simp: registry_get_def split: option.splits list.splits if_splits)
  with l y registry_get_typ [OF assms(1), of t y] registry_ok_get [OF assms(1), of t] show thesis
    by (intro that [of y reg']) (auto simp: registry_lookup_def)
qed

lemma recv_many_frames:
  assumes "registry_ok reg" and "\<forall>m. factories reg (msg_typ m) \<noteq> None"
    and "\<forall>(tg, m)\<in>set ms. message_ok m \<and> frame_length m \<le> unat msize \<and> frame_length m \<le> unat maximumLength"
    and "clean r" and "bytes_of r = concat (map (\<lambda>(tg, m). frame tg m) ms) @ rest"
  shows "recv_many sc msize (length ms) r reg = map (\<lambda>(tg, m). (tg, sent m)) ms"
  using assms
proof (induction ms arbitrary: r reg)
  case (Cons a ms)
  obtain tg m where a: "a = (tg, m)" by fastforce
  obtain y reg' where y: "registry_lookup tg (msg_typ m) reg = (Inr y, reg')" "msg_typ y = msg_typ m"
    "registry_ok reg'" "\<forall>u. factories reg' u = None \<longleftrightarrow> factories reg u = None"
    using Cons.prems(1,2) by (metis registry_lookup_registered)
  have "bytes_of r = frame tg m @ concat (map (\<lambda>(tg, m). frame tg m) ms) @ rest"
    using Cons.prems(5) a by simp
  then have "\<exists>r'. recv sc msize registry_lookup r reg = ((tg, Inr (sent m)), r', reg') \<and> clean r' \<and>
      bytes_of r' = concat (map (\<lambda>(tg, m). frame tg m) ms) @ rest"
    using Cons.prems(3,4) a y(1,2) by (intro recv_frame [where y = y]) auto
  then obtain r' where "recv sc msize registry_lookup r reg = ((tg, Inr (sent m)), r', reg')" "clean r'"
    "bytes_of r' = concat (map (\<lambda>(tg, m). frame tg m) ms) @ rest" by blast
  with Cons.IH [OF y(3) _ _ this(2,3)] Cons.prems(2,3) y(4) a show ?case by auto
qed simp

text \<open>C35: Messages written one after the other to a connection are received in order, each with
  its own tag, by a receiver that uses the registry of all message types.\<close>

theorem recv_pipelined:
  assumes "msgDotLRegistry = Some reg"
    and "\<forall>(tg, m)\<in>set ms. message_ok m \<and> frame_length m \<le> unat msize \<and> frame_length m \<le> unat maximumLength"
    and "clean r" and "bytes_of r = concat (map (\<lambda>(tg, m). frame tg m) ms) @ rest"
  shows "recv_many sc msize (length ms) r reg = map (\<lambda>(tg, m). (tg, sent m)) ms"
  using recv_many_frames [OF msgDotLRegistry_ok [OF assms(1)] _ assms(2-4)]
    msgDotLRegistry_domain [OF assms(1)] msg_typ_registered by blast

theorem recv_pipelined_witness:
  "\<exists>reg. msgDotLRegistry = Some reg \<and>
     recv_many False 8192 (length [(1 :: tag, clunk5), (2, clunk5)])
       [(frame 1 clunk5 @ [11, 0, 0], None), ([0, 120, 2, 0, 5, 0, 0, 0], None)] reg
     = map (\<lambda>(tg, m). (tg, sent m)) [(1, clunk5), (2, clunk5)]"
proof -
  obtain reg where reg: "msgDotLRegistry = Some reg" by (rule msgDotLRegistry_Some)
  have "recv_many False 8192 (length [(1 :: tag, clunk5), (2, clunk5)])
      [(frame 1 clunk5 @ [11, 0, 0], None), ([0, 120, 2, 0, 5, 0, 0, 0], None)] reg
      = map (\<lambda>(tg, m). (tg, sent m)) [(1, clunk5), (2, clunk5)]"
    by (rule recv_pipelined [OF reg, where rest = "[]"])
      (simp_all add: clunk5_facts tag_bytes unat_maximumLength)
  with reg show ?thesis by blast
qed

end
