(* ===== verification/P9_Handlers.thy ===== *)
theory P9_Handlers
  imports P9_Server P9_Version P9_Transport
begin

text \<open>
  The request handlers of \<^verbatim>\<open>p9/handlers.go\<close>, one definition per \<^verbatim>\<open>handle\<close>, \<^verbatim>\<open>do\<close> or helper. A handler
  takes the backing file system, the request and the server state and returns the response and
  the new state; \<open>None\<close> is a panic that the invariant of \<open>P9_ServerInv\<close> excludes. The panics a
  client can provoke (a slice out of range in \<^verbatim>\<open>Tread\<close>) are recovered by \<^verbatim>\<open>connState.handle\<close> and
  answered with EFAULT after the deferred calls ran: they are ordinary results here.
\<close>

section \<open>Helpers\<close>

definition newErr :: "goerror \<Rightarrow> message" where
  "newErr err = Rlerror \<lparr>rlerror_Error = ucast (ExtractErrno err)\<rparr>"

text \<open>A call of the backing file system.\<close>

definition call :: "('w \<Rightarrow> 'a \<times> 'w) \<Rightarrow> ('w, 'f) srv \<Rightarrow> 'a \<times> ('w, 'f) srv" where
  "call g s = (case g (world s) of (a, w) \<Rightarrow> (a, s\<lparr>world := w\<rparr>))"

text \<open>
  The pattern \<^verbatim>\<open>ref, ok := cs.LookupFID(f); if !ok { return bad }; defer ref.DecRef()\<close> around the
  rest of a handler.
\<close>

definition withFID ::
  "('w, 'f) backend \<Rightarrow> fid \<Rightarrow> 'a \<Rightarrow> (ref_addr \<Rightarrow> ('w, 'f) srv \<Rightarrow> ('a \<times> ('w, 'f) srv) option)
   \<Rightarrow> ('w, 'f) srv \<Rightarrow> ('a \<times> ('w, 'f) srv) option" where
  "withFID B f bad body s = do {
     (found, s) \<leftarrow> LookupFID f s;
     case found of
       None \<Rightarrow> Some (bad, s)
     | Some ref \<Rightarrow> do {
         (r, s) \<leftarrow> body ref s;
         (err, s) \<leftarrow> DecRef B ref s;
         Some (r, s) } }"

abbreviation errno :: "Errno \<Rightarrow> goerror" where
  "errno e \<equiv> LinuxErrno e"

definition respond :: "('a \<Rightarrow> message) \<Rightarrow> goerror + 'a \<Rightarrow> message" where
  "respond mk r = (case r of Inl err \<Rightarrow> newErr err | Inr a \<Rightarrow> mk a)"

definition respond_unit :: "message \<Rightarrow> goerror option \<Rightarrow> message" where
  "respond_unit ok err = (case err of Some e \<Rightarrow> newErr e | None \<Rightarrow> ok)"

definition checkSafeName :: "string \<Rightarrow> goerror option" where
  "checkSafeName name =
     (if name \<noteq> [] \<and> CHR ''/'' \<notin> set name \<and> name \<noteq> ''.'' \<and> name \<noteq> ''..'' then None
      else Some (errno EINVAL))"

definition CanOpen :: "FileMode \<Rightarrow> bool" where
  "CanOpen mode \<longleftrightarrow>
     IsRegular mode \<or> IsDir mode \<or> IsNamedPipe mode \<or> IsBlockDevice mode \<or> IsCharacterDevice mode"

section \<open>Session\<close>

definition tversion_handle :: "tversion \<Rightarrow> ('w, 'f) srv \<Rightarrow> (message \<times> ('w, 'f) srv) option" where
  "tversion_handle t s =
     (let unknown = Rversion \<lparr>rversion_MSize = 0, rversion_Version = ''unknown''\<rparr> in
      if tversion_MSize t = 0 then Some (unknown, s)
      else
        let msize = (if tversion_MSize t > maximumLength then maximumLength else tversion_MSize t) in
        case parseVersion (tversion_Version t) of
          None \<Rightarrow> Some (unknown, s)
        | Some (reqBaseVersion, reqVersion) \<Rightarrow>
            if reqBaseVersion = version9P2000 \<or> reqBaseVersion = version9P2000U then Some (unknown, s)
            else
              let (base, version) =
                    (if reqBaseVersion = version9P2000L
                     then (reqBaseVersion,
                           if reqVersion > highestSupportedVersion then highestSupportedVersion
                           else reqVersion)
                     else ([], 0));
                  s = s\<lparr>messageSize := msize, cs_version := version, cs_baseVersion := base,
                        readBufPool := Some msize\<rparr>
              in Some (Rversion \<lparr>rversion_MSize = msize, rversion_Version = versionString base version\<rparr>, s))"

text \<open>\<^verbatim>\<open>Tflush\<close>: the response, once \<^verbatim>\<open>WaitTag\<close> has returned.\<close>

definition tflush_handle :: "tflush \<Rightarrow> ('w, 'f) srv \<Rightarrow> (message \<times> ('w, 'f) srv) option" where
  "tflush_handle t s = Some (Rflush (), s)"

definition tauth_handle :: "tauth \<Rightarrow> ('w, 'f) srv \<Rightarrow> (message \<times> ('w, 'f) srv) option" where
  "tauth_handle t s = Some (newErr (errno ENOSYS), s)"

section \<open>Clunk and remove\<close>

definition clunkHandleXattr ::
  "('w, 'f) backend \<Rightarrow> tclunk \<Rightarrow> ('w, 'f) srv \<Rightarrow> (message option \<times> ('w, 'f) srv) option" where
  "clunkHandleXattr B t s =
     withFID B (tclunk_fid t) (Some (newErr (errno EBADF))) (\<lambda>ref s. do {
       x \<leftarrow> getRef s ref;
       let px = ref_xattr x;
       if px_op px = xattrCreate then
         if int (length (px_buf px)) \<noteq> sint (px_size px) then Some (Some (newErr (errno EINVAL)), s)
         else
           let (err, s) =
             (if px_flags px = XattrReplace \<and> px_size px = 0
              then call (RemoveXattr B (ref_file x) (px_name px)) s
              else call (SetXattr B (ref_file x) (px_name px) (px_buf px) (px_flags px)) s)
           in Some (map_option newErr err, s)
       else Some (None, s) }) s"

definition tclunk_handle ::
  "('w, 'f) backend \<Rightarrow> tclunk \<Rightarrow> ('w, 'f) srv \<Rightarrow> (message \<times> ('w, 'f) srv) option" where
  "tclunk_handle B t s = do {
     (cerr, s) \<leftarrow> clunkHandleXattr B t s;
     (err, s) \<leftarrow> DeleteFID B (tclunk_fid t) s;
     case err of
       Some e \<Rightarrow> Some (newErr e, s)
     | None \<Rightarrow> Some (case cerr of Some r \<Rightarrow> r | None \<Rightarrow> Rclunk (), s) }"

definition tremove_global ::
  "('w, 'f) backend \<Rightarrow> ref_addr \<Rightarrow> ('w, 'f) srv \<Rightarrow> (goerror option \<times> ('w, 'f) srv) option" where
  "tremove_global B ref s = do {
     x \<leftarrow> getRef s ref;
     case ref_parent x of
       None \<Rightarrow> Some (Some (errno EINVAL), s)
     | Some q \<Rightarrow> do {
         d \<leftarrow> isDeleted s ref;
         if d then Some (Some (errno EINVAL), s)
         else do {
           y \<leftarrow> getRef s q;
           p \<leftarrow> getNode s (ref_node y);
           name \<leftarrow> nameFor p ref;
           let (err, s) = call (UnlinkAt B (ref_file y) name 0) s;
           case err of
             Some e \<Rightarrow> Some (Some e, s)
           | None \<Rightarrow> do { s \<leftarrow> markChildDeleted B q name s; Some (None, s) } } } }"

definition tremove_handle ::
  "('w, 'f) backend \<Rightarrow> tremove \<Rightarrow> ('w, 'f) srv \<Rightarrow> (message \<times> ('w, 'f) srv) option" where
  "tremove_handle B t s =
     withFID B (tremove_fid t) (newErr (errno EBADF)) (\<lambda>ref s. do {
       (err, s) \<leftarrow> tremove_global B ref s;
       (fidErr, s) \<leftarrow> DeleteFID B (tremove_fid t) s;
       case fidErr of
         Some e \<Rightarrow> Some (newErr e, s)
       | None \<Rightarrow> Some (respond_unit (Rremove ()) err, s) }) s"

section \<open>Open and create\<close>

definition tlopen_handle ::
  "('w, 'f) backend \<Rightarrow> tlopen \<Rightarrow> ('w, 'f) srv \<Rightarrow> (message \<times> ('w, 'f) srv) option" where
  "tlopen_handle B t s =
     withFID B (tlopen_fid t) (newErr (errno EBADF)) (\<lambda>ref s. do {
       x \<leftarrow> getRef s ref;
       d \<leftarrow> isDeleted s ref;
       if d then Some (newErr (errno EINVAL), s)
       else if opened x \<or> \<not> CanOpen (ref_mode x) then Some (newErr (errno EINVAL), s)
       else if IsDir (ref_mode x) \<and> OpenFlags_Mode (tlopen_Flags t) \<noteq> ReadOnly
       then Some (newErr (errno EISDIR), s)
       else
         (case call (Open B (ref_file x) (tlopen_Flags t)) s of
            (Inl err, s) \<Rightarrow> Some (newErr err, s)
          | (Inr (qid, ioUnit), s) \<Rightarrow> do {
              x \<leftarrow> getRef s ref;
              Some (Rlopen \<lparr>rlopen_QID = qid, rlopen_IoUnit = ioUnit\<rparr>,
                    setRef ref (x\<lparr>opened := True, openFlags := tlopen_Flags t\<rparr>) s) }) }) s"

text \<open>The checks shared by the operations that create an entry in a directory.\<close>

definition dirCheck :: "('w, 'f) srv \<Rightarrow> ref_addr \<Rightarrow> goerror option option" where
  "dirCheck s ref = do {
     x \<leftarrow> getRef s ref;
     d \<leftarrow> isDeleted s ref;
     if d \<or> \<not> IsDir (ref_mode x) then Some (Some (errno EINVAL))
     else if opened x then Some (Some (errno EINVAL))
     else Some None }"

text \<open>The critical section of \<^verbatim>\<open>tlcreate.do\<close> and the replacement of the fid.\<close>

definition tlcreate_create ::
  "('w, 'f) backend \<Rightarrow> tlcreate \<Rightarrow> UID \<Rightarrow> ref_addr \<Rightarrow> ('w, 'f) srv \<Rightarrow> ((goerror + rlcreate) \<times> ('w, 'f) srv) option" where
  "tlcreate_create B t uid ref s = do {
     c \<leftarrow> dirCheck s ref;
     x \<leftarrow> getRef s ref;
     case c of
       Some e \<Rightarrow> Some (Inl e, s)
     | None \<Rightarrow>
         (case call (Create B (ref_file x) (tlcreate_Name t) (tlcreate_OpenFlags t)
                      (tlcreate_Permissions t) uid (tlcreate_GID t)) s of
            (Inl err, s) \<Rightarrow> Some (Inl err, s)
          | (Inr (nsf, qid, ioUnit), s) \<Rightarrow> do {
              (pn, s) \<leftarrow> pathNodeFor (ref_node x) (tlcreate_Name t) s;
              let (newRef, s) = allocRef \<lparr>ref_file = nsf, ref_xattr = noXattr, refs = 0,
                    opened = True, ref_mode = ModeRegular, openFlags = tlcreate_OpenFlags t,
                    ref_node = pn, ref_parent = Some ref\<rparr> s;
              s \<leftarrow> addChild (ref_node x) newRef (tlcreate_Name t) s;
              s \<leftarrow> IncRef ref s;
              s \<leftarrow> InsertFID B (tlcreate_fid t) newRef s;
              Some (Inr \<lparr>rlcreate_rlopen = \<lparr>rlopen_QID = qid, rlopen_IoUnit = ioUnit\<rparr>\<rparr>, s) }) }"

definition tlcreate_do ::
  "('w, 'f) backend \<Rightarrow> tlcreate \<Rightarrow> UID \<Rightarrow> ('w, 'f) srv \<Rightarrow> ((goerror + rlcreate) \<times> ('w, 'f) srv) option" where
  "tlcreate_do B t uid s =
     (case checkSafeName (tlcreate_Name t) of
        Some e \<Rightarrow> Some (Inl e, s)
      | None \<Rightarrow> withFID B (tlcreate_fid t) (Inl (errno EBADF)) (tlcreate_create B t uid) s)"

definition tlcreate_handle where
  "tlcreate_handle B t s = map_option (apfst (respond Rlcreate)) (tlcreate_do B t NoUID s)"

definition tucreate_handle where
  "tucreate_handle B t s =
     map_option (apfst (respond (\<lambda>r. Rucreate \<lparr>rucreate_rlcreate = r\<rparr>)))
       (tlcreate_do B (tucreate_tlcreate t) (tucreate_UID t) s)"

text \<open>
  \<^verbatim>\<open>tsymlink.do\<close>, \<^verbatim>\<open>tmknod.do\<close> and \<^verbatim>\<open>tmkdir.do\<close> have the same frame around their backend call: name check,
  lookup, directory check.
\<close>

definition inDirectory ::
  "('w, 'f) backend \<Rightarrow> string \<Rightarrow> fid \<Rightarrow> ('f \<Rightarrow> 'w \<Rightarrow> (goerror + 'a) \<times> 'w)
   \<Rightarrow> ('w, 'f) srv \<Rightarrow> ((goerror + 'a) \<times> ('w, 'f) srv) option" where
  "inDirectory B name f g s =
     (case checkSafeName name of
        Some e \<Rightarrow> Some (Inl e, s)
      | None \<Rightarrow>
          withFID B f (Inl (errno EBADF)) (\<lambda>ref s. do {
            c \<leftarrow> dirCheck s ref;
            x \<leftarrow> getRef s ref;
            case c of
              Some e \<Rightarrow> Some (Inl e, s)
            | None \<Rightarrow> Some (call (g (ref_file x)) s) }) s)"

definition tsymlink_do where
  "tsymlink_do B t uid s =
     inDirectory B (tsymlink_Name t) (tsymlink_Directory t)
       (\<lambda>f. Symlink B f (tsymlink_Target t) (tsymlink_Name t) uid (tsymlink_GID t)) s"

definition tsymlink_handle where
  "tsymlink_handle B t s =
     map_option (apfst (respond (\<lambda>q. Rsymlink \<lparr>rsymlink_QID = q\<rparr>))) (tsymlink_do B t NoUID s)"

definition tusymlink_handle where
  "tusymlink_handle B t s =
     map_option (apfst (respond (\<lambda>q. Rusymlink \<lparr>rusymlink_rsymlink = \<lparr>rsymlink_QID = q\<rparr>\<rparr>)))
       (tsymlink_do B (tusymlink_tsymlink t) (tusymlink_UID t) s)"

definition tmknod_do where
  "tmknod_do B t uid s =
     inDirectory B (tmknod_Name t) (tmknod_Directory t)
       (\<lambda>f. Mknod B f (tmknod_Name t) (tmknod_Mode t) (tmknod_Major t) (tmknod_Minor t) uid (tmknod_GID t)) s"

definition tmknod_handle where
  "tmknod_handle B t s =
     map_option (apfst (respond (\<lambda>q. Rmknod \<lparr>rmknod_QID = q\<rparr>))) (tmknod_do B t NoUID s)"

definition tumknod_handle where
  "tumknod_handle B t s =
     map_option (apfst (respond (\<lambda>q. Rumknod \<lparr>rumknod_rmknod = \<lparr>rmknod_QID = q\<rparr>\<rparr>)))
       (tmknod_do B (tumknod_tmknod t) (tumknod_UID t) s)"

definition tmkdir_do where
  "tmkdir_do B t uid s =
     inDirectory B (tmkdir_Name t) (tmkdir_Directory t)
       (\<lambda>f. Mkdir B f (tmkdir_Name t) (tmkdir_Permissions t) uid (tmkdir_GID t)) s"

definition tmkdir_handle where
  "tmkdir_handle B t s =
     map_option (apfst (respond (\<lambda>q. Rmkdir \<lparr>rmkdir_QID = q\<rparr>))) (tmkdir_do B t NoUID s)"

definition tumkdir_handle where
  "tumkdir_handle B t s =
     map_option (apfst (respond (\<lambda>q. Rumkdir \<lparr>rumkdir_rmkdir = \<lparr>rmkdir_QID = q\<rparr>\<rparr>)))
       (tmkdir_do B (tumkdir_tmkdir t) (tumkdir_UID t) s)"

section \<open>Link, rename and unlink\<close>

definition tlink_link ::
  "('w, 'f) backend \<Rightarrow> tlink \<Rightarrow> ref_addr \<Rightarrow> ref_addr \<Rightarrow> ('w, 'f) srv \<Rightarrow> (message \<times> ('w, 'f) srv) option" where
  "tlink_link B t ref refTarget s = do {
     c \<leftarrow> dirCheck s ref;
     x \<leftarrow> getRef s ref;
     y \<leftarrow> getRef s refTarget;
     case c of
       Some e \<Rightarrow> Some (newErr e, s)
     | None \<Rightarrow>
         let (err, s) = call (Link B (ref_file x) (ref_file y) (tlink_Name t)) s
         in Some (respond_unit (Rlink ()) err, s) }"

definition tlink_handle ::
  "('w, 'f) backend \<Rightarrow> tlink \<Rightarrow> ('w, 'f) srv \<Rightarrow> (message \<times> ('w, 'f) srv) option" where
  "tlink_handle B t s =
     (case checkSafeName (tlink_Name t) of
        Some e \<Rightarrow> Some (newErr e, s)
      | None \<Rightarrow>
          withFID B (tlink_Directory t) (newErr (errno EBADF)) (\<lambda>ref.
            withFID B (tlink_Target t) (newErr (errno EBADF)) (tlink_link B t ref)) s)"

definition trenameat_global ::
  "('w, 'f) backend \<Rightarrow> trenameat \<Rightarrow> ref_addr \<Rightarrow> ref_addr \<Rightarrow> ('w, 'f) srv \<Rightarrow> (goerror option \<times> ('w, 'f) srv) option" where
  "trenameat_global B t ref refTarget s = do {
     x \<leftarrow> getRef s ref;
     y \<leftarrow> getRef s refTarget;
     dx \<leftarrow> isDeleted s ref;
     dy \<leftarrow> isDeleted s refTarget;
     if dx \<or> \<not> IsDir (ref_mode x) \<or> dy \<or> \<not> IsDir (ref_mode y) then Some (Some (errno EINVAL), s)
     else if opened x then Some (Some (errno EINVAL), s)
     else if ref_node x = ref_node y \<and> trenameat_OldName t = trenameat_NewName t then Some (None, s)
     else
       (case call (RenameAt B (ref_file x) (trenameat_OldName t) (ref_file y) (trenameat_NewName t)) s of
          (Some err, s) \<Rightarrow> Some (Some err, s)
        | (None, s) \<Rightarrow> do {
            s \<leftarrow> renameChildTo B ref (trenameat_OldName t) refTarget (trenameat_NewName t) s;
            Some (None, s) }) }"

definition trenameat_handle ::
  "('w, 'f) backend \<Rightarrow> trenameat \<Rightarrow> ('w, 'f) srv \<Rightarrow> (message \<times> ('w, 'f) srv) option" where
  "trenameat_handle B t s =
     (case checkSafeName (trenameat_OldName t) of
        Some e \<Rightarrow> Some (newErr e, s)
      | None \<Rightarrow>
     (case checkSafeName (trenameat_NewName t) of
        Some e \<Rightarrow> Some (newErr e, s)
      | None \<Rightarrow>
          withFID B (trenameat_OldDirectory t) (newErr (errno EBADF)) (\<lambda>ref.
            withFID B (trenameat_NewDirectory t) (newErr (errno EBADF)) (\<lambda>refTarget s. do {
              (err, s) \<leftarrow> trenameat_global B t ref refTarget s;
              Some (respond_unit (Rrenameat ()) err, s) })) s))"

definition tunlinkat_unlink ::
  "('w, 'f) backend \<Rightarrow> tunlinkat \<Rightarrow> ref_addr \<Rightarrow> ('w, 'f) srv \<Rightarrow> (message \<times> ('w, 'f) srv) option" where
  "tunlinkat_unlink B t ref s = do {
     c \<leftarrow> dirCheck s ref;
     x \<leftarrow> getRef s ref;
     case c of
       Some e \<Rightarrow> Some (newErr e, s)
     | None \<Rightarrow> do {
         (childPathNode, s) \<leftarrow> pathNodeFor (ref_node x) (tunlinkat_Name t) s;
         (case call (UnlinkAt B (ref_file x) (tunlinkat_Name t) (tunlinkat_Flags t)) s of
            (Some err, s) \<Rightarrow> Some (newErr err, s)
          | (None, s) \<Rightarrow> do {
              s \<leftarrow> markChildDeleted B ref (tunlinkat_Name t) s;
              Some (Runlinkat (), s) }) } }"

definition tunlinkat_handle ::
  "('w, 'f) backend \<Rightarrow> tunlinkat \<Rightarrow> ('w, 'f) srv \<Rightarrow> (message \<times> ('w, 'f) srv) option" where
  "tunlinkat_handle B t s =
     (case checkSafeName (tunlinkat_Name t) of
        Some e \<Rightarrow> Some (newErr e, s)
      | None \<Rightarrow> withFID B (tunlinkat_Directory t) (newErr (errno EBADF)) (tunlinkat_unlink B t) s)"

definition trename_global ::
  "('w, 'f) backend \<Rightarrow> trename \<Rightarrow> ref_addr \<Rightarrow> ref_addr \<Rightarrow> ('w, 'f) srv \<Rightarrow> (goerror option \<times> ('w, 'f) srv) option" where
  "trename_global B t ref refTarget s = do {
     x \<leftarrow> getRef s ref;
     y \<leftarrow> getRef s refTarget;
     case ref_parent x of
       None \<Rightarrow> Some (Some (errno EINVAL), s)
     | Some q \<Rightarrow> do {
         dx \<leftarrow> isDeleted s ref;
         dy \<leftarrow> isDeleted s refTarget;
         if dx \<or> dy \<or> \<not> IsDir (ref_mode y) then Some (Some (errno EINVAL), s)
         else do {
           dq \<leftarrow> isDeleted s q;
           if dq then None
           else do {
             z \<leftarrow> getRef s q;
             p \<leftarrow> getNode s (ref_node z);
             oldName \<leftarrow> nameFor p ref;
             if ref_node z = ref_node y \<and> oldName = trename_Name t then Some (None, s)
             else
               (case call (RenameAt B (ref_file z) oldName (ref_file y) (trename_Name t)) s of
                  (Some err, s) \<Rightarrow> Some (Some err, s)
                | (None, s) \<Rightarrow> do {
                    s \<leftarrow> renameChildTo B q oldName refTarget (trename_Name t) s;
                    Some (None, s) }) } } } }"

definition trename_handle ::
  "('w, 'f) backend \<Rightarrow> trename \<Rightarrow> ('w, 'f) srv \<Rightarrow> (message \<times> ('w, 'f) srv) option" where
  "trename_handle B t s =
     (case checkSafeName (trename_Name t) of
        Some e \<Rightarrow> Some (newErr e, s)
      | None \<Rightarrow>
          withFID B (trename_fid t) (newErr (errno EBADF)) (\<lambda>ref.
            withFID B (trename_Directory t) (newErr (errno EBADF)) (\<lambda>refTarget s. do {
              (err, s) \<leftarrow> trename_global B t ref refTarget s;
              Some (respond_unit (Rrename ()) err, s) })) s)"

section \<open>Data\<close>

definition treadlink_handle ::
  "('w, 'f) backend \<Rightarrow> treadlink \<Rightarrow> ('w, 'f) srv \<Rightarrow> (message \<times> ('w, 'f) srv) option" where
  "treadlink_handle B t s =
     withFID B (treadlink_fid t) (newErr (errno EBADF)) (\<lambda>ref s. do {
       x \<leftarrow> getRef s ref;
       d \<leftarrow> isDeleted s ref;
       if d \<or> \<not> IsSymlink (ref_mode x) then Some (newErr (errno EINVAL), s)
       else Some (apfst (respond (\<lambda>tgt. Rreadlink \<lparr>rreadlink_Target = tgt\<rparr>))
                        (call (Readlink B (ref_file x)) s)) }) s"

text \<open>
  \<^verbatim>\<open>Tread\<close>: \<open>bufSize\<close> is the size of the buffers of the pool, \<open>None\<close> before Tversion, when taking a
  buffer panics. \<open>dataBuf[:t.Count]\<close> panics when the count exceeds the buffer, and
  \<open>buf[t.Offset:]\<close> when the offset is past the value (the check before it wraps around).
\<close>

definition tread_data ::
  "('w, 'f) backend \<Rightarrow> tread \<Rightarrow> uint32 \<Rightarrow> 'f fidRef \<Rightarrow> ('w, 'f) srv \<Rightarrow> message \<times> ('w, 'f) srv" where
  "tread_data B t bufSize x s =
     (let px = ref_xattr x; count = tread_Count t; offset = tread_Offset t;
          rread = (\<lambda>bs. Rread \<lparr>rread_Data = bs\<rparr>) in
      case px_op px of
        xattrNone \<Rightarrow>
          if \<not> opened x then (newErr (errno EINVAL), s)
          else if openFlags x AND OpenFlagsModeMask = WriteOnly then (newErr (errno EPERM), s)
          else if count > bufSize then (newErr (errno EFAULT), s)
          else
            (case call (ReadAt B (ref_file x) (unat count) offset) s of
               ((bs, err), s) \<Rightarrow>
                 (case err of
                    Some e \<Rightarrow> if \<not> errors_Is e IoEOF then (newErr e, s) else (rread bs, s)
                  | None \<Rightarrow> (rread bs, s)))
      | xattrWalk \<Rightarrow>
          if count = 0 then
            (if px_size px = 0 then (rread [], s) else (newErr (errno EINVAL), s))
          else if offset + ucast count > of_nat (length (px_buf px)) then (newErr (errno EINVAL), s)
          else if count > bufSize \<or> unat offset > length (px_buf px) then (newErr (errno EFAULT), s)
          else (rread (take (unat count) (drop (unat offset) (px_buf px))), s)
      | xattrCreate \<Rightarrow> (newErr (errno EINVAL), s))"

definition tread_handle ::
  "('w, 'f) backend \<Rightarrow> tread \<Rightarrow> ('w, 'f) srv \<Rightarrow> (message \<times> ('w, 'f) srv) option" where
  "tread_handle B t s =
     withFID B (tread_fid t) (newErr (errno EBADF)) (\<lambda>ref s.
       if tread_Count t > maximumLength then Some (newErr (errno ENOBUFS), s)
       else do {
         x \<leftarrow> getRef s ref;
         case readBufPool s of
           None \<Rightarrow> Some (newErr (errno EFAULT), s)
         | Some bufSize \<Rightarrow> Some (tread_data B t bufSize x s) }) s"

definition twrite_handle ::
  "('w, 'f) backend \<Rightarrow> twrite \<Rightarrow> ('w, 'f) srv \<Rightarrow> (message \<times> ('w, 'f) srv) option" where
  "twrite_handle B t s =
     withFID B (twrite_fid t) (newErr (errno EBADF)) (\<lambda>ref s. do {
       x \<leftarrow> getRef s ref;
       let px = ref_xattr x;
       let rwrite = (\<lambda>n. Rwrite \<lparr>rwrite_Count = of_nat n\<rparr>);
       case px_op px of
         xattrNone \<Rightarrow>
           if \<not> opened x then Some (newErr (errno EINVAL), s)
           else if openFlags x AND OpenFlagsModeMask = ReadOnly then Some (newErr (errno EPERM), s)
           else Some (apfst (respond rwrite) (call (WriteAt B (ref_file x) (twrite_Data t) (twrite_Offset t)) s))
       | xattrCreate \<Rightarrow>
           if of_nat (length (px_buf px)) \<noteq> twrite_Offset t then Some (newErr (errno EINVAL), s)
           else if twrite_Offset t + of_nat (length (twrite_Data t)) > px_size px
           then Some (newErr (errno EINVAL), s)
           else Some (rwrite (length (twrite_Data t)),
                      setRef ref (x\<lparr>ref_xattr := px\<lparr>px_buf := px_buf px @ twrite_Data t\<rparr>\<rparr>) s)
       | xattrWalk \<Rightarrow> Some (newErr (errno EINVAL), s) }) s"

definition tfsync_handle ::
  "('w, 'f) backend \<Rightarrow> tfsync \<Rightarrow> ('w, 'f) srv \<Rightarrow> (message \<times> ('w, 'f) srv) option" where
  "tfsync_handle B t s =
     withFID B (tfsync_fid t) (newErr (errno EBADF)) (\<lambda>ref s. do {
       x \<leftarrow> getRef s ref;
       if \<not> opened x then Some (newErr (errno EINVAL), s)
       else Some (apfst (respond_unit (Rfsync ())) (call (FSync B (ref_file x)) s)) }) s"

definition treaddir_handle ::
  "('w, 'f) backend \<Rightarrow> treaddir \<Rightarrow> ('w, 'f) srv \<Rightarrow> (message \<times> ('w, 'f) srv) option" where
  "treaddir_handle B t s =
     withFID B (treaddir_Directory t) (newErr (errno EBADF)) (\<lambda>ref s. do {
       x \<leftarrow> getRef s ref;
       d \<leftarrow> isDeleted s ref;
       if d \<or> \<not> IsDir (ref_mode x) then Some (newErr (errno EINVAL), s)
       else if \<not> opened x then Some (newErr (errno EINVAL), s)
       else
         (case call (Readdir B (ref_file x) (treaddir_Offset t) (treaddir_Count t)) s of
            ((entries, err), s) \<Rightarrow>
              let r = Rreaddir \<lparr>rreaddir_Count = treaddir_Count t, rreaddir_Entries = entries,
                                rreaddir_payload = []\<rparr> in
              (case err of
                 Some e \<Rightarrow> if \<not> errors_Is e IoEOF then Some (newErr e, s) else Some (r, s)
               | None \<Rightarrow> Some (r, s))) }) s"

section \<open>Attributes and locks\<close>

definition tgetattr_handle ::
  "('w, 'f) backend \<Rightarrow> tgetattr \<Rightarrow> ('w, 'f) srv \<Rightarrow> (message \<times> ('w, 'f) srv) option" where
  "tgetattr_handle B t s =
     withFID B (tgetattr_fid t) (newErr (errno EBADF)) (\<lambda>ref s. do {
       x \<leftarrow> getRef s ref;
       Some (apfst (respond (\<lambda>(qid, valid, attr).
                Rgetattr \<lparr>rgetattr_Valid = valid, rgetattr_QID = qid, rgetattr_Attr = attr\<rparr>))
              (call (GetAttr B (ref_file x) (tgetattr_AttrMask t)) s)) }) s"

definition tsetattr_handle ::
  "('w, 'f) backend \<Rightarrow> tsetattr \<Rightarrow> ('w, 'f) srv \<Rightarrow> (message \<times> ('w, 'f) srv) option" where
  "tsetattr_handle B t s =
     withFID B (tsetattr_fid t) (newErr (errno EBADF)) (\<lambda>ref s. do {
       x \<leftarrow> getRef s ref;
       d \<leftarrow> isDeleted s ref;
       if d then Some (newErr (errno EINVAL), s)
       else Some (apfst (respond_unit (Rsetattr ()))
                        (call (File_SetAttr B (ref_file x) (tsetattr_Valid t) (tsetattr_SetAttr t)) s)) }) s"

definition tstatfs_handle ::
  "('w, 'f) backend \<Rightarrow> tstatfs \<Rightarrow> ('w, 'f) srv \<Rightarrow> (message \<times> ('w, 'f) srv) option" where
  "tstatfs_handle B t s =
     withFID B (tstatfs_fid t) (newErr (errno EBADF)) (\<lambda>ref s. do {
       x \<leftarrow> getRef s ref;
       Some (apfst (respond (\<lambda>st. Rstatfs \<lparr>rstatfs_FSStat = st\<rparr>)) (call (StatFS B (ref_file x)) s)) }) s"

definition tlock_handle ::
  "('w, 'f) backend \<Rightarrow> tlock \<Rightarrow> ('w, 'f) srv \<Rightarrow> (message \<times> ('w, 'f) srv) option" where
  "tlock_handle B t s =
     withFID B (tlock_fid t) (newErr (errno EBADF)) (\<lambda>ref s. do {
       x \<leftarrow> getRef s ref;
       Some (apfst (respond (\<lambda>status. Rlock \<lparr>rlock_Status = status\<rparr>))
              (call (Lock B (ref_file x) (tlock_PID t) (tlock_Type t) (tlock_Flags t) (tlock_Start t)
                       (tlock_Length t) (tlock_Client t)) s)) }) s"

section \<open>Extended attributes\<close>

text \<open>\<^verbatim>\<open>strings.Join(xattrs, "\000") + "\000"\<close> as bytes.\<close>

fun join_zero :: "string list \<Rightarrow> byte list" where
  "join_zero [] = []"
| "join_zero [x] = map byte_of_char x"
| "join_zero (x # xs) = map byte_of_char x @ 0 # join_zero xs"

definition txattrwalk_handle ::
  "('w, 'f) backend \<Rightarrow> txattrwalk \<Rightarrow> ('w, 'f) srv \<Rightarrow> (message \<times> ('w, 'f) srv) option" where
  "txattrwalk_handle B t s =
     withFID B (txattrwalk_fid t) (newErr (errno EBADF)) (\<lambda>ref s. do {
       x \<leftarrow> getRef s ref;
       d \<leftarrow> isDeleted s ref;
       if d then Some (newErr (errno EINVAL), s)
       else
         (case (if length (txattrwalk_Name t) > 0 then call (GetXattr B (ref_file x) (txattrwalk_Name t)) s
                else apfst (map_sum id (\<lambda>xattrs. join_zero xattrs @ [0])) (call (ListXattrs B (ref_file x)) s)) of
            (Inl err, s) \<Rightarrow> Some (newErr err, s)
          | (Inr buf, s) \<Rightarrow>
              if (of_nat (length buf) :: uint32) > maximumLength then Some (newErr (errno EINVAL), s)
              else
                let (newRef, s) = allocRef \<lparr>ref_file = ref_file x,
                      ref_xattr = \<lparr>px_op = xattrWalk, px_name = txattrwalk_Name t,
                                   px_size = of_nat (length buf), px_flags = 0, px_buf = buf\<rparr>,
                      refs = 0, opened = False, ref_mode = 0, openFlags = 0,
                      ref_node = ref_node x, ref_parent = None\<rparr> s
                in do {
                  s \<leftarrow> InsertFID B (txattrwalk_newFID t) newRef s;
                  Some (Rxattrwalk \<lparr>rxattrwalk_Size = of_nat (length buf)\<rparr>, s) }) }) s"

definition txattrcreate_handle ::
  "('w, 'f) backend \<Rightarrow> txattrcreate \<Rightarrow> ('w, 'f) srv \<Rightarrow> (message \<times> ('w, 'f) srv) option" where
  "txattrcreate_handle B t s =
     withFID B (txattrcreate_fid t) (newErr (errno EBADF)) (\<lambda>ref s. do {
       x \<leftarrow> getRef s ref;
       d \<leftarrow> isDeleted s ref;
       if d then Some (newErr (errno EINVAL), s)
       else Some (Rxattrcreate (),
                  setRef ref (x\<lparr>ref_xattr := \<lparr>px_op = xattrCreate, px_name = txattrcreate_Name t,
                    px_size = txattrcreate_AttrSize t, px_flags = ucast (txattrcreate_Flags t),
                    px_buf = []\<rparr>\<rparr>) s) }) s"

section \<open>Walking\<close>

definition walkOne ::
  "('w, 'f) backend \<Rightarrow> QID list \<Rightarrow> 'f \<Rightarrow> string list \<Rightarrow> bool \<Rightarrow> ('w, 'f) srv
   \<Rightarrow> (goerror + QID list \<times> 'f \<times> AttrMask \<times> Attr) \<times> ('w, 'f) srv" where
  "walkOne B qids from names getattr s =
     (if length names > 1 then (Inl (errno EINVAL), s)
      else
        let plain = (\<lambda>s.
              case call (Walk B from names) s of
                (Inl err, s) \<Rightarrow> (Inl err, s)
              | (Inr (localQIDs, sf), s) \<Rightarrow>
                  if getattr then
                    (case call (GetAttr B sf AttrMaskAll) s of
                       (Inl err, s) \<Rightarrow> (Inl err, snd (call (Close B sf) s))
                     | (Inr (qid, valid, attr), s) \<Rightarrow> (Inr (localQIDs, sf, valid, attr), s))
                  else (Inr (localQIDs, sf, AttrMask_zero, Attr_zero), s));
            (res, s) =
              (if getattr then
                 (case call (WalkGetAttr B from names) s of
                    (Inl err, s) \<Rightarrow> if errors_Is err (errno ENOSYS) then plain s else (Inl err, s)
                  | (Inr r, s) \<Rightarrow> (Inr r, s))
               else plain s)
        in case res of
             Inl err \<Rightarrow> (Inl err, s)
           | Inr (localQIDs, sf, valid, attr) \<Rightarrow>
               if length names = 1 \<and> length localQIDs \<noteq> 1
               then (Inl (errno EINVAL), snd (call (Close B sf) s))
               else (Inr (qids @ localQIDs, sf, valid, attr), s))"

text \<open>The empty walk: a clone of the reference, registered beside it unless it is a root or deleted.\<close>

definition cloneRef ::
  "('w, 'f) backend \<Rightarrow> ref_addr \<Rightarrow> bool \<Rightarrow> ('w, 'f) srv
   \<Rightarrow> ((goerror + QID list \<times> ref_addr \<times> AttrMask \<times> Attr) \<times> ('w, 'f) srv) option" where
  "cloneRef B ref getattr s = do {
     x \<leftarrow> getRef s ref;
     case walkOne B [] (ref_file x) [] getattr s of
       (Inl err, s) \<Rightarrow> Some (Inl err, s)
     | (Inr (qids, sf, valid, attr), s) \<Rightarrow> do {
         let (newRef, s) = allocRef \<lparr>ref_file = sf, ref_xattr = noXattr, refs = 0, opened = False,
               ref_mode = ref_mode x, openFlags = 0, ref_node = ref_node x, ref_parent = ref_parent x\<rparr> s;
         s \<leftarrow> (case ref_parent x of
                 None \<Rightarrow> Some s
               | Some q \<Rightarrow> do {
                   y \<leftarrow> getRef s q;
                   d \<leftarrow> isDeleted s newRef;
                   s \<leftarrow> (if d then Some s
                        else do {
                          p \<leftarrow> getNode s (ref_node y);
                          name \<leftarrow> nameFor p ref;
                          addChild (ref_node y) newRef name s });
                   IncRef q s });
         s \<leftarrow> IncRef newRef s;
         Some (Inr ([], newRef, valid, attr), s) } }"

text \<open>One step of the walk loop below a directory: the new reference takes over the walk reference.\<close>

definition walkStep ::
  "('w, 'f) backend \<Rightarrow> QID list \<Rightarrow> ref_addr \<Rightarrow> string \<Rightarrow> ('w, 'f) srv
   \<Rightarrow> ((goerror + QID list \<times> ref_addr \<times> AttrMask \<times> Attr) \<times> ('w, 'f) srv) option" where
  "walkStep B qids walkRef name s = do {
     x \<leftarrow> getRef s walkRef;
     d \<leftarrow> isDeleted s walkRef;
     if d then Some (Inl (errno ENOENT), s)
     else
       (case walkOne B qids (ref_file x) [name] True s of
          (Inl err, s) \<Rightarrow> Some (Inl err, s)
        | (Inr (qids, sf, valid, attr), s) \<Rightarrow> do {
            (pn, s) \<leftarrow> pathNodeFor (ref_node x) name s;
            let (newRef, s) = allocRef \<lparr>ref_file = sf, ref_xattr = noXattr, refs = 0, opened = False,
                  ref_mode = FileType (Attr_Mode attr), openFlags = 0, ref_node = pn,
                  ref_parent = Some walkRef\<rparr> s;
            s \<leftarrow> addChild (ref_node x) newRef name s;
            s \<leftarrow> IncRef newRef s;
            Some (Inr (qids, newRef, valid, attr), s) }) }"

fun walkLoop ::
  "('w, 'f) backend \<Rightarrow> QID list \<Rightarrow> ref_addr \<Rightarrow> AttrMask \<Rightarrow> Attr \<Rightarrow> string list \<Rightarrow> ('w, 'f) srv
   \<Rightarrow> ((goerror + QID list \<times> ref_addr \<times> AttrMask \<times> Attr) \<times> ('w, 'f) srv) option" where
  "walkLoop B qids walkRef valid attr [] s = Some (Inr (qids, walkRef, valid, attr), s)"
| "walkLoop B qids walkRef valid attr (name # names) s = do {
     x \<leftarrow> getRef s walkRef;
     if \<not> IsDir (ref_mode x) then do {
       (err, s) \<leftarrow> DecRef B walkRef s;
       Some (Inl (errno EINVAL), s) }
     else do {
       (res, s) \<leftarrow> walkStep B qids walkRef name s;
       case res of
         Inl e \<Rightarrow> do { (err, s) \<leftarrow> DecRef B walkRef s; Some (Inl e, s) }
       | Inr (qids, newRef, valid, attr) \<Rightarrow> walkLoop B qids newRef valid attr names s } }"

fun checkNames :: "string list \<Rightarrow> goerror option" where
  "checkNames [] = None"
| "checkNames (name # names) = (case checkSafeName name of Some e \<Rightarrow> Some e | None \<Rightarrow> checkNames names)"

definition doWalk ::
  "('w, 'f) backend \<Rightarrow> ref_addr \<Rightarrow> string list \<Rightarrow> bool \<Rightarrow> ('w, 'f) srv
   \<Rightarrow> ((goerror + QID list \<times> ref_addr \<times> AttrMask \<times> Attr) \<times> ('w, 'f) srv) option" where
  "doWalk B ref names getattr s =
     (case checkNames names of
        Some e \<Rightarrow> Some (Inl e, s)
      | None \<Rightarrow>
          if length names = 0 then cloneRef B ref getattr s
          else do {
            s \<leftarrow> IncRef ref s;
            walkLoop B [] ref AttrMask_zero Attr_zero names s })"

text \<open>The common part of \<^verbatim>\<open>twalk.handle\<close> and \<^verbatim>\<open>twalkgetattr.handle\<close>.\<close>

definition walk_install ::
  "('w, 'f) backend \<Rightarrow> fid \<Rightarrow> fid \<Rightarrow> string list \<Rightarrow> bool \<Rightarrow> (QID list \<Rightarrow> AttrMask \<Rightarrow> Attr \<Rightarrow> message)
   \<Rightarrow> ref_addr \<Rightarrow> ('w, 'f) srv \<Rightarrow> (message \<times> ('w, 'f) srv) option" where
  "walk_install B f newFID names getattr mk ref s = do {
     x \<leftarrow> getRef s ref;
     if opened x \<and> f = newFID then Some (newErr (errno EBUSY), s)
     else do {
       (res, s) \<leftarrow> doWalk B ref names getattr s;
       case res of
         Inl err \<Rightarrow> Some (newErr err, s)
       | Inr (qids, newRef, valid, attr) \<Rightarrow> do {
           s \<leftarrow> InsertFID B newFID newRef s;
           (err, s) \<leftarrow> DecRef B newRef s;
           Some (mk qids valid attr, s) } } }"

definition walk_handle ::
  "('w, 'f) backend \<Rightarrow> fid \<Rightarrow> fid \<Rightarrow> string list \<Rightarrow> bool \<Rightarrow> (QID list \<Rightarrow> AttrMask \<Rightarrow> Attr \<Rightarrow> message)
   \<Rightarrow> ('w, 'f) srv \<Rightarrow> (message \<times> ('w, 'f) srv) option" where
  "walk_handle B f newFID names getattr mk s =
     withFID B f (newErr (errno EBADF)) (walk_install B f newFID names getattr mk) s"

definition twalk_handle where
  "twalk_handle B t s =
     walk_handle B (twalk_fid t) (twalk_newFID t) (twalk_Names t) False
       (\<lambda>qids valid attr. Rwalk \<lparr>rwalk_QIDs = qids\<rparr>) s"

definition twalkgetattr_handle where
  "twalkgetattr_handle B t s =
     walk_handle B (twalkgetattr_fid t) (twalkgetattr_newFID t) (twalkgetattr_Names t) True
       (\<lambda>qids valid attr.
          Rwalkgetattr \<lparr>rwalkgetattr_Valid = valid, rwalkgetattr_Attr = attr, rwalkgetattr_QIDs = qids\<rparr>) s"

section \<open>Attach\<close>

definition trimAbs :: "string \<Rightarrow> string" where
  "trimAbs name = (case name of c # rest \<Rightarrow> if c = CHR ''/'' then rest else name | [] \<Rightarrow> name)"

text \<open>The part of \<^verbatim>\<open>tattach.handle\<close> that holds the transient root reference.\<close>

definition tattach_walk ::
  "('w, 'f) backend \<Rightarrow> tattach \<Rightarrow> string \<Rightarrow> QID \<Rightarrow> ref_addr \<Rightarrow> ('w, 'f) srv \<Rightarrow> (message \<times> ('w, 'f) srv) option" where
  "tattach_walk B t attachName qid root s =
     (if length attachName = 0 then do {
        s \<leftarrow> InsertFID B (tattach_fid t) root s;
        Some (Rattach \<lparr>rattach_QID = qid\<rparr>, s) }
      else do {
        (res, s) \<leftarrow> doWalk B root (split_on (CHR ''/'') attachName) False s;
        case res of
          Inl err \<Rightarrow> Some (newErr err, s)
        | Inr (qids, newRef, valid, attr) \<Rightarrow> do {
            s \<leftarrow> InsertFID B (tattach_fid t) newRef s;
            (err, s) \<leftarrow> DecRef B newRef s;
            Some (Rattach \<lparr>rattach_QID = qid\<rparr>, s) } })"

definition tattach_handle ::
  "('w, 'f) backend \<Rightarrow> tattach \<Rightarrow> ('w, 'f) srv \<Rightarrow> (message \<times> ('w, 'f) srv) option" where
  "tattach_handle B t s =
     (let auth = tattach_Auth t in
      if tauth_Authenticationfid auth \<noteq> noFID then Some (newErr (errno EINVAL), s)
      else
        let attachName = trimAbs (tauth_AttachName auth) in
        case call (Attach B) s of
          (Inl err, s) \<Rightarrow> Some (newErr err, s)
        | (Inr sf, s) \<Rightarrow>
            (case call (GetAttr B sf AttrMaskAll) s of
               (Inl err, s) \<Rightarrow> Some (newErr err, snd (call (Close B sf) s))
             | (Inr (qid, valid, attr), s) \<Rightarrow>
                 if \<not> AttrMask_Mode valid then Some (newErr (errno EINVAL), snd (call (Close B sf) s))
                 else do {
                   let (root, s) = allocRef \<lparr>ref_file = sf, ref_xattr = noXattr, refs = 1,
                         opened = False, ref_mode = FileType (Attr_Mode attr), openFlags = 0,
                         ref_node = pathTree, ref_parent = None\<rparr> s;
                   (r, s) \<leftarrow> tattach_walk B t attachName qid root s;
                   (err, s) \<leftarrow> DecRef B root s;
                   Some (r, s) }))"

section \<open>Dispatch\<close>

text \<open>\<^verbatim>\<open>connState.handle\<close>: the T-messages implement \<^verbatim>\<open>handler\<close>, every other message gets ENOSYS.\<close>

definition handle ::
  "('w, 'f) backend \<Rightarrow> message \<Rightarrow> ('w, 'f) srv \<Rightarrow> (message \<times> ('w, 'f) srv) option" where
  "handle B m s =
     (case m of
        Tversion t \<Rightarrow> tversion_handle t s
      | Tflush t \<Rightarrow> tflush_handle t s
      | Twalk t \<Rightarrow> twalk_handle B t s
      | Tclunk t \<Rightarrow> tclunk_handle B t s
      | Tremove t \<Rightarrow> tremove_handle B t s
      | Tauth t \<Rightarrow> tauth_handle t s
      | Tattach t \<Rightarrow> tattach_handle B t s
      | Tlopen t \<Rightarrow> tlopen_handle B t s
      | Tlcreate t \<Rightarrow> tlcreate_handle B t s
      | Tsymlink t \<Rightarrow> tsymlink_handle B t s
      | Tlink t \<Rightarrow> tlink_handle B t s
      | Trenameat t \<Rightarrow> trenameat_handle B t s
      | Tunlinkat t \<Rightarrow> tunlinkat_handle B t s
      | Trename t \<Rightarrow> trename_handle B t s
      | Treadlink t \<Rightarrow> treadlink_handle B t s
      | Tread t \<Rightarrow> tread_handle B t s
      | Twrite t \<Rightarrow> twrite_handle B t s
      | Tmknod t \<Rightarrow> tmknod_handle B t s
      | Tmkdir t \<Rightarrow> tmkdir_handle B t s
      | Tgetattr t \<Rightarrow> tgetattr_handle B t s
      | Tsetattr t \<Rightarrow> tsetattr_handle B t s
      | Txattrwalk t \<Rightarrow> txattrwalk_handle B t s
      | Txattrcreate t \<Rightarrow> txattrcreate_handle B t s
      | Treaddir t \<Rightarrow> treaddir_handle B t s
      | Tfsync t \<Rightarrow> tfsync_handle B t s
      | Tstatfs t \<Rightarrow> tstatfs_handle B t s
      | Twalkgetattr t \<Rightarrow> twalkgetattr_handle B t s
      | Tucreate t \<Rightarrow> tucreate_handle B t s
      | Tumkdir t \<Rightarrow> tumkdir_handle B t s
      | Tumknod t \<Rightarrow> tumknod_handle B t s
      | Tusymlink t \<Rightarrow> tusymlink_handle B t s
      | Tlock t \<Rightarrow> tlock_handle B t s
      | _ \<Rightarrow> Some (newErr (errno ENOSYS), s))"

end
