(* ===== verification/P9_RefGraph.thy ===== *)
theory P9_RefGraph
  imports P9_Handlers
begin

text \<open>
  The reference graph of the server, as an abstract state: what the stores of \<open>P9_Server\<close> mean
  without their representation. A fidRef has a count, a parent and a path node; a path node has
  one map from the references registered in it to their names, a map from names to child nodes,
  and the deleted mark. The invariant \<open>ainv ext X\<close> accounts for every counted reference: the fids of
  the connection, the live children, and \<open>ext\<close>, the references held elsewhere (requests in
  flight and other connections). References in \<open>X\<close> are being moved to another parent.
\<close>

section \<open>Abstract state and invariant\<close>

record astate =
  fidmap :: "fid \<Rightarrow> ref_addr option"
  nrefs :: nat
  cnt :: "ref_addr \<Rightarrow> int"
  parent :: "ref_addr \<Rightarrow> ref_addr option"
  nodeOf :: "ref_addr \<Rightarrow> node_addr"
  nnodes :: nat
  nameOf :: "node_addr \<Rightarrow> ref_addr \<Rightarrow> string option"
  gone :: "node_addr \<Rightarrow> bool"
  edge :: "node_addr \<Rightarrow> string \<Rightarrow> node_addr option"

definition fidsAt :: "astate \<Rightarrow> ref_addr \<Rightarrow> fid set" where
  "fidsAt a r = {f. fidmap a f = Some r}"

definition children :: "astate \<Rightarrow> ref_addr set \<Rightarrow> ref_addr \<Rightarrow> ref_addr set" where
  "children a X r = {c. 0 < cnt a c \<and> c \<notin> X \<and> parent a c = Some r}"

definition refEdges :: "astate \<Rightarrow> ref_addr set \<Rightarrow> (ref_addr \<times> ref_addr) set" where
  "refEdges a X = {(r, q). 0 < cnt a r \<and> r \<notin> X \<and> parent a r = Some q}"

definition nodeEdges :: "astate \<Rightarrow> (node_addr \<times> node_addr) set" where
  "nodeEdges a = {(p, m). \<exists>n. edge a p n = Some m}"

text \<open>Every count is the number of the references there are.\<close>

definition counted :: "(ref_addr \<Rightarrow> nat) \<Rightarrow> ref_addr set \<Rightarrow> astate \<Rightarrow> bool" where
  "counted ext X a \<longleftrightarrow>
     (\<forall>r. cnt a r = int (card (fidsAt a r) + card (children a X r) + ext r)) \<and>
     (\<forall>r. nrefs a \<le> r \<longrightarrow> cnt a r = 0) \<and>
     acyclic (refEdges a X)"

text \<open>Every pointer is valid, and the node graph has no cycle.\<close>

definition nodes_wf :: "astate \<Rightarrow> bool" where
  "nodes_wf a \<longleftrightarrow>
     0 < nnodes a \<and> (\<forall>r<nrefs a. nodeOf a r < nnodes a) \<and>
     (\<forall>p n m. edge a p n = Some m \<longrightarrow> p < nnodes a \<and> m < nnodes a) \<and>
     (\<forall>p n m. edge a p n = Some m \<and> gone a p \<longrightarrow> gone a m) \<and>
     acyclic (nodeEdges a)"

text \<open>
  A registered reference is alive, sits at the node of its parent and its own node is the child
  of that name; a live reference whose node is not deleted is registered at its parent.
\<close>

definition registered :: "ref_addr set \<Rightarrow> astate \<Rightarrow> bool" where
  "registered X a \<longleftrightarrow>
     (\<forall>p r n. nameOf a p r = Some n \<longrightarrow> 0 < cnt a r \<and> r \<notin> X \<and>
        (\<exists>q. parent a r = Some q \<and> nodeOf a q = p \<and> edge a p n = Some (nodeOf a r))) \<and>
     (\<forall>r q. 0 < cnt a r \<and> r \<notin> X \<and> parent a r = Some q \<and> \<not> gone a (nodeOf a r) \<longrightarrow>
        (\<exists>n. nameOf a (nodeOf a q) r = Some n))"

definition ainv :: "(ref_addr \<Rightarrow> nat) \<Rightarrow> ref_addr set \<Rightarrow> astate \<Rightarrow> bool" where
  "ainv ext X a \<longleftrightarrow> counted ext X a \<and> nodes_wf a \<and> registered X a"

text \<open>One more reference held on \<open>r\<close>.\<close>

definition hold :: "ref_addr \<Rightarrow> (ref_addr \<Rightarrow> nat) \<Rightarrow> ref_addr \<Rightarrow> nat" where
  "hold r ext = ext(r := Suc (ext r))"

lemma hold_apply [simp]: "hold r ext x = (if x = r then Suc (ext x) else ext x)"
  by (simp add: hold_def)

lemma hold_commute: "hold a (hold b ext) = hold b (hold a ext)"
  by (auto simp: hold_def fun_eq_iff)

lemmas ainv_defs = ainv_def counted_def nodes_wf_def registered_def

section \<open>Consequences of the invariant\<close>

lemma counted_eq: "counted ext X a \<Longrightarrow> cnt a r = int (card (fidsAt a r) + card (children a X r) + ext r)"
  unfolding counted_def by blast

lemma counted_bound: "counted ext X a \<Longrightarrow> nrefs a \<le> r \<Longrightarrow> cnt a r = 0"
  unfolding counted_def by blast

lemma counted_acyclic: "counted ext X a \<Longrightarrow> acyclic (refEdges a X)"
  unfolding counted_def by blast

lemma countedI:
  "(\<And>r. cnt a r = int (card (fidsAt a r) + card (children a X r) + ext r)) \<Longrightarrow>
   (\<And>r. nrefs a \<le> r \<Longrightarrow> cnt a r = 0) \<Longrightarrow> acyclic (refEdges a X) \<Longrightarrow> counted ext X a"
  unfolding counted_def by blast

lemma counted_nonneg: "counted ext X a \<Longrightarrow> 0 \<le> cnt a r"
  using counted_eq [of ext X a r] by linarith

lemma counted_live_valid:
  assumes "counted ext X a" and "0 < cnt a r" shows "r < nrefs a"
  using counted_bound [OF assms(1), of r] assms(2) by (cases "nrefs a \<le> r") auto

lemma finite_children:
  assumes "counted ext X a" shows "finite (children a X r)"
proof (rule finite_subset)
  show "children a X r \<subseteq> {..<nrefs a}"
    using counted_live_valid [OF assms] by (auto simp: children_def)
qed simp

lemma counted_fid_live:
  assumes "counted ext X a" and "fidmap a f = Some r" shows "0 < cnt a r"
proof -
  have "fidsAt a r \<noteq> {}" using assms(2) by (auto simp: fidsAt_def)
  then have "0 < card (fidsAt a r)" by (simp add: card_gt_0_iff)
  with counted_eq [OF assms(1), of r] show ?thesis by linarith
qed

lemma counted_parent_live:
  assumes "counted ext X a" "0 < cnt a r" "r \<notin> X" "parent a r = Some q"
  shows "0 < cnt a q"
proof -
  have "r \<in> children a X q" using assms by (simp add: children_def)
  then have "0 < card (children a X q)" using finite_children [OF assms(1)] by (auto simp: card_gt_0_iff)
  with counted_eq [OF assms(1), of q] show ?thesis by linarith
qed

lemma counted_held_live: "counted ext X a \<Longrightarrow> 0 < ext r \<Longrightarrow> 0 < cnt a r"
  using counted_eq [of ext X a r] by linarith

lemma ainv_counted: "ainv ext X a \<Longrightarrow> counted ext X a" by (simp add: ainv_def)
lemma ainv_nodes: "ainv ext X a \<Longrightarrow> nodes_wf a" by (simp add: ainv_def)
lemma ainv_registered: "ainv ext X a \<Longrightarrow> registered X a" by (simp add: ainv_def)

lemmas ainv_fid_live = counted_fid_live [OF ainv_counted]
lemmas ainv_parent_live = counted_parent_live [OF ainv_counted]
lemmas ainv_held_live = counted_held_live [OF ainv_counted]
lemmas ainv_live_valid = counted_live_valid [OF ainv_counted]

lemma registeredE:
  assumes "registered X a" and "nameOf a p r = Some n"
  obtains q where "0 < cnt a r" "r \<notin> X" "parent a r = Some q" "nodeOf a q = p" "edge a p n = Some (nodeOf a r)"
  using assms unfolding registered_def by metis

lemma registered_name:
  "registered X a \<Longrightarrow> 0 < cnt a r \<Longrightarrow> r \<notin> X \<Longrightarrow> parent a r = Some q \<Longrightarrow> \<not> gone a (nodeOf a r) \<Longrightarrow>
   \<exists>n. nameOf a (nodeOf a q) r = Some n"
  by (auto simp: registered_def)

text \<open>The parent of a reference that is not deleted is not deleted, and lies above it.\<close>

lemma parent_above:
  assumes "ainv ext X a" and "(r, q) \<in> refEdges a X" and "\<not> gone a (nodeOf a r)"
  shows "\<not> gone a (nodeOf a q)" and "(nodeOf a q, nodeOf a r) \<in> nodeEdges a"
proof -
  have r: "0 < cnt a r" "r \<notin> X" "parent a r = Some q" using assms(2) by (auto simp: refEdges_def)
  obtain n where n: "nameOf a (nodeOf a q) r = Some n"
    using registered_name [OF ainv_registered [OF assms(1)] r assms(3)] by blast
  then have e: "edge a (nodeOf a q) n = Some (nodeOf a r)"
    using ainv_registered [OF assms(1)] by (auto elim: registeredE)
  then show "(nodeOf a q, nodeOf a r) \<in> nodeEdges a" by (auto simp: nodeEdges_def)
  show "\<not> gone a (nodeOf a q)"
    using e assms(3) ainv_nodes [OF assms(1)] by (auto simp: nodes_wf_def)
qed

lemma ancestors_above:
  assumes "ainv ext X a" and "(r, q) \<in> (refEdges a X)\<^sup>*" and "\<not> gone a (nodeOf a r)"
  shows "\<not> gone a (nodeOf a q) \<and> (nodeOf a q, nodeOf a r) \<in> (nodeEdges a)\<^sup>*"
  using assms(2)
proof (induction rule: rtrancl_induct)
  case base
  then show ?case using assms(3) by simp
next
  case (step q q')
  then show ?case
    using parent_above [OF assms(1) step(2)] by (auto intro: converse_rtrancl_into_rtrancl)
qed

text \<open>When nothing outside holds a reference and no fid is left, every reference is dead.\<close>

lemma finite_refEdges: "counted ext X a \<Longrightarrow> finite (refEdges a X)"
proof (rule finite_subset [of _ "(\<lambda>r. (r, the (parent a r))) ` {..<nrefs a}"])
  assume c: "counted ext X a"
  show "refEdges a X \<subseteq> (\<lambda>r. (r, the (parent a r))) ` {..<nrefs a}"
  proof clarify
    fix r q assume "(r, q) \<in> refEdges a X"
    then have "r < nrefs a" "q = the (parent a r)"
      using counted_live_valid [OF c] by (auto simp: refEdges_def)
    then show "(r, q) \<in> (\<lambda>r. (r, the (parent a r))) ` {..<nrefs a}" by auto
  qed
qed simp

lemma no_roots_no_refs:
  assumes c: "counted (\<lambda>_. 0) {} a" and "fidmap a = Map.empty"
  shows "cnt a r = 0"
proof -
  have wf: "wf (refEdges a {})"
    using c finite_refEdges [OF c] by (simp add: finite_acyclic_wf counted_acyclic)
  have "cnt a r = 0" for r
  proof (induction r rule: wf_induct [OF wf])
    case (1 r)
    have "children a {} r = {}"
    proof (rule ccontr)
      assume "children a {} r \<noteq> {}"
      then obtain x where x: "0 < cnt a x" "parent a x = Some r" by (auto simp: children_def)
      then have "(x, r) \<in> refEdges a {}" by (simp add: refEdges_def)
      with 1 have "cnt a x = 0" by blast
      with x show False by simp
    qed
    then show ?case using counted_eq [OF c, of r] assms(2) by (simp add: fidsAt_def)
  qed
  then show ?thesis .
qed

section \<open>Frame lemmas\<close>

lemma fidsAt_frame [simp]:
  "fidsAt (a\<lparr>cnt := c\<rparr>) = fidsAt a" "fidsAt (a\<lparr>parent := pa\<rparr>) = fidsAt a" "fidsAt (a\<lparr>nameOf := nm\<rparr>) = fidsAt a"
  "fidsAt (a\<lparr>edge := e\<rparr>) = fidsAt a" "fidsAt (a\<lparr>gone := g\<rparr>) = fidsAt a" "fidsAt (a\<lparr>nnodes := k\<rparr>) = fidsAt a"
  "fidsAt (a\<lparr>nrefs := k\<rparr>) = fidsAt a" "fidsAt (a\<lparr>nodeOf := nd\<rparr>) = fidsAt a"
  by (simp_all add: fidsAt_def fun_eq_iff)

lemma children_frame [simp]:
  "children (a\<lparr>fidmap := fm\<rparr>) = children a" "children (a\<lparr>nameOf := nm\<rparr>) = children a"
  "children (a\<lparr>edge := e\<rparr>) = children a" "children (a\<lparr>gone := g\<rparr>) = children a" "children (a\<lparr>nnodes := k\<rparr>) = children a"
  "children (a\<lparr>nrefs := k\<rparr>) = children a" "children (a\<lparr>nodeOf := nd\<rparr>) = children a"
  by (simp_all add: children_def fun_eq_iff)

lemma refEdges_frame [simp]:
  "refEdges (a\<lparr>fidmap := fm\<rparr>) = refEdges a" "refEdges (a\<lparr>nameOf := nm\<rparr>) = refEdges a"
  "refEdges (a\<lparr>edge := e\<rparr>) = refEdges a" "refEdges (a\<lparr>gone := g\<rparr>) = refEdges a" "refEdges (a\<lparr>nnodes := k\<rparr>) = refEdges a"
  "refEdges (a\<lparr>nrefs := k\<rparr>) = refEdges a" "refEdges (a\<lparr>nodeOf := nd\<rparr>) = refEdges a"
  by (simp_all add: refEdges_def fun_eq_iff)

lemma counted_frame [simp]:
  "counted ext X (a\<lparr>nameOf := nm\<rparr>) = counted ext X a" "counted ext X (a\<lparr>edge := e\<rparr>) = counted ext X a"
  "counted ext X (a\<lparr>gone := g\<rparr>) = counted ext X a" "counted ext X (a\<lparr>nnodes := k\<rparr>) = counted ext X a"
  "counted ext X (a\<lparr>nodeOf := nd\<rparr>) = counted ext X a"
  by (simp_all add: counted_def)

lemma nodes_wf_frame [simp]:
  "nodes_wf (a\<lparr>fidmap := fm\<rparr>) = nodes_wf a" "nodes_wf (a\<lparr>cnt := c\<rparr>) = nodes_wf a"
  "nodes_wf (a\<lparr>parent := pa\<rparr>) = nodes_wf a" "nodes_wf (a\<lparr>nameOf := nm\<rparr>) = nodes_wf a"
  by (simp_all add: nodes_wf_def nodeEdges_def)

lemma registered_frame [simp]:
  "registered X (a\<lparr>fidmap := fm\<rparr>) = registered X a" "registered X (a\<lparr>nrefs := k\<rparr>) = registered X a"
  "registered X (a\<lparr>nnodes := k\<rparr>) = registered X a"
  by (simp_all add: registered_def)

text \<open>Counts may change, with the references held, as long as the live references stay the same.\<close>

lemma counted_adjust:
  assumes "counted ext X a" and "\<And>x. 0 < c x \<longleftrightarrow> 0 < cnt a x"
    and "\<And>x. c x + int (ext x) = cnt a x + int (ext' x)" and "\<And>x. nrefs a \<le> x \<Longrightarrow> c x = 0"
  shows "counted ext' X (a\<lparr>cnt := c\<rparr>)"
proof -
  have "children (a\<lparr>cnt := c\<rparr>) X r = children a X r" for r by (simp add: children_def assms(2))
  moreover have "refEdges (a\<lparr>cnt := c\<rparr>) X = refEdges a X" by (simp add: refEdges_def assms(2))
  moreover have "c r = int (card (fidsAt a r) + card (children a X r) + ext' r)" for r
    using counted_eq [OF assms(1), of r] assms(3) [of r] by linarith
  ultimately show ?thesis
    using assms(4) counted_acyclic [OF assms(1)] by (simp add: counted_def)
qed

lemma registered_adjust:
  assumes "registered X a" and "\<And>x. 0 < c x \<longleftrightarrow> 0 < cnt a x"
  shows "registered X (a\<lparr>cnt := c\<rparr>)"
  using assms by (simp add: registered_def)

section \<open>Taking and dropping references\<close>

lemma ainv_hold:
  assumes "ainv ext X a" and "0 < cnt a r"
  shows "ainv (hold r ext) X (a\<lparr>cnt := (cnt a)(r := cnt a r + 1)\<rparr>)"
proof -
  note c = ainv_counted [OF assms(1)]
  have "counted (hold r ext) X (a\<lparr>cnt := (cnt a)(r := cnt a r + 1)\<rparr>)"
    using assms(2) counted_bound [OF c] by (intro counted_adjust [OF c]) auto
  moreover have "registered X (a\<lparr>cnt := (cnt a)(r := cnt a r + 1)\<rparr>)"
    using assms(2) by (intro registered_adjust [OF ainv_registered [OF assms(1)]]) auto
  ultimately show ?thesis using ainv_nodes [OF assms(1)] by (simp add: ainv_def)
qed

lemma ainv_unhold:
  assumes "ainv (hold r ext) X a" and "1 < cnt a r"
  shows "ainv ext X (a\<lparr>cnt := (cnt a)(r := cnt a r - 1)\<rparr>)"
proof -
  note c = ainv_counted [OF assms(1)]
  have "counted ext X (a\<lparr>cnt := (cnt a)(r := cnt a r - 1)\<rparr>)"
    using assms(2) counted_bound [OF c] by (intro counted_adjust [OF c]) (auto simp: fun_upd_def)
  moreover have "registered X (a\<lparr>cnt := (cnt a)(r := cnt a r - 1)\<rparr>)"
    using assms(2) by (intro registered_adjust [OF ainv_registered [OF assms(1)]]) auto
  ultimately show ?thesis using ainv_nodes [OF assms(1)] by (simp add: ainv_def)
qed

text \<open>The last reference to \<open>r\<close> goes: it leaves its parent's node, and its reference to the parent is to be dropped.\<close>

definition unregister :: "node_addr \<Rightarrow> ref_addr \<Rightarrow> (node_addr \<Rightarrow> ref_addr \<Rightarrow> string option) \<Rightarrow> node_addr \<Rightarrow> ref_addr \<Rightarrow> string option" where
  "unregister p r nm = nm(p := (nm p)(r := None))"

lemma unregister_apply: "unregister p r nm p' r' = (if p' = p \<and> r' = r then None else nm p' r')"
  by (simp add: unregister_def)

lemma counted_last:
  assumes c: "counted (hold r ext) X a" and one: "cnt a r = 1"
  shows "fidsAt a r = {}" and "children a X r = {}" and "ext r = 0"
proof -
  have "card (fidsAt a r) = 0" "card (children a X r) = 0" "ext r = 0"
    using counted_eq [OF c, of r] one by (simp_all del: card_eq_0_iff card_0_eq)
  then show "fidsAt a r = {}" "children a X r = {}" "ext r = 0"
    using finite_children [OF c] by auto
qed

lemma counted_release:
  assumes c: "counted (hold r ext) X a" and one: "cnt a r = 1" and X: "r \<notin> X"
  shows "counted (case parent a r of None \<Rightarrow> ext | Some q \<Rightarrow> hold q ext) X (a\<lparr>cnt := (cnt a)(r := 0)\<rparr>)"
proof -
  let ?a = "a\<lparr>cnt := (cnt a)(r := 0)\<rparr>"
  let ?ext = "case parent a r of None \<Rightarrow> ext | Some q \<Rightarrow> hold q ext"
  note last = counted_last [OF c one]
  have ch: "children ?a X x = children a X x - {r}" for x by (auto simp: children_def)
  have sum: "cnt ?a x = int (card (fidsAt ?a x) + card (children ?a X x) + ?ext x)" for x
  proof (cases "x = r")
    case True
    have "parent a r = Some r \<Longrightarrow> r \<in> children a X r" using one X by (simp add: children_def)
    then have "parent a r \<noteq> Some r" using last(2) by blast
    with last True show ?thesis by (auto simp: ch split: option.splits)
  next
    case False
    have "card (children a X x) + ext x = card (children a X x - {r}) + ?ext x"
    proof (cases "parent a r = Some x")
      case True
      then have "r \<in> children a X x" using one X by (simp add: children_def)
      then have "card (children a X x) = Suc (card (children a X x - {r}))"
        by (rule card.remove [OF finite_children [OF c]])
      with True show ?thesis by simp
    next
      case nxt: False
      then have "children a X x - {r} = children a X x" by (auto simp: children_def)
      with nxt show ?thesis by (auto split: option.splits)
    qed
    with False counted_eq [OF c, of x] show ?thesis by (simp add: ch)
  qed
  have "refEdges ?a X \<subseteq> refEdges a X" by (auto simp: refEdges_def split: if_splits)
  then show ?thesis
    using counted_bound [OF c] acyclic_subset [OF counted_acyclic [OF c]]
    by (intro countedI sum) auto
qed

lemma ainv_release:
  assumes "ainv (hold r ext) X a" and "cnt a r = 1" and "r \<notin> X"
    and "\<And>q. parent a r = Some q \<Longrightarrow> nm = unregister (nodeOf a q) r (nameOf a)"
    and "parent a r = None \<Longrightarrow> nm = nameOf a"
  shows "ainv (case parent a r of None \<Rightarrow> ext | Some q \<Rightarrow> hold q ext) X (a\<lparr>cnt := (cnt a)(r := 0), nameOf := nm\<rparr>)"
proof -
  note reg = ainv_registered [OF assms(1)]
  have eq: "nm p x = (if x = r then None else nameOf a p x)" for p x
  proof (cases "parent a r")
    case None
    then have "nameOf a p r = None" by (metis option.distinct(1) option.exhaust registeredE [OF reg])
    with None assms(5) show ?thesis by auto
  next
    case (Some q)
    have "nameOf a p r = None" if "p \<noteq> nodeOf a q"
      using that Some by (metis option.exhaust option.inject registeredE [OF reg])
    with Some assms(4) show ?thesis by (auto simp: unregister_apply)
  qed
  have "registered X (a\<lparr>cnt := (cnt a)(r := 0), nameOf := nm\<rparr>)"
    using reg unfolding registered_def by (auto simp: eq split: if_splits)
  then show ?thesis
    using counted_release [OF ainv_counted [OF assms(1)] assms(2,3)] ainv_nodes [OF assms(1)]
    by (simp add: ainv_def)
qed

lemma ainv_release_child:
  assumes "ainv (hold r ext) X a" "cnt a r = 1" "r \<notin> X" "parent a r = Some q"
  shows "ainv (hold q ext) X (a\<lparr>cnt := (cnt a)(r := 0), nameOf := unregister (nodeOf a q) r (nameOf a)\<rparr>)"
  using ainv_release [OF assms(1-3), of "unregister (nodeOf a q) r (nameOf a)"] assms(4) by auto

lemma ainv_release_root:
  assumes "ainv (hold r ext) X a" "cnt a r = 1" "r \<notin> X" "parent a r = None"
  shows "ainv ext X (a\<lparr>cnt := (cnt a)(r := 0)\<rparr>)"
proof -
  have "ainv ext X (a\<lparr>cnt := (cnt a)(r := 0), nameOf := nameOf a\<rparr>)"
    using ainv_release [OF assms(1-3), of "nameOf a"] assms(4) by auto
  moreover have "a\<lparr>cnt := (cnt a)(r := 0), nameOf := nameOf a\<rparr> = a\<lparr>cnt := (cnt a)(r := 0)\<rparr>"
    by (cases a) simp
  ultimately show ?thesis by simp
qed

section \<open>The fid table\<close>

lemma counted_fidmap:
  assumes c: "counted ext X a"
    and e: "\<And>x. card {g. fm g = Some x} + ext' x = card (fidsAt a x) + ext x"
  shows "counted ext' X (a\<lparr>fidmap := fm\<rparr>)"
proof (rule countedI)
  fix x
  have "cnt a x = int (card {g. fm g = Some x} + card (children a X x) + ext' x)"
    using counted_eq [OF c, of x] e [of x] by linarith
  then show "cnt (a\<lparr>fidmap := fm\<rparr>) x = int (card (fidsAt (a\<lparr>fidmap := fm\<rparr>) x)
      + card (children (a\<lparr>fidmap := fm\<rparr>) X x) + ext' x)"
    by (simp add: fidsAt_def)
qed (use counted_bound [OF c] counted_acyclic [OF c] in simp_all)

lemma ainv_delete_fid:
  assumes "ainv ext X a" and f: "fidmap a f = Some r"
  shows "ainv (hold r ext) X (a\<lparr>fidmap := (fidmap a)(f := None)\<rparr>)"
proof -
  have "card {g. ((fidmap a)(f := None)) g = Some x} + hold r ext x = card (fidsAt a x) + ext x" for x
  proof -
    have eq: "{g. ((fidmap a)(f := None)) g = Some x} = fidsAt a x - {f}" by (auto simp: fidsAt_def)
    show ?thesis
    proof (cases "x = r")
      case True
      then have "f \<in> fidsAt a x" using f by (simp add: fidsAt_def)
      then have "card (fidsAt a x) = Suc (card (fidsAt a x - {f}))" by (intro card.remove) simp_all
      with True show ?thesis unfolding eq by simp
    next
      case False
      then have "fidsAt a x - {f} = fidsAt a x" using f by (auto simp: fidsAt_def)
      with False show ?thesis unfolding eq by simp
    qed
  qed
  then have "counted (hold r ext) X (a\<lparr>fidmap := (fidmap a)(f := None)\<rparr>)"
    by (rule counted_fidmap [OF ainv_counted [OF assms(1)]])
  then show ?thesis using assms(1) by (simp add: ainv_def)
qed

lemma ainv_insert_fid:
  assumes "ainv (hold r ext) X a" and f: "fidmap a f = None"
  shows "ainv ext X (a\<lparr>fidmap := (fidmap a)(f \<mapsto> r)\<rparr>)"
proof -
  have "card {g. ((fidmap a)(f \<mapsto> r)) g = Some x} + ext x = card (fidsAt a x) + hold r ext x" for x
  proof (cases "x = r")
    case True
    then have eq: "{g. ((fidmap a)(f \<mapsto> r)) g = Some x} = insert f (fidsAt a x)" by (auto simp: fidsAt_def)
    have "f \<notin> fidsAt a x" using f by (simp add: fidsAt_def)
    then have "card (insert f (fidsAt a x)) = Suc (card (fidsAt a x))" by simp
    with True show ?thesis unfolding eq by simp
  next
    case False
    then have eq: "{g. ((fidmap a)(f \<mapsto> r)) g = Some x} = fidsAt a x" using f by (auto simp: fidsAt_def)
    with False show ?thesis unfolding eq by simp
  qed
  then have "counted ext X (a\<lparr>fidmap := (fidmap a)(f \<mapsto> r)\<rparr>)"
    by (rule counted_fidmap [OF ainv_counted [OF assms(1)]])
  then show ?thesis using assms(1) by (simp add: ainv_def)
qed

lemma ainv_replace_fid:
  assumes "ainv (hold r ext) X a"
  shows "ainv (case fidmap a f of None \<Rightarrow> ext | Some orig \<Rightarrow> hold orig ext) X (a\<lparr>fidmap := (fidmap a)(f \<mapsto> r)\<rparr>)"
proof (cases "fidmap a f")
  case None
  with ainv_insert_fid [OF assms] show ?thesis by simp
next
  case (Some orig)
  have "ainv (hold r (hold orig ext)) X (a\<lparr>fidmap := (fidmap a)(f := None)\<rparr>)"
    using ainv_delete_fid [OF assms Some] by (simp add: hold_commute)
  from ainv_insert_fid [OF this, of f] Some show ?thesis by simp
qed

section \<open>New references and nodes\<close>

text \<open>A new reference with one reference held; it takes over the reference held on its parent.\<close>

definition spawn :: "ref_addr option \<Rightarrow> node_addr \<Rightarrow> string option \<Rightarrow> astate \<Rightarrow> astate" where
  "spawn pa m name a =
     (let new = nrefs a in
      a\<lparr>nrefs := Suc new, cnt := (cnt a)(new := 1), parent := (parent a)(new := pa),
        nodeOf := (nodeOf a)(new := m),
        nameOf := (case (pa, name) of
                     (Some q, Some n) \<Rightarrow> (nameOf a)(nodeOf a q := (nameOf a (nodeOf a q))(new \<mapsto> n))
                   | _ \<Rightarrow> nameOf a)\<rparr>)"

lemma fresh_ref:
  assumes "counted ext X a"
  shows "cnt a (nrefs a) = 0" "fidsAt a (nrefs a) = {}" "children a X (nrefs a) = {}" "ext (nrefs a) = 0"
proof -
  show zero: "cnt a (nrefs a) = 0" using counted_bound [OF assms] by simp
  have "card (fidsAt a (nrefs a)) = 0" "card (children a X (nrefs a)) = 0" "ext (nrefs a) = 0"
    using counted_eq [OF assms, of "nrefs a"] zero by (simp_all del: card_eq_0_iff card_0_eq)
  then show "fidsAt a (nrefs a) = {}" "children a X (nrefs a) = {}" "ext (nrefs a) = 0"
    using finite_children [OF assms] by auto
qed

lemma acyclic_insert_source:
  assumes "acyclic R" and "\<And>x. (x, new) \<notin> R" and "q \<noteq> new"
  shows "acyclic (insert (new, q) R)"
proof -
  have "(q, new) \<notin> R\<^sup>*" using assms(2,3) by (metis rtranclE)
  with assms(1) show ?thesis by (simp add: acyclic_insert)
qed

lemma counted_spawn:
  assumes c: "counted (case pa of None \<Rightarrow> ext | Some q \<Rightarrow> hold q ext) {} a"
  shows "counted (hold (nrefs a) ext) {} (spawn pa m name a)"
proof (rule countedI)
  let ?new = "nrefs a" and ?a = "spawn pa m name a"
  note fresh = fresh_ref [OF c]
  have zero: "ext ?new = 0" and pa: "pa \<noteq> Some ?new" using fresh(4) by (auto split: option.splits if_splits)
  have ch: "children ?a {} x = (if pa = Some x then insert ?new (children a {} x) else children a {} x)" for x
    using fresh(1) by (auto simp: children_def spawn_def Let_def)
  have fr: "?new \<notin> children a {} x" for x using fresh(1) by (simp add: children_def)
  have fa: "fidsAt ?a x = fidsAt a x" for x by (simp add: spawn_def Let_def)
  fix x
  show "cnt ?a x = int (card (fidsAt ?a x) + card (children ?a {} x) + hold ?new ext x)"
  proof (cases "x = ?new")
    case True
    have "cnt ?a ?new = 1" by (simp add: spawn_def Let_def)
    with True show ?thesis using fresh zero pa by (simp add: ch fa)
  next
    case False
    have "cnt ?a x = cnt a x" using False by (simp add: spawn_def Let_def)
    moreover have "card (children ?a {} x) + ext x = card (children a {} x) +
        (case pa of None \<Rightarrow> ext | Some q \<Rightarrow> hold q ext) x"
      using fr [of x] finite_children [OF c, of x] by (auto simp: ch split: option.splits)
    ultimately show ?thesis using counted_eq [OF c, of x] False by (simp add: fa)
  qed
next
  fix r assume "nrefs (spawn pa m name a) \<le> r"
  then show "cnt (spawn pa m name a) r = 0" using counted_bound [OF c] by (simp add: spawn_def Let_def)
next
  let ?new = "nrefs a" and ?a = "spawn pa m name a"
  note fresh = fresh_ref [OF c]
  have no: "(x, ?new) \<notin> refEdges a {}" for x using fresh(3) by (auto simp: refEdges_def children_def)
  have "refEdges ?a {} = (case pa of None \<Rightarrow> refEdges a {} | Some q \<Rightarrow> insert (?new, q) (refEdges a {}))"
    using fresh(1) by (auto simp: refEdges_def spawn_def Let_def split: option.splits if_splits)
  moreover have "pa \<noteq> Some ?new" using fresh(4) by (auto split: option.splits if_splits)
  ultimately show "acyclic (refEdges ?a {})"
    using acyclic_insert_source [OF counted_acyclic [OF c] no] counted_acyclic [OF c]
    by (auto split: option.splits)
qed

lemma ainv_spawn:
  assumes i: "ainv (case pa of None \<Rightarrow> ext | Some q \<Rightarrow> hold q ext) {} a" and m: "m < nnodes a"
    and reg: "\<And>q. pa = Some q \<Longrightarrow>
      (case name of None \<Rightarrow> gone a m | Some n \<Rightarrow> edge a (nodeOf a q) n = Some m)"
  shows "ainv (hold (nrefs a) ext) {} (spawn pa m name a)"
proof -
  let ?new = "nrefs a" and ?a = "spawn pa m name a"
  note c = ainv_counted [OF i] and r = ainv_registered [OF i] and w = ainv_nodes [OF i]
  have dead: "cnt a ?new = 0" using fresh_ref [OF c] by simp
  have pa: "pa \<noteq> Some ?new" using fresh_ref(4) [OF c] by (auto split: option.splits)
  have notnew: "parent a x \<noteq> Some ?new" if "0 < cnt a x" for x
    using counted_parent_live [OF c that] dead by auto
  have nm: "nameOf a p ?new = None" for p
    using dead by (metis option.exhaust order_less_irrefl registeredE [OF r])
  have "registered {} ?a"
    unfolding registered_def
  proof (intro conjI allI impI; (elim conjE)?)
    fix p x n assume "nameOf ?a p x = Some n"
    then consider (new) q where "x = ?new" "pa = Some q" "name = Some n" "p = nodeOf a q"
      | (old) "x \<noteq> ?new" "nameOf a p x = Some n"
      using nm by (cases "x = ?new") (auto simp: spawn_def Let_def split: option.splits if_splits)
    then show "0 < cnt ?a x" "x \<notin> {}" "\<exists>q. parent ?a x = Some q \<and> nodeOf ?a q = p \<and> edge ?a p n = Some (nodeOf ?a x)"
    proof (atomize (full), cases)
      case new
      then show "0 < cnt ?a x \<and> x \<notin> {} \<and> (\<exists>q. parent ?a x = Some q \<and> nodeOf ?a q = p \<and> edge ?a p n = Some (nodeOf ?a x))"
        using reg [of q] pa by (auto simp: spawn_def Let_def)
    next
      case old
      from registeredE [OF r old(2)] obtain q where q: "0 < cnt a x" "parent a x = Some q" "nodeOf a q = p"
        "edge a p n = Some (nodeOf a x)" by blast
      with notnew have "q \<noteq> ?new" by auto
      with q old(1) show "0 < cnt ?a x \<and> x \<notin> {} \<and> (\<exists>q. parent ?a x = Some q \<and> nodeOf ?a q = p \<and> edge ?a p n = Some (nodeOf ?a x))"
        by (auto simp: spawn_def Let_def)
    qed
  next
    fix x q assume x: "0 < cnt ?a x" "parent ?a x = Some q" "\<not> gone ?a (nodeOf ?a x)"
    show "\<exists>n. nameOf ?a (nodeOf ?a q) x = Some n"
    proof (cases "x = ?new")
      case True
      with x reg [of q] pa show ?thesis by (auto simp: spawn_def Let_def split: option.splits)
    next
      case False
      with x have o: "0 < cnt a x" "parent a x = Some q" "\<not> gone a (nodeOf a x)"
        by (auto simp: spawn_def Let_def)
      then have "q \<noteq> ?new" using notnew by auto
      with False registered_name [OF r o(1) _ o(2,3)] show ?thesis
        by (auto simp: spawn_def Let_def split: option.splits)
    qed
  qed
  moreover have "nodes_wf ?a" using w m by (auto simp: nodes_wf_def nodeEdges_def spawn_def Let_def less_Suc_eq)
  ultimately show ?thesis using counted_spawn [OF c] by (simp add: ainv_def)
qed

end
