(* ===== verification/P9_TreeGraph.thy ===== *)
theory P9_TreeGraph
  imports P9_RefGraph
begin

text \<open>
  Changes of the path tree on the abstract state: new nodes, the deletion of a subtree, and the
  two halves of a rename (a reference floats while it changes its parent, an edge moves). Each
  keeps the invariant \<open>ainv\<close>.
\<close>

section \<open>Edges and nodes\<close>

lemma nodes_wf_edge: "nodes_wf a \<Longrightarrow> edge a p n = Some m \<Longrightarrow> p < nnodes a \<and> m < nnodes a"
  by (auto simp: nodes_wf_def)

lemma nodes_wf_acyclic: "nodes_wf a \<Longrightarrow> acyclic (nodeEdges a)"
  by (simp add: nodes_wf_def)

lemma nodes_wf_gone: "nodes_wf a \<Longrightarrow> (p, m) \<in> nodeEdges a \<Longrightarrow> gone a p \<Longrightarrow> gone a m"
  by (auto simp: nodes_wf_def nodeEdges_def)

lemma finite_nodeEdges: "nodes_wf a \<Longrightarrow> finite (nodeEdges a)"
  by (rule finite_subset [of _ "{..<nnodes a} \<times> {..<nnodes a}"]) (auto simp: nodeEdges_def nodes_wf_edge)

lemma wf_nodeEdges: "nodes_wf a \<Longrightarrow> wf ((nodeEdges a)\<inverse>)"
  by (simp add: finite_acyclic_wf_converse finite_nodeEdges nodes_wf_acyclic)

lemma nodeEdges_frame [simp]:
  "nodeEdges (a\<lparr>fidmap := fm\<rparr>) = nodeEdges a" "nodeEdges (a\<lparr>cnt := c\<rparr>) = nodeEdges a"
  "nodeEdges (a\<lparr>parent := pa\<rparr>) = nodeEdges a" "nodeEdges (a\<lparr>nameOf := nm\<rparr>) = nodeEdges a"
  "nodeEdges (a\<lparr>gone := g\<rparr>) = nodeEdges a" "nodeEdges (a\<lparr>nnodes := k\<rparr>) = nodeEdges a"
  "nodeEdges (a\<lparr>nrefs := k\<rparr>) = nodeEdges a" "nodeEdges (a\<lparr>nodeOf := nd\<rparr>) = nodeEdges a"
  by (simp_all add: nodeEdges_def)

text \<open>The invariant for a changed edge map.\<close>

lemma ainv_edges:
  assumes i: "ainv ext X a"
    and names: "\<And>p r n. nameOf a p r = Some n \<Longrightarrow> e p n = edge a p n"
    and bound: "\<And>p n m. e p n = Some m \<Longrightarrow> edge a p n \<noteq> Some m \<Longrightarrow> p < nnodes a \<and> m < nnodes a \<and> \<not> gone a p"
    and acyc: "acyclic {(p, m). \<exists>n. e p n = Some m}"
  shows "ainv ext X (a\<lparr>edge := e\<rparr>)"
proof -
  have "registered X (a\<lparr>edge := e\<rparr>)"
    using ainv_registered [OF i] names unfolding registered_def by (auto; metis)
  moreover have "nodes_wf (a\<lparr>edge := e\<rparr>)"
    using ainv_nodes [OF i] bound acyc unfolding nodes_wf_def nodeEdges_def by (auto; metis)
  ultimately show ?thesis using i by (simp add: ainv_def)
qed

definition addEdge :: "node_addr \<Rightarrow> string \<Rightarrow> node_addr \<Rightarrow> astate \<Rightarrow> astate" where
  "addEdge p n m a = a\<lparr>edge := (edge a)(p := (edge a p)(n \<mapsto> m))\<rparr>"

definition removeEdge :: "node_addr \<Rightarrow> string \<Rightarrow> astate \<Rightarrow> astate" where
  "removeEdge p n a = a\<lparr>edge := (edge a)(p := (edge a p)(n := None))\<rparr>"

lemma nodeEdges_addEdge:
  "edge a p n = None \<Longrightarrow> nodeEdges (addEdge p n m a) = insert (p, m) (nodeEdges a)"
  by (auto simp: nodeEdges_def addEdge_def split: if_splits; metis option.distinct(1))

lemma nodeEdges_removeEdge: "nodeEdges (removeEdge p n a) \<subseteq> nodeEdges a"
  by (auto simp: nodeEdges_def removeEdge_def split: if_splits)

lemma ainv_addEdge:
  assumes i: "ainv ext X a" and "edge a p n = None" and "p < nnodes a" "m < nnodes a" "\<not> gone a p"
    and "(m, p) \<notin> (nodeEdges a)\<^sup>*"
  shows "ainv ext X (addEdge p n m a)"
  unfolding addEdge_def
proof (rule ainv_edges [OF i])
  fix q r l assume "nameOf a q r = Some l"
  then have "edge a q l \<noteq> None" by (auto elim: registeredE [OF ainv_registered [OF i]])
  then show "((edge a)(p := (edge a p)(n \<mapsto> m))) q l = edge a q l" using assms(2) by auto
next
  have "acyclic (nodeEdges (addEdge p n m a))"
    using assms nodes_wf_acyclic [OF ainv_nodes [OF i]] by (simp add: nodeEdges_addEdge acyclic_insert)
  then show "acyclic {(pa, ma). \<exists>na. ((edge a)(p := (edge a p)(n \<mapsto> m))) pa na = Some ma}"
    by (simp add: nodeEdges_def addEdge_def)
qed (use assms in \<open>auto split: if_splits\<close>)

lemma ainv_removeEdge:
  assumes i: "ainv ext X a" and none: "\<And>r. nameOf a p r \<noteq> Some n"
  shows "ainv ext X (removeEdge p n a)"
  unfolding removeEdge_def
proof (rule ainv_edges [OF i])
  have "acyclic (nodeEdges (removeEdge p n a))"
    using acyclic_subset [OF nodes_wf_acyclic [OF ainv_nodes [OF i]] nodeEdges_removeEdge] .
  then show "acyclic {(pa, ma). \<exists>na. ((edge a)(p := (edge a p)(n := None))) pa na = Some ma}"
    by (simp add: nodeEdges_def removeEdge_def)
qed (use none in \<open>auto split: if_splits\<close>)

lemma ainv_new_node:
  assumes i: "ainv ext X a" and "p < nnodes a" "edge a p n = None" "\<not> gone a p"
  shows "ainv ext X ((addEdge p n (nnodes a) a)\<lparr>nnodes := Suc (nnodes a)\<rparr>)"
proof -
  have wf: "nodes_wf (a\<lparr>nnodes := Suc (nnodes a)\<rparr>)"
    using ainv_nodes [OF i] unfolding nodes_wf_def nodeEdges_frame by (auto intro: less_SucI)
  have "(nnodes a, y) \<notin> nodeEdges a" for y
    using nodes_wf_edge [OF ainv_nodes [OF i]] by (auto simp: nodeEdges_def)
  then have "(nnodes a, p) \<notin> (nodeEdges a)\<^sup>*" using assms(2) by (metis converse_rtranclE less_irrefl)
  moreover have "ainv ext X (a\<lparr>nnodes := Suc (nnodes a)\<rparr>)" using i wf by (simp add: ainv_def)
  ultimately have "ainv ext X (addEdge p n (nnodes a) (a\<lparr>nnodes := Suc (nnodes a)\<rparr>))"
    using assms by (intro ainv_addEdge) simp_all
  moreover have "addEdge p n (nnodes a) (a\<lparr>nnodes := Suc (nnodes a)\<rparr>) = (addEdge p n (nnodes a) a)\<lparr>nnodes := Suc (nnodes a)\<rparr>"
    by (simp add: addEdge_def)
  ultimately show ?thesis by simp
qed

section \<open>Deletion of a subtree\<close>

text \<open>The entry \<open>n\<close> of node \<open>p\<close> goes: its references are not registered any more, its edge is cut.\<close>

definition cut :: "node_addr \<Rightarrow> string \<Rightarrow> astate \<Rightarrow> astate" where
  "cut p n a = removeEdge p n (a\<lparr>nameOf := (nameOf a)(p := (\<lambda>r. if nameOf a p r = Some n then None else nameOf a p r))\<rparr>)"

definition mark :: "node_addr set \<Rightarrow> astate \<Rightarrow> astate" where
  "mark S a = a\<lparr>gone := (\<lambda>x. gone a x \<or> x \<in> S)\<rparr>"

definition below :: "astate \<Rightarrow> node_addr \<Rightarrow> node_addr set" where
  "below a m = (nodeEdges a)\<^sup>* `` {m}"

lemma below_refl: "m \<in> below a m"
  by (simp add: below_def)

lemma below_step: "p \<in> below a m \<Longrightarrow> (p, q) \<in> nodeEdges a \<Longrightarrow> q \<in> below a m"
  by (auto simp: below_def intro: rtrancl_into_rtrancl)

lemma cut_none: "ainv ext X a \<Longrightarrow> edge a p n = None \<Longrightarrow> cut p n a = a"
proof -
  assume i: "ainv ext X a" and e: "edge a p n = None"
  have "nameOf a p r \<noteq> Some n" for r
    using e by (auto elim: registeredE [OF ainv_registered [OF i]])
  then have "(\<lambda>r. if nameOf a p r = Some n then None else nameOf a p r) = nameOf a p" by auto
  then show ?thesis using e by (simp add: cut_def removeEdge_def fun_upd_idem)
qed

lemma ainv_delete:
  assumes i: "ainv ext X a" and e: "edge a p n = Some m"
  shows "ainv ext X (mark (below (cut p n a) m) (cut p n a))"
proof -
  let ?a = "cut p n a" let ?b = "mark (below ?a m) ?a"
  note r = ainv_registered [OF i] and w = ainv_nodes [OF i]
  have ne: "nodeEdges ?b = nodeEdges ?a" by (simp add: mark_def)
  have sub: "nodeEdges ?a \<subseteq> nodeEdges a" by (auto simp: cut_def nodeEdges_def removeEdge_def split: if_splits)
  have edges: "edge ?b q l = (if q = p \<and> l = n then None else edge a q l)" for q l
    by (simp add: cut_def mark_def removeEdge_def)
  have names: "nameOf ?b q x = (if q = p \<and> nameOf a q x = Some n then None else nameOf a q x)" for q x
    by (simp add: cut_def mark_def removeEdge_def)
  have gone: "gone ?b x \<longleftrightarrow> gone a x \<or> x \<in> below ?a m" for x by (simp add: cut_def mark_def removeEdge_def)
  have rest [simp]: "cnt ?b = cnt a" "parent ?b = parent a" "nodeOf ?b = nodeOf a" "nnodes ?b = nnodes a" "nrefs ?b = nrefs a"
    by (simp_all add: cut_def mark_def removeEdge_def)
  have "registered X ?b"
    unfolding registered_def rest
  proof (intro conjI allI impI; (elim conjE)?)
    fix q x l assume "nameOf ?b q x = Some l"
    then have old: "nameOf a q x = Some l" "\<not> (q = p \<and> l = n)" by (auto simp: names split: if_splits)
    from registeredE [OF r old(1)] old(2)
    show "0 < cnt a x" "x \<notin> X" "\<exists>y. parent a x = Some y \<and> nodeOf a y = q \<and> edge ?b q l = Some (nodeOf a x)"
      by (auto simp: edges)
  next
    fix x q assume x: "0 < cnt a x" "x \<notin> X" "parent a x = Some q" "\<not> gone ?b (nodeOf a x)"
    then obtain l where l: "nameOf a (nodeOf a q) x = Some l"
      using registered_name [OF r x(1-3)] by (auto simp: gone)
    have "edge a (nodeOf a q) l = Some (nodeOf a x)" using registeredE [OF r l] by blast
    then have "\<not> (nodeOf a q = p \<and> l = n)" using x(4) e below_refl [of m ?a] by (auto simp: gone)
    with l show "\<exists>l. nameOf ?b (nodeOf a q) x = Some l" by (auto simp: names)
  qed
  moreover have "nodes_wf ?b"
    unfolding nodes_wf_def rest ne
  proof (intro conjI allI impI; (elim conjE)?)
    fix q l k assume "edge ?b q l = Some k"
    then show "q < nnodes a" "k < nnodes a" using nodes_wf_edge [OF w, of q l k] by (auto simp: edges split: if_splits)
  next
    fix q l k assume k: "edge ?b q l = Some k" "gone ?b q"
    then have "(q, k) \<in> nodeEdges ?b" by (auto simp: nodeEdges_def)
    then have "(q, k) \<in> nodeEdges ?a" by (simp only: ne)
    with k(2) show "gone ?b k"
      using below_step [of q ?a m k] nodes_wf_gone [OF w, of q k] sub by (auto simp: gone)
  qed (use w acyclic_subset [OF nodes_wf_acyclic [OF w] sub] in \<open>auto simp: nodes_wf_def\<close>)
  moreover have "counted ext X ?b" using ainv_counted [OF i] by (simp add: mark_def cut_def removeEdge_def)
  ultimately show ?thesis by (simp add: ainv_def)
qed

section \<open>Moving a reference\<close>

lemma ainv_float:
  assumes i: "ainv ext {} a" and n: "nameOf a p ref = Some n" and q: "parent a ref = Some q"
  shows "ainv (hold q ext) {ref} (a\<lparr>nameOf := unregister p ref (nameOf a)\<rparr>)"
proof -
  note c = ainv_counted [OF i] and r = ainv_registered [OF i]
  have live: "0 < cnt a ref" using n by (auto elim: registeredE [OF r])
  have p: "nodeOf a q = p" using n q by (auto elim: registeredE [OF r])
  have ch: "children a {ref} x = children a {} x - {ref}" for x by (auto simp: children_def)
  have "cnt a x = int (card (fidsAt a x) + card (children a {ref} x) + hold q ext x)" for x
  proof (cases "x = q")
    case True
    then have "ref \<in> children a {} x" using live q by (simp add: children_def)
    then have "card (children a {} x) = Suc (card (children a {ref} x))"
      unfolding ch by (rule card.remove [OF finite_children [OF c]])
    with True counted_eq [OF c, of x] show ?thesis by simp
  next
    case False
    then have "children a {ref} x = children a {} x" using q by (auto simp: ch children_def)
    with False counted_eq [OF c, of x] show ?thesis by simp
  qed
  moreover have "refEdges a {ref} \<subseteq> refEdges a {}" by (auto simp: refEdges_def)
  ultimately have "counted (hold q ext) {ref} a"
    using counted_bound [OF c] acyclic_subset [OF counted_acyclic [OF c]] by (intro countedI) auto
  moreover have "registered {ref} (a\<lparr>nameOf := unregister p ref (nameOf a)\<rparr>)"
    using r p q unfolding registered_def by (auto simp: unregister_apply split: if_splits; metis option.inject)
  ultimately show ?thesis using ainv_nodes [OF i] by (simp add: ainv_def)
qed

lemma not_below_itself:
  assumes i: "ainv ext X a" and "edge a (nodeOf a t) n = Some (nodeOf a ref)" and "\<not> gone a (nodeOf a t)"
  shows "(t, ref) \<notin> (refEdges a X)\<^sup>*"
proof
  assume "(t, ref) \<in> (refEdges a X)\<^sup>*"
  then have "(nodeOf a ref, nodeOf a t) \<in> (nodeEdges a)\<^sup>*"
    using ancestors_above [OF i _ assms(3)] by blast
  moreover have "(nodeOf a t, nodeOf a ref) \<in> nodeEdges a" using assms(2) by (auto simp: nodeEdges_def)
  ultimately have "(nodeOf a t, nodeOf a t) \<in> (nodeEdges a)\<^sup>+" by (rule rtrancl_into_trancl2 [rotated])
  then show False using nodes_wf_acyclic [OF ainv_nodes [OF i]] by (simp add: acyclic_def)
qed

lemma ainv_reparent:
  assumes i: "ainv (hold t ext) {ref} a" and live: "0 < cnt a ref"
    and e: "edge a (nodeOf a t) n = Some (nodeOf a ref)" and g: "\<not> gone a (nodeOf a t)"
  shows "ainv ext {} (a\<lparr>parent := (parent a)(ref \<mapsto> t),
      nameOf := (nameOf a)(nodeOf a t := (nameOf a (nodeOf a t))(ref \<mapsto> n))\<rparr>)" (is "ainv ext {} ?a")
proof -
  note c = ainv_counted [OF i] and r = ainv_registered [OF i]
  have ch: "children (a\<lparr>parent := (parent a)(ref \<mapsto> t)\<rparr>) {} x = (if x = t then insert ref (children a {ref} x) else children a {ref} x)" for x
    using live by (auto simp: children_def)
  have "cnt ?a x = int (card (fidsAt ?a x) + card (children ?a {} x) + ext x)" for x
  proof -
    have "ref \<notin> children a {ref} x" by (simp add: children_def)
    then have "card (children ?a {} x) + ext x = card (children a {ref} x) + hold t ext x"
      using finite_children [OF c, of x] by (cases "x = t") (simp_all add: ch)
    then show ?thesis using counted_eq [OF c, of x] by simp
  qed
  moreover have "refEdges (a\<lparr>parent := (parent a)(ref \<mapsto> t)\<rparr>) {} = insert (ref, t) (refEdges a {ref})" using live by (auto simp: refEdges_def split: if_splits)
  ultimately have "counted ext {} ?a"
    using counted_bound [OF c] counted_acyclic [OF c] not_below_itself [OF i e g]
    by (intro countedI) (simp_all add: acyclic_insert)
  moreover have "registered {} ?a"
    using r live e unfolding registered_def by (auto; metis)
  ultimately show ?thesis using ainv_nodes [OF i] by (simp add: ainv_def)
qed

end
