(* ===== verification/P9_ServerInv.thy ===== *)
theory P9_ServerInv
  imports P9_TreeGraph
begin

text \<open>
  The server state refines the reference graph: \<open>viewE E\<close> is the abstraction of a state (with the edge
  map \<open>E\<close>, which is the one of the nodes except in the middle of a rename), and \<open>sinv\<close> the invariant
  carried over to the stores. The operations of \<open>P9_Server\<close> are shown to return (no panic), to act on
  the abstraction as specified and to keep the invariant.
\<close>

section \<open>Results that are defined\<close>

text \<open>The computation returns, and its result satisfies the postcondition.\<close>

definition wp :: "'v option \<Rightarrow> ('v \<Rightarrow> bool) \<Rightarrow> bool" where
  "wp m Q = (case m of None \<Rightarrow> False | Some v \<Rightarrow> Q v)"

lemma wp_simps [simp]: "wp (Some v) Q = Q v" "wp None Q = False"
  "wp (m \<bind> f) Q = wp m (\<lambda>v. wp (f v) Q)" "wp (map_option g m) Q = wp m (\<lambda>v. Q (g v))"
  by (auto simp: wp_def split: option.splits bind_splits)

lemma wp_mono: "wp m P \<Longrightarrow> (\<And>v. P v \<Longrightarrow> Q v) \<Longrightarrow> wp m Q"
  by (auto simp: wp_def split: option.splits)

lemma wp_iff: "wp m Q \<longleftrightarrow> (\<exists>v. m = Some v \<and> Q v)"
  by (auto simp: wp_def split: option.splits)

section \<open>Abstraction and invariant\<close>

definition edges :: "('w, 'f) srv \<Rightarrow> node_addr \<Rightarrow> string \<Rightarrow> node_addr option" where
  "edges s p n = (case getNode s p of Some x \<Rightarrow> map_of (childNodes x) n | None \<Rightarrow> None)"

definition counts :: "('w, 'f) srv \<Rightarrow> ref_addr \<Rightarrow> int" where
  "counts s r = (case getRef s r of Some x \<Rightarrow> refs x | None \<Rightarrow> 0)"

definition parents :: "('w, 'f) srv \<Rightarrow> ref_addr \<Rightarrow> ref_addr option" where
  "parents s r = (case getRef s r of Some x \<Rightarrow> ref_parent x | None \<Rightarrow> None)"

definition nodeAt :: "('w, 'f) srv \<Rightarrow> ref_addr \<Rightarrow> node_addr" where
  "nodeAt s r = (case getRef s r of Some x \<Rightarrow> ref_node x | None \<Rightarrow> 0)"

definition dead :: "('w, 'f) srv \<Rightarrow> node_addr \<Rightarrow> bool" where
  "dead s p = (case getNode s p of Some x \<Rightarrow> deleted x | None \<Rightarrow> False)"

definition names :: "('w, 'f) srv \<Rightarrow> node_addr \<Rightarrow> ref_addr \<Rightarrow> string option" where
  "names s p = (case getNode s p of Some x \<Rightarrow> nameFor x | None \<Rightarrow> Map.empty)"

definition viewE :: "(node_addr \<Rightarrow> string \<Rightarrow> node_addr option) \<Rightarrow> ('w, 'f) srv \<Rightarrow> astate" where
  "viewE E s = \<lparr>fidmap = map_of (fids s), nrefs = length (refHeap s),
     cnt = counts s, parent = parents s, nodeOf = nodeAt s, nnodes = length (nodeHeap s),
     nameOf = names s, gone = dead s,
     edge = E\<rparr>"

definition cwf :: "('w, 'f) srv \<Rightarrow> bool" where
  "cwf s \<longleftrightarrow> distinct (map fst (fids s)) \<and>
     (\<forall>x\<in>set (nodeHeap s). node_ok x \<and> distinct (map fst (childNodes x)))"

definition sinv :: "(ref_addr \<Rightarrow> nat) \<Rightarrow> ref_addr set \<Rightarrow> (node_addr \<Rightarrow> string \<Rightarrow> node_addr option) \<Rightarrow> ('w, 'f) srv \<Rightarrow> bool" where
  "sinv ext X E s \<longleftrightarrow> cwf s \<and> ainv ext X (viewE E s)"

definition inv :: "(ref_addr \<Rightarrow> nat) \<Rightarrow> ('w, 'f) srv \<Rightarrow> bool" where
  "inv ext s \<longleftrightarrow> sinv ext {} (edges s) s"

text \<open>Two states that differ in counts, registrations and the world only.\<close>

definition stable :: "('w, 'f) srv \<Rightarrow> ('w, 'f) srv \<Rightarrow> bool" where
  "stable s s' \<longleftrightarrow>
     map (\<lambda>x. x\<lparr>refs := 0\<rparr>) (refHeap s') = map (\<lambda>x. x\<lparr>refs := 0\<rparr>) (refHeap s) \<and>
     map (\<lambda>x. (deleted x, childNodes x)) (nodeHeap s') = map (\<lambda>x. (deleted x, childNodes x)) (nodeHeap s) \<and>
     (\<forall>p r. names s' p r \<in> {None, names s p r}) \<and>
     fids s' = fids s \<and> messageSize s' = messageSize s \<and>
     cs_version s' = cs_version s \<and> cs_baseVersion s' = cs_baseVersion s \<and> readBufPool s' = readBufPool s"

lemma viewE_simps [simp]:
  "edge (viewE E s) = E" "fidmap (viewE E s) = map_of (fids s)" "nrefs (viewE E s) = length (refHeap s)"
  "nnodes (viewE E s) = length (nodeHeap s)" "nameOf (viewE E s) = names s" "cnt (viewE E s) = counts s"
  "parent (viewE E s) = parents s" "nodeOf (viewE E s) = nodeAt s" "gone (viewE E s) = dead s"
  by (simp_all add: viewE_def)

lemmas view_defs = viewE_def names_def counts_def parents_def nodeAt_def dead_def edges_def

lemma viewE_edge [simp]: "(viewE E s)\<lparr>edge := E'\<rparr> = viewE E' s"
  by (simp add: viewE_def)

lemma getRef_world [simp]: "getRef (s\<lparr>world := w\<rparr>) = getRef s" "getNode (s\<lparr>world := w\<rparr>) = getNode s"
  "getRef (s\<lparr>fids := fs\<rparr>) = getRef s" "getNode (s\<lparr>fids := fs\<rparr>) = getNode s"
  by (simp_all add: getRef_def getNode_def fun_eq_iff)

lemma viewE_world [simp]:
  "names (s\<lparr>world := w\<rparr>) = names s" "counts (s\<lparr>world := w\<rparr>) = counts s"
  "parents (s\<lparr>world := w\<rparr>) = parents s" "nodeAt (s\<lparr>world := w\<rparr>) = nodeAt s" "dead (s\<lparr>world := w\<rparr>) = dead s" "edges (s\<lparr>world := w\<rparr>) = edges s" "viewE E (s\<lparr>world := w\<rparr>) = viewE E s"
  by (simp_all add: view_defs fun_eq_iff)

lemma cwf_world [simp]: "cwf (s\<lparr>world := w\<rparr>) = cwf s"
  by (simp add: cwf_def)

lemma sinv_world [simp]: "sinv ext X E (s\<lparr>world := w\<rparr>) = sinv ext X E s" "inv ext (s\<lparr>world := w\<rparr>) = inv ext s"
  by (simp_all add: sinv_def inv_def)

lemma getRef_setRef: "getRef (setRef r x s) r' = (if r' = r \<and> r < length (refHeap s) then Some x else getRef s r')"
  by (auto simp: getRef_def setRef_def)

lemma getNode_setNode: "getNode (setNode p x s) p' = (if p' = p \<and> p < length (nodeHeap s) then Some x else getNode s p')"
  by (auto simp: getNode_def setNode_def)

lemma set_other [simp]:
  "getNode (setRef r x s) = getNode s" "getRef (setNode p y s) = getRef s"
  "fids (setRef r x s) = fids s" "fids (setNode p y s) = fids s" "world (setRef r x s) = world s" "world (setNode p y s) = world s"
  "nodeHeap (setRef r x s) = nodeHeap s" "refHeap (setNode p y s) = refHeap s"
  "length (refHeap (setRef r x s)) = length (refHeap s)" "length (nodeHeap (setNode p y s)) = length (nodeHeap s)"
  by (simp_all add: getRef_def getNode_def setRef_def setNode_def fun_eq_iff)

lemma getRef_Some: "getRef s r = Some x \<Longrightarrow> r < length (refHeap s)"
  by (simp add: getRef_def split: if_splits)

lemma getNode_Some: "getNode s p = Some x \<Longrightarrow> p < length (nodeHeap s)"
  by (simp add: getNode_def split: if_splits)

lemma getRef_valid: "r < length (refHeap s) \<Longrightarrow> \<exists>x. getRef s r = Some x"
  by (simp add: getRef_def)

lemma getNode_valid: "p < length (nodeHeap s) \<Longrightarrow> \<exists>x. getNode s p = Some x"
  by (simp add: getNode_def)

lemma view_getRef [simp]:
  "getRef s r = Some x \<Longrightarrow> counts s r = refs x"
  "getRef s r = Some x \<Longrightarrow> parents s r = ref_parent x"
  "getRef s r = Some x \<Longrightarrow> nodeAt s r = ref_node x"
  by (simp_all add: view_defs)

lemma view_getNode [simp]:
  "getNode s p = Some x \<Longrightarrow> names s p = nameFor x"
  "getNode s p = Some x \<Longrightarrow> dead s p = deleted x"
  "getNode s p = Some x \<Longrightarrow> edges s p = map_of (childNodes x)"
  by (simp_all add: view_defs fun_eq_iff)

lemma view_setRef_refs:
  assumes "getRef s r = Some x"
  shows "viewE E (setRef r (x\<lparr>refs := c\<rparr>) s) = (viewE E s)\<lparr>cnt := (counts s)(r := c)\<rparr>"
  using assms getRef_Some [OF assms] by (auto simp: view_defs getRef_setRef fun_eq_iff)

lemma view_setNode:
  assumes "getNode s p = Some x" and "deleted y = deleted x"
  shows "viewE E (setNode p y s) = (viewE E s)\<lparr>nameOf := (names s)(p := nameFor y)\<rparr>"
  using assms getNode_Some [OF assms(1)] by (auto simp: view_defs getNode_setNode fun_eq_iff)

lemma edges_setRef [simp]: "edges (setRef r x s) = edges s"
  by (simp add: edges_def fun_eq_iff)

lemma edges_setNode:
  "getNode s p = Some x \<Longrightarrow> edges (setNode p y s) = (edges s)(p := map_of (childNodes y))"
  by (auto simp: edges_def getNode_setNode fun_eq_iff dest: getNode_Some)

lemma cwf_setRef [simp]: "cwf (setRef r x s) = cwf s"
  by (simp add: cwf_def)

lemma cwf_setNode: "cwf s \<Longrightarrow> node_ok y \<Longrightarrow> distinct (map fst (childNodes y)) \<Longrightarrow> cwf (setNode p y s)"
  by (auto simp: cwf_def setNode_def dest!: set_update_subset_insert [THEN subsetD])

lemma cwf_node: "cwf s \<Longrightarrow> getNode s p = Some x \<Longrightarrow> node_ok x \<and> distinct (map fst (childNodes x))"
  by (auto simp: cwf_def getNode_def split: if_splits)

section \<open>Stable states\<close>

lemma stable_refl [simp]: "stable s s" "stable s (s\<lparr>world := w\<rparr>)"
  by (simp_all add: stable_def)

lemma stable_trans: "stable s s' \<Longrightarrow> stable s' s'' \<Longrightarrow> stable s s''"
  unfolding stable_def by (auto; metis)

lemma map_eq_nth: "map f xs = map f ys \<Longrightarrow> i < length ys \<Longrightarrow> f (xs ! i) = f (ys ! i) \<and> length xs = length ys"
  by (metis length_map nth_map)

lemma stable_lengths: "stable s s' \<Longrightarrow> length (refHeap s') = length (refHeap s) \<and> length (nodeHeap s') = length (nodeHeap s)"
  unfolding stable_def by (elim conjE) (auto dest!: map_eq_imp_length_eq)

lemma refs_only: "y\<lparr>refs := 0\<rparr> = x\<lparr>refs := 0\<rparr> \<Longrightarrow> y = x\<lparr>refs := refs y\<rparr>"
  by (cases x, cases y) simp

lemma stable_getRef:
  assumes "stable s s'" and "getRef s r = Some x"
  shows "\<exists>c. getRef s' r = Some (x\<lparr>refs := c\<rparr>)"
proof -
  have r: "r < length (refHeap s)" "x = refHeap s ! r" using assms(2) by (auto simp: getRef_def split: if_splits)
  have "map (\<lambda>x. x\<lparr>refs := 0\<rparr>) (refHeap s') = map (\<lambda>x. x\<lparr>refs := 0\<rparr>) (refHeap s)"
    using assms(1) unfolding stable_def by (elim conjE)
  then have "(refHeap s' ! r)\<lparr>refs := 0\<rparr> = (refHeap s ! r)\<lparr>refs := 0\<rparr>" using map_eq_nth r(1) by blast
  then have "refHeap s' ! r = x\<lparr>refs := refs (refHeap s' ! r)\<rparr>"
    unfolding r(2) by (rule refs_only)
  moreover have "getRef s' r = Some (refHeap s' ! r)" using r(1) stable_lengths [OF assms(1)] by (simp add: getRef_def)
  ultimately show ?thesis by metis
qed

lemma stable_getNode:
  assumes "stable s s'" and "getNode s p = Some x"
  shows "\<exists>y. getNode s' p = Some y \<and> deleted y = deleted x \<and> childNodes y = childNodes x"
proof -
  have p: "p < length (nodeHeap s)" "x = nodeHeap s ! p" using assms(2) by (auto simp: getNode_def split: if_splits)
  have "(\<lambda>x. (deleted x, childNodes x)) (nodeHeap s' ! p) = (\<lambda>x. (deleted x, childNodes x)) (nodeHeap s ! p)"
    using assms(1) p(1) map_eq_nth unfolding stable_def by blast
  then show ?thesis using p stable_lengths [OF assms(1)] by (simp add: getNode_def)
qed

lemma stable_view:
  assumes "stable s s'"
  shows "edges s' = edges s" "parents s' = parents s" "nodeAt s' = nodeAt s"
    "dead s' = dead s"
proof -
  have n: "getNode s p = None \<longleftrightarrow> getNode s' p = None" and r: "getRef s q = None \<longleftrightarrow> getRef s' q = None" for p q
    using stable_lengths [OF assms] by (simp_all add: getNode_def getRef_def)
  show "edges s' = edges s" "dead s' = dead s"
    using stable_getNode [OF assms] n
    by (fastforce simp: view_defs fun_eq_iff split: option.splits)+
  show "parents s' = parents s" "nodeAt s' = nodeAt s"
    using stable_getRef [OF assms] r
    by (fastforce simp: view_defs fun_eq_iff split: option.splits)+
qed

lemma stable_names: "stable s s' \<Longrightarrow> names s' p r = Some n \<Longrightarrow> names s p r = Some n"
  unfolding stable_def by (metis insertE option.distinct(1) singletonD)

lemma stable_setRef: "getRef s r = Some x \<Longrightarrow> stable s (setRef r (x\<lparr>refs := c\<rparr>) s)"
  by (auto simp: stable_def setRef_def names_def getRef_def getNode_def map_update split: if_splits
      intro!: list_update_same_conv [THEN iffD2])

lemma stable_setNode:
  assumes "getNode s p = Some x" and "deleted y = deleted x" "childNodes y = childNodes x"
    and "\<And>r. nameFor y r \<in> {None, nameFor x r}"
  shows "stable s (setNode p y s)"
proof -
  have "names (setNode p y s) q r \<in> {None, names s q r}" for q r
    using assms(4) [of r] assms(1) by (auto simp: names_def getNode_setNode)
  with assms(1-3) show ?thesis
    by (auto simp: stable_def setNode_def getNode_def map_update split: if_splits
        intro!: list_update_same_conv [THEN iffD2])
qed

section \<open>Reference counting\<close>

lemma IncRef_sinv:
  assumes "sinv ext X E s" and "0 < counts s r"
  shows "wp (IncRef r s) (\<lambda>s'. sinv (hold r ext) X E s' \<and> stable s s' \<and> world s' = world s)"
proof -
  have i: "ainv ext X (viewE E s)" using assms(1) by (simp add: sinv_def)
  have live: "0 < cnt (viewE E s) r" using assms(2) by simp
  obtain x where x: "getRef s r = Some x" using getRef_valid ainv_live_valid [OF i live] by auto
  with ainv_hold [OF i live] assms(1) stable_setRef [OF x] show ?thesis
    by (simp add: IncRef_def sinv_def view_setRef_refs)
qed

lemma removeChild_sinv:
  assumes "cwf s" and "p < length (nodeHeap s)"
  shows "wp (removeChild p r s) (\<lambda>s'. cwf s' \<and> (\<forall>E. viewE E s' = (viewE E s)\<lparr>nameOf := unregister p r (names s)\<rparr>)
      \<and> stable s s' \<and> refHeap s' = refHeap s \<and> world s' = world s)"
proof -
  obtain x where x: "getNode s p = Some x" using getNode_valid assms(2) by auto
  have ok: "node_ok x" "distinct (map fst (childNodes x))" using cwf_node [OF assms(1) x] by auto
  obtain y where y: "removeChild_node r x = Some y" "node_ok y" "nameFor y = (nameFor x)(r := None)"
    "childNodes y = childNodes x" "deleted y = deleted x"
    using removeChild_node_ok [OF ok(1)] by metis
  have "stable s (setNode p y s)" using y by (intro stable_setNode [OF x]) auto
  with x y ok assms(1) show ?thesis
    by (simp add: removeChild_def view_setNode cwf_setNode unregister_def)
qed

text \<open>The cases of \<^verbatim>\<open>DecRef\<close>.\<close>

lemma DecRef_more:
  "getRef s r = Some x \<Longrightarrow> refs x \<noteq> 1 \<Longrightarrow> DecRef B r s = Some (None, setRef r (x\<lparr>refs := refs x - 1\<rparr>) s)"
  by (simp add: DecRef.simps [of B r s] Let_def)

definition closed :: "('w, 'f) backend \<Rightarrow> ref_addr \<Rightarrow> 'f fidRef \<Rightarrow> ('w, 'f) srv \<Rightarrow> ('w, 'f) srv" where
  "closed B r x s = (setRef r (x\<lparr>refs := 0\<rparr>) s)\<lparr>world := snd (Close B (ref_file x) (world s))\<rparr>"

lemma DecRef_root:
  "getRef s r = Some x \<Longrightarrow> refs x = 1 \<Longrightarrow> ref_parent x = None \<Longrightarrow> \<exists>e. DecRef B r s = Some (e, closed B r x s)"
  by (cases "Close B (ref_file x) (world s)") (simp add: DecRef.simps [of B r s] Let_def closed_def)

lemma DecRef_child:
  assumes "getRef s r = Some x" "refs x = 1" "ref_parent x = Some q" "getRef (closed B r x s) q = Some y"
    "removeChild (ref_node y) r (closed B r x s) = Some s3" "DecRef B q s3 = Some (e, s4)"
  shows "\<exists>e. DecRef B r s = Some (e, s4)"
  using assms
  by (cases "Close B (ref_file x) (world s)") (simp add: DecRef.simps [of B r s] Let_def closed_def)

lemma closed_facts:
  assumes "getRef s r = Some x"
  shows "viewE E (closed B r x s) = (viewE E s)\<lparr>cnt := (counts s)(r := 0)\<rparr>"
    "stable s (closed B r x s)" "cwf (closed B r x s) = cwf s" "names (closed B r x s) = names s"
    "q \<noteq> r \<Longrightarrow> getRef (closed B r x s) q = getRef s q"
    "refHeap (closed B r x s) = (refHeap s)[r := x\<lparr>refs := 0\<rparr>]" "nodeHeap (closed B r x s) = nodeHeap s"
  using view_setRef_refs [OF assms, of E 0] stable_setRef [OF assms, of 0]
  by (simp_all add: closed_def getRef_setRef stable_def names_def fun_eq_iff)
     (simp_all add: setRef_def)

lemma DecRef_sinv:
  assumes "sinv (hold r ext) X E s" and X: "\<forall>x\<in>X. 0 < ext x"
  shows "wp (DecRef B r s) (\<lambda>(e, s'). sinv ext X E s' \<and> stable s s')"
  using assms(1)
proof (induction "sum_list (map (\<lambda>x. nat (refs x)) (refHeap s))" arbitrary: r s rule: less_induct)
  case (less s r)
  let ?a = "viewE E s"
  have cw: "cwf s" and i: "ainv (hold r ext) X ?a" using less.prems by (auto simp: sinv_def)
  have live: "0 < cnt ?a r" using ainv_held_live [OF i, of r] by simp
  obtain x where x: "getRef s r = Some x" using getRef_valid ainv_live_valid [OF i live] by auto
  note cf = closed_facts [OF x, where B = B]
  show ?case
  proof (cases "refs x = 1")
    case False
    with live x have "1 < cnt ?a r" by simp
    from ainv_unhold [OF i this] x cw stable_setRef [OF x] False show ?thesis
      by (simp add: DecRef_more sinv_def view_setRef_refs)
  next
    case one: True
    then have c1: "cnt ?a r = 1" using x by simp
    note last = counted_last [OF ainv_counted [OF i] c1]
    have rX: "r \<notin> X" using last(3) X by auto
    show ?thesis
    proof (cases "ref_parent x")
      case None
      then have "sinv ext X E (closed B r x s)"
        using ainv_release_root [OF i c1 rX] x cf cw by (simp add: sinv_def)
      with DecRef_root [OF x one None, of B] cf show ?thesis by (auto simp: wp_iff)
    next
      case (Some q)
      have qlive: "0 < cnt ?a q" using ainv_parent_live [OF i live rX] x Some by simp
      obtain y where y: "getRef s q = Some y" using getRef_valid ainv_live_valid [OF i qlive] by auto
      have "q = r \<Longrightarrow> r \<in> children ?a X r" using live rX x Some by (simp add: children_def)
      then have "q \<noteq> r" using last(2) by auto
      with y have y2: "getRef (closed B r x s) q = Some y" by (simp add: cf)
      have "ref_node y < length (nodeHeap s)"
        using y ainv_nodes [OF i] getRef_Some [OF y] by (auto simp: nodes_wf_def)
      then obtain s3 where s3: "removeChild (ref_node y) r (closed B r x s) = Some s3" "cwf s3"
        "viewE E s3 = ?a\<lparr>cnt := (counts s)(r := 0), nameOf := unregister (ref_node y) r (names s)\<rparr>"
        "stable (closed B r x s) s3" "refHeap s3 = (refHeap s)[r := x\<lparr>refs := 0\<rparr>]"
        using removeChild_sinv [of "closed B r x s" "ref_node y" r] cw cf by (auto simp: wp_iff)
      have "sinv (hold q ext) X E s3"
        using ainv_release_child [OF i c1 rX, of q] x y Some s3 by (simp add: sinv_def)
      from less.hyps [OF _ this] sum_refs_decreases [OF x one] s3(5)
      obtain e s4 where s4: "DecRef B q s3 = Some (e, s4)" "sinv ext X E s4" "stable s3 s4"
        by (auto simp: wp_iff)
      have "stable s s4" using stable_trans [OF stable_trans [OF cf(2) s3(4)] s4(3)] .
      with s4 DecRef_child [OF x one Some y2 s3(1) s4(1)] show ?thesis by (auto simp: wp_iff)
    qed
  qed
qed

section \<open>The fid table\<close>

lemma inv_sinv: "inv ext s = sinv ext {} (edges s) s"
  by (simp add: inv_def)

lemma DecRef_inv: "inv (hold r ext) s \<Longrightarrow> wp (DecRef B r s) (\<lambda>(e, s'). inv ext s' \<and> stable s s')"
  unfolding inv_sinv
  by (rule wp_mono [OF DecRef_sinv [where X = "{}"]]) (auto simp: stable_view)

lemma IncRef_inv:
  "inv ext s \<Longrightarrow> 0 < counts s r \<Longrightarrow>
   wp (IncRef r s) (\<lambda>s'. inv (hold r ext) s' \<and> stable s s' \<and> world s' = world s)"
  unfolding inv_sinv
  by (rule wp_mono [OF IncRef_sinv [where X = "{}"]]) (auto simp: stable_view)

lemma view_fids: "viewE E (s\<lparr>fids := fs\<rparr>) = (viewE E s)\<lparr>fidmap := map_of fs\<rparr>" "edges (s\<lparr>fids := fs\<rparr>) = edges s"
  by (simp_all add: view_defs fun_eq_iff)

lemma cwf_fids: "cwf (s\<lparr>fids := fs\<rparr>) = (distinct (map fst fs) \<and> (\<forall>x\<in>set (nodeHeap s). node_ok x \<and> distinct (map fst (childNodes x))))"
  by (simp add: cwf_def)

lemma inv_fid_live: "inv ext s \<Longrightarrow> map_of (fids s) f = Some r \<Longrightarrow> 0 < counts s r"
  using ainv_fid_live [of ext "{}" "viewE (edges s) s" f r] by (simp add: inv_def sinv_def)

text \<open>
  \<^verbatim>\<open>InsertFID\<close> keeps the invariant when the reference it takes does: the new reference may be fresh,
  with count zero, and only be accounted for once this reference is taken.
\<close>

lemma InsertFID_inv:
  assumes inc: "IncRef newRef s = Some s1" and i: "inv (hold newRef ext) s1"
  shows "wp (InsertFID B f newRef s) (inv ext)"
proof -
  let ?t = "s1\<lparr>fids := AList.update f newRef (fids s1)\<rparr>"
  have f: "fids s1 = fids s" using inc by (auto simp: IncRef_def split: bind_splits)
  have "inv (case map_of (fids s1) f of None \<Rightarrow> ext | Some orig \<Rightarrow> hold orig ext) ?t"
    using i ainv_replace_fid [of newRef ext "{}" "viewE (edges s1) s1" f]
    by (simp add: inv_def sinv_def view_fids cwf_fids cwf_def distinct_update update_conv' split del: if_split)
  then show ?thesis
    using inc f by (auto simp: InsertFID_def Let_def split: option.splits intro: wp_mono [OF DecRef_inv])
qed

lemma DeleteFID_inv:
  assumes "inv ext s"
  shows "wp (DeleteFID B f s) (\<lambda>(e, s'). inv ext s' \<and> map_of (fids s') = (map_of (fids s))(f := None))"
proof (cases "map_of (fids s) f")
  case None
  then show ?thesis using assms by (simp add: DeleteFID_def fun_upd_idem)
next
  case (Some r)
  have "inv (hold r ext) (s\<lparr>fids := AList.delete f (fids s)\<rparr>)"
    using assms ainv_delete_fid [of ext "{}" "viewE (edges s) s" f r] Some
    by (simp add: inv_def sinv_def view_fids cwf_fids cwf_def distinct_delete delete_conv')
  from DecRef_inv [OF this, of B] Some show ?thesis
    by (auto simp: DeleteFID_def delete_conv' stable_def elim: wp_mono)
qed

end
