(* ===== verification/P9_TreeInv.thy ===== *)
theory P9_TreeInv
  imports P9_ServerInv
begin

text \<open>
  The operations on the path tree keep the invariant: new nodes, new references, deletion
  (\<^verbatim>\<open>markChildDeleted\<close>, whose recursion ends because the node graph has no cycle) and renaming
  (\<^verbatim>\<open>renameChildTo\<close>, under the condition that the target does not lie below the renamed entry).
\<close>

section \<open>Operations as changes of the abstraction\<close>

lemma view_allocRef [simp]:
  "counts (snd (allocRef x s)) = (counts s)(length (refHeap s) := refs x)"
  "parents (snd (allocRef x s)) = (parents s)(length (refHeap s) := ref_parent x)"
  "nodeAt (snd (allocRef x s)) = (nodeAt s)(length (refHeap s) := ref_node x)"
  "dead (snd (allocRef x s)) = dead s" "length (refHeap (snd (allocRef x s))) = Suc (length (refHeap s))"
  by (auto simp: view_defs allocRef_def getRef_def getNode_def nth_append fun_eq_iff)

lemma allocRef_frame [simp]:
  "edges (snd (allocRef x s)) = edges s" "cwf (snd (allocRef x s)) = cwf s" "names (snd (allocRef x s)) = names s"
  "getNode (snd (allocRef x s)) = getNode s" "fst (allocRef x s) = length (refHeap s)"
  "nodeHeap (snd (allocRef x s)) = nodeHeap s" "world (snd (allocRef x s)) = world s" "fids (snd (allocRef x s)) = fids s"
  by (simp_all add: edges_def cwf_def names_def allocRef_def getNode_def fun_eq_iff)

lemma getRef_allocRef:
  "getRef (snd (allocRef x s)) r = (if r = length (refHeap s) then Some x else getRef s r)"
  by (auto simp: allocRef_def getRef_def nth_append)

lemma addChild_view:
  assumes "cwf s" and "p < length (nodeHeap s)" and "names s p r = None"
  shows "wp (addChild p r n s) (\<lambda>s'. cwf s' \<and> edges s' = edges s \<and> getRef s' = getRef s \<and> world s' = world s \<and>
    refHeap s' = refHeap s \<and> length (nodeHeap s') = length (nodeHeap s) \<and>
    (\<forall>E. viewE E s' = (viewE E s)\<lparr>nameOf := (names s)(p := (names s p)(r \<mapsto> n))\<rparr>))"
proof -
  obtain x where x: "getNode s p = Some x" using getNode_valid assms(2) by auto
  have ok: "node_ok x" "distinct (map fst (childNodes x))" using cwf_node [OF assms(1) x] by auto
  have "nameFor x r = None" using assms(3) x by simp
  then obtain y where y: "addChildLocked r n x = Some y" "node_ok y" "nameFor y = (nameFor x)(r \<mapsto> n)"
    "childNodes y = childNodes x" "deleted y = deleted x"
    using addChildLocked_ok [OF ok(1)] by metis
  have "edges (setNode p y s) = edges s" using edges_setNode [OF x, of y] view_getNode(3) [OF x] y by (simp add: fun_upd_idem)
  with x y ok assms(1) show ?thesis by (simp add: addChild_def view_setNode cwf_setNode)
qed

lemma IncRef_view:
  assumes "getRef s r = Some x"
  shows "wp (IncRef r s) (\<lambda>s'. cwf s' = cwf s \<and> edges s' = edges s \<and> names s' = names s \<and> world s' = world s \<and>
    nodeHeap s' = nodeHeap s \<and> (\<forall>r'. r' \<noteq> r \<longrightarrow> getRef s' r' = getRef s r') \<and>
    (\<forall>E. viewE E s' = (viewE E s)\<lparr>cnt := (counts s)(r := refs x + 1)\<rparr>))"
  using assms by (simp add: IncRef_def view_setRef_refs names_def getRef_setRef fun_eq_iff)

lemma view_allocNode:
  assumes x: "getNode s p = Some x" and new: "map_of (childNodes x) n = None"
  defines "t \<equiv> setNode p (x\<lparr>childNodes := AList.update n (length (nodeHeap s)) (childNodes x)\<rparr>) (snd (allocNode newPathNode s))"
  shows "viewE (edges t) t = (addEdge p n (length (nodeHeap s)) (viewE (edges s) s))\<lparr>nnodes := Suc (length (nodeHeap s))\<rparr>"
    "edges t p n = Some (length (nodeHeap s))" "refHeap t = refHeap s" "world t = world s"
    "cwf s \<Longrightarrow> cwf t"
proof -
  have p: "p < length (nodeHeap s)" "nodeHeap s ! p = x" using x by (auto simp: getNode_def split: if_splits)
  have gn: "getNode t q = (if q = p then Some (x\<lparr>childNodes := AList.update n (length (nodeHeap s)) (childNodes x)\<rparr>)
      else if q = length (nodeHeap s) then Some newPathNode else getNode s q)" for q
    using p by (auto simp: t_def setNode_def allocNode_def getNode_def nth_append nth_list_update)
  have gr: "getRef t = getRef s" "fids t = fids s" "length (nodeHeap t) = Suc (length (nodeHeap s))"
    by (auto simp: t_def setNode_def allocNode_def getRef_def fun_eq_iff)
  show rt: "refHeap t = refHeap s" "world t = world s" by (simp_all add: t_def setNode_def allocNode_def)
  have out: "getNode s (length (nodeHeap s)) = None" by (simp add: getNode_def)
  have nn: "names t = names s" using x out by (auto simp: names_def gn newPathNode_def nameFor_def fun_eq_iff)
  have ee: "edges t = (edges s)(p := (edges s p)(n \<mapsto> length (nodeHeap s)))"
    using x out p(1) by (auto simp: edges_def gn newPathNode_def update_conv' fun_eq_iff)
  then show "edges t p n = Some (length (nodeHeap s))" by simp
  have "dead t = dead s" using x out by (auto simp: dead_def gn newPathNode_def fun_eq_iff)
  moreover have "counts t = counts s" "parents t = parents s" "nodeAt t = nodeAt s"
    using gr by (simp_all add: view_defs fun_eq_iff)
  ultimately show "viewE (edges t) t = (addEdge p n (length (nodeHeap s)) (viewE (edges s) s))\<lparr>nnodes := Suc (length (nodeHeap s))\<rparr>"
    using gr rt nn ee by (simp add: viewE_def addEdge_def)
  assume "cwf s"
  then show "cwf t"
    using x cwf_node [OF \<open>cwf s\<close> x] unfolding t_def
    by (intro cwf_setNode) (auto simp: cwf_def allocNode_def newPathNode_def distinct_update node_ok_new [unfolded newPathNode_def])
qed

lemma pathNodeFor_inv:
  assumes i: "inv ext s" and p: "p < length (nodeHeap s)" and g: "\<not> dead s p"
  shows "wp (pathNodeFor p name s) (\<lambda>(pn, s'). inv ext s' \<and> edges s' p name = Some pn \<and> refHeap s' = refHeap s \<and>
    world s' = world s \<and> pn < length (nodeHeap s') \<and> dead s' = dead s)"
proof -
  obtain x where x: "getNode s p = Some x" using getNode_valid p by auto
  have a: "ainv ext {} (viewE (edges s) s)" using i by (simp add: inv_def sinv_def)
  show ?thesis
  proof (cases "map_of (childNodes x) name")
    case (Some pn)
    then have "edges s p name = Some pn" using x by simp
    then have "pn < length (nodeHeap s)" using nodes_wf_edge [OF ainv_nodes [OF a], of p name pn] by simp
    with x Some i show ?thesis by (simp add: pathNodeFor_def)
  next
    case None
    note t = view_allocNode [OF x None]
    let ?t = "setNode p (x\<lparr>childNodes := AList.update name (length (nodeHeap s)) (childNodes x)\<rparr>) (snd (allocNode newPathNode s))"
    have e: "edges s p name = None" using x None by simp
    have "inv ext ?t"
      using ainv_new_node [OF a, of p name] i p g e t by (simp add: inv_def sinv_def)
    moreover have "length (nodeHeap ?t) = Suc (length (nodeHeap s))" by (simp add: setNode_def allocNode_def)
    moreover have "gone (viewE (edges ?t) ?t) = dead s" by (simp only: t(1)) (simp add: addEdge_def)
    ultimately show ?thesis
      using x None t by (simp add: pathNodeFor_def Let_def allocNode_def)
  qed
qed

section \<open>New references\<close>

lemma inv_ainv: "inv ext s \<Longrightarrow> cwf s \<and> ainv ext {} (viewE (edges s) s)"
  by (simp add: inv_def sinv_def)

lemma inv_live_getRef:
  assumes "inv ext s" and "0 < counts s r"
  obtains x where "getRef s r = Some x" and "0 < refs x" and "ref_node x < length (nodeHeap s)"
proof -
  have a: "ainv ext {} (viewE (edges s) s)" using inv_ainv [OF assms(1)] by simp
  have r: "r < length (refHeap s)" using ainv_live_valid [OF a, of r] assms(2) by simp
  then obtain x where x: "getRef s r = Some x" using getRef_valid by blast
  have "nodeAt s r < length (nodeHeap s)" using ainv_nodes [OF a] r by (auto simp: nodes_wf_def)
  with x assms(2) show thesis by (intro that [of x]) auto
qed

lemma inv_held_live: "inv ext s \<Longrightarrow> 0 < ext r \<Longrightarrow> 0 < counts s r"
  using ainv_held_live [of ext "{}" "viewE (edges s) s" r] inv_ainv by fastforce

lemma inv_held_getRef:
  assumes "inv (hold r ext) s"
  obtains x where "getRef s r = Some x" and "0 < refs x" and "ref_node x < length (nodeHeap s)"
  by (rule inv_live_getRef [OF assms inv_held_live [OF assms, of r]]) (auto intro: that)

lemma inv_fresh_name: "inv ext s \<Longrightarrow> names s p (length (refHeap s)) = None"
proof (rule ccontr)
  assume i: "inv ext s" and "names s p (length (refHeap s)) \<noteq> None"
  then obtain n where n: "names s p (length (refHeap s)) = Some n" by blast
  have a: "ainv ext {} (viewE (edges s) s)" using inv_ainv [OF i] by simp
  have "nameOf (viewE (edges s) s) p (length (refHeap s)) = Some n" using n by simp
  from registeredE [OF ainv_registered [OF a] this] have "0 < counts s (length (refHeap s))" by auto
  then show False using ainv_live_valid [OF a, of "length (refHeap s)"] by simp
qed

text \<open>
  The states after \<^verbatim>\<open>allocRef\<close>, with or without the registration of the new reference \<open>x\<close>, and after
  the counts of the parent and of the new reference were raised.
\<close>

definition allocated :: "'f fidRef \<Rightarrow> node_addr \<Rightarrow> string option \<Rightarrow> ('w, 'f) srv \<Rightarrow> ('w, 'f) srv \<Rightarrow> bool" where
  "allocated x p name s t \<longleftrightarrow> cwf t \<and> edges t = edges s \<and> world t = world s \<and>
     getRef t = getRef (snd (allocRef x s)) \<and>
     viewE (edges s) t = (viewE (edges s) (snd (allocRef x s)))\<lparr>nameOf :=
       (case name of None \<Rightarrow> names s | Some n \<Rightarrow> (names s)(p := (names s p)(length (refHeap s) \<mapsto> n)))\<rparr>"

lemma allocated_alloc: "inv ext s \<Longrightarrow> allocated x p None s (snd (allocRef x s))"
  by (simp add: allocated_def inv_def sinv_def viewE_def)

lemma allocated_addChild:
  assumes "inv ext s" and "p < length (nodeHeap s)"
  shows "wp (addChild p (length (refHeap s)) n (snd (allocRef x s))) (allocated x p (Some n) s)"
  by (rule wp_mono [OF addChild_view])
     (use assms inv_fresh_name [OF assms(1)] in \<open>auto simp: allocated_def inv_def sinv_def\<close>)

lemma spawn_inv:
  assumes "cwf t" "edges t = edges s" "viewE (edges s) t = spawn pa m name a" "nrefs a = length (refHeap s)"
    and "ainv (case pa of None \<Rightarrow> ext | Some q \<Rightarrow> hold q ext) {} a" "m < nnodes a"
    and "\<And>q. pa = Some q \<Longrightarrow> (case name of None \<Rightarrow> gone a m | Some n \<Rightarrow> edge a (nodeOf a q) n = Some m)"
  shows "inv (hold (length (refHeap s)) ext) t"
  using ainv_spawn [OF assms(5-7)] assms(1-4) by (simp add: inv_def sinv_def)

lemma spawn_view:
  assumes t: "allocated x p name s t" and refs: "refs x = 0"
    and pa: "case ref_parent x of None \<Rightarrow> name = None | Some q \<Rightarrow> p = nodeAt s q"
  shows "wp (IncRef (length (refHeap s)) t) (\<lambda>t'. cwf t' \<and> edges t' = edges s \<and>
    viewE (edges s) t' = spawn (ref_parent x) (ref_node x) name (viewE (edges s) s))"
proof -
  let ?new = "length (refHeap s)"
  have g: "getRef t ?new = Some x" using t by (simp add: allocated_def getRef_allocRef)
  have c: "counts t = (counts s)(?new := 0)" using t refs
    by (auto simp: allocated_def getRef_allocRef counts_def fun_eq_iff)
  show ?thesis
  proof (rule wp_mono [OF IncRef_view [OF g]])
    fix t' assume "cwf t' = cwf t \<and> edges t' = edges t \<and> names t' = names t \<and> world t' = world t \<and>
      nodeHeap t' = nodeHeap t \<and> (\<forall>r'. r' \<noteq> ?new \<longrightarrow> getRef t' r' = getRef t r') \<and>
      (\<forall>E. viewE E t' = (viewE E t)\<lparr>cnt := (counts t)(?new := refs x + 1)\<rparr>)"
    with t c refs pa
    show "cwf t' \<and> edges t' = edges s \<and> viewE (edges s) t' = spawn (ref_parent x) (ref_node x) name (viewE (edges s) s)"
      by (auto simp: allocated_def spawn_def Let_def viewE_def split: option.splits)
  qed
qed

text \<open>The new reference takes over the reference on its parent, as in a walk.\<close>

lemma spawn_child:
  assumes i: "inv (hold q ext) s" and y: "getRef s q = Some y" and e: "edges s (ref_node y) n = Some (ref_node x)"
    and x: "ref_parent x = Some q" "refs x = 0"
  shows "wp (addChild (ref_node y) (length (refHeap s)) n (snd (allocRef x s)))
    (\<lambda>t. wp (IncRef (length (refHeap s)) t) (inv (hold (length (refHeap s)) ext)))"
proof -
  have a: "ainv (hold q ext) {} (viewE (edges s) s)" using inv_ainv [OF i] by simp
  have m: "ref_node y < length (nodeHeap s)" "ref_node x < length (nodeHeap s)"
    using nodes_wf_edge [OF ainv_nodes [OF a], of "ref_node y" n "ref_node x"] e by auto
  have p: "nodeAt s q = ref_node y" using y by simp
  show ?thesis
    by (rule wp_mono [OF allocated_addChild [OF i m(1)]], rule wp_mono [OF spawn_view],
        (assumption | use x p in simp; fail)+, rule spawn_inv [where pa = "Some q" and name = "Some n"])
       (use a m e p x in auto)
qed

text \<open>The parent's count is raised for the new reference.\<close>

lemma spawn_view_inc:
  assumes t: "allocated x (nodeAt s q) name s t" and refs: "refs x = 0" and pa: "ref_parent x = Some q"
    and y: "getRef s q = Some y"
  shows "wp (IncRef q t) (\<lambda>t'. wp (IncRef (length (refHeap s)) t') (\<lambda>t''. cwf t'' \<and> edges t'' = edges s \<and>
    viewE (edges s) t'' = spawn (Some q) (ref_node x) name ((viewE (edges s) s)\<lparr>cnt := (counts s)(q := counts s q + 1)\<rparr>)))"
proof -
  let ?new = "length (refHeap s)"
  have ne: "q \<noteq> ?new" using getRef_Some [OF y] by simp
  have gq: "getRef t q = Some y" and g: "getRef t ?new = Some x"
    using t y ne by (simp_all add: allocated_def getRef_allocRef)
  have cq: "counts s q = refs y" using y by simp
  have c: "counts t = (counts s)(?new := 0)" using t refs
    by (auto simp: allocated_def getRef_allocRef counts_def fun_eq_iff)
  show ?thesis
  proof (rule wp_mono [OF IncRef_view [OF gq]])
    fix t' assume t': "cwf t' = cwf t \<and> edges t' = edges t \<and> names t' = names t \<and> world t' = world t \<and>
      nodeHeap t' = nodeHeap t \<and> (\<forall>r'. r' \<noteq> q \<longrightarrow> getRef t' r' = getRef t r') \<and>
      (\<forall>E. viewE E t' = (viewE E t)\<lparr>cnt := (counts t)(q := refs y + 1)\<rparr>)"
    then have g': "getRef t' ?new = Some x" using g ne by simp
    have v': "viewE E t' = (viewE E t)\<lparr>cnt := ((counts s)(q := counts s q + 1))(?new := 0)\<rparr>" for E
      using t' c cq ne by (simp add: fun_upd_twist)
    show "wp (IncRef ?new t') (\<lambda>t''. cwf t'' \<and> edges t'' = edges s \<and> viewE (edges s) t'' =
      spawn (Some q) (ref_node x) name ((viewE (edges s) s)\<lparr>cnt := (counts s)(q := counts s q + 1)\<rparr>))"
    proof (rule wp_mono [OF IncRef_view [OF g']], intro conjI)
      fix t'' assume t'': "cwf t'' = cwf t' \<and> edges t'' = edges t' \<and> names t'' = names t' \<and> world t'' = world t' \<and>
        nodeHeap t'' = nodeHeap t' \<and> (\<forall>r'. r' \<noteq> ?new \<longrightarrow> getRef t'' r' = getRef t' r') \<and>
        (\<forall>E. viewE E t'' = (viewE E t')\<lparr>cnt := (counts t')(?new := refs x + 1)\<rparr>)"
      then show "cwf t''" "edges t'' = edges s" using t t' by (simp_all add: allocated_def)
      have "counts t' = ((counts s)(q := counts s q + 1))(?new := 0)" using arg_cong [OF v' [of "edges s"], of cnt] by simp
      then show "viewE (edges s) t'' = spawn (Some q) (ref_node x) name ((viewE (edges s) s)\<lparr>cnt := (counts s)(q := counts s q + 1)\<rparr>)"
        using t t'' v' [of "edges s"] refs pa by (auto simp: allocated_def spawn_def Let_def viewE_def split: option.splits)
    qed
  qed
qed

lemma spawn_child_inc:
  assumes i: "inv ext s" and live: "0 < counts s q" and y: "getRef s q = Some y" and x: "ref_parent x = Some q" "refs x = 0"
    and t: "allocated x (ref_node y) name s t" and m: "ref_node x < length (nodeHeap s)"
    and reg: "case name of None \<Rightarrow> dead s (ref_node x) | Some n \<Rightarrow> edges s (ref_node y) n = Some (ref_node x)"
  shows "wp (IncRef q t) (\<lambda>t'. wp (IncRef (length (refHeap s)) t') (inv (hold (length (refHeap s)) ext)))"
proof -
  let ?a = "(viewE (edges s) s)\<lparr>cnt := (counts s)(q := counts s q + 1)\<rparr>"
  have a: "ainv (hold q ext) {} ?a" using ainv_hold [of ext "{}" "viewE (edges s) s" q] inv_ainv [OF i] live by simp
  have p: "nodeAt s q = ref_node y" using y by simp
  have fin: "inv (hold (length (refHeap s)) ext) u"
    if "cwf u" "edges u = edges s" "viewE (edges s) u = spawn (Some q) (ref_node x) name ?a" for u :: "('a, 'b) srv"
    by (rule spawn_inv [where pa = "Some q" and name = name, OF that]) (use a m reg p in \<open>auto split: option.splits\<close>)
  have t': "allocated x (nodeAt s q) name s t" using t p by simp
  show ?thesis
    by (rule wp_mono [OF spawn_view_inc [OF t' x(2,1) y]], erule wp_mono) (auto intro: fin)
qed

text \<open>A reference without a parent: an extended attribute, or the root of an attach.\<close>

lemma spawn_root:
  assumes i: "inv ext s" and x: "ref_parent x = None" "refs x = 0" "ref_node x < length (nodeHeap s)"
  shows "wp (IncRef (length (refHeap s)) (snd (allocRef x s))) (inv (hold (length (refHeap s)) ext))"
proof -
  have a: "ainv ext {} (viewE (edges s) s)" using inv_ainv [OF i] by simp
  have fin: "inv (hold (length (refHeap s)) ext) u"
    if "cwf u" "edges u = edges s" "viewE (edges s) u = spawn None (ref_node x) None (viewE (edges s) s)" for u :: "('a, 'b) srv"
    by (rule spawn_inv [where pa = None and name = None, OF that]) (use a x in auto)
  show ?thesis
    by (rule wp_mono [OF spawn_view [OF allocated_alloc [OF i]]]) (use x in \<open>auto intro: fin\<close>)
qed

lemma attach_root:
  assumes i: "inv ext s" and x: "ref_parent x = None" "refs x = 1" "ref_node x < length (nodeHeap s)"
  shows "inv (hold (length (refHeap s)) ext) (snd (allocRef x s))"
proof -
  have a: "ainv ext {} (viewE (edges s) s)" using inv_ainv [OF i] by simp
  show ?thesis
    by (rule spawn_inv [where pa = None and name = None and m = "ref_node x" and a = "viewE (edges s) s"])
       (use a x inv_ainv [OF i] in \<open>auto simp: spawn_def Let_def viewE_def\<close>)
qed

section \<open>Deletion\<close>

text \<open>\<^verbatim>\<open>removeWithName\<close> without a callback cuts the entry out of the tree.\<close>

lemma stable_dropRef:
  assumes "cwf s" "getNode s p = Some x" "ref \<in> refs_named x name"
  shows "stable s (setNode p (dropRef name ref x) s)" "cwf (setNode p (dropRef name ref x) s)"
    "names (setNode p (dropRef name ref x) s) = unregister p ref (names s)"
proof -
  have ok: "node_ok x" "distinct (map fst (childNodes x))" using cwf_node [OF assms(1,2)] by auto
  note d = dropRef_ok [OF ok(1) assms(3)]
  show "stable s (setNode p (dropRef name ref x) s)" using d by (intro stable_setNode [OF assms(2)]) auto
  show "cwf (setNode p (dropRef name ref x) s)" using ok d assms(1) by (intro cwf_setNode) auto
  show "names (setNode p (dropRef name ref x) s) = unregister p ref (names s)"
    using d assms(2) getNode_Some [OF assms(2)] by (auto simp: names_def getNode_setNode unregister_def fun_eq_iff)
qed

lemma names_refs_named: "cwf s \<Longrightarrow> getNode s p = Some x \<Longrightarrow> r \<in> refs_named x name \<longleftrightarrow> names s p r = Some name"
  using cwf_node by (fastforce simp: nameFor_iff)

lemma remove_refs_None:
  assumes "cwf s" and "p < length (nodeHeap s)"
  shows "wp (remove_refs B p name None rs s) (\<lambda>s'. cwf s' \<and> stable s s' \<and> refHeap s' = refHeap s \<and> world s' = world s \<and>
    names s' = (names s)(p := (\<lambda>r. if names s p r = Some name \<and> r \<in> set rs then None else names s p r)))"
  using assms
proof (induction rs arbitrary: s)
  case Nil
  then show ?case by (simp add: fun_upd_idem)
next
  case (Cons r rs)
  obtain x where x: "getNode s p = Some x" using getNode_valid Cons.prems(2) by blast
  show ?case
  proof (cases "r \<in> refs_named x name")
    case False
    then have nn: "names s p r \<noteq> Some name" using names_refs_named [OF Cons.prems(1) x] by simp
    have eq: "(\<lambda>q. if names s p q = Some name \<and> q \<in> set (r # rs) then None else names s p q) =
      (\<lambda>q. if names s p q = Some name \<and> q \<in> set rs then None else names s p q)" using nn by (auto simp del: view_getNode)
    have step: "remove_refs B p name None (r # rs) s = remove_refs B p name None rs s" using x False by simp
    show ?thesis unfolding step eq by (rule Cons.IH [OF Cons.prems])
  next
    case True
    let ?t = "setNode p (dropRef name r x) s"
    note d = stable_dropRef [OF Cons.prems(1) x True]
    have "names s p r = Some name" using True names_refs_named [OF Cons.prems(1) x] by simp
    then have eq: "(names ?t)(p := (\<lambda>q. if names ?t p q = Some name \<and> q \<in> set rs then None else names ?t p q)) =
      (names s)(p := (\<lambda>q. if names s p q = Some name \<and> q \<in> set (r # rs) then None else names s p q))"
      by (auto simp: d(3) unregister_def fun_eq_iff)
    have "wp (remove_refs B p name None rs ?t) (\<lambda>s'. cwf s' \<and> stable ?t s' \<and> refHeap s' = refHeap ?t \<and> world s' = world ?t \<and>
      names s' = (names ?t)(p := (\<lambda>q. if names ?t p q = Some name \<and> q \<in> set rs then None else names ?t p q)))"
      using Cons.prems(2) d(2) by (intro Cons.IH) simp_all
    then show ?thesis
      unfolding eq using x True stable_trans [OF d(1)] by (auto elim!: wp_mono)
  qed
qed

lemma removeWithName_None:
  assumes "cwf s" and "p < length (nodeHeap s)"
  shows "wp (removeWithName B p name None s) (\<lambda>(m, s'). m = edges s p name \<and> cwf s' \<and> refHeap s' = refHeap s \<and>
    world s' = world s \<and> fids s' = fids s \<and> length (nodeHeap s') = length (nodeHeap s) \<and>
    viewE (edges s') s' = cut p name (viewE (edges s) s))"
proof -
  obtain x where x: "getNode s p = Some x" using getNode_valid assms(2) by blast
  let ?rs = "case map_of (childRefs x) name of Some m \<Rightarrow> m | None \<Rightarrow> []"
  have rs: "r \<in> set ?rs \<longleftrightarrow> names s p r = Some name" for r
    using names_refs_named [OF assms(1) x, of r name] by (simp add: refs_named_def split: option.splits)
  obtain t where t: "remove_refs B p name None ?rs s = Some t" "cwf t" "stable s t" "refHeap t = refHeap s" "world t = world s"
    "names t = (names s)(p := (\<lambda>r. if names s p r = Some name then None else names s p r))"
    using remove_refs_None [OF assms, of B name ?rs] unfolding rs by (auto simp: wp_iff)
  obtain y where y: "getNode t p = Some y" "deleted y = deleted x" "childNodes y = childNodes x"
    using stable_getNode [OF t(3) x] by auto
  let ?u = "setNode p (y\<lparr>childNodes := AList.delete name (childNodes y)\<rparr>) t"
  have e: "edges t = edges s" by (rule stable_view(1) [OF t(3)])
  have eu: "edges ?u = (edges s)(p := (edges s p)(name := None))"
    using edges_setNode [OF y(1)] e view_getNode(3) [OF x] y(3) by (simp add: delete_conv')
  have cu: "cwf ?u" using cwf_node [OF t(2) y(1)] t(2) by (intro cwf_setNode) (simp_all add: distinct_delete)
  have "viewE (edges ?u) ?u = (viewE (edges ?u) t)\<lparr>nameOf := (names t)(p := nameFor y)\<rparr>"
    using view_setNode [OF y(1), of "y\<lparr>childNodes := AList.delete name (childNodes y)\<rparr>" "edges ?u"] by simp
  also have "\<dots> = viewE (edges ?u) t" using view_getNode(1) [OF y(1)] by (simp add: viewE_def fun_upd_idem)
  also have "\<dots> = cut p name (viewE (edges s) s)"
    using stable_view [OF t(3)] stable_lengths [OF t(3)] t(3,4,6) eu
    by (simp add: viewE_def cut_def removeEdge_def counts_def getRef_def stable_def fun_eq_iff)
  finally have vu: "viewE (edges ?u) ?u = cut p name (viewE (edges s) s)" .
  have "fids t = fids s" using t(3) by (simp add: stable_def)
  with vu cu t(1,4,5) x y view_getNode(3) [OF x] stable_lengths [OF t(3)] show ?thesis
    by (simp add: removeWithName_def)
qed

end
