(* ===== verification/P9_RenameInv.thy ===== *)
theory P9_RenameInv
  imports P9_TreeInv
begin

text \<open>
  The two recursions over the path tree, \<^verbatim>\<open>notifyDelete\<close> and \<^verbatim>\<open>notifyNameChange\<close>, return on every state
  that satisfies the invariant, because the node graph has no cycle; deletion marks exactly the
  subtree. On top of them, \<^verbatim>\<open>markChildDeleted\<close> and \<^verbatim>\<open>renameChildTo\<close> keep the invariant.
\<close>

section \<open>Marking a subtree\<close>

definition markNodes :: "node_addr set \<Rightarrow> ('w, 'f) srv \<Rightarrow> ('w, 'f) srv" where
  "markNodes S s = s\<lparr>nodeHeap := map (\<lambda>p. (nodeHeap s ! p)\<lparr>deleted := deleted (nodeHeap s ! p) \<or> p \<in> S\<rparr>)
     [0..<length (nodeHeap s)]\<rparr>"

lemma getNode_markNodes:
  "getNode (markNodes S s) p = map_option (\<lambda>x. x\<lparr>deleted := deleted x \<or> p \<in> S\<rparr>) (getNode s p)"
  by (simp add: markNodes_def getNode_def)

lemma markNodes_frame [simp]:
  "getRef (markNodes S s) = getRef s" "refHeap (markNodes S s) = refHeap s" "world (markNodes S s) = world s"
  "fids (markNodes S s) = fids s" "length (nodeHeap (markNodes S s)) = length (nodeHeap s)"
  by (simp_all add: markNodes_def getRef_def fun_eq_iff)

lemma markNodes_view [simp]:
  "edges (markNodes S s) = edges s" "names (markNodes S s) = names s"
  "counts (markNodes S s) = counts s" "parents (markNodes S s) = parents s" "nodeAt (markNodes S s) = nodeAt s"
  by (simp_all add: view_defs getNode_markNodes fun_eq_iff split: option.splits)

lemma cwf_markNodes [simp]: "cwf (markNodes S s) = cwf s"
  by (auto simp: cwf_def markNodes_def all_set_conv_all_nth)

lemma markNodes_union: "markNodes A (markNodes B s) = markNodes (A \<union> B) s"
  by (auto simp: markNodes_def disj_commute disj_left_commute intro!: arg_cong [where f = "\<lambda>h. s\<lparr>nodeHeap := h\<rparr>"])

lemma markNodes_empty [simp]: "markNodes {} s = s"
  by (simp add: markNodes_def map_nth)

lemma markNodes_one:
  assumes "getNode s p = Some x" shows "setNode p (x\<lparr>deleted := True\<rparr>) s = markNodes {p} s"
proof -
  have p: "p < length (nodeHeap s)" "x = nodeHeap s ! p" using assms by (auto simp: getNode_def split: if_splits)
  have "(nodeHeap s)[p := x\<lparr>deleted := True\<rparr>] =
    map (\<lambda>q. (nodeHeap s ! q)\<lparr>deleted := deleted (nodeHeap s ! q) \<or> q \<in> {p}\<rparr>) [0..<length (nodeHeap s)]"
    using p by (auto intro!: nth_equalityI simp: nth_list_update)
  then show ?thesis by (simp add: setNode_def markNodes_def)
qed

lemma dead_markNodes: "p < length (nodeHeap s) \<Longrightarrow> dead (markNodes S s) p = (dead s p \<or> p \<in> S)"
  by (simp add: dead_def getNode_markNodes) (simp add: getNode_def)

section \<open>Recursion over the node graph\<close>

definition graph :: "(node_addr \<Rightarrow> string \<Rightarrow> node_addr option) \<Rightarrow> (node_addr \<times> node_addr) set" where
  "graph E = {(p, m). \<exists>n. E p n = Some m}"

lemma graph_view: "nodeEdges (viewE E s) = graph E"
  by (simp add: nodeEdges_def graph_def)

lemma graph_children:
  assumes "cwf s" and "getNode s p = Some x"
  shows "set (map snd (childNodes x)) = graph (edges s) `` {p}"
proof -
  have "distinct (map fst (childNodes x))" using cwf_node [OF assms] by simp
  then have "(\<exists>n. (n, m) \<in> set (childNodes x)) \<longleftrightarrow> (\<exists>n. map_of (childNodes x) n = Some m)" for m
    by (metis map_of_SomeD map_of_is_SomeI)
  then show ?thesis using assms(2) by (force simp: graph_def)
qed

lemma reach_step: "(graph E)\<^sup>* `` {p} = insert p (\<Union>m\<in>graph E `` {p}. (graph E)\<^sup>* `` {m})"
  by (auto elim: converse_rtranclE intro: converse_rtrancl_into_rtrancl)

text \<open>The work list is processed one element at a time, if each child can be.\<close>

lemma notifyDelete_list:
  fixes s :: "('w, 'f) srv"
  assumes "\<And>m (s :: ('w, 'f) srv) rest'. m \<in> set ms \<Longrightarrow> cwf s \<Longrightarrow> edges s = E \<Longrightarrow> length (nodeHeap s) = N \<Longrightarrow>
      notifyDelete (m # rest') s = notifyDelete rest' (markNodes ((graph E)\<^sup>* `` {m}) s)"
    and "cwf s" "edges s = E" "length (nodeHeap s) = N"
  shows "notifyDelete (ms @ rest) s = notifyDelete rest (markNodes (\<Union>m\<in>set ms. (graph E)\<^sup>* `` {m}) s)"
  using assms
proof (induction ms arbitrary: s)
  case (Cons m ms)
  have "notifyDelete ((m # ms) @ rest) s = notifyDelete (ms @ rest) (markNodes ((graph E)\<^sup>* `` {m}) s)"
    using Cons.prems(1) [of m s "ms @ rest"] Cons.prems(2-) by simp
  also have "\<dots> = notifyDelete rest (markNodes (\<Union>m\<in>set ms. (graph E)\<^sup>* `` {m}) (markNodes ((graph E)\<^sup>* `` {m}) s))"
    using Cons.prems by (intro Cons.IH) simp_all
  finally show ?case by (simp add: markNodes_union Un_commute)
qed simp

lemma notifyDelete_node:
  assumes wf: "wf ((graph E)\<inverse>)" and bound: "\<And>p m. (p, m) \<in> graph E \<Longrightarrow> m < N"
    and "pn < N" "cwf s" "edges s = E" "length (nodeHeap s) = N"
  shows "notifyDelete (pn # rest) s = notifyDelete rest (markNodes ((graph E)\<^sup>* `` {pn}) s)"
  using assms(3-)
proof (induction pn arbitrary: s rest rule: wf_induct_rule [OF wf])
  case (1 pn)
  obtain x where x: "getNode s pn = Some x" using getNode_valid 1(2,5) by blast
  let ?t = "markNodes {pn} s"
  have ch: "set (map snd (childNodes x)) = graph E `` {pn}" using graph_children [OF 1(3) x] 1(4) by simp
  have "notifyDelete (pn # rest) s = notifyDelete (map snd (childNodes x) @ rest) ?t"
    using x by (simp add: notifyDelete.simps [of "pn # rest"] markNodes_one)
  also have "\<dots> = notifyDelete rest (markNodes (\<Union>m\<in>set (map snd (childNodes x)). (graph E)\<^sup>* `` {m}) ?t)"
    by (rule notifyDelete_list [where N = N]) (use ch bound 1 in auto)
  finally show ?case unfolding ch markNodes_union by (subst reach_step) (simp add: Un_commute)
qed

lemma notifyDelete_returns:
  assumes "wf ((graph (edges s))\<inverse>)" "\<And>p m. (p, m) \<in> graph (edges s) \<Longrightarrow> m < length (nodeHeap s)"
    and "pn < length (nodeHeap s)" "cwf s"
  shows "notifyDelete [pn] s = Some (markNodes ((graph (edges s))\<^sup>* `` {pn}) s)"
  using notifyDelete_node [OF assms(1-4), where rest = "[]"] by (simp add: notifyDelete.simps [of "[]"])

lemma inv_graph:
  assumes "ainv ext X (viewE E s)"
  shows "wf ((graph E)\<inverse>)" and "(p, m) \<in> graph E \<Longrightarrow> p < length (nodeHeap s) \<and> m < length (nodeHeap s)"
  using wf_nodeEdges [OF ainv_nodes [OF assms]] nodes_wf_edge [OF ainv_nodes [OF assms]]
  by (auto simp: graph_view) (auto simp: graph_def)

section \<open>markChildDeleted\<close>

lemma markChildDeleted_inv:
  assumes i: "inv ext s" and f: "getRef s f = Some x"
  shows "wp (markChildDeleted B f name s) (\<lambda>s'. inv ext s' \<and> refHeap s' = refHeap s \<and> world s' = world s \<and>
    length (nodeHeap s') = length (nodeHeap s) \<and>
    edges s' = (edges s)(ref_node x := (edges s (ref_node x))(name := None)) \<and>
    (\<forall>p. dead s' p \<longleftrightarrow> dead s p \<or> (\<exists>m. edges s (ref_node x) name = Some m \<and> p \<in> (graph (edges s'))\<^sup>* `` {m})))"
proof -
  let ?p = "ref_node x" and ?a = "viewE (edges s) s"
  have cw: "cwf s" and a: "ainv ext {} ?a" using inv_ainv [OF i] by auto
  have "nodeAt s f < length (nodeHeap s)" using ainv_nodes [OF a] getRef_Some [OF f] by (auto simp: nodes_wf_def)
  then have p: "?p < length (nodeHeap s)" using f by simp
  obtain t where t: "removeWithName B ?p name None s = Some (edges s ?p name, t)" "cwf t" "refHeap t = refHeap s"
    "world t = world s" "length (nodeHeap t) = length (nodeHeap s)" "viewE (edges t) t = cut ?p name ?a"
    using removeWithName_None [OF cw p, of B name] by (auto simp: wp_iff)
  have e: "edges t = (edges s)(?p := (edges s ?p)(name := None))"
    using arg_cong [OF t(6), of edge] by (simp add: cut_def removeEdge_def)
  have d: "dead t = dead s" using arg_cong [OF t(6), of gone] by (simp add: cut_def removeEdge_def)
  show ?thesis
  proof (cases "edges s ?p name")
    case None
    then have "inv ext t" using cut_none [OF a] a t by (simp add: inv_def sinv_def)
    with None f t e d show ?thesis by (simp add: markChildDeleted_def)
  next
    case (Some m)
    let ?S = "(graph (edges t))\<^sup>* `` {m}"
    have bel: "below (cut ?p name ?a) m = ?S" by (simp add: below_def graph_view flip: t(6))
    have del: "ainv ext {} (mark ?S (cut ?p name ?a))" using ainv_delete [OF a, of ?p name m] Some bel by simp
    have sub: "graph (edges t) \<subseteq> graph (edges s)" by (auto simp: e graph_def split: if_splits)
    have bound: "q < length (nodeHeap s)" if "(r, q) \<in> graph (edges t)" for r q
      using inv_graph(2) [OF a] that sub by blast
    have mN: "m < length (nodeHeap t)" using inv_graph(2) [OF a, of ?p m] Some t(5) by (auto simp: graph_def)
    have wf: "wf ((graph (edges t))\<inverse>)" using inv_graph(1) [OF a] by (rule wf_subset) (use sub in auto)
    have nd: "notifyDelete [m] t = Some (markNodes ?S t)"
      using notifyDelete_returns [OF wf _ mN t(2)] bound t(5) by auto
    have S: "?S \<subseteq> {..<length (nodeHeap s)}"
    proof
      fix q assume "q \<in> ?S"
      then have "(m, q) \<in> (graph (edges t))\<^sup>*" by simp
      then show "q \<in> {..<length (nodeHeap s)}" by (cases rule: rtranclE) (use bound mN t(5) in auto)
    qed
    have dm: "dead (markNodes ?S t) q \<longleftrightarrow> dead s q \<or> q \<in> ?S" for q
    proof (cases "q < length (nodeHeap t)")
      case False
      then have "\<not> dead (markNodes ?S t) q" "\<not> dead t q" by (simp_all add: dead_def getNode_def)
      with False S d t(5) show ?thesis by auto
    qed (simp add: d dead_markNodes)
    have "viewE (edges t) (markNodes ?S t) = mark ?S (cut ?p name ?a)"
      unfolding t(6) [symmetric] mark_def using dm d by (simp add: viewE_def fun_eq_iff)
    then have "inv ext (markNodes ?S t)" using del t(2) by (simp add: inv_def sinv_def)
    with Some f t nd e dm show ?thesis by (simp add: markChildDeleted_def)
  qed
qed

section \<open>notifyNameChange\<close>

definition has_parent_file :: "('w, 'f) srv \<Rightarrow> ref_addr \<Rightarrow> bool" where
  "has_parent_file s r \<longleftrightarrow> (\<exists>x q y. getRef s r = Some x \<and> ref_parent x = Some q \<and> getRef s q = Some y)"

lemma notify_refs_returns:
  "\<forall>r\<in>set m. has_parent_file s r \<Longrightarrow> \<exists>w. notify_refs B name m s = Some (s\<lparr>world := w\<rparr>)"
proof (induction m arbitrary: s)
  case Nil
  then show ?case by (auto intro: exI [of _ "world s"])
next
  case (Cons r m)
  obtain x q y where x: "getRef s r = Some x" "ref_parent x = Some q" "getRef s q = Some y"
    using Cons.prems by (auto simp: has_parent_file_def)
  have "\<forall>r\<in>set m. has_parent_file (s\<lparr>world := w\<rparr>) r" for w using Cons.prems by (simp add: has_parent_file_def)
  with Cons.IH x show ?case by fastforce
qed

lemma forEachChildRef_returns:
  "\<forall>(n, m)\<in>set l. \<forall>r\<in>set m. has_parent_file s r \<Longrightarrow> \<exists>w. forEachChildRef B l s = Some (s\<lparr>world := w\<rparr>)"
proof (induction l arbitrary: s)
  case Nil
  then show ?case by (auto intro: exI [of _ "world s"])
next
  case (Cons e l)
  obtain n m where e: "e = (n, m)" by force
  obtain w where w: "notify_refs B n m s = Some (s\<lparr>world := w\<rparr>)"
    using notify_refs_returns [of m s B n] Cons.prems e by auto
  have "\<forall>(n, m)\<in>set l. \<forall>r\<in>set m. has_parent_file (s\<lparr>world := w\<rparr>) r" using Cons.prems by (simp add: has_parent_file_def)
  from Cons.IH [OF this] w e show ?case by auto
qed

lemma registered_has_parent_file:
  assumes i: "inv ext s" and "names s p r = Some n"
  shows "has_parent_file s r"
proof -
  have a: "ainv ext {} (viewE (edges s) s)" using inv_ainv [OF i] by simp
  have "nameOf (viewE (edges s) s) p r = Some n" using assms(2) by simp
  from registeredE [OF ainv_registered [OF a] this] obtain q where q: "0 < counts s r" "parents s r = Some q" by auto
  then have "0 < counts s q" using ainv_parent_live [OF a, of r q] by simp
  with q show ?thesis
    by (elim inv_live_getRef [OF i]) (auto simp: has_parent_file_def)
qed

lemma childRefs_have_parent_file:
  assumes i: "inv ext s" and x: "getNode s p = Some x"
  shows "\<forall>(n, m)\<in>set (childRefs x). \<forall>r\<in>set m. has_parent_file s r"
proof clarify
  fix n m r assume m: "(n, m) \<in> set (childRefs x)" "r \<in> set m"
  have cw: "cwf s" using inv_ainv [OF i] by simp
  have "distinct (map fst (childRefs x))" using cwf_node [OF cw x] by (simp add: node_ok_def)
  then have "r \<in> refs_named x n" using m by (simp add: refs_named_def)
  then show "has_parent_file s r"
    using registered_has_parent_file [OF i] names_refs_named [OF cw x] by blast
qed

lemma notifyNameChange_node:
  assumes i: "inv ext s" and "pn < length (nodeHeap s)"
  shows "\<exists>w. notifyNameChange B (pn # rest) s = notifyNameChange B rest (s\<lparr>world := w\<rparr>)"
proof -
  define E where "E = edges s"
  have "wf ((graph E)\<inverse>)" unfolding E_def using inv_graph(1) inv_ainv [OF i] by blast
  then show ?thesis
    using assms E_def [symmetric]
  proof (induction pn arbitrary: s rest rule: wf_induct_rule)
    case (less pn)
    obtain x where x: "getNode s pn = Some x" using getNode_valid less.prems(2) by blast
    obtain w where w: "forEachChildRef B (childRefs x) s = Some (s\<lparr>world := w\<rparr>)"
      using forEachChildRef_returns [OF childRefs_have_parent_file [OF less.prems(1) x]] by blast
    have ch: "m \<in> set (map snd (childNodes x)) \<Longrightarrow> (pn, m) \<in> graph (edges s) \<and> m < length (nodeHeap s)" for m
      using graph_children [of s pn x] inv_graph(2) [of ext "{}" "edges s" s pn m] inv_ainv [OF less.prems(1)] x by auto
    have "\<exists>w'. notifyNameChange B (ms @ rest) (s\<lparr>world := w\<rparr>) = notifyNameChange B rest (s\<lparr>world := w'\<rparr>)"
      if "set ms \<subseteq> set (map snd (childNodes x))" for ms w
      using that
    proof (induction ms arbitrary: w)
      case (Cons m ms)
      have "\<exists>w'. notifyNameChange B (m # ms @ rest) (s\<lparr>world := w\<rparr>) = notifyNameChange B (ms @ rest) (s\<lparr>world := w\<rparr>\<lparr>world := w'\<rparr>)"
        using ch [of m] Cons.prems less.prems by (intro less.IH) simp_all
      with Cons show ?case by fastforce
    qed auto
    with w x show ?case by (simp add: notifyNameChange.simps [of B "pn # rest"])
  qed
qed

lemma notifyNameChange_returns:
  "inv ext s \<Longrightarrow> pn < length (nodeHeap s) \<Longrightarrow> \<exists>w. notifyNameChange B [pn] s = Some (s\<lparr>world := w\<rparr>)"
  using notifyNameChange_node [of ext s pn B "[]"] by (auto simp: notifyNameChange.simps [of B "[]"])

end
