(* ===== verification/P9_MoveInv.thy ===== *)
theory P9_MoveInv
  imports P9_RenameInv
begin

text \<open>
  Renaming: the loop of \<^verbatim>\<open>renameChildTo\<close> moves the references of an entry one by one to their new
  parent, then the node itself moves. During the loop the invariant is the one for the edge map
  that already contains the new edge.
\<close>

section \<open>One reference moves\<close>

lemma view_setRef_parent:
  assumes "getRef s r = Some x"
  shows "viewE E (setRef r (x\<lparr>ref_parent := pa\<rparr>) s) = (viewE E s)\<lparr>parent := (parents s)(r := pa)\<rparr>"
  using assms getRef_Some [OF assms] by (auto simp: view_defs getRef_setRef fun_eq_iff)

lemma sinv_ainv: "sinv ext X E s \<Longrightarrow> cwf s \<and> ainv ext X (viewE E s)"
  by (simp add: sinv_def)

lemma sinv_held:
  assumes "sinv ext X E s" and "0 < ext r"
  shows "0 < counts s r" and "\<exists>x. getRef s r = Some x"
proof -
  have a: "ainv ext X (viewE E s)" using sinv_ainv [OF assms(1)] by simp
  show c: "0 < counts s r" using ainv_held_live [OF a assms(2)] by simp
  then show "\<exists>x. getRef s r = Some x" by (auto simp: counts_def split: option.splits)
qed

lemma sinv_floating_unnamed: "sinv ext {ref} E s \<Longrightarrow> names s p ref = None"
  using ainv_registered [of ext "{ref}" "viewE E s"]
  by (cases "names s p ref") (auto simp: sinv_def registered_def)

text \<open>The second half of the callback: the reference gets its new parent.\<close>

lemma reparent_sinv:
  assumes i: "sinv (hold ref ext) {ref} E s" and x: "getRef s ref = Some x" and tgt: "0 < ext target"
    and e: "E (nodeAt s target) new = Some (nodeAt s ref)" and g: "\<not> dead s (nodeAt s target)"
  shows "wp (IncRef target (setRef ref (x\<lparr>ref_parent := Some target\<rparr>) s)) (\<lambda>t. \<exists>y. getRef t target = Some y \<and>
    ref_node y = nodeAt s target \<and>
    wp (addChild (ref_node y) ref new t) (\<lambda>u. sinv (hold ref ext) {} E u \<and> edges u = edges s \<and> nodeAt u = nodeAt s \<and>
      dead u = dead s \<and> length (nodeHeap u) = length (nodeHeap s) \<and>
      names u = (names s)(nodeAt s target := (names s (nodeAt s target))(ref \<mapsto> new))))"
proof -
  let ?s1 = "setRef ref (x\<lparr>ref_parent := Some target\<rparr>) s" and ?t = "nodeAt s target"
  have cw: "cwf s" and a: "ainv (hold ref ext) {ref} (viewE E s)" using sinv_ainv [OF i] by auto
  have live: "0 < counts s ref" "0 < counts s target" using sinv_held [OF i, of ref] sinv_held [OF i, of target] tgt by auto
  have "0 < hold ref ext target" using tgt by simp
  then obtain z where z: "getRef s target = Some z" using sinv_held(2) [OF i] by blast
  obtain y1 where y1: "getRef ?s1 target = Some y1" "refs y1 = counts s target" "ref_node y1 = ?t"
  proof (cases "target = ref")
    case True
    with x z getRef_Some [OF x] show thesis by (intro that [of "x\<lparr>ref_parent := Some target\<rparr>"]) (simp_all add: getRef_setRef)
  next
    case False
    with z show thesis by (intro that [of z]) (simp_all add: getRef_setRef)
  qed
  let ?a5 = "(viewE E s)\<lparr>cnt := (counts s)(target := counts s target + 1)\<rparr>"
  have a5: "ainv (hold target (hold ref ext)) {ref} ?a5" using ainv_hold [OF a, of target] live by simp
  have fin: "ainv (hold ref ext) {} (?a5\<lparr>parent := (parents s)(ref \<mapsto> target), nameOf := (names s)(?t := (names s ?t)(ref \<mapsto> new))\<rparr>)"
    using ainv_reparent [OF a5, of new] live e g by simp
  have tN: "?t < length (nodeHeap s)" using nodes_wf_edge [OF ainv_nodes [OF a]] e by auto
  show ?thesis
  proof (rule wp_mono [OF IncRef_view [OF y1(1)]])
    fix t assume t: "cwf t = cwf ?s1 \<and> edges t = edges ?s1 \<and> names t = names ?s1 \<and> world t = world ?s1 \<and>
      nodeHeap t = nodeHeap ?s1 \<and> (\<forall>r'. r' \<noteq> target \<longrightarrow> getRef t r' = getRef ?s1 r') \<and>
      (\<forall>E. viewE E t = (viewE E ?s1)\<lparr>cnt := (counts ?s1)(target := refs y1 + 1)\<rparr>)"
    have n1: "names ?s1 = names s" "counts ?s1 = counts s" "dead ?s1 = dead s" "nodeAt ?s1 = nodeAt s"
      using x getRef_Some [OF x] by (auto simp: view_defs getRef_setRef fun_eq_iff)
    have vt: "viewE E t = ?a5\<lparr>parent := (parents s)(ref \<mapsto> target)\<rparr>"
      using t y1(2) n1 view_setRef_parent [OF x, of E "Some target"] by simp
    have "nodeAt t = nodeAt s" "dead t = dead s"
      using arg_cong [OF vt, of nodeOf] arg_cong [OF vt, of gone] by simp_all
    moreover have "\<exists>y. getRef t target = Some y"
      using arg_cong [OF vt, of nrefs] getRef_Some [OF z] getRef_valid [of target t] by simp
    ultimately obtain y where y: "getRef t target = Some y" "ref_node y = ?t" "nodeAt t = nodeAt s" "dead t = dead s"
      by (metis view_getRef(3))
    have "wp (addChild ?t ref new t) (\<lambda>u. sinv (hold ref ext) {} E u \<and> edges u = edges s \<and> nodeAt u = nodeAt s \<and>
      dead u = dead s \<and> length (nodeHeap u) = length (nodeHeap s) \<and> names u = (names s)(?t := (names s ?t)(ref \<mapsto> new)))"
    proof (rule wp_mono [OF addChild_view])
      show "cwf t" "?t < length (nodeHeap t)" "names t ?t ref = None"
        using t cw tN n1 sinv_floating_unnamed [OF i] by simp_all
    next
      fix u assume u: "cwf u \<and> edges u = edges t \<and> getRef u = getRef t \<and> world u = world t \<and> refHeap u = refHeap t \<and>
        length (nodeHeap u) = length (nodeHeap t) \<and>
        (\<forall>E. viewE E u = (viewE E t)\<lparr>nameOf := (names t)(?t := (names t ?t)(ref \<mapsto> new))\<rparr>)"
      then have vu: "viewE E u = ?a5\<lparr>parent := (parents s)(ref \<mapsto> target), nameOf := (names s)(?t := (names s ?t)(ref \<mapsto> new))\<rparr>"
        using vt t n1 by simp
      show "sinv (hold ref ext) {} E u \<and> edges u = edges s \<and> nodeAt u = nodeAt s \<and> dead u = dead s \<and>
        length (nodeHeap u) = length (nodeHeap s) \<and> names u = (names s)(?t := (names s ?t)(ref \<mapsto> new))"
      proof (intro conjI)
        show "sinv (hold ref ext) {} E u" unfolding sinv_def vu using u fin by blast
        show "nodeAt u = nodeAt s" "dead u = dead s" "names u = (names s)(?t := (names s ?t)(ref \<mapsto> new))"
          using arg_cong [OF vu, of nodeOf] arg_cong [OF vu, of gone] arg_cong [OF vu, of nameOf] by simp_all
        show "edges u = edges s" "length (nodeHeap u) = length (nodeHeap s)" using u t by simp_all
      qed
    qed
    with y show "\<exists>y. getRef t target = Some y \<and> ref_node y = ?t \<and> wp (addChild (ref_node y) ref new t)
      (\<lambda>u. sinv (hold ref ext) {} E u \<and> edges u = edges s \<and> nodeAt u = nodeAt s \<and> dead u = dead s \<and>
        length (nodeHeap u) = length (nodeHeap s) \<and> names u = (names s)(?t := (names s ?t)(ref \<mapsto> new)))" by auto
  qed
qed

text \<open>What a step of the loop keeps of the state.\<close>

definition moved :: "('w, 'f) srv \<Rightarrow> ('w, 'f) srv \<Rightarrow> bool" where
  "moved s s' \<longleftrightarrow> edges s' = edges s \<and> nodeAt s' = nodeAt s \<and> dead s' = dead s \<and>
     length (nodeHeap s') = length (nodeHeap s)"

lemma moved_refl [simp]: "moved s s"
  by (simp add: moved_def)

lemma moved_trans: "moved s s' \<Longrightarrow> moved s' s'' \<Longrightarrow> moved s s''"
  by (simp add: moved_def)

lemma stable_moved: "stable s s' \<Longrightarrow> moved s s'"
  by (simp add: moved_def stable_view stable_lengths)

lemma moveRef_sinv:
  assumes i: "sinv (hold ref (hold q ext)) {ref} E s" and q: "parents s ref = Some q" and tgt: "0 < ext target"
    and e: "E (nodeAt s target) new = Some (nodeAt s ref)" and g: "\<not> dead s (nodeAt s target)"
  shows "wp (moveRef B target new ref s) (\<lambda>u. sinv (hold ref ext) {} E u \<and> moved s u \<and>
    (\<forall>p r n. names u p r = Some n \<longrightarrow> names s p r = Some n \<or> (p = nodeAt s target \<and> r = ref \<and> n = new)))"
proof -
  have i': "sinv (hold q (hold ref ext)) {ref} E s" using i by (simp add: hold_commute)
  obtain x where x: "getRef s ref = Some x" using sinv_held(2) [OF i, of ref] by auto
  obtain er t where t: "DecRef B q s = Some (er, t)" "sinv (hold ref ext) {ref} E t" "stable s t"
    using DecRef_sinv [OF i', of B] by (auto simp: wp_iff)
  obtain c where x': "getRef t ref = Some (x\<lparr>refs := c\<rparr>)" using stable_getRef [OF t(3) x] by blast
  note v = stable_view [OF t(3)]
  have e': "E (nodeAt t target) new = Some (nodeAt t ref)" "\<not> dead t (nodeAt t target)" using e g v by simp_all
  obtain u where u: "IncRef target (setRef ref (x\<lparr>refs := c, ref_parent := Some target\<rparr>) t) = Some u" "\<exists>y. getRef u target = Some y \<and>
    ref_node y = nodeAt t target \<and> wp (addChild (ref_node y) ref new u) (\<lambda>v. sinv (hold ref ext) {} E v \<and> edges v = edges t \<and> nodeAt v = nodeAt t \<and>
      dead v = dead t \<and> length (nodeHeap v) = length (nodeHeap t) \<and>
      names v = (names t)(nodeAt t target := (names t (nodeAt t target))(ref \<mapsto> new)))"
    using reparent_sinv [OF t(2) x' tgt e'] unfolding wp_iff [of "IncRef _ _"] by auto
  obtain y w where y: "getRef u target = Some y" "addChild (ref_node y) ref new u = Some w" "sinv (hold ref ext) {} E w" "moved t w"
    "names w = (names t)(nodeAt t target := (names t (nodeAt t target))(ref \<mapsto> new))"
    using u(2) by (auto simp: wp_iff moved_def)
  have "names t p r = Some n \<Longrightarrow> names s p r = Some n" for p r n by (rule stable_names [OF t(3)])
  then have "names w p r = Some n \<longrightarrow> names s p r = Some n \<or> (p = nodeAt s target \<and> r = ref \<and> n = new)" for p r n
    using y(5) v by auto
  moreover have "moved s w" using moved_trans [OF stable_moved [OF t(3)] y(4)] .
  moreover have "ref_parent x = Some q" using q x by simp
  ultimately show ?thesis
    using x t(1) x' u(1) y by (simp add: moveRef_def) (simp add: moved_def)
qed

lemma TryIncRef_live:
  "getRef s r = Some x \<Longrightarrow> 0 < refs x \<Longrightarrow> TryIncRef r s = map_option (Pair True) (IncRef r s)"
  by (simp add: TryIncRef_def IncRef_def)

text \<open>One turn of the loop, for a reference that is still registered.\<close>

lemma rename_step:
  assumes i: "sinv ext {} E s" and x: "getNode s p = Some x" and n: "ref \<in> refs_named x old" and tgt: "0 < ext target"
    and e: "E (nodeAt s target) new = E p old" and g: "\<not> dead s (nodeAt s target)" and ne: "(p, old) \<noteq> (nodeAt s target, new)"
  shows "wp (TryIncRef ref (setNode p (dropRef old ref x) s)) (\<lambda>(held, t). held \<and> wp (moveRef B target new ref t) (\<lambda>u.
    wp (DecRef B ref u) (\<lambda>(er, v). sinv ext {} E v \<and> moved s v \<and> names v p ref \<noteq> Some old \<and>
      (\<forall>r. names v p r = Some old \<longrightarrow> names s p r = Some old))))"
proof -
  have cw: "cwf s" and a: "ainv ext {} (viewE E s)" using sinv_ainv [OF i] by auto
  let ?s1 = "setNode p (dropRef old ref x) s"
  note d = stable_dropRef [OF cw x n]
  have nm: "nameOf (viewE E s) p ref = Some old" using names_refs_named [OF cw x, of ref old] n by simp
  from registeredE [OF ainv_registered [OF a] nm] obtain q where q: "0 < counts s ref" "parents s ref = Some q"
    "E p old = Some (nodeAt s ref)" by auto
  have v1: "viewE E ?s1 = (viewE E s)\<lparr>nameOf := (names s)(p := nameFor (dropRef old ref x))\<rparr>"
    by (rule view_setNode [OF x]) simp
  have "names ?s1 = (names s)(p := nameFor (dropRef old ref x))" using arg_cong [OF v1, of nameOf] by simp
  with v1 d(3) have v2: "viewE E ?s1 = (viewE E s)\<lparr>nameOf := unregister p ref (names s)\<rparr>" by simp
  then have i1: "sinv (hold q ext) {ref} E ?s1"
    using ainv_float [OF a nm, of q] q(2) d(2) by (simp add: sinv_def)
  have s1: "parents ?s1 = parents s" "counts ?s1 = counts s" "nodeAt ?s1 = nodeAt s" "dead ?s1 = dead s"
    using arg_cong [OF v2, of parent] arg_cong [OF v2, of cnt] arg_cong [OF v2, of nodeOf] arg_cong [OF v2, of gone] by simp_all
  have live: "0 < counts ?s1 ref" using q(1) s1 by simp
  obtain t where t: "IncRef ref ?s1 = Some t" "sinv (hold ref (hold q ext)) {ref} E t" "stable ?s1 t"
    using IncRef_sinv [OF i1 live] by (auto simp: wp_iff)
  obtain y where "getRef ?s1 ref = Some y" "0 < refs y" using live by (auto simp: counts_def split: option.splits)
  then have inc: "TryIncRef ref ?s1 = Some (True, t)" using t(1) by (simp add: TryIncRef_live)
  note v = stable_view [OF t(3)] s1
  have "wp (moveRef B target new ref t) (\<lambda>u. sinv (hold ref ext) {} E u \<and> moved t u \<and>
    (\<forall>p r n. names u p r = Some n \<longrightarrow> names t p r = Some n \<or> (p = nodeAt t target \<and> r = ref \<and> n = new)))"
    using q e g v tgt by (intro moveRef_sinv [OF t(2)]) simp_all
  then obtain u where u: "moveRef B target new ref t = Some u" "sinv (hold ref ext) {} E u" "moved t u"
    "\<And>p r n. names u p r = Some n \<Longrightarrow> names t p r = Some n \<or> (p = nodeAt s target \<and> r = ref \<and> n = new)"
    using v by (auto simp: wp_iff)
  obtain er w where w: "DecRef B ref u = Some (er, w)" "sinv ext {} E w" "stable u w"
    using DecRef_sinv [OF u(2), of B] by (auto simp: wp_iff)
  have "moved s w"
    using moved_trans [OF stable_moved [OF d(1)] moved_trans [OF stable_moved [OF t(3)] moved_trans [OF u(3) stable_moved [OF w(3)]]]] .
  moreover have "names ?s1 p r = Some old" if "names w p r = Some old" for r
    using u(4) [OF stable_names [OF w(3) that]] ne stable_names [OF t(3)] by auto
  moreover have "names ?s1 p ref = None" by (simp add: d(3) unregister_def)
  moreover have "names s p r = Some old" if "names ?s1 p r = Some old" for r
    using that by (auto simp: d(3) unregister_def split: if_splits)
  ultimately show ?thesis using inc u(1) w(1,2) by fastforce
qed

section \<open>The loop and renameChildTo\<close>

lemma rename_loop:
  assumes "sinv ext {} E s" and "p < length (nodeHeap s)" and "{r. names s p r = Some old} \<subseteq> set rs" and tgt: "0 < ext target"
    and "E (nodeAt s target) new = E p old" and "\<not> dead s (nodeAt s target)" and "(p, old) \<noteq> (nodeAt s target, new)"
  shows "wp (remove_refs B p old (Some (moveRef B target new)) rs s) (\<lambda>s'. sinv ext {} E s' \<and> moved s s' \<and>
    (\<forall>r. names s' p r \<noteq> Some old))"
  using assms
proof (induction rs arbitrary: s)
  case Nil
  then show ?case by auto
next
  case (Cons ref rs)
  obtain x where x: "getNode s p = Some x" using getNode_valid Cons.prems(2) by blast
  have cw: "cwf s" using Cons.prems(1) by (simp add: sinv_def)
  show ?case
  proof (cases "ref \<in> refs_named x old")
    case False
    then have "names s p ref \<noteq> Some old" using names_refs_named [OF cw x] by simp
    then have "{r. names s p r = Some old} \<subseteq> set rs" using Cons.prems(3) by auto
    with Cons x False show ?thesis by simp
  next
    case True
    obtain t u er v where st: "TryIncRef ref (setNode p (dropRef old ref x) s) = Some (True, t)" "moveRef B target new ref t = Some u"
      "DecRef B ref u = Some (er, v)" "sinv ext {} E v" "moved s v" "names v p ref \<noteq> Some old"
      "\<And>r. names v p r = Some old \<Longrightarrow> names s p r = Some old"
      using rename_step [OF Cons.prems(1) x True tgt Cons.prems(5-7), of B] by (fastforce simp: wp_iff)
    have "wp (remove_refs B p old (Some (moveRef B target new)) rs v) (\<lambda>s'. sinv ext {} E s' \<and> moved v s' \<and>
      (\<forall>r. names s' p r \<noteq> Some old))"
      using Cons.prems st(4-) by (intro Cons.IH) (auto simp: moved_def)
    then have "wp (remove_refs B p old (Some (moveRef B target new)) rs v) (\<lambda>s'. sinv ext {} E s' \<and> moved s s' \<and>
      (\<forall>r. names s' p r \<noteq> Some old))"
      by (rule wp_mono) (use moved_trans [OF st(5)] in blast)
    with x True st(1-3) show ?thesis by simp
  qed
qed

text \<open>\<^verbatim>\<open>removeWithName\<close> with the callback of a rename: the edge is removed as well.\<close>

lemma remove_edge_view:
  fixes n :: string
  assumes y: "getNode t p = Some y" and cw: "cwf t"
  defines "u \<equiv> setNode p (y\<lparr>childNodes := AList.delete n (childNodes y)\<rparr>) t"
  shows "edges u = (edges t)(p := (edges t p)(n := None))" "cwf u" "viewE E u = viewE E t"
proof -
  show "edges u = (edges t)(p := (edges t p)(n := None))"
    unfolding u_def using edges_setNode [OF y] view_getNode(3) [OF y] by (simp add: delete_conv')
  show "cwf u" unfolding u_def using cwf_node [OF cw y] cw by (intro cwf_setNode) (simp_all add: distinct_delete)
  show "viewE E u = viewE E t"
    unfolding u_def using view_setNode [OF y, of "y\<lparr>childNodes := AList.delete n (childNodes y)\<rparr>" E] view_getNode(1) [OF y]
    by (simp add: viewE_def fun_upd_idem)
qed

lemma add_edge_view:
  fixes n :: string and m :: node_addr
  assumes y: "getNode t p = Some y" and cw: "cwf t" and new: "map_of (childNodes y) n = None"
  defines "u \<equiv> setNode p (y\<lparr>childNodes := AList.update n m (childNodes y)\<rparr>) t"
  shows "edges u = (edges t)(p := (edges t p)(n \<mapsto> m))" "cwf u" "viewE E u = viewE E t"
proof -
  show "edges u = (edges t)(p := (edges t p)(n \<mapsto> m))"
    unfolding u_def using edges_setNode [OF y] view_getNode(3) [OF y] by (simp add: update_conv')
  show "cwf u" unfolding u_def using cwf_node [OF cw y] cw by (intro cwf_setNode) (simp_all add: distinct_update)
  show "viewE E u = viewE E t"
    unfolding u_def using view_setNode [OF y, of "y\<lparr>childNodes := AList.update n m (childNodes y)\<rparr>" E] view_getNode(1) [OF y]
    by (simp add: viewE_def fun_upd_idem)
qed

lemma inv_named_edge:
  assumes "inv ext s" and "names s p r = Some n"
  shows "edges s p n = Some (nodeAt s r)"
proof -
  have a: "ainv ext {} (viewE (edges s) s)" using inv_ainv [OF assms(1)] by simp
  have "nameOf (viewE (edges s) s) p r = Some n" using assms(2) by simp
  from registeredE [OF ainv_registered [OF a] this] show ?thesis by auto
qed

lemma childRefs_set:
  assumes "cwf s" and "getNode s p = Some x"
  shows "set (case map_of (childRefs x) n of Some m \<Rightarrow> m | None \<Rightarrow> []) = {r. names s p r = Some n}"
proof -
  have "set (case map_of (childRefs x) n of Some m \<Rightarrow> m | None \<Rightarrow> []) = refs_named x n"
    by (simp add: refs_named_def split: option.split)
  also have "\<dots> = {r. names s p r = Some n}" by (simp add: set_eq_iff names_refs_named [OF assms] del: view_getNode)
  finally show ?thesis .
qed

text \<open>The entry moves with its subtree: references, edge, and the notifications.\<close>

lemma move_subtree:
  assumes i: "inv ext s" and p: "p < length (nodeHeap s)" and tgt: "0 < ext target" and g: "\<not> dead s (nodeAt s target)"
    and ne: "(p, old) \<noteq> (nodeAt s target, new)" and free: "edges s (nodeAt s target) new = None"
    and pn: "edges s p old = Some pn" and up: "(pn, nodeAt s target) \<notin> (graph (edges s))\<^sup>*"
  shows "wp (removeWithName B p old (Some (moveRef B target new)) s) (\<lambda>(m, u). m = Some pn \<and>
    (\<exists>y. getRef u target = Some y \<and> (\<exists>t. getNode u (ref_node y) = Some t \<and> (\<exists>t'. addPathNodeFor new pn t = Some t' \<and>
      wp (notifyNameChange B [pn] (setNode (ref_node y) t' u)) (inv ext)))))"
proof -
  let ?t = "nodeAt s target" let ?E = "(edges s)(?t := (edges s ?t)(new \<mapsto> pn))"
  have cw: "cwf s" and a: "ainv ext {} (viewE (edges s) s)" using inv_ainv [OF i] by auto
  have b: "pn < length (nodeHeap s)" using inv_graph(2) [OF a, of p pn] pn by (auto simp: graph_def)
  have "target < length (refHeap s)" using inv_held_live [OF i tgt] ainv_live_valid [OF a, of target] by simp
  then have t: "?t < length (nodeHeap s)" using ainv_nodes [OF a] by (auto simp: nodes_wf_def)
  have "ainv ext {} (addEdge ?t new pn (viewE (edges s) s))"
    using ainv_addEdge [OF a, of ?t new pn] free t b g up by (simp add: graph_view)
  then have iE: "sinv ext {} ?E s" using cw by (simp add: sinv_def addEdge_def)
  obtain x where x: "getNode s p = Some x" using getNode_valid p by blast
  let ?rs = "case map_of (childRefs x) old of Some m \<Rightarrow> m | None \<Rightarrow> []"
  have E: "?E ?t new = ?E p old" using pn ne by auto
  obtain u where u: "remove_refs B p old (Some (moveRef B target new)) ?rs s = Some u" "sinv ext {} ?E u" "moved s u"
    "\<And>r. names u p r \<noteq> Some old"
    using rename_loop [OF iE p _ tgt E g ne, of ?rs B] unfolding childRefs_set [OF cw x] wp_iff by blast
  have cu: "cwf u" using u(2) by (simp add: sinv_def)
  have eu: "edges u = edges s" "length (nodeHeap u) = length (nodeHeap s)" "nodeAt u = nodeAt s" using u(3) by (simp_all add: moved_def)
  obtain x2 where x2: "getNode u p = Some x2" using getNode_valid p eu by metis
  let ?v = "setNode p (x2\<lparr>childNodes := AList.delete old (childNodes x2)\<rparr>) u"
  note v = remove_edge_view [OF x2 cu, where n = old]
  obtain y where y: "getRef u target = Some y" using sinv_held(2) [OF u(2) tgt] by blast
  have yt: "ref_node y = ?t" using y eu(3) by (metis view_getRef(3))
  obtain tn where tn: "getNode ?v ?t = Some tn" using getNode_valid [of ?t ?v] t eu by auto
  have "map_of (childNodes tn) new = edges ?v ?t new" using view_getNode(3) [OF tn] by simp
  also have "\<dots> = None" using free by (auto simp: v(1) eu)
  finally have free': "map_of (childNodes tn) new = None" .
  let ?w = "setNode ?t (tn\<lparr>childNodes := AList.update new pn (childNodes tn)\<rparr>) ?v"
  note w = add_edge_view [OF tn v(2) free', where m = pn]
  have "edges ?w = ?E(p := (?E p)(old := None))" using w(1) v(1) eu(1) ne by (auto simp: fun_eq_iff)
  then have "viewE (edges ?w) ?w = removeEdge p old (viewE ?E u)" using w(3) v(3) by (simp add: removeEdge_def)
  moreover have "ainv ext {} (removeEdge p old (viewE ?E u))" using u(2,4) by (intro ainv_removeEdge) (auto simp: sinv_def)
  ultimately have iw: "inv ext ?w" using w(2) by (simp add: inv_def sinv_def)
  have "\<exists>w'. notifyNameChange B [pn] ?w = Some (?w\<lparr>world := w'\<rparr>)"
    using b eu by (intro notifyNameChange_returns [OF iw]) simp
  then have "wp (notifyNameChange B [pn] ?w) (inv ext)" using iw by (auto simp: wp_iff)
  moreover have "map_of (childNodes x2) old = Some pn" using view_getNode(3) [OF x2] eu pn by simp
  ultimately show ?thesis
    using x x2 u(1) y yt tn free' by (simp add: removeWithName_def addPathNodeFor_def)
qed

lemma renameChildTo_inv:
  assumes i: "inv ext s" and f: "getRef s f = Some x" and t: "getRef s target = Some y" and tgt: "0 < ext target"
    and g: "\<not> dead s (ref_node y)" and ne: "(ref_node x, old) \<noteq> (ref_node y, new)"
    and up: "\<And>pn. edges s (ref_node x) old = Some pn \<Longrightarrow> (pn, ref_node y) \<notin> (graph (edges s))\<^sup>*"
  shows "wp (renameChildTo B f old target new s) (inv ext)"
proof -
  let ?p = "ref_node x" and ?t = "ref_node y"
  obtain s1 where s1: "markChildDeleted B target new s = Some s1" "inv ext s1" "refHeap s1 = refHeap s"
    "length (nodeHeap s1) = length (nodeHeap s)" "edges s1 = (edges s)(?t := (edges s ?t)(new := None))"
    "\<And>q. dead s1 q \<longleftrightarrow> dead s q \<or> (\<exists>m. edges s ?t new = Some m \<and> q \<in> (graph (edges s1))\<^sup>* `` {m})"
    using markChildDeleted_inv [OF i t, of B new] by (auto simp: wp_iff)
  have a: "ainv ext {} (viewE (edges s) s)" and a1: "ainv ext {} (viewE (edges s1) s1)" "cwf s1"
    using inv_ainv [OF i] inv_ainv [OF s1(2)] by auto
  have sub: "graph (edges s1) \<subseteq> graph (edges s)" by (auto simp: s1(5) graph_def split: if_splits)
  have g1: "\<not> dead s1 ?t"
  proof
    assume "dead s1 ?t"
    then obtain m where m: "(?t, m) \<in> graph (edges s)" "(m, ?t) \<in> (graph (edges s1))\<^sup>*"
      using g by (auto simp: s1(6) graph_def)
    then have "(?t, ?t) \<in> (graph (edges s))\<^sup>+" using rtrancl_mono [OF sub] by (meson rtrancl_into_trancl2 subsetD)
    then show False
      using nodes_wf_acyclic [OF ainv_nodes [OF a]] by (simp add: graph_view acyclic_def)
  qed
  have gr: "getRef s1 = getRef s" using s1(3) by (simp add: getRef_def fun_eq_iff)
  have nt: "nodeAt s1 target = ?t" using t gr by (simp add: nodeAt_def)
  have "nodeAt s f < length (nodeHeap s)" using ainv_nodes [OF a] getRef_Some [OF f] by (auto simp: nodes_wf_def)
  then have p: "?p < length (nodeHeap s1)" using f s1(4) by simp
  obtain z where z: "getNode s1 ?p = Some z" using getNode_valid p by blast
  let ?rs = "case map_of (childRefs z) old of Some m \<Rightarrow> m | None \<Rightarrow> []"
  show ?thesis
  proof (cases "edges s1 ?p old")
    case None
    have "set ?rs = {}" using childRefs_set [OF a1(2) z, of old] inv_named_edge [OF s1(2), of ?p _ old] None by auto
    then have "?rs = []" by (simp only: set_empty)
    moreover have "inv ext (setNode ?p (z\<lparr>childNodes := AList.delete old (childNodes z)\<rparr>) s1)"
      using remove_edge_view [OF z a1(2), where n = old] None a1 by (simp add: inv_def sinv_def fun_upd_idem)
    moreover have "map_of (childNodes z) old = None" using None z by simp
    ultimately show ?thesis using s1(1) f gr z by (simp add: renameChildTo_def removeWithName_def)
  next
    case (Some pn)
    have e: "edges s ?p old = Some pn" using Some ne by (auto simp: s1(5) split: if_splits)
    have up': "(pn, nodeAt s1 target) \<notin> (graph (edges s1))\<^sup>*" using up [OF e] rtrancl_mono [OF sub] nt by auto
    have "wp (removeWithName B ?p old (Some (moveRef B target new)) s1) (\<lambda>(m, u). m = Some pn \<and>
      (\<exists>y. getRef u target = Some y \<and> (\<exists>t. getNode u (ref_node y) = Some t \<and> (\<exists>t'. addPathNodeFor new pn t = Some t' \<and>
        wp (notifyNameChange B [pn] (setNode (ref_node y) t' u)) (inv ext)))))"
      using s1(2) p tgt g1 nt ne Some up' by (intro move_subtree) (simp_all add: s1(5))
    then show ?thesis using s1(1) f gr by (auto simp: renameChildTo_def elim!: wp_mono)
  qed
qed

end
