(* ===== verification/P9_HandlersInv.thy ===== *)
theory P9_HandlersInv
  imports P9_MoveInv
begin

text \<open>
  Every request handler returns on every state that satisfies the invariant (no panic of the
  source is reached) and keeps the invariant, with the references held elsewhere unchanged: a
  handler drops every reference it takes, on every path, errors included.
\<close>

section \<open>The frame of a handler\<close>

lemma call_eq: "call g s = (fst (g (world s)), s\<lparr>world := snd (g (world s))\<rparr>)"
  by (simp add: call_def split_beta)

lemma LookupFID_inv:
  assumes "inv ext s"
  shows "wp (LookupFID f s) (\<lambda>(found, s'). case found of
      None \<Rightarrow> s' = s \<and> map_of (fids s) f = None
    | Some r \<Rightarrow> map_of (fids s) f = Some r \<and> inv (hold r ext) s' \<and> stable s s' \<and> world s' = world s)"
proof (cases "map_of (fids s) f")
  case None
  then show ?thesis by (simp add: LookupFID_def)
next
  case (Some r)
  have "0 < counts s r" using inv_fid_live [OF assms Some] .
  from IncRef_inv [OF assms this] Some show ?thesis by (auto simp: LookupFID_def elim: wp_mono)
qed

lemma wp_case_prod [simp]: "wp (case v of (a, b) \<Rightarrow> f a b) Q = (case v of (a, b) \<Rightarrow> wp (f a b) Q)"
  by (simp split: prod.split)

lemma DecRef_keeps: "inv (hold r ext) s \<Longrightarrow> wp (DecRef B r s) (\<lambda>(e, s'). inv ext s')"
  by (rule wp_mono [OF DecRef_inv]) auto

lemma withFID_inv:
  assumes i: "inv ext s"
    and body: "\<And>ref s1. map_of (fids s) f = Some ref \<Longrightarrow> inv (hold ref ext) s1 \<Longrightarrow> stable s s1 \<Longrightarrow> world s1 = world s \<Longrightarrow>
      wp (body ref s1) (\<lambda>(a, s2). inv (hold ref ext) s2)"
  shows "wp (withFID B f bad body s) (\<lambda>(a, s'). inv ext s')"
proof -
  have tail: "wp (body ref s1) (\<lambda>(r, s2). wp (DecRef B ref s2) (\<lambda>(e, s'). inv ext s'))"
    if "map_of (fids s) f = Some ref" "inv (hold ref ext) s1" "stable s s1" "world s1 = world s" for ref s1
    using body [OF that] by (rule wp_mono) (auto intro: DecRef_keeps)
  show ?thesis
    unfolding withFID_def wp_simps wp_case_prod
    by (rule wp_mono [OF LookupFID_inv [OF i]]) (auto split: option.splits simp: i intro: tail)
qed

text \<open>What a held reference gives inside a handler.\<close>

lemma held_by_ext:
  assumes "inv ext s" and "0 < ext r"
  obtains x where "getRef s r = Some x" "isDeleted s r = Some (dead s (ref_node x))"
    "ref_node x < length (nodeHeap s)" "0 < refs x"
proof -
  obtain x where x: "getRef s r = Some x" "0 < refs x" "ref_node x < length (nodeHeap s)"
    by (rule inv_live_getRef [OF assms(1) inv_held_live [OF assms]])
  obtain y where y: "getNode s (ref_node x) = Some y" using getNode_valid x(3) by blast
  from x y show thesis by (intro that [of x]) (simp_all add: isDeleted_def)
qed

lemma held_ref:
  assumes "inv (hold r ext) s"
  obtains x where "getRef s r = Some x" "isDeleted s r = Some (dead s (ref_node x))"
    "ref_node x < length (nodeHeap s)" "0 < refs x" "inv (hold r ext) s"
  by (rule held_by_ext [OF assms, of r]) (use assms that in auto)

lemma dirCheck_held:
  assumes "getRef s r = Some x" and "isDeleted s r = Some d"
  shows "dirCheck s r = Some (if d \<or> \<not> IsDir (ref_mode x) \<or> opened x then Some (errno EINVAL) else None)"
  using assms by (simp add: dirCheck_def)

lemma inv_setRef:
  assumes "getRef s r = Some x" and "refs x' = refs x" "ref_parent x' = ref_parent x" "ref_node x' = ref_node x"
  shows "inv ext (setRef r x' s) = inv ext s"
proof -
  have "viewE E (setRef r x' s) = viewE E s" for E
    using assms getRef_Some [OF assms(1)] by (auto simp: view_defs getRef_setRef fun_eq_iff)
  then show ?thesis by (simp add: inv_def sinv_def)
qed

lemma wp_if: "(b \<Longrightarrow> wp m Q) \<Longrightarrow> (\<not> b \<Longrightarrow> wp n Q) \<Longrightarrow> wp (if b then m else n) Q"
  by simp

section \<open>Handlers that only call the file\<close>

lemma session_inv:
  assumes "inv ext s"
  shows "wp (tversion_handle t s) (\<lambda>(r, s'). inv ext s')" "wp (tflush_handle tf s) (\<lambda>(r, s'). inv ext s')"
    "wp (tauth_handle ta s) (\<lambda>(r, s'). inv ext s')"
proof -
  have frame: "inv ext (s\<lparr>messageSize := a, cs_version := b, cs_baseVersion := c, readBufPool := d\<rparr>)" for a b c d
  proof -
    let ?t = "s\<lparr>messageSize := a, cs_version := b, cs_baseVersion := c, readBufPool := d\<rparr>"
    have g: "getRef ?t = getRef s" "getNode ?t = getNode s" by (simp_all add: getRef_def getNode_def fun_eq_iff)
    then have "edges ?t = edges s" "viewE E ?t = viewE E s" for E by (simp_all add: view_defs fun_eq_iff)
    then show ?thesis using assms by (simp add: inv_def sinv_def cwf_def)
  qed
  show "wp (tversion_handle t s) (\<lambda>(r, s'). inv ext s')"
    using assms frame by (auto simp: tversion_handle_def Let_def split: option.splits prod.splits)
qed (use assms in \<open>simp_all add: tflush_handle_def tauth_handle_def\<close>)

lemma file_calls_inv:
  assumes i: "inv ext s"
  shows "wp (treadlink_handle B t1 s) (\<lambda>(r, s'). inv ext s')" "wp (tfsync_handle B t2 s) (\<lambda>(r, s'). inv ext s')"
    "wp (treaddir_handle B t3 s) (\<lambda>(r, s'). inv ext s')" "wp (tgetattr_handle B t4 s) (\<lambda>(r, s'). inv ext s')"
    "wp (tsetattr_handle B t5 s) (\<lambda>(r, s'). inv ext s')" "wp (tstatfs_handle B t6 s) (\<lambda>(r, s'). inv ext s')"
    "wp (tlock_handle B t7 s) (\<lambda>(r, s'). inv ext s')" "wp (clunkHandleXattr B t8 s) (\<lambda>(r, s'). inv ext s')"
  unfolding treadlink_handle_def tfsync_handle_def treaddir_handle_def tgetattr_handle_def tsetattr_handle_def
    tstatfs_handle_def tlock_handle_def clunkHandleXattr_def
  by ((rule withFID_inv [OF i], erule held_ref,
      auto simp: call_eq apfst_def map_prod_def Let_def split: option.splits prod.splits)[1])+

lemma data_inv:
  assumes i: "inv ext s"
  shows "wp (tread_handle B t1 s) (\<lambda>(r, s'). inv ext s')" "wp (twrite_handle B t2 s) (\<lambda>(r, s'). inv ext s')"
    "wp (tlopen_handle B t3 s) (\<lambda>(r, s'). inv ext s')" "wp (txattrcreate_handle B t4 s) (\<lambda>(r, s'). inv ext s')"
proof -
  have data: "inv e (snd (tread_data B t n x u)) = inv e u" for e t n x u
    by (auto simp: tread_data_def Let_def call_eq split: xattrOp.splits option.splits prod.splits)
  show "wp (tread_handle B t1 s) (\<lambda>(r, s'). inv ext s')"
    unfolding tread_handle_def
    by (rule withFID_inv [OF i], erule held_ref) (auto simp: split_beta data split: option.splits)
  show "wp (twrite_handle B t2 s) (\<lambda>(r, s'). inv ext s')"
    unfolding twrite_handle_def
    by (rule withFID_inv [OF i], erule held_ref)
       (auto simp: Let_def call_eq inv_setRef split: xattrOp.splits)
  show "wp (tlopen_handle B t3 s) (\<lambda>(r, s'). inv ext s')"
    unfolding tlopen_handle_def
    by (rule withFID_inv [OF i], erule held_ref)
       (auto simp: call_eq inv_setRef split: sum.splits prod.splits)
  show "wp (txattrcreate_handle B t4 s) (\<lambda>(r, s'). inv ext s')"
    unfolding txattrcreate_handle_def by (rule withFID_inv [OF i], erule held_ref) (auto simp: inv_setRef)
qed

section \<open>Clunk, directory operations\<close>

lemma DeleteFID_keeps: "inv ext s \<Longrightarrow> wp (DeleteFID B f s) (\<lambda>(e, s'). inv ext s')"
  by (rule wp_mono [OF DeleteFID_inv]) auto

lemma tclunk_inv:
  assumes "inv ext s" shows "wp (tclunk_handle B t s) (\<lambda>(r, s'). inv ext s')"
  unfolding tclunk_handle_def wp_simps wp_case_prod
  by (rule wp_mono [OF file_calls_inv(8) [OF assms]], clarify, rule wp_mono [OF DeleteFID_keeps])
     (auto split: option.splits)

lemma markChildDeleted_keeps: "inv ext s \<Longrightarrow> getRef s f = Some x \<Longrightarrow> wp (markChildDeleted B f name s) (inv ext)"
  by (rule wp_mono [OF markChildDeleted_inv]) auto

text \<open>A live reference that is not deleted has a registered name at its live parent.\<close>

lemma live_parent_name:
  assumes i: "inv ext s" and x: "getRef s r = Some x" "0 < refs x" and q: "ref_parent x = Some q" and g: "\<not> dead s (ref_node x)"
  obtains y p n where "getRef s q = Some y" "0 < refs y" "getNode s (ref_node y) = Some p" "nameFor p r = Some n"
    "isDeleted s q = Some False"
proof -
  have a: "ainv ext {} (viewE (edges s) s)" using inv_ainv [OF i] by simp
  have pr: "0 < counts s r" "parents s r = Some q" "nodeAt s r = ref_node x" using x q by simp_all
  have "0 < counts s q" using ainv_parent_live [OF a, of r q] pr by simp
  then obtain y where y: "getRef s q = Some y" "0 < refs y" "ref_node y < length (nodeHeap s)"
    by (rule inv_live_getRef [OF i])
  obtain p where p: "getNode s (ref_node y) = Some p" using getNode_valid y(3) by blast
  obtain n where "names s (ref_node y) r = Some n"
    using registered_name [OF ainv_registered [OF a], of r q] pr g y(1) by auto
  moreover have "\<not> dead s (nodeAt s q)" using parent_above(1) [OF a, of r q] pr g by (simp add: refEdges_def)
  ultimately show thesis using y p by (intro that [of y p n]) (auto simp: isDeleted_def)
qed

lemma tremove_inv:
  fixes s :: "('w, 'f) srv"
  assumes i: "inv ext s" shows "wp (tremove_handle B t s) (\<lambda>(r, s'). inv ext s')"
  unfolding tremove_handle_def
proof (rule withFID_inv [OF i], erule held_ref)
  fix ref x and s1 :: "('w, 'f) srv" assume x: "getRef s1 ref = Some x" "isDeleted s1 ref = Some (dead s1 (ref_node x))" "0 < refs x"
    and i1: "inv (hold ref ext) s1"
  have global: "wp (tremove_global B ref s1) (\<lambda>(e, s2). inv (hold ref ext) s2)"
  proof (cases "ref_parent x = None \<or> dead s1 (ref_node x)")
    case True
    then show ?thesis using x i1 by (auto simp: tremove_global_def split: option.split)
  next
    case False
    then obtain q where q: "ref_parent x = Some q" "\<not> dead s1 (ref_node x)" by auto
    have c: "0 < refs x" using x by simp
    obtain y p n where y: "getRef s1 q = Some y" "getNode s1 (ref_node y) = Some p" "nameFor p ref = Some n"
      by (rule live_parent_name [OF i1 x(1) c q])
    have "wp (markChildDeleted B q n (s1\<lparr>world := w\<rparr>)) (inv (hold ref ext))" for w
      using i1 y(1) by (intro markChildDeleted_keeps) auto
    then show ?thesis using x q y i1 by (auto simp: tremove_global_def call_eq split: option.split)
  qed
  show "wp (do { (err, s) \<leftarrow> tremove_global B ref s1; (fidErr, s) \<leftarrow> DeleteFID B (tremove_fid t) s;
      case fidErr of None \<Rightarrow> Some (respond_unit (Rremove ()) err, s) | Some e \<Rightarrow> Some (newErr e, s) })
    (\<lambda>(a, s2). inv (hold ref ext) s2)"
    unfolding wp_simps wp_case_prod
    by (rule wp_mono [OF global], clarify, rule wp_mono [OF DeleteFID_keeps]) (auto split: option.splits)
qed

lemma inDirectory_inv:
  assumes i: "inv ext s" shows "wp (inDirectory B name f g s) (\<lambda>(r, s'). inv ext s')"
proof -
  have "wp (withFID B f (Inl (errno EBADF)) (\<lambda>ref s. do { c \<leftarrow> dirCheck s ref; x \<leftarrow> getRef s ref;
      case c of Some e \<Rightarrow> Some (Inl e, s) | None \<Rightarrow> Some (call (g (ref_file x)) s) }) s) (\<lambda>(r, s'). inv ext s')"
    by (rule withFID_inv [OF i], erule held_ref) (auto simp: dirCheck_held call_eq)
  then show ?thesis using i by (auto simp: inDirectory_def split: option.split)
qed

lemma directory_ops_inv:
  assumes "inv ext s"
  shows "wp (tsymlink_handle B t1 s) (\<lambda>(r, s'). inv ext s')" "wp (tusymlink_handle B t2 s) (\<lambda>(r, s'). inv ext s')"
    "wp (tmknod_handle B t3 s) (\<lambda>(r, s'). inv ext s')" "wp (tumknod_handle B t4 s) (\<lambda>(r, s'). inv ext s')"
    "wp (tmkdir_handle B t5 s) (\<lambda>(r, s'). inv ext s')" "wp (tumkdir_handle B t6 s) (\<lambda>(r, s'). inv ext s')"
  by (simp_all add: inDirectory_inv [OF assms, unfolded split_beta] tsymlink_handle_def tusymlink_handle_def tmknod_handle_def tumknod_handle_def tmkdir_handle_def
      tumkdir_handle_def tsymlink_do_def tmknod_do_def tmkdir_do_def split_beta)

text \<open>Two lookups, the second inside the first.\<close>

lemma withFID2_inv:
  fixes s :: "('w, 'f) srv"
  assumes i: "inv ext s"
    and body: "\<And>r1 r2 (s2 :: ('w, 'f) srv). inv (hold r2 (hold r1 ext)) s2 \<Longrightarrow> inv (hold r1 (hold r2 ext)) s2 \<Longrightarrow>
      stable s s2 \<Longrightarrow> world s2 = world s \<Longrightarrow> wp (body r1 r2 s2) (\<lambda>(a, s3). inv (hold r2 (hold r1 ext)) s3)"
  shows "wp (withFID B f1 bad (\<lambda>r1. withFID B f2 bad (body r1)) s) (\<lambda>(a, s'). inv ext s')"
proof (rule withFID_inv [OF i])
  fix r1 and s1 :: "('w, 'f) srv" assume i1: "inv (hold r1 ext) s1" and st1: "stable s s1" "world s1 = world s"
  show "wp (withFID B f2 bad (body r1) s1) (\<lambda>(a, s2). inv (hold r1 ext) s2)"
  proof (rule withFID_inv [OF i1])
    fix r2 and s2 :: "('w, 'f) srv" assume "inv (hold r2 (hold r1 ext)) s2" "stable s1 s2" "world s2 = world s1"
    with st1 stable_trans [OF st1(1)] show "wp (body r1 r2 s2) (\<lambda>(a, s2). inv (hold r2 (hold r1 ext)) s2)"
      by (intro body) (simp_all add: hold_commute)
  qed
qed

lemma tlink_inv:
  assumes i: "inv ext s" shows "wp (tlink_handle B t s) (\<lambda>(r, s'). inv ext s')"
proof -
  have "wp (withFID B (tlink_Directory t) (newErr (errno EBADF)) (\<lambda>ref. withFID B (tlink_Target t) (newErr (errno EBADF)) (tlink_link B t ref)) s)
    (\<lambda>(a, s2). inv ext s2)"
    by (rule withFID2_inv [OF i], erule held_ref, erule held_ref) (auto simp: tlink_link_def dirCheck_held call_eq)
  then show ?thesis using i by (auto simp: tlink_handle_def split: option.split)
qed

lemma unlink_inv:
  fixes s :: "('w, 'f) srv"
  assumes i: "inv ext s" and x: "getRef s ref = Some x" "isDeleted s ref = Some (dead s (ref_node x))"
    and p: "ref_node x < length (nodeHeap s)"
  shows "wp (tunlinkat_unlink B t ref s) (\<lambda>(r, s'). inv ext s')"
proof -
  have m: "wp (markChildDeleted B ref n (v\<lparr>world := w\<rparr>)) (inv ext)" if "inv ext v" "refHeap v = refHeap s" for n w and v :: "('w, 'f) srv"
  proof (rule markChildDeleted_keeps)
    show "getRef (v\<lparr>world := w\<rparr>) ref = Some x" using x(1) that(2) by (simp add: getRef_def split: if_splits)
  qed (use that in simp)
  have "wp (pathNodeFor (ref_node x) n s) (\<lambda>(pn, v). case call (UnlinkAt B (ref_file x) n fl) v of (a, v) \<Rightarrow>
      wp (case a of None \<Rightarrow> do { v \<leftarrow> markChildDeleted B ref n v; Some (Runlinkat (), v) } | Some err \<Rightarrow> Some (newErr err, v))
      (\<lambda>(a, v). inv ext v))" if g: "\<not> dead s (ref_node x)" for n fl
    by (rule wp_mono [OF pathNodeFor_inv [OF i p g]]) (auto simp: call_eq m split: option.split)
  with x i show ?thesis by (auto simp: tunlinkat_unlink_def dirCheck_held)
qed

lemma tunlinkat_inv:
  assumes i: "inv ext s" shows "wp (tunlinkat_handle B t s) (\<lambda>(r, s'). inv ext s')"
proof -
  have "wp (withFID B (tunlinkat_Directory t) (newErr (errno EBADF)) (tunlinkat_unlink B t) s) (\<lambda>(r, s'). inv ext s')"
    by (rule withFID_inv [OF i], erule held_ref) (auto intro: unlink_inv)
  then show ?thesis using i by (auto simp: tunlinkat_handle_def split: option.split)
qed

section \<open>Renaming\<close>

text \<open>
  What the server relies on in the file system: a rename of an entry to a directory at or below
  that entry fails, as \<^verbatim>\<open>rename(2)\<close> does with EINVAL. Files are identified by the nodes of the path
  tree that the references to them have.
\<close>

definition rename_safe :: "('w, 'f) backend \<Rightarrow> ('w, 'f) srv \<Rightarrow> bool" where
  "rename_safe B s \<longleftrightarrow> (\<forall>r x t y old new w pn.
     getRef s r = Some x \<longrightarrow> getRef s t = Some y \<longrightarrow>
     RenameAt B (ref_file x) old (ref_file y) new (world s) = (None, w) \<longrightarrow>
     edges s (ref_node x) old = Some pn \<longrightarrow> (pn, ref_node y) \<notin> (graph (edges s))\<^sup>*)"

lemma stable_getRef_back:
  assumes "stable s s'" and "getRef s' r = Some x'"
  obtains x c where "getRef s r = Some x" "x' = x\<lparr>refs := c\<rparr>"
proof -
  obtain x where x: "getRef s r = Some x"
    using getRef_valid getRef_Some [OF assms(2)] stable_lengths [OF assms(1)] by metis
  from stable_getRef [OF assms(1) x] assms(2) x show thesis by (auto intro: that)
qed

lemma rename_safe_stable:
  assumes "rename_safe B s" and "stable s s'" "world s' = world s"
  shows "rename_safe B s'"
  unfolding rename_safe_def
proof (intro allI impI)
  fix r x t y old new w pn
  assume a: "getRef s' r = Some x" "getRef s' t = Some y" "RenameAt B (ref_file x) old (ref_file y) new (world s') = (None, w)"
    "edges s' (ref_node x) old = Some pn"
  obtain x0 c where x0: "getRef s r = Some x0" "x = x0\<lparr>refs := c\<rparr>" using stable_getRef_back [OF assms(2) a(1)] .
  obtain y0 d where y0: "getRef s t = Some y0" "y = y0\<lparr>refs := d\<rparr>" using stable_getRef_back [OF assms(2) a(2)] .
  have "edges s' = edges s" by (rule stable_view(1) [OF assms(2)])
  with a x0 y0 assms(1,3) show "(pn, ref_node y) \<notin> (graph (edges s'))\<^sup>*"
    unfolding rename_safe_def by (metis fidRef.select_convs(1,7) fidRef.surjective fidRef.update_convs(3))
qed

lemma renameChildTo_safe:
  assumes i: "inv ext s" and f: "getRef s f = Some x" and t: "getRef s target = Some y" and tgt: "0 < ext target"
    and safe: "rename_safe B s" and ok: "RenameAt B (ref_file x) old (ref_file y) new (world s) = (None, w)"
    and g: "\<not> dead s (ref_node y)" and ne: "\<not> (ref_node x = ref_node y \<and> old = new)"
  shows "wp (renameChildTo B f old target new (s\<lparr>world := w\<rparr>)) (inv ext)"
proof (rule renameChildTo_inv)
  fix pn assume "edges (s\<lparr>world := w\<rparr>) (ref_node x) old = Some pn"
  with f t ok safe show "(pn, ref_node y) \<notin> (graph (edges (s\<lparr>world := w\<rparr>)))\<^sup>*"
    unfolding rename_safe_def by simp blast
qed (use i f t tgt g ne in auto)

lemma trenameat_global_inv:
  assumes i: "inv ext s" "0 < ext ref" "0 < ext refTarget" and safe: "rename_safe B s"
  shows "wp (trenameat_global B t ref refTarget s) (\<lambda>(e, s'). inv ext s')"
proof -
  obtain x where x: "getRef s ref = Some x" "isDeleted s ref = Some (dead s (ref_node x))"
    by (rule held_by_ext [OF i(1,2)])
  obtain y where y: "getRef s refTarget = Some y" "isDeleted s refTarget = Some (dead s (ref_node y))"
    by (rule held_by_ext [OF i(1,3)])
  obtain err w where r: "RenameAt B (ref_file x) (trenameat_OldName t) (ref_file y) (trenameat_NewName t) (world s) = (err, w)"
    by force
  have "wp (renameChildTo B ref (trenameat_OldName t) refTarget (trenameat_NewName t) (s\<lparr>world := w\<rparr>)) (inv ext)"
    if "err = None" "\<not> dead s (ref_node y)" "\<not> (ref_node x = ref_node y \<and> trenameat_OldName t = trenameat_NewName t)"
    using r that by (intro renameChildTo_safe [OF i(1) x(1) y(1) i(3) safe]) simp_all
  with x y r i(1) show ?thesis by (auto simp: trenameat_global_def call_eq split: option.split)
qed

lemma trename_global_inv:
  assumes i: "inv ext s" "0 < ext ref" "0 < ext refTarget" and safe: "rename_safe B s"
  shows "wp (trename_global B t ref refTarget s) (\<lambda>(e, s'). inv ext s')"
proof -
  obtain x where x: "getRef s ref = Some x" "0 < refs x" "isDeleted s ref = Some (dead s (ref_node x))"
    by (rule held_by_ext [OF i(1,2)])
  obtain y where y: "getRef s refTarget = Some y" "isDeleted s refTarget = Some (dead s (ref_node y))"
    by (rule held_by_ext [OF i(1,3)])
  show ?thesis
  proof (cases "ref_parent x = None \<or> dead s (ref_node x) \<or> dead s (ref_node y) \<or> \<not> IsDir (ref_mode y)")
    case True
    then show ?thesis using x y i(1) by (auto simp: trename_global_def split: option.split)
  next
    case False
    then obtain q where q: "ref_parent x = Some q" "\<not> dead s (ref_node x)" by auto
    obtain z p n where z: "getRef s q = Some z" "getNode s (ref_node z) = Some p" "nameFor p ref = Some n" "isDeleted s q = Some False"
      by (rule live_parent_name [OF i(1) x(1,2) q])
    obtain err w where r: "RenameAt B (ref_file z) n (ref_file y) (trename_Name t) (world s) = (err, w)" by force
    have "wp (renameChildTo B q n refTarget (trename_Name t) (s\<lparr>world := w\<rparr>)) (inv ext)"
      if "err = None" "\<not> (ref_node z = ref_node y \<and> n = trename_Name t)"
      using r that False by (intro renameChildTo_safe [OF i(1) z(1) y(1) i(3) safe]) simp_all
    with x y z q r False i(1) show ?thesis by (auto simp: trename_global_def call_eq split: option.split)
  qed
qed

lemma rename_inv:
  assumes i: "inv ext s" and safe: "rename_safe B s"
  shows "wp (trenameat_handle B t1 s) (\<lambda>(r, s'). inv ext s')" "wp (trename_handle B t2 s) (\<lambda>(r, s'). inv ext s')"
proof -
  have "wp (withFID B f1 (newErr (errno EBADF)) (\<lambda>ref. withFID B f2 (newErr (errno EBADF)) (\<lambda>refTarget s. do {
      (err, s) \<leftarrow> trenameat_global B t1 ref refTarget s; Some (respond_unit (Rrenameat ()) err, s) })) s) (\<lambda>(r, s'). inv ext s')" for f1 f2
    unfolding wp_simps
    by (rule withFID2_inv [OF i], unfold wp_simps wp_case_prod, rule wp_mono [OF trenameat_global_inv])
       (use safe in \<open>auto intro: rename_safe_stable\<close>)
  then show "wp (trenameat_handle B t1 s) (\<lambda>(r, s'). inv ext s')"
    using i by (auto simp: trenameat_handle_def split: option.split)
  have "wp (withFID B f1 (newErr (errno EBADF)) (\<lambda>ref. withFID B f2 (newErr (errno EBADF)) (\<lambda>refTarget s. do {
      (err, s) \<leftarrow> trename_global B t2 ref refTarget s; Some (respond_unit (Rrename ()) err, s) })) s) (\<lambda>(r, s'). inv ext s')" for f1 f2
    by (rule withFID2_inv [OF i], unfold wp_simps wp_case_prod, rule wp_mono [OF trename_global_inv])
       (use safe in \<open>auto intro: rename_safe_stable\<close>)
  then show "wp (trename_handle B t2 s) (\<lambda>(r, s'). inv ext s')"
    using i by (auto simp: trename_handle_def split: option.split)
qed

section \<open>Walk, create and attach\<close>

lemma InsertFID_keeps:
  assumes "wp (IncRef newRef s) (inv (hold newRef ext))"
  shows "wp (InsertFID B f newRef s) (inv ext)"
  using assms InsertFID_inv by (auto simp: wp_iff [of "IncRef _ _"])

lemma InsertFID_held:
  assumes "inv (hold newRef ext) s"
  shows "wp (InsertFID B f newRef s) (inv (hold newRef ext))"
  by (rule InsertFID_keeps, rule wp_mono [OF IncRef_inv [OF assms inv_held_live [OF assms]]]) auto

lemma walkOne_world: "\<exists>w. snd (walkOne B qids from ns getattr s) = s\<lparr>world := w\<rparr>"
proof -
  let ?t = "snd (walkOne B qids from ns getattr s)"
  have "?t\<lparr>world := world s\<rparr> = s"
    by (simp add: walkOne_def call_eq Let_def split_beta split: sum.split)
  then have "s\<lparr>world := world ?t\<rparr> = (?t\<lparr>world := world s\<rparr>)\<lparr>world := world ?t\<rparr>" by (rule arg_cong [OF sym])
  also have "\<dots> = ?t" by simp
  finally show ?thesis by metis
qed

lemma alloc_case: "(case allocRef x s of (r, t) \<Rightarrow> f r t) = f (length (refHeap s)) (snd (allocRef x s))"
  by (simp add: allocRef_def)

text \<open>The states a walk ends in: the new reference is held in place of, or beside, the one walked from.\<close>

definition walk_post ::
  "(ref_addr \<Rightarrow> nat) \<Rightarrow> (ref_addr \<Rightarrow> nat) \<Rightarrow> goerror + QID list \<times> ref_addr \<times> AttrMask \<times> Attr \<Rightarrow> ('w, 'f) srv \<Rightarrow> bool" where
  "walk_post failed walked res s = (case res of Inl e \<Rightarrow> inv failed s
     | Inr (qids, newRef, valid, attr) \<Rightarrow> inv (hold newRef walked) s)"

lemma walk_post_simps [simp]:
  "walk_post e1 e2 (Inl e) s = inv e1 s" "walk_post e1 e2 (Inr (qids, newRef, valid, attr)) s = inv (hold newRef e2) s"
  by (simp_all add: walk_post_def)

lemma walkStep_inv:
  assumes i: "inv (hold walkRef ext) s"
  shows "wp (walkStep B qids walkRef name s) (\<lambda>(res, s'). walk_post (hold walkRef ext) ext res s')"
proof -
  obtain x where x: "getRef s walkRef = Some x" "isDeleted s walkRef = Some (dead s (ref_node x))"
    "ref_node x < length (nodeHeap s)" by (rule held_ref [OF i])
  obtain res w where w: "walkOne B qids (ref_file x) [name] True s = (res, s\<lparr>world := w\<rparr>)"
    using walkOne_world [of B qids "ref_file x" "[name]" True s] by (metis prod.collapse)
  have i': "inv (hold walkRef ext) (s\<lparr>world := w\<rparr>)" "\<not> dead s (ref_node x) \<Longrightarrow> \<not> dead (s\<lparr>world := w\<rparr>) (ref_node x)"
    "ref_node x < length (nodeHeap (s\<lparr>world := w\<rparr>))" using i x by simp_all
  have node: "wp (pathNodeFor (ref_node x) name (s\<lparr>world := w\<rparr>)) (\<lambda>(pn, u). inv (hold walkRef ext) u \<and>
      edges u (ref_node x) name = Some pn \<and> getRef u walkRef = Some x)" if "\<not> dead s (ref_node x)"
    by (rule wp_mono [OF pathNodeFor_inv [OF i'(1) i'(3) i'(2) [OF that]]]) (use x in \<open>auto simp: getRef_def split: if_splits\<close>)
  show ?thesis
  proof (cases "dead s (ref_node x)")
    case True
    with x i show ?thesis by (simp add: walkStep_def)
  next
    case False
    show ?thesis
      using x False w i'(1)
      by (auto simp: walkStep_def alloc_case Let_def split: sum.split intro!: wp_mono [OF node [OF False]] wp_mono [OF spawn_child])
  qed
qed

lemma walkLoop_inv:
  assumes "inv (hold walkRef ext) s"
  shows "wp (walkLoop B qids walkRef valid attr ns s) (\<lambda>(res, s'). walk_post ext ext res s')"
  using assms
proof (induction ns arbitrary: qids walkRef valid attr s)
  case (Cons n ns)
  obtain x where x: "getRef s walkRef = Some x" by (rule held_ref [OF Cons.prems])
  have dec: "wp (DecRef B walkRef u) (\<lambda>(err, u'). inv ext u')" if "inv (hold walkRef ext) u" for u
    by (rule DecRef_keeps [OF that])
  show ?case
  proof (cases "IsDir (ref_mode x)")
    case False
    with x dec [OF Cons.prems] show ?thesis by simp
  next
    case True
    have "wp (walkStep B qids walkRef n s) (\<lambda>(res, s'). wp (case res of Inl e \<Rightarrow> do { (err, s') \<leftarrow> DecRef B walkRef s'; Some (Inl e, s') }
      | Inr (qids, newRef, valid, attr) \<Rightarrow> walkLoop B qids newRef valid attr ns s') (\<lambda>(res, s'). walk_post ext ext res s'))"
      by (rule wp_mono [OF walkStep_inv [OF Cons.prems]])
         (auto split: sum.splits intro!: Cons.IH dec simp del: hold_apply)
    with x True show ?thesis by simp
  qed
qed simp

lemma cloneRef_inv:
  assumes i: "inv (hold ref ext) s"
  shows "wp (cloneRef B ref getattr s) (\<lambda>(res, s'). walk_post (hold ref ext) (hold ref ext) res s')"
proof -
  obtain x where x: "getRef s ref = Some x" "isDeleted s ref = Some (dead s (ref_node x))" "ref_node x < length (nodeHeap s)" "0 < refs x"
    by (rule held_ref [OF i])
  obtain res w where w: "walkOne B [] (ref_file x) [] getattr s = (res, s\<lparr>world := w\<rparr>)"
    using walkOne_world [of B "[]" "ref_file x" "[]" getattr s] by (metis prod.collapse)
  let ?u = "s\<lparr>world := w\<rparr>" let ?new = "length (refHeap s)"
  have iu: "inv (hold ref ext) ?u" using i by simp
  show ?thesis
  proof (cases res)
    case (Inl e)
    with x w iu show ?thesis by (simp add: cloneRef_def)
  next
    case (Inr r)
    obtain qids sf valid attr where r: "r = (qids, sf, valid, attr)" by (cases r)
    let ?x = "\<lparr>ref_file = sf, ref_xattr = noXattr, refs = 0, opened = False,
       ref_mode = ref_mode x, openFlags = 0, ref_node = ref_node x, ref_parent = ref_parent x\<rparr>"
    let ?v = "snd (allocRef ?x ?u)"
    have del: "isDeleted ?v ?new = Some (dead s (ref_node x))"
      using getNode_valid [OF x(3)] by (auto simp: isDeleted_def getRef_allocRef)
    show ?thesis
    proof (cases "ref_parent x")
      case None
      have "wp (IncRef ?new ?v) (inv (hold ?new (hold ref ext)))"
        using spawn_root [OF iu, of ?x] None x(3) by simp
      with None x(1) w Inr r show ?thesis by (simp add: cloneRef_def alloc_case)
    next
      case (Some q)
      have a: "ainv (hold ref ext) {} (viewE (edges s) s)" using inv_ainv [OF i] by simp
      have ql: "0 < counts s q" using ainv_parent_live [OF a, of ref q] x Some by simp
      obtain y where y: "getRef s q = Some y" "ref_node y < length (nodeHeap s)" by (rule inv_live_getRef [OF i ql])
      obtain p where p: "getNode s (ref_node y) = Some p" using getNode_valid y(2) by blast
      have yv: "getRef ?v q = Some y" using y(1) getRef_Some [OF y(1)] by (simp add: getRef_allocRef)
      have spawn: "wp (IncRef q t) (\<lambda>t'. wp (IncRef ?new t') (inv (hold ?new (hold ref ext))))"
        if "allocated ?x (ref_node y) name ?u t"
          "case name of None \<Rightarrow> dead s (ref_node x) | Some n \<Rightarrow> edges s (ref_node y) n = Some (ref_node x)" for name t
      proof -
        have "wp (IncRef q t) (\<lambda>t'. wp (IncRef (length (refHeap ?u)) t') (inv (hold (length (refHeap ?u)) (hold ref ext))))"
          by (rule spawn_child_inc [OF iu _ _ _ _ that(1)]) (use ql y(1) Some x(3) that(2) in \<open>auto split: option.splits\<close>)
        then show ?thesis by simp
      qed
      show ?thesis
      proof (cases "dead s (ref_node x)")
        case True
        have "wp (IncRef q ?v) (\<lambda>t'. wp (IncRef ?new t') (inv (hold ?new (hold ref ext))))"
          using spawn [of None ?v] allocated_alloc [OF iu, of ?x "ref_node y"] True by simp
        with True Some x(1) w Inr r yv del show ?thesis by (simp add: cloneRef_def alloc_case)
      next
        case False
        obtain y' p' n where "getRef s q = Some y'" "getNode s (ref_node y') = Some p'" "nameFor p' ref = Some n"
          by (rule live_parent_name [OF i x(1,4) Some False])
        with y(1) p have n: "nameFor p ref = Some n" by simp
        then have "names s (ref_node y) ref = Some n" using p by simp
        from inv_named_edge [OF i this] have e: "edges s (ref_node y) n = Some (ref_node x)" using x(1) by simp
        have "wp (addChild (ref_node y) ?new n ?v) (\<lambda>t. wp (IncRef q t) (\<lambda>t'. wp (IncRef ?new t') (inv (hold ?new (hold ref ext)))))"
          using wp_mono [OF allocated_addChild [OF iu, of "ref_node y" n ?x] spawn [of "Some n"]] y(2) e by simp
        with False Some x(1) w Inr r yv del p n show ?thesis by (simp add: cloneRef_def alloc_case)
      qed
    qed
  qed
qed

lemma doWalk_inv:
  assumes i: "inv (hold ref ext) s"
  shows "wp (doWalk B ref ns getattr s) (\<lambda>(res, s'). walk_post (hold ref ext) (hold ref ext) res s')"
proof -
  have "wp (IncRef ref s) (\<lambda>s'. wp (walkLoop B [] ref AttrMask_zero Attr_zero ns s') (\<lambda>(res, s'). walk_post (hold ref ext) (hold ref ext) res s'))"
    by (rule wp_mono [OF IncRef_inv [OF i inv_held_live [OF i]]]) (auto intro: walkLoop_inv)
  with cloneRef_inv [OF i] i show ?thesis by (auto simp: doWalk_def split: option.split)
qed

lemma install_inv:
  assumes i: "inv (hold newRef ext) s"
  shows "wp (InsertFID B f newRef s) (\<lambda>s'. wp (DecRef B newRef s') (\<lambda>(e, s''). inv ext s''))"
  by (rule wp_mono [OF InsertFID_held [OF i] DecRef_keeps])

lemma walk_inv:
  fixes s :: "('w, 'f) srv"
  assumes i: "inv ext s"
  shows "wp (walk_handle B f newFID ns getattr mk s) (\<lambda>(r, s'). inv ext s')"
  unfolding walk_handle_def
proof (rule withFID_inv [OF i], erule held_ref)
  fix ref x and s1 :: "('w, 'f) srv" assume x: "getRef s1 ref = Some x" and i1: "inv (hold ref ext) s1"
  have "wp (doWalk B ref ns getattr s1) (\<lambda>(res, s2). wp (case res of Inl err \<Rightarrow> Some (newErr err, s2)
      | Inr (qids, newRef, valid, attr) \<Rightarrow> do { s2 \<leftarrow> InsertFID B newFID newRef s2; (err, s2) \<leftarrow> DecRef B newRef s2; Some (mk qids valid attr, s2) })
      (\<lambda>(a, s2). inv (hold ref ext) s2))"
    by (rule wp_mono [OF doWalk_inv [OF i1]]) (auto split: sum.splits intro: install_inv simp del: hold_apply)
  with x i1 show "wp (walk_install B f newFID ns getattr mk ref s1) (\<lambda>(a, s2). inv (hold ref ext) s2)"
    by (simp add: walk_install_def)
qed

lemma create_child_inv:
  fixes s :: "('w, 'f) srv"
  assumes i: "inv (hold ref ext) s" and x: "getRef s ref = Some x" "0 < refs x" "ref_node x < length (nodeHeap s)"
    and g: "\<not> dead s (ref_node x)" and y: "\<And>pn. refs (y pn) = 0 \<and> ref_node (y pn) = pn \<and> ref_parent (y pn) = Some ref"
  shows "wp (pathNodeFor (ref_node x) n s) (\<lambda>(pn, u). wp (addChild (ref_node x) (length (refHeap u)) n (snd (allocRef (y pn) u)))
    (\<lambda>v. wp (IncRef ref v) (\<lambda>v. wp (InsertFID B f (length (refHeap u)) v) (inv (hold ref ext)))))"
proof (rule wp_mono [OF pathNodeFor_inv [OF i x(3) g]], clarify)
  fix pn and u :: "('w, 'f) srv"
  assume u: "inv (hold ref ext) u" "edges u (ref_node x) n = Some pn" "refHeap u = refHeap s" "pn < length (nodeHeap u)"
  have r: "getRef u ref = Some x" using x(1) u(3) by (simp add: getRef_def split: if_splits)
  have c: "0 < counts u ref" using r x(2) by simp
  have "ainv (hold ref ext) {} (viewE (edges u) u)" using inv_ainv [OF u(1)] by simp
  from inv_graph(2) [OF this, of "ref_node x" pn] have p: "ref_node x < length (nodeHeap u)" using u(2) by (auto simp: graph_def)
  show "wp (addChild (ref_node x) (length (refHeap u)) n (snd (allocRef (y pn) u)))
    (\<lambda>v. wp (IncRef ref v) (\<lambda>v. wp (InsertFID B f (length (refHeap u)) v) (inv (hold ref ext))))"
  proof (rule wp_mono [OF allocated_addChild [OF u(1) p]])
    fix v assume v: "allocated (y pn) (ref_node x) (Some n) u v"
    show "wp (IncRef ref v) (\<lambda>v. wp (InsertFID B f (length (refHeap u)) v) (inv (hold ref ext)))"
      by (rule wp_mono [OF spawn_child_inc [OF u(1) c r _ _ v] InsertFID_keeps]) (use u y in auto)
  qed
qed

lemma tlcreate_create_inv:
  assumes i: "inv (hold ref ext) s" and x: "getRef s ref = Some x" "isDeleted s ref = Some (dead s (ref_node x))"
    "ref_node x < length (nodeHeap s)" "0 < refs x"
  shows "wp (tlcreate_create B t uid ref s) (\<lambda>(r, s'). inv (hold ref ext) s')"
proof -
  note child = create_child_inv [where s = "s\<lparr>world := w\<rparr>" and y = "\<lambda>pn. \<lparr>ref_file = nsf, ref_xattr = noXattr, refs = 0,
    opened = True, ref_mode = ModeRegular, openFlags = fl, ref_node = pn, ref_parent = Some ref\<rparr>" for w nsf fl]
  have "wp (pathNodeFor (ref_node x) n (s\<lparr>world := w\<rparr>)) (\<lambda>(pn, u). wp (addChild (ref_node x) (length (refHeap u)) n (snd (allocRef
      \<lparr>ref_file = nsf, ref_xattr = noXattr, refs = 0, opened = True, ref_mode = ModeRegular, openFlags = fl, ref_node = pn, ref_parent = Some ref\<rparr> u)))
      (\<lambda>v. wp (IncRef ref v) (\<lambda>v. wp (InsertFID B f (length (refHeap u)) v) (inv (hold ref ext)))))"
    if "\<not> dead s (ref_node x)" for n w nsf fl f
    using i x that by (intro child) simp_all
  with i x show ?thesis
    by (auto simp: tlcreate_create_def dirCheck_held call_eq alloc_case Let_def split: sum.split)
qed

lemma tlcreate_inv:
  assumes i: "inv ext s"
  shows "wp (tlcreate_handle B t s) (\<lambda>(r, s'). inv ext s')" "wp (tucreate_handle B tu s) (\<lambda>(r, s'). inv ext s')"
proof -
  have "wp (withFID B f bad (tlcreate_create B t uid) s) (\<lambda>(r, s'). inv ext s')" for f bad t uid
    by (rule withFID_inv [OF i], erule held_ref) (auto intro: tlcreate_create_inv simp del: hold_apply)
  then have d: "wp (tlcreate_do B t uid s) (\<lambda>(r, s'). inv ext s')" for t uid
    using i by (auto simp: tlcreate_do_def split: option.split)
  show "wp (tlcreate_handle B t s) (\<lambda>(r, s'). inv ext s')" "wp (tucreate_handle B tu s) (\<lambda>(r, s'). inv ext s')"
    by (simp_all add: tlcreate_handle_def tucreate_handle_def d [unfolded split_beta] split_beta)
qed

lemma txattrwalk_inv:
  fixes s :: "('w, 'f) srv"
  assumes i: "inv ext s"
  shows "wp (txattrwalk_handle B t s) (\<lambda>(r, s'). inv ext s')"
  unfolding txattrwalk_handle_def
proof (rule withFID_inv [OF i], erule held_ref, goal_cases)
  case (1 ref s1 x)
  have ins: "wp (InsertFID B f (length (refHeap s1)) (snd (allocRef y (s1\<lparr>world := w\<rparr>)))) (inv (hold ref ext))"
    if "refs y = 0" "ref_parent y = None" "ref_node y = ref_node x" for f y w
    using spawn_root [of "hold ref ext" "s1\<lparr>world := w\<rparr>" y] 1 that by (intro InsertFID_keeps) simp
  from 1 show ?case
    by (auto simp: call_eq alloc_case Let_def ins apfst_def map_prod_def split: sum.splits)
qed

lemma tattach_inv:
  fixes s :: "('w, 'f) srv"
  assumes i: "inv ext s"
  shows "wp (tattach_handle B t s) (\<lambda>(r, s'). inv ext s')"
proof -
  have walk: "wp (tattach_walk B t n qid root u) (\<lambda>(r, v). inv (hold root ext) v)" if "inv (hold root ext) u" for n qid root u
  proof -
    have "wp (doWalk B root ns False u) (\<lambda>(res, v). wp (case res of Inl err \<Rightarrow> Some (newErr err, v)
      | Inr (qids, newRef, valid, attr) \<Rightarrow> do { v \<leftarrow> InsertFID B (tattach_fid t) newRef v; (err, v) \<leftarrow> DecRef B newRef v;
          Some (Rattach \<lparr>rattach_QID = qid\<rparr>, v) }) (\<lambda>(r, v). inv (hold root ext) v))" for ns
      by (rule wp_mono [OF doWalk_inv [OF that]]) (auto split: sum.splits intro: install_inv simp del: hold_apply)
    with InsertFID_held [OF that] show ?thesis by (simp add: tattach_walk_def)
  qed
  have attach: "wp (tattach_walk B t n qid (length (refHeap s)) (snd (allocRef y (s\<lparr>world := w\<rparr>))))
      (\<lambda>(r, v). wp (DecRef B (length (refHeap s)) v) (\<lambda>(e, v). inv ext v))"
    if "refs y = 1" "ref_parent y = None" "ref_node y = 0" for n qid y w
  proof -
    have "0 < length (nodeHeap s)" using inv_ainv [OF i] ainv_nodes by (fastforce simp: nodes_wf_def)
    then have "inv (hold (length (refHeap s)) ext) (snd (allocRef y (s\<lparr>world := w\<rparr>)))"
      using attach_root [of ext "s\<lparr>world := w\<rparr>" y] i that by simp
    from walk [OF this] show ?thesis by (rule wp_mono) (auto intro: DecRef_keeps simp del: hold_apply)
  qed
  show ?thesis
    using i by (auto simp: tattach_handle_def Let_def call_eq alloc_case attach pathTree_def split: sum.split)
qed

section \<open>Every request\<close>

theorem handle_inv:
  assumes "inv ext s" and "rename_safe B s"
  shows "wp (handle B m s) (\<lambda>(r, s'). inv ext s')"
  using session_inv [OF assms(1)] file_calls_inv [OF assms(1), where B = B] data_inv [OF assms(1), where B = B]
    tclunk_inv [OF assms(1)] tremove_inv [OF assms(1)] directory_ops_inv [OF assms(1), where B = B] tlink_inv [OF assms(1)]
    tunlinkat_inv [OF assms(1)] rename_inv [OF assms] walk_inv [OF assms(1)] tlcreate_inv [OF assms(1), where B = B]
    txattrwalk_inv [OF assms(1)] tattach_inv [OF assms(1)] assms(1)
  by (cases m) (simp_all add: handle_def twalk_handle_def twalkgetattr_handle_def)

end
