(* ===== verification/P9_Serve.thy ===== *)
theory P9_Serve
  imports P9_HandlersInv
begin

text \<open>
  A connection served to its end: sequences of requests, and \<^verbatim>\<open>connState.stop\<close>. The locale \<open>service\<close>
  states what a serving loop needs of a handler; \<^verbatim>\<open>connState.handle\<close> is its instance, with the
  invariant of the reference graph as the property kept.
\<close>

section \<open>Sequences of requests\<close>

text \<open>
  \<open>serves step safe s l s'\<close>: from \<open>s\<close>, the requests of \<open>l\<close> are handled one after the other with the
  given responses; \<open>safe\<close> is what each of them may rely on.
\<close>

inductive serves :: "('m \<Rightarrow> 's \<Rightarrow> ('r \<times> 's) option) \<Rightarrow> ('s \<Rightarrow> bool) \<Rightarrow> 's \<Rightarrow> ('m \<times> 'r) list \<Rightarrow> 's \<Rightarrow> bool"
  for step safe s where
  none: "serves step safe s [] s"
| more: "serves step safe s l s' \<Longrightarrow> safe s' \<Longrightarrow> step m s' = Some (r, s'') \<Longrightarrow>
    serves step safe s (l @ [(m, r)]) s''"

inductive_cases serves_snocE: "serves step safe s (l @ [x]) s'"

locale service =
  fixes step :: "'m \<Rightarrow> 's \<Rightarrow> ('r \<times> 's) option" and good :: "'s \<Rightarrow> bool" and safe :: "'s \<Rightarrow> bool"
  assumes step_good: "good s \<Longrightarrow> safe s \<Longrightarrow> wp (step m s) (\<lambda>(r, s'). good s')"
begin

lemma serves_good: "serves step safe s l s' \<Longrightarrow> good s \<Longrightarrow> good s'"
proof (induction rule: serves.induct)
  case (more l s' m r s'')
  then show ?case using step_good [of s' m] by simp
qed

lemma serves_progress:
  assumes "serves step safe s l s'" and "good s" and "safe s'"
  shows "\<exists>r s''. step m s' = Some (r, s'') \<and> serves step safe s (l @ [(m, r)]) s''"
proof -
  have "wp (step m s') (\<lambda>(r, s''). good s'')" using serves_good assms step_good by blast
  then show ?thesis using assms by (auto simp: wp_iff intro: serves.more)
qed

end

interpretation conn: service "handle B" "inv ext" "rename_safe B"
  by unfold_locales (rule handle_inv)

section \<open>Start and end of a connection\<close>

lemma NewServer_inv: "inv (\<lambda>_. 0) (NewServer w)"
proof -
  have v: "viewE (edges (NewServer w :: ('w, 'f) srv)) (NewServer w :: ('w, 'f) srv) = \<lparr>fidmap = Map.empty, nrefs = 0, cnt = (\<lambda>_. 0), parent = (\<lambda>_. None), nodeOf = (\<lambda>_. 0),
      nnodes = 1, nameOf = (\<lambda>_ _. None), gone = (\<lambda>_. False), edge = (\<lambda>_ _. None)\<rparr>" for w :: 'w
    by (auto simp: view_defs NewServer_def getRef_def getNode_def newPathNode_def nameFor_def fun_eq_iff)
  have "cwf (NewServer w :: ('w, 'f) srv)" for w :: 'w
    using node_ok_new by (simp add: cwf_def NewServer_def) (simp add: newPathNode_def)
  then show ?thesis
    unfolding inv_def sinv_def v
    by (simp add: ainv_def counted_def nodes_wf_def registered_def fidsAt_def children_def refEdges_def nodeEdges_def acyclic_def)
qed

text \<open>Dropping references does not look at the fid table.\<close>

lemma setters_fids:
  "setRef r x (s\<lparr>fids := F\<rparr>) = (setRef r x s)\<lparr>fids := F\<rparr>"
  "removeChild p r (s\<lparr>fids := F\<rparr>) = map_option (\<lambda>t. t\<lparr>fids := F\<rparr>) (removeChild p r s)"
  by (auto simp: setRef_def removeChild_def setNode_def split: bind_splits)

lemma DecRef_fids: "DecRef B r (s\<lparr>fids := F\<rparr>) = map_option (\<lambda>(e, t). (e, t\<lparr>fids := F\<rparr>)) (DecRef B r s)"
proof (induction "sum_list (map (\<lambda>x. nat (refs x)) (refHeap s))" arbitrary: r s rule: less_induct)
  case (less s r)
  show ?case
  proof (cases "getRef s r")
    case None
    then show ?thesis by (simp add: DecRef.simps [of B r])
  next
    case (Some x)
    obtain err w where cl: "Close B (ref_file x) (world s) = (err, w)" by force
    let ?t = "(setRef r (x\<lparr>refs := refs x - 1\<rparr>) s)\<lparr>world := w\<rparr>"
    have rc: "removeChild p r (v\<lparr>fids := F, world := w\<rparr>) = map_option (\<lambda>t. t\<lparr>fids := F\<rparr>) (removeChild p r (v\<lparr>world := w\<rparr>))" for p v
    proof -
      have "v\<lparr>fids := F, world := w\<rparr> = v\<lparr>world := w, fids := F\<rparr>" by simp
      then show ?thesis by (simp only: setters_fids(2))
    qed
    have IH: "DecRef B q (u\<lparr>fids := F\<rparr>) = map_option (\<lambda>(e, t). (e, t\<lparr>fids := F\<rparr>)) (DecRef B q u)"
      if "refs x = 1" "removeChild p r ?t = Some u" for p q u
      using less [of u q] sum_refs_decreases [OF Some that(1)] removeChild_refHeap [OF that(2)] that(1)
      by (simp add: setRef_def)
    show ?thesis
      using Some cl IH
      by (auto simp: DecRef.simps [of B r] Let_def setters_fids(1) rc split: option.split prod.split)
  qed
qed

lemma stop_refs_fids: "stop_refs B l (s\<lparr>fids := F\<rparr>) = map_option (\<lambda>t. t\<lparr>fids := F\<rparr>) (stop_refs B l s)"
proof (induction l arbitrary: s)
  case (Cons fr l)
  obtain f r where fr: "fr = (f, r)" by force
  from Cons show ?case by (cases "DecRef B r s") (auto simp: fr DecRef_fids)
qed simp

text \<open>Dropping one reference for each entry of a list.\<close>

definition refs_in :: "(fid \<times> ref_addr) list \<Rightarrow> ref_addr \<Rightarrow> nat" where
  "refs_in l r = length (filter (\<lambda>(f, q). q = r) l)"

lemma refs_in_Cons: "(\<lambda>r. ext r + refs_in ((f, q) # l) r) = hold q (\<lambda>r. ext r + refs_in l r)"
  by (auto simp: refs_in_def hold_def fun_eq_iff)

lemma stop_refs_inv: "inv (\<lambda>r. ext r + refs_in l r) s \<Longrightarrow> wp (stop_refs B l s) (inv ext)"
proof (induction l arbitrary: s)
  case Nil
  then show ?case by (simp add: refs_in_def)
next
  case (Cons fr l)
  obtain f r where fr: "fr = (f, r)" by force
  have "inv (hold r (\<lambda>r. ext r + refs_in l r)) s" using Cons.prems by (simp add: fr refs_in_Cons)
  from DecRef_keeps [OF this, of B] have "wp (DecRef B r s) (\<lambda>(e, t). wp (stop_refs B l t) (inv ext))"
    by (rule wp_mono) (use Cons.IH in auto)
  then show ?case by (simp add: fr)
qed

lemma card_fidsAt: "distinct (map fst l) \<Longrightarrow> card {f. map_of l f = Some r} = refs_in l r"
proof -
  assume d: "distinct (map fst l)"
  have "{f. map_of l f = Some r} = fst ` set (filter (\<lambda>(f, q). q = r) l)"
    using d by (force simp: map_of_eq_Some_iff)
  also have "card \<dots> = card (set (filter (\<lambda>(f, q). q = r) l))"
    by (rule card_image) (auto simp: inj_on_def)
  also have "\<dots> = refs_in l r"
    unfolding refs_in_def using d by (intro distinct_card distinct_filter) (simp add: distinct_map)
  finally show ?thesis .
qed

lemma drop_table_inv:
  assumes "inv ext s"
  shows "inv (\<lambda>r. ext r + refs_in (fids s) r) (s\<lparr>fids := []\<rparr>)"
proof -
  have cw: "cwf s" and a: "ainv ext {} (viewE (edges s) s)" using inv_ainv [OF assms] by auto
  have d: "distinct (map fst (fids s))" using cw by (simp add: cwf_def)
  have "counted (\<lambda>r. ext r + refs_in (fids s) r) {} ((viewE (edges s) s)\<lparr>fidmap := Map.empty\<rparr>)"
    by (rule counted_fidmap [OF ainv_counted [OF a]]) (simp add: fidsAt_def card_fidsAt [OF d])
  then show ?thesis
    using a cw by (simp add: inv_def sinv_def view_fids cwf_fids cwf_def ainv_def)
qed

lemma stop_inv:
  assumes "inv ext s"
  shows "wp (stop B s) (\<lambda>s'. inv ext (s'\<lparr>fids := []\<rparr>))"
  using stop_refs_inv [OF drop_table_inv [OF assms], of B] by (simp add: stop_def stop_refs_fids)

text \<open>When no other connection holds references, every reference of the server is dead after \<^verbatim>\<open>stop\<close>.\<close>

lemma stop_all_dead:
  assumes "inv (\<lambda>_. 0) s"
  shows "wp (stop B s) (\<lambda>s'. \<forall>r. counts s' r = 0)"
proof (rule wp_mono [OF stop_inv [OF assms]], rule allI)
  fix s' :: "('a, 'b) srv" and r assume "inv (\<lambda>_. 0) (s'\<lparr>fids := []\<rparr>)"
  then have "ainv (\<lambda>_. 0) {} (viewE (edges s') (s'\<lparr>fids := []\<rparr>))" using inv_ainv by (fastforce simp: view_fids)
  from no_roots_no_refs [OF ainv_counted [OF this]] have "counts (s'\<lparr>fids := []\<rparr>) r = 0" by simp
  then show "counts s' r = 0" by (simp add: counts_def)
qed

end
