(* ===== verification/P9_Example.thy ===== *)
theory P9_Example
  imports P9_Serve
begin

text \<open>
  A small file system that serves as a concrete instance in examples: every file is a directory,
  a file handle is a number, the world counts handles and logs the closed ones. Renames are
  refused, as on a read-only file system.
\<close>

type_synonym exworld = "nat \<times> nat list"

definition exAttr :: Attr where
  "exAttr = Attr_zero\<lparr>Attr_Mode := ModeDirectory\<rparr>"

definition exQID :: "nat \<Rightarrow> QID" where
  "exQID n = \<lparr>QID_Type = TypeDir, QID_Version = 0, QID_Path = of_nat n\<rparr>"

definition exFS :: "(exworld, nat) backend" where
  "exFS = \<lparr>Attach = (\<lambda>(n, l). (Inr n, (Suc n, l))),
     Walk = (\<lambda>f ns (n, l). (Inr (map (\<lambda>_. exQID n) ns, n), (Suc n, l))),
     WalkGetAttr = (\<lambda>f ns w. DefaultWalkGetAttr f ns w),
     StatFS = (\<lambda>f w. (Inl (LinuxErrno ENOSYS), w)),
     GetAttr = (\<lambda>f m w. (Inr (exQID f, AttrMaskAll, exAttr), w)),
     File_SetAttr = (\<lambda>f v a w. (None, w)),
     Close = (\<lambda>f (n, l). (None, (n, l @ [f]))),
     Open = (\<lambda>f fl w. (Inr (exQID f, 0), w)),
     ReadAt = (\<lambda>f n off w. (([], Some IoEOF), w)),
     WriteAt = (\<lambda>f bs off w. (Inr (length bs), w)),
     SetXattr = (\<lambda>f n v fl w. (None, w)),
     GetXattr = (\<lambda>f n w. (Inr [1, 2, 3], w)),
     ListXattrs = (\<lambda>f w. (Inr [], w)),
     RemoveXattr = (\<lambda>f n w. (None, w)),
     FSync = (\<lambda>f w. (None, w)),
     Lock = (\<lambda>f pid ty fl st len c w. (Inr LockStatusOK, w)),
     Create = (\<lambda>f n fl m u g (k, l). (Inr (k, exQID k, 0), (Suc k, l))),
     Mkdir = (\<lambda>f n m u g w. (Inr (exQID 0), w)),
     Symlink = (\<lambda>f t n u g w. (Inr (exQID 0), w)),
     Link = (\<lambda>f t n w. (None, w)),
     Mknod = (\<lambda>f n m a b u g w. (Inr (exQID 0), w)),
     RenameAt = (\<lambda>f old t new w. (Some (LinuxErrno EROFS), w)),
     UnlinkAt = (\<lambda>f n fl w. (None, w)),
     Readdir = (\<lambda>f off n w. (([], None), w)),
     Readlink = (\<lambda>f w. (Inl (LinuxErrno EINVAL), w)),
     Renamed = (\<lambda>f t n w. w)\<rparr>"

lemma exFS_safe: "rename_safe exFS s"
  by (simp add: rename_safe_def exFS_def)

definition exAttach :: message where
  "exAttach = Tattach \<lparr>tattach_fid = 0, tattach_Auth = \<lparr>tauth_Authenticationfid = noFID, tauth_UserName = [],
     tauth_AttachName = [], tauth_UID = 0\<rparr>\<rparr>"

definition exWalk :: "fid \<Rightarrow> fid \<Rightarrow> string list \<Rightarrow> message" where
  "exWalk f g ns = Twalk \<lparr>twalk_fid = f, twalk_newFID = g, twalk_Names = ns\<rparr>"

definition exUnlink :: "fid \<Rightarrow> string \<Rightarrow> message" where
  "exUnlink f n = Tunlinkat \<lparr>tunlinkat_Directory = f, tunlinkat_Name = n, tunlinkat_Flags = 0\<rparr>"

definition exXattrwalk :: message where
  "exXattrwalk = Txattrwalk \<lparr>txattrwalk_fid = 0, txattrwalk_newFID = 1, txattrwalk_Name = ''user.a''\<rparr>"

definition exClunk :: "fid \<Rightarrow> message" where
  "exClunk f = Tclunk \<lparr>tclunk_fid = f\<rparr>"

fun exRun :: "message list \<Rightarrow> (exworld, nat) srv \<Rightarrow> (exworld, nat) srv option" where
  "exRun [] s = Some s"
| "exRun (m # ms) s = (case handle exFS m s of None \<Rightarrow> None | Some (r, s') \<Rightarrow> exRun ms s')"

abbreviation exServes where
  "exServes \<equiv> serves (handle exFS) (rename_safe exFS) (NewServer (0, []))"

lemma exRun_snoc: "exRun (ms @ [m]) s = (case exRun ms s of None \<Rightarrow> None | Some s' \<Rightarrow> map_option snd (handle exFS m s'))"
  by (induction ms arbitrary: s) (auto split: option.splits)

lemma exRun_serves:
  assumes "exRun ms s = Some s'"
  shows "\<exists>l. map fst l = ms \<and> serves (handle exFS) (rename_safe exFS) s l s'"
  using assms
proof (induction ms arbitrary: s' rule: rev_induct)
  case Nil
  then show ?case by (auto intro: serves.none)
next
  case (snoc m ms)
  then obtain t r where t: "exRun ms s = Some t" "handle exFS m t = Some (r, s')"
    by (auto simp: exRun_snoc split: option.splits)
  from snoc.IH [OF t(1)] obtain l where "map fst l = ms" "serves (handle exFS) (rename_safe exFS) s l t" by blast
  with serves.more [OF this(2) exFS_safe t(2)] show ?case by (intro exI [of _ "l @ [(m, r)]"]) simp
qed

declare notifyDelete.simps [code] notifyNameChange.simps [code]

text \<open>
  A session: attach, walk to \<open>a/b\<close> twice, remove \<open>a\<close>. It ends with two references below a
  deleted directory.
\<close>

definition exSession :: "message list" where
  "exSession = [exAttach, exWalk 0 1 [''a'', ''b''], exWalk 0 2 [''a''], exUnlink 0 ''a'']"

lemma exSession_runs:
  "map_option (\<lambda>s. (length (refHeap s), fids s, world s)) (exRun exSession (NewServer (0, []))) =
   Some (4, [(0, 0), (1, 2), (2, 3)], (4, []))"
  by code_simp

lemma exSession_serves:
  obtains l s where "map fst l = exSession" "exServes l s" "exRun exSession (NewServer (0, [])) = Some s"
    "length (refHeap s) = 4" "fids s = [(0, 0), (1, 2), (2, 3)]"
proof -
  obtain s where s: "exRun exSession (NewServer (0, [])) = Some s" "length (refHeap s) = 4" "fids s = [(0, 0), (1, 2), (2, 3)]"
    using exSession_runs by auto
  with exRun_serves [OF s(1)] show thesis by (auto intro: that)
qed

end
