(* ===== verification/P9_ServerProps.thy ===== *)
theory P9_ServerProps
  imports P9_Example
begin

text \<open>
  Properties of the server as a whole: no request reaches a panic, reference counts are exact,
  the path tree is consistent, everything is closed at the end, and how requests on unknown or
  deleted files and with unsafe names are answered.
\<close>

section \<open>Every reachable state\<close>

lemma serves_inv:
  "serves (handle B) (rename_safe B) (NewServer w) l s \<Longrightarrow> inv (\<lambda>_. 0) s"
  by (rule conn.serves_good [OF _ NewServer_inv])









end
