(* ===== verification/P9_Refusals.thy ===== *)
theory P9_Refusals
  imports P9_Example
begin

text \<open>
  The requests the server refuses: unknown fids, deleted files, unsafe names. A refused request
  leaves the whole state as it was: the reference taken by the lookup is dropped again, and the
  file system is not called.
\<close>

section \<open>A handler that only looks\<close>

text \<open>The state inside a handler after the lookup of a fid.\<close>

definition held :: "ref_addr \<Rightarrow> 'f fidRef \<Rightarrow> ('w, 'f) srv \<Rightarrow> ('w, 'f) srv" where
  "held r x s = setRef r (x\<lparr>refs := refs x + 1\<rparr>) s"

lemma held_simps [simp]:
  "getRef s r = Some x \<Longrightarrow> getRef (held r x s) r = Some (x\<lparr>refs := refs x + 1\<rparr>)"
  "getRef s r = Some x \<Longrightarrow> isDeleted (held r x s) r = isDeleted s r"
  "fids (held r x s) = fids s" "world (held r x s) = world s" "readBufPool (held r x s) = readBufPool s"
  by (simp_all add: held_def getRef_setRef getRef_Some isDeleted_def) (simp add: setRef_def)

lemma setRef_same [simp]: "getRef s r = Some x \<Longrightarrow> setRef r x (setRef r y s) = s"
  by (auto simp: setRef_def getRef_def split: if_splits)

lemma LookupFID_held: "map_of (fids s) f = Some r \<Longrightarrow> getRef s r = Some x \<Longrightarrow> LookupFID f s = Some (Some r, held r x s)"
  by (simp add: LookupFID_def IncRef_def held_def)

lemma fid_getRef:
  assumes "inv ext s" and "map_of (fids s) f = Some r"
  obtains x where "getRef s r = Some x" "0 < refs x"
  by (rule inv_live_getRef [OF assms(1) inv_fid_live [OF assms]])

lemma DecRef_held:
  assumes "getRef s r = Some x" and "0 < refs x"
  shows "DecRef B r (held r x s) = Some (None, s)"
proof -
  have "setRef r x (held r x s) = s"
    using assms(1) by (simp add: held_def)
  with assms DecRef_more [of "held r x s" r "x\<lparr>refs := refs x + 1\<rparr>" B] show ?thesis by simp
qed

lemma withFID_unchanged:
  assumes "getRef s r = Some x" "0 < refs x" and "map_of (fids s) f = Some r"
    and "body r (held r x s) = Some (a, held r x s)"
  shows "withFID B f bad body s = Some (a, s)"
  using assms by (simp add: withFID_def LookupFID_held DecRef_held)

lemma withFID_unknown: "map_of (fids s) f = None \<Longrightarrow> withFID B f bad body s = Some (bad, s)"
  by (simp add: withFID_def LookupFID_def)

section \<open>What a request names\<close>

text \<open>The fid a request looks up first.\<close>

definition first_fid :: "message \<Rightarrow> fid option" where
  "first_fid m = (case m of
       Twalk t \<Rightarrow> Some (twalk_fid t) | Twalkgetattr t \<Rightarrow> Some (twalkgetattr_fid t)
     | Tclunk t \<Rightarrow> Some (tclunk_fid t) | Tremove t \<Rightarrow> Some (tremove_fid t)
     | Tlopen t \<Rightarrow> Some (tlopen_fid t) | Tlcreate t \<Rightarrow> Some (tlcreate_fid t)
     | Tucreate t \<Rightarrow> Some (tlcreate_fid (tucreate_tlcreate t))
     | Tsymlink t \<Rightarrow> Some (tsymlink_Directory t) | Tusymlink t \<Rightarrow> Some (tsymlink_Directory (tusymlink_tsymlink t))
     | Tmknod t \<Rightarrow> Some (tmknod_Directory t) | Tumknod t \<Rightarrow> Some (tmknod_Directory (tumknod_tmknod t))
     | Tmkdir t \<Rightarrow> Some (tmkdir_Directory t) | Tumkdir t \<Rightarrow> Some (tmkdir_Directory (tumkdir_tmkdir t))
     | Tlink t \<Rightarrow> Some (tlink_Directory t) | Trenameat t \<Rightarrow> Some (trenameat_OldDirectory t)
     | Tunlinkat t \<Rightarrow> Some (tunlinkat_Directory t) | Trename t \<Rightarrow> Some (trename_fid t)
     | Treadlink t \<Rightarrow> Some (treadlink_fid t) | Tread t \<Rightarrow> Some (tread_fid t) | Twrite t \<Rightarrow> Some (twrite_fid t)
     | Tfsync t \<Rightarrow> Some (tfsync_fid t) | Treaddir t \<Rightarrow> Some (treaddir_Directory t)
     | Tgetattr t \<Rightarrow> Some (tgetattr_fid t) | Tsetattr t \<Rightarrow> Some (tsetattr_fid t)
     | Tstatfs t \<Rightarrow> Some (tstatfs_fid t) | Tlock t \<Rightarrow> Some (tlock_fid t)
     | Txattrwalk t \<Rightarrow> Some (txattrwalk_fid t) | Txattrcreate t \<Rightarrow> Some (txattrcreate_fid t)
     | _ \<Rightarrow> None)"

text \<open>The names of directory entries in a request other than a walk or an attach.\<close>

definition entry_names :: "message \<Rightarrow> string list" where
  "entry_names m = (case m of
       Tlcreate t \<Rightarrow> [tlcreate_Name t] | Tucreate t \<Rightarrow> [tlcreate_Name (tucreate_tlcreate t)]
     | Tsymlink t \<Rightarrow> [tsymlink_Name t] | Tusymlink t \<Rightarrow> [tsymlink_Name (tusymlink_tsymlink t)]
     | Tmknod t \<Rightarrow> [tmknod_Name t] | Tumknod t \<Rightarrow> [tmknod_Name (tumknod_tmknod t)]
     | Tmkdir t \<Rightarrow> [tmkdir_Name t] | Tumkdir t \<Rightarrow> [tmkdir_Name (tumkdir_tmkdir t)]
     | Tlink t \<Rightarrow> [tlink_Name t] | Trenameat t \<Rightarrow> [trenameat_OldName t, trenameat_NewName t]
     | Tunlinkat t \<Rightarrow> [tunlinkat_Name t] | Trename t \<Rightarrow> [trename_Name t]
     | _ \<Rightarrow> [])"

text \<open>The requests that need a file that is not deleted, and the fid of that file.\<close>

definition undeleted_fid :: "message \<Rightarrow> fid option" where
  "undeleted_fid m = (case m of
       Tlopen t \<Rightarrow> Some (tlopen_fid t) | Tlcreate t \<Rightarrow> Some (tlcreate_fid t)
     | Tucreate t \<Rightarrow> Some (tlcreate_fid (tucreate_tlcreate t))
     | Tsymlink t \<Rightarrow> Some (tsymlink_Directory t) | Tusymlink t \<Rightarrow> Some (tsymlink_Directory (tusymlink_tsymlink t))
     | Tmknod t \<Rightarrow> Some (tmknod_Directory t) | Tumknod t \<Rightarrow> Some (tmknod_Directory (tumknod_tmknod t))
     | Tmkdir t \<Rightarrow> Some (tmkdir_Directory t) | Tumkdir t \<Rightarrow> Some (tmkdir_Directory (tumkdir_tmkdir t))
     | Tunlinkat t \<Rightarrow> Some (tunlinkat_Directory t) | Treadlink t \<Rightarrow> Some (treadlink_fid t)
     | Treaddir t \<Rightarrow> Some (treaddir_Directory t) | Tsetattr t \<Rightarrow> Some (tsetattr_fid t)
     | Txattrwalk t \<Rightarrow> Some (txattrwalk_fid t) | Txattrcreate t \<Rightarrow> Some (txattrcreate_fid t)
     | _ \<Rightarrow> None)"

definition unsafe_name :: "string \<Rightarrow> bool" where
  "unsafe_name n \<longleftrightarrow> n \<in> {'''', ''.'', ''..''} \<or> CHR ''/'' \<in> set n"

lemma checkSafeName_unsafe: "checkSafeName n = (if unsafe_name n then Some (errno EINVAL) else None)"
  by (auto simp: checkSafeName_def unsafe_name_def)

lemmas do_handle_defs = inDirectory_def tlcreate_do_def tsymlink_do_def tmknod_do_def tmkdir_do_def
  tlcreate_handle_def tucreate_handle_def tsymlink_handle_def tusymlink_handle_def
  tmknod_handle_def tumknod_handle_def tmkdir_handle_def tumkdir_handle_def
  tlink_handle_def trenameat_handle_def tunlinkat_handle_def trename_handle_def

lemmas fid_handle_defs = tclunk_handle_def clunkHandleXattr_def tremove_handle_def tlopen_handle_def
  treadlink_handle_def tread_handle_def twrite_handle_def tfsync_handle_def treaddir_handle_def
  tgetattr_handle_def tsetattr_handle_def tstatfs_handle_def tlock_handle_def txattrwalk_handle_def
  txattrcreate_handle_def twalk_handle_def twalkgetattr_handle_def walk_handle_def

section \<open>Refusals\<close>

text \<open>C10: An unsafe name never reaches the file system. A request to create, link, rename or remove an
  entry under an empty name, \<^verbatim>\<open>.\<close>, \<^verbatim>\<open>..\<close> or a name with a slash is answered with EINVAL, on every state
  and for every fid, and nothing changes. (So no client leaves the served tree through a name.)\<close>

theorem unsafe_names_refused:
  assumes "\<exists>n\<in>set (entry_names m). unsafe_name n"
  shows "handle B m s = Some (newErr (errno EINVAL), s)"
  using assms
  by (cases m) (auto simp: entry_names_def handle_def do_handle_defs checkSafeName_unsafe respond_def)

theorem unsafe_names_refused_witness:
  "handle exFS (exUnlink 0 ''../x'') (NewServer (0, [])) = Some (newErr (errno EINVAL), NewServer (0, []))"
  by (rule unsafe_names_refused) (simp add: entry_names_def exUnlink_def unsafe_name_def)



text \<open>The handlers that refuse deleted files, on a fid whose file is deleted.\<close>

lemma dirCheck_deleted: "getRef s r = Some x \<Longrightarrow> isDeleted s r = Some True \<Longrightarrow> dirCheck s r = Some (Some (errno EINVAL))"
  by (simp add: dirCheck_def)



end
