(* ===== verification/P9_Deletion.thy ===== *)
theory P9_Deletion
  imports P9_Refusals
begin

text \<open>
  What a successful Tunlinkat does to the path tree: exactly the references at or below the removed
  entry become deleted, whatever the shape of the tree.
\<close>

lemma pathNodeFor_edges:
  assumes "pathNodeFor p name s = Some (pn, s')"
  shows "edges s' = (edges s)(p := (edges s p)(name \<mapsto> pn))" and "edges s p name = None \<or> edges s p name = Some pn"
    and "edges s p name = None \<Longrightarrow> pn = length (nodeHeap s)"
proof -
  obtain x where x: "getNode s p = Some x" using assms by (auto simp: pathNodeFor_def split: bind_splits)
  have "edges s' = (edges s)(p := (edges s p)(name \<mapsto> pn)) \<and> (edges s p name = None \<or> edges s p name = Some pn) \<and>
    (edges s p name = None \<longrightarrow> pn = length (nodeHeap s))"
  proof (cases "map_of (childNodes x) name")
    case (Some m)
    then have "pn = m \<and> s' = s" using assms x by (simp add: pathNodeFor_def)
    with x Some show ?thesis by (auto simp: fun_eq_iff)
  next
    case None
    then have s': "pn = length (nodeHeap s)"
      "s' = setNode p (x\<lparr>childNodes := AList.update name pn (childNodes x)\<rparr>) (snd (allocNode newPathNode s))"
      using assms x by (auto simp: pathNodeFor_def allocNode_def)
    have "edges s' q n = (if q = p \<and> n = name then Some pn else edges s q n)" for q n
      using x getNode_Some [OF x] unfolding s'
      by (auto simp: edges_def getNode_def setNode_def allocNode_def update_conv' nth_append newPathNode_def
          nth_list_update split: option.splits if_splits)
    with x None s'(1) show ?thesis by (auto simp: fun_eq_iff)
  qed
  then show "edges s' = (edges s)(p := (edges s p)(name \<mapsto> pn))" "edges s p name = None \<or> edges s p name = Some pn"
    "edges s p name = None \<Longrightarrow> pn = length (nodeHeap s)" by auto
qed

text \<open>Below a node, nothing is lost when the edge to that node is cut.\<close>

lemma reach_cut:
  assumes "wf ((graph E)\<inverse>)" and "E p name = Some m"
  shows "(graph (E(p := (E p)(name := None))))\<^sup>* `` {m} = (graph E)\<^sup>* `` {m}" (is "?G'\<^sup>* `` _ = ?G\<^sup>* `` _")
proof
  have "?G' \<subseteq> ?G" by (auto simp: graph_def split: if_splits)
  then show "?G'\<^sup>* `` {m} \<subseteq> ?G\<^sup>* `` {m}" using rtrancl_mono by blast
  show "?G\<^sup>* `` {m} \<subseteq> ?G'\<^sup>* `` {m}"
  proof
    fix q assume "q \<in> ?G\<^sup>* `` {m}"
    then have "(m, q) \<in> ?G\<^sup>*" by simp
    then show "q \<in> ?G'\<^sup>* `` {m}"
    proof induction
      case (step a b)
      have "(p, m) \<in> ?G" using assms(2) by (auto simp: graph_def)
      then have "a \<noteq> p" if "b = m"
        using assms(1) step(1,2) that by (metis acyclicP_converse acyclic_converse acyclic_def rtrancl_into_trancl1 wf_acyclic)
      moreover obtain n where n: "E a n = Some b" using step(2) by (auto simp: graph_def)
      ultimately have "(E(p := (E p)(name := None))) a n = Some b" using assms(2) by auto
      then have "(a, b) \<in> ?G'" unfolding graph_def by blast
      moreover have "(m, a) \<in> ?G'\<^sup>*" using step(3) by (simp only: Image_singleton_iff)
      ultimately show ?case unfolding Image_singleton_iff by (rule rtrancl_into_rtrancl [rotated])
    qed simp
  qed
qed

text \<open>The steps of a Tunlinkat that succeeds.\<close>

lemma tunlinkat_steps:
  fixes s :: "('w, 'f) srv"
  assumes "handle B (Tunlinkat t) s = Some (Runlinkat (), s')"
  obtains r x pn w e and s1 :: "('w, 'f) srv" and s2 :: "('w, 'f) srv" where "map_of (fids s) (tunlinkat_Directory t) = Some r" "getRef s r = Some x"
    "dirCheck (held r x s) r = Some None"
    "pathNodeFor (ref_node x) (tunlinkat_Name t) (held r x s) = Some (pn, s1)"
    "markChildDeleted B r (tunlinkat_Name t) (s1\<lparr>world := w\<rparr>) = Some s2" "DecRef B r s2 = Some (e, s')"
proof -
  have w: "withFID B (tunlinkat_Directory t) (newErr (errno EBADF)) (tunlinkat_unlink B t) s = Some (Runlinkat (), s')"
    using assms by (simp add: handle_def tunlinkat_handle_def newErr_def split: option.splits)
  then obtain r where r: "map_of (fids s) (tunlinkat_Directory t) = Some r"
    by (cases "map_of (fids s) (tunlinkat_Directory t)") (simp_all add: withFID_unknown newErr_def)
  with w obtain x where x: "getRef s r = Some x" by (auto simp: withFID_def LookupFID_def IncRef_def split: bind_splits)
  from w r x obtain s2 e where s2: "tunlinkat_unlink B t r (held r x s) = Some (Runlinkat (), s2)" "DecRef B r s2 = Some (e, s')"
    by (auto simp: withFID_def LookupFID_held split: bind_splits)
  from s2(1) x have d: "dirCheck (held r x s) r = Some None"
    by (auto simp: tunlinkat_unlink_def newErr_def split: bind_splits option.splits)
  with s2(1) x obtain pn s1 w where "pathNodeFor (ref_node x) (tunlinkat_Name t) (held r x s) = Some (pn, s1)"
    "markChildDeleted B r (tunlinkat_Name t) (s1\<lparr>world := w\<rparr>) = Some s2"
    by (auto simp: tunlinkat_unlink_def call_eq newErr_def split: bind_splits option.splits prod.splits)
  with r x d s2(2) show thesis by (blast intro: that)
qed

lemma fresh_reaches_itself:
  assumes "ainv ext X (viewE E s)" and "(length (nodeHeap s), q) \<in> (graph (E(p := (E p)(name \<mapsto> length (nodeHeap s)))))\<^sup>*"
    and "p < length (nodeHeap s)"
  shows "q = length (nodeHeap s)"
  using assms(2)
proof (cases rule: converse_rtranclE)
  case (step m)
  then have "(length (nodeHeap s), m) \<in> graph E" using assms(3) by (auto simp: graph_def split: if_splits)
  then show ?thesis using inv_graph(2) [OF assms(1)] by blast
qed simp

lemma isDeleted_dead:
  assumes "inv ext s" and "getRef s q = Some z"
  shows "isDeleted s q = Some (dead s (ref_node z))" and "ref_node z < length (nodeHeap s)"
proof -
  have "nodeAt s q < length (nodeHeap s)"
    using ainv_nodes [OF inv_ainv [OF assms(1), THEN conjunct2]] getRef_Some [OF assms(2)] by (auto simp: nodes_wf_def)
  then show p: "ref_node z < length (nodeHeap s)" using assms(2) by simp
  then obtain y where "getNode s (ref_node z) = Some y" using getNode_valid by blast
  with assms(2) show "isDeleted s q = Some (dead s (ref_node z))" by (simp add: isDeleted_def)
qed

lemma getRef_refHeap: "refHeap s' = refHeap s \<Longrightarrow> getRef s' = getRef s"
  by (simp add: getRef_def fun_eq_iff)

lemma tunlinkat_tree:
  fixes s :: "('w, 'f) srv"
  assumes i: "inv ext s" and h: "handle B (Tunlinkat t) s = Some (Runlinkat (), s')"
    and r: "map_of (fids s) (tunlinkat_Directory t) = Some r" "getRef s r = Some x"
  obtains pn and s1 :: "('w, 'f) srv" where "inv ext s'" "nodeAt s' = nodeAt s" "length (refHeap s') = length (refHeap s)"
    "pathNodeFor (ref_node x) (tunlinkat_Name t) (held r x s) = Some (pn, s1)"
    "\<And>q. dead s' q \<longleftrightarrow> dead s q \<or> (pn, q) \<in> (graph (edges s1))\<^sup>*"
proof -
  let ?p = "ref_node x" and ?n = "tunlinkat_Name t" and ?h = "held r x s"
  obtain pn w e s1 s2 where c: "dirCheck ?h r = Some None" "pathNodeFor ?p ?n ?h = Some (pn, s1)"
    "markChildDeleted B r ?n (s1\<lparr>world := w\<rparr>) = Some s2" "DecRef B r s2 = Some (e, s')"
    by (rule tunlinkat_steps [OF h]) (use r in auto)
  have ih: "inv (hold r ext) ?h" "stable s ?h"
    using IncRef_inv [OF i inv_fid_live [OF i r(1)]] r(2) by (simp_all add: IncRef_def held_def)
  have hx: "getRef ?h r = Some (x\<lparr>refs := refs x + 1\<rparr>)" using r(2) by simp
  have "\<not> dead ?h ?p" using c(1) isDeleted_dead(1) [OF ih(1) hx] hx by (auto simp: dirCheck_def split: if_splits)
  moreover have "?p < length (nodeHeap ?h)" using isDeleted_dead(2) [OF i r(2)] by (simp add: held_def)
  ultimately have s1: "inv (hold r ext) s1" "edges s1 ?p ?n = Some pn" "refHeap s1 = refHeap ?h" "dead s1 = dead ?h"
    using pathNodeFor_inv [OF ih(1), of ?p ?n] c(2) by simp_all
  have x1: "getRef (s1\<lparr>world := w\<rparr>) r = Some (x\<lparr>refs := refs x + 1\<rparr>)" using hx getRef_refHeap [OF s1(3)] by simp
  have e1: "edges (s1\<lparr>world := w\<rparr>) = edges s1" "dead (s1\<lparr>world := w\<rparr>) = dead s1" by (simp_all add: edges_def dead_def fun_eq_iff)
  have s2: "inv (hold r ext) s2" "refHeap s2 = refHeap s1" "edges s2 = (edges s1)(?p := (edges s1 ?p)(?n := None))"
    "dead s2 q \<longleftrightarrow> dead s1 q \<or> (pn, q) \<in> (graph (edges s2))\<^sup>*" for q
    using markChildDeleted_inv [of "hold r ext" "s1\<lparr>world := w\<rparr>", OF _ x1, of B ?n] s1(1,2) c(3) by (simp_all add: e1)
  have "(graph (edges s2))\<^sup>* `` {pn} = (graph (edges s1))\<^sup>* `` {pn}"
    unfolding s2(3) by (rule reach_cut [OF inv_graph(1) [OF inv_ainv [OF s1(1), THEN conjunct2]] s1(2)])
  then have eq: "(pn, q) \<in> (graph (edges s2))\<^sup>* \<longleftrightarrow> (pn, q) \<in> (graph (edges s1))\<^sup>*" for q by (simp add: set_eq_iff)
  have st: "inv ext s'" "stable s2 s'" using DecRef_inv [OF s2(1), of B] c(4) by simp_all
  have "nodeAt s2 = nodeAt ?h" using getRef_refHeap [of s2 ?h] s2(2) s1(3) by (simp add: nodeAt_def fun_eq_iff)
  then show thesis
    using st c(2) s2(2) s1(3) stable_lengths [OF st(2)] stable_lengths [OF ih(2)] stable_view [OF ih(2)] stable_view [OF st(2)]
    by (intro that [of pn s1]) (simp_all add: s2(4) s1(4) eq)
qed



end
