(* ===== verification/P9_Pool.thy ===== *)
theory P9_Pool
  imports P9_Prelude
begin

text \<open>
  \<^verbatim>\<open>p9/pool.go\<close>: the allocator of tags and fids. The locale \<open>allocator\<close> is the contract its users
  rely on, over the set of values handed out and not yet returned: a value that is in use is
  never handed out again. The pool interprets it, for every starting value.
\<close>

section \<open>State and operations\<close>

record pool =
  pool_cache :: "uint64 list"
  start :: uint64
  limit :: uint64

definition pool_Get :: "pool \<Rightarrow> uint64 option \<times> pool" where
  "pool_Get p =
     (if length (pool_cache p) > 0 then
        (Some (pool_cache p ! (length (pool_cache p) - 1)), p\<lparr>pool_cache := take (length (pool_cache p) - 1) (pool_cache p)\<rparr>)
      else if start p = limit p then (None, p)
      else (Some (start p), p\<lparr>start := start p + 1\<rparr>))"

definition pool_Put :: "pool \<Rightarrow> uint64 \<Rightarrow> pool" where
  "pool_Put p v = p\<lparr>pool_cache := pool_cache p @ [v]\<rparr>"

section \<open>The allocator contract\<close>

datatype 'v alloc_op = Get | Put 'v

text \<open>
  \<open>inv s out\<close> relates a state to the set of values in use. A user performs gets and puts of
  values in use; \<open>trace\<close> lists the values handed out together with the set in use before.
\<close>

locale allocator =
  fixes inv :: "'s \<Rightarrow> 'v set \<Rightarrow> bool"
    and get :: "'s \<Rightarrow> 'v option \<times> 's"
    and put :: "'s \<Rightarrow> 'v \<Rightarrow> 's"
  assumes get_fresh: "inv s out \<Longrightarrow> get s = (Some v, s') \<Longrightarrow> v \<notin> out \<and> inv s' (insert v out)"
    and get_none: "inv s out \<Longrightarrow> get s = (None, s') \<Longrightarrow> inv s' out"
    and put_inv: "inv s out \<Longrightarrow> v \<in> out \<Longrightarrow> inv (put s v) (out - {v})"
begin

fun trace :: "'s \<Rightarrow> 'v set \<Rightarrow> 'v alloc_op list \<Rightarrow> ('v set \<times> 'v) list" where
  "trace s out [] = []"
| "trace s out (Get # ops) =
     (case get s of
        (Some v, s') \<Rightarrow> (out, v) # trace s' (insert v out) ops
      | (None, s') \<Rightarrow> trace s' out ops)"
| "trace s out (Put v # ops) = (if v \<in> out then trace (put s v) (out - {v}) ops else trace s out ops)"

lemma never_in_use: "inv s out \<Longrightarrow> (used, v) \<in> set (trace s out ops) \<Longrightarrow> v \<notin> used"
proof (induction s out ops rule: trace.induct)
  case (2 s out ops)
  obtain r s' where g: "get s = (r, s')" by fastforce
  show ?case
  proof (cases r)
    case None
    with 2 g get_none show ?thesis by auto
  next
    case (Some w)
    with 2 g get_fresh [of s out w s'] show ?thesis by auto
  qed
next
  case (3 s out v ops)
  then show ?case by (auto split: if_splits dest: put_inv)
qed simp

end

section \<open>The pool is an allocator\<close>

text \<open>
  The values below \<open>start\<close> are partitioned into the cached ones and those in use; \<open>first\<close> is the
  value the pool was created with.
\<close>

definition pool_inv :: "uint64 \<Rightarrow> pool \<Rightarrow> uint64 set \<Rightarrow> bool" where
  "pool_inv first p out \<longleftrightarrow>
     distinct (pool_cache p) \<and> set (pool_cache p) \<inter> out = {} \<and>
     set (pool_cache p) \<union> out = {v. first \<le> v \<and> v < start p} \<and> first \<le> start p \<and> start p \<le> limit p"

lemma pool_inv_new: "first \<le> lim \<Longrightarrow> pool_inv first \<lparr>pool_cache = [], start = first, limit = lim\<rparr> {}"
  by (auto simp: pool_inv_def)

lemma less_incr_iff: "s < l \<Longrightarrow> v < s + 1 \<longleftrightarrow> v \<le> s" for s l v :: uint64
proof -
  assume "s < l"
  then have "unat s + 1 < 2 ^ 64"
    using unsigned_less [of l, where 'a = nat] by (simp add: word_less_nat_alt)
  then have "unat (s + 1) = unat s + 1" by (simp add: unat_word_ariths)
  then show ?thesis by (auto simp: word_less_nat_alt word_le_nat_alt)
qed

lemma incr_le: "s < l \<Longrightarrow> s + 1 \<le> l" for s l :: uint64
  using less_incr_iff [of s l l] by (simp add: not_less [symmetric])

lemma pool_Get_cases:
  "pool_Get p = (r, p') \<Longrightarrow>
     (\<exists>vs v. pool_cache p = vs @ [v] \<and> r = Some v \<and> p' = p\<lparr>pool_cache := vs\<rparr>) \<or>
     (pool_cache p = [] \<and> start p = limit p \<and> r = None \<and> p' = p) \<or>
     (pool_cache p = [] \<and> start p \<noteq> limit p \<and> r = Some (start p) \<and> p' = p\<lparr>start := start p + 1\<rparr>)"
  by (cases "pool_cache p" rule: rev_cases) (auto simp: pool_Get_def split: if_splits)

lemma pool_Get_inv:
  assumes "pool_inv first p out" and "pool_Get p = (Some v, p')"
  shows "v \<notin> out \<and> pool_inv first p' (insert v out)"
  using pool_Get_cases [OF assms(2)]
proof (elim disjE exE conjE)
  fix vs w assume "pool_cache p = vs @ [w]" "Some v = Some w" "p' = p\<lparr>pool_cache := vs\<rparr>"
  with assms(1) show ?thesis by (auto simp: pool_inv_def)
next
  assume *: "pool_cache p = []" "start p \<noteq> limit p" "Some v = Some (start p)" "p' = p\<lparr>start := start p + 1\<rparr>"
  then have "start p < limit p" using assms(1) by (auto simp: pool_inv_def)
  note less = less_incr_iff [OF this] incr_le [OF this]
  from assms(1) * show ?thesis
    by (auto simp: pool_inv_def less intro: order_trans [OF _ less(2)] order.strict_implies_order)
qed simp

interpretation pool: allocator "pool_inv first" pool_Get pool_Put
proof
  show "v \<notin> out \<and> pool_inv first p' (insert v out)"
    if "pool_inv first p out" "pool_Get p = (Some v, p')" for p out v p'
    by (rule pool_Get_inv [OF that])
  show "pool_inv first p' out" if "pool_inv first p out" "pool_Get p = (None, p')" for p out p'
    using pool_Get_cases [OF that(2)] that(1) by auto
  show "pool_inv first (pool_Put p v) (out - {v})" if "pool_inv first p out" "v \<in> out" for p out v
    using that by (auto simp: pool_inv_def pool_Put_def)
qed

text \<open>The pool refuses a value only when all values between its start and its limit are in use.\<close>

lemma pool_Get_exhausted:
  assumes "pool_inv first p out" and "pool_Get p = (None, p')"
  shows "out = {v. first \<le> v \<and> v < limit p}"
  using pool_Get_cases [OF assms(2)] assms(1) by (auto simp: pool_inv_def)

text \<open>A run of gets and puts on a pool, with the values it hands out and the values in use before.\<close>

fun pool_trace :: "pool \<Rightarrow> uint64 set \<Rightarrow> uint64 alloc_op list \<Rightarrow> (uint64 set \<times> uint64) list" where
  "pool_trace p out [] = []"
| "pool_trace p out (Get # ops) =
     (case pool_Get p of
        (Some v, p') \<Rightarrow> (out, v) # pool_trace p' (insert v out) ops
      | (None, p') \<Rightarrow> pool_trace p' out ops)"
| "pool_trace p out (Put v # ops) =
     (if v \<in> out then pool_trace (pool_Put p v) (out - {v}) ops else pool_trace p out ops)"

lemma pool_trace_eq: "pool_trace p out ops = pool.trace p out ops"
  by (induction p out ops rule: pool_trace.induct) (auto split: prod.splits option.splits)

text \<open>C28: In every sequence of allocations and returns on a new pool, a value that is in use is
  never handed out a second time.\<close>

theorem pool_never_in_use:
  assumes "first \<le> lim"
    and "(used, v) \<in> set (pool_trace \<lparr>pool_cache = [], start = first, limit = lim\<rparr> {} ops)"
  shows "v \<notin> used"
  using pool.never_in_use [OF pool_inv_new [OF assms(1)]] assms(2) by (simp add: pool_trace_eq)

theorem pool_never_in_use_witness:
  "({1}, 2) \<in> set (pool_trace \<lparr>pool_cache = [], start = 1, limit = 65535\<rparr> {} [Get, Put 1, Get, Get]) \<and>
   (2 :: uint64) \<notin> {1}"
proof
  show trc: "({1}, 2) \<in> set (pool_trace \<lparr>pool_cache = [], start = 1, limit = 65535\<rparr> {} [Get, Put 1, Get, Get])"
    by (simp add: pool_Get_def pool_Put_def)
  show "(2 :: uint64) \<notin> {1}" by (rule pool_never_in_use [OF _ trc]) simp
qed

end
