(* ===== verification/P9_Client.thy ===== *)
theory P9_Client
  imports P9_Transport P9_Version P9_Pool P9_Errno
begin

text \<open>
  The client of \<^verbatim>\<open>p9/client.go\<close>: the table of pending requests, \<^verbatim>\<open>handleOne\<close>, \<^verbatim>\<open>waitAndRecv\<close>, \<^verbatim>\<open>sendRecv\<close>
  and the version negotiation of \<^verbatim>\<open>NewClient\<close>, for one caller at a time. The other end of the
  connection is an argument: writing a frame returns an error or nothing, what the peer puts on the
  inbound stream in answer, and the new state of the peer.
\<close>

section \<open>State\<close>

datatype lookup_error = ErrUnexpectedTag | ErrBadResponse msgType msgType

record 'p Client =
  peer :: 'p
  inbound :: io_reader
  tagPool :: pool
  fidPool :: pool
  pending :: "(tag \<times> message) list"
  cl_messageSize :: uint32
  payloadSize :: uint32
  cl_version :: uint32

type_synonym 'p wire = "byte list list \<Rightarrow> 'p \<Rightarrow> io_error option \<times> io_reader \<times> 'p"

definition ErrOutOfTags :: goerror where "ErrOutOfTags = OpaqueError ''out of tags -- messages lost?''"
definition ErrOutOfFIDs :: goerror where "ErrOutOfFIDs = OpaqueError ''out of FIDs -- messages lost?''"
definition ErrVersionsExhausted :: goerror where "ErrVersionsExhausted = OpaqueError ''exhausted all versions to negotiate''"
definition ErrBadVersionString :: goerror where "ErrBadVersionString = OpaqueError ''bad version string''"

text \<open>The errors of the transport as Go errors; none of them wraps another.\<close>

definition conn_goerror :: "conn_cause \<Rightarrow> goerror" where
  "conn_goerror e = OpaqueError ''socket error''"

definition client_goerror :: "lookup_error recv_error \<Rightarrow> goerror" where
  "client_goerror e = (case e of
       ConnError c \<Rightarrow> conn_goerror c
     | ErrNoValidMessage \<Rightarrow> OpaqueError ''buffer contained no valid message''
     | LookupError ErrUnexpectedTag \<Rightarrow> OpaqueError ''unexpected tag in response''
     | LookupError (ErrBadResponse got want) \<Rightarrow> OpaqueError ''unexpected message type'')"

section \<open>Receiving\<close>

text \<open>The lookup function \<^verbatim>\<open>handleOne\<close> passes to \<^verbatim>\<open>recv\<close>: a pending tag, and the expected type or an error.\<close>

definition lookup_pending ::
  "tag \<Rightarrow> msgType \<Rightarrow> (tag \<times> message) list \<Rightarrow> (lookup_error + message) \<times> (tag \<times> message) list" where
  "lookup_pending t mt ps =
     (case map_of ps t of
        None \<Rightarrow> (Inl ErrUnexpectedTag, ps)
      | Some r \<Rightarrow>
          if mt = msgRlerror then (Inr (Rlerror rlerror_zero), ps)
          else if mt \<noteq> msg_typ r then (Inl (ErrBadResponse mt (msg_typ r)), ps)
          else (Inr r, ps))"

text \<open>
  \<^verbatim>\<open>handleOne\<close>: on an error every waiter is told and \<open>pending\<close> is emptied, otherwise the request of the
  tag is completed with the message.
\<close>

definition handleOne :: "bool \<Rightarrow> 'p Client \<Rightarrow> (goerror + tag \<times> message) \<times> 'p Client" where
  "handleOne sc c =
     (case recv sc (cl_messageSize c) lookup_pending (inbound c) (pending c) of
        ((t, Inl err), r, ps) \<Rightarrow> (Inl (client_goerror err), c\<lparr>inbound := r, pending := []\<rparr>)
      | ((t, Inr m), r, ps) \<Rightarrow> (Inr (t, m), c\<lparr>inbound := r, pending := AList.delete t (pending c)\<rparr>))"

text \<open>\<^verbatim>\<open>waitAndRecv\<close> of the caller with tag \<open>t\<close>: messages are handled until its own is complete.\<close>

partial_function (option) waitAndRecv ::
  "bool \<Rightarrow> tag \<Rightarrow> 'p Client \<Rightarrow> ((goerror + message) \<times> 'p Client) option" where
  "waitAndRecv sc t c =
     (case handleOne sc c of
        (Inl err, c) \<Rightarrow> Some (Inl err, c)
      | (Inr (t', m), c) \<Rightarrow> if t' = t then Some (Inr m, c) else waitAndRecv sc t c)"

section \<open>A round trip\<close>

text \<open>The write, with the answer of the peer queued behind what is already inbound.\<close>

definition write_to :: "'p wire \<Rightarrow> byte list list \<Rightarrow> 'p \<times> io_reader \<Rightarrow> io_error option \<times> 'p \<times> io_reader" where
  "write_to W vecs pr = (case W vecs (fst pr) of (err, answer, p) \<Rightarrow> (err, p, snd pr @ answer))"

definition sendRecv ::
  "'p wire \<Rightarrow> bool \<Rightarrow> message \<Rightarrow> message \<Rightarrow> 'p Client \<Rightarrow> ((goerror + message) \<times> 'p Client) option" where
  "sendRecv W sc tm rm c =
     (case pool_Get (tagPool c) of
        (None, pl) \<Rightarrow> Some (Inl ErrOutOfTags, c\<lparr>tagPool := pl\<rparr>)
      | (Some t, pl) \<Rightarrow>
          let c = c\<lparr>tagPool := pl, pending := AList.update (ucast t) rm (pending c)\<rparr> in
          (case send (write_to W) (ucast t) tm (peer c, inbound c) of
             (Some err, p, inb) \<Rightarrow>
               Some (Inl (WrapError ''send'' (conn_goerror err)),
                     c\<lparr>peer := p, inbound := inb, tagPool := pool_Put (tagPool c) t\<rparr>)
           | (None, p, inb) \<Rightarrow>
               map_option (\<lambda>(res, c).
                 (case res of
                    Inl err \<Rightarrow> Inl (WrapError ''wait'' err)
                  | Inr (Rlerror e) \<Rightarrow> Inl (LinuxErrno (ucast (rlerror_Error e)))
                  | Inr m \<Rightarrow> Inr m,
                  c\<lparr>tagPool := pool_Put (tagPool c) t\<rparr>))
                 (waitAndRecv sc (ucast t) (c\<lparr>peer := p, inbound := inb\<rparr>))))"

section \<open>Creating a client\<close>

definition DefaultMessageSize :: uint32 where
  "DefaultMessageSize = 64 * 1024"

definition roundDown :: "uint32 \<Rightarrow> uint32 \<Rightarrow> uint32" where
  "roundDown p align = (if p > align \<and> p mod align \<noteq> 0 then p - p mod align else p)"

text \<open>\<^verbatim>\<open>WithMessageSize\<close>; \<open>None\<close> is the error.\<close>

definition WithMessageSize :: "registry \<Rightarrow> uint32 \<Rightarrow> 'p Client \<Rightarrow> 'p Client option" where
  "WithMessageSize reg m c = (if m \<le> largestFixedSize reg then None else Some (c\<lparr>cl_messageSize := m\<rparr>))"

definition initClient :: "'p \<Rightarrow> io_reader \<Rightarrow> 'p Client" where
  "initClient p inb = \<lparr>peer = p, inbound = inb, tagPool = \<lparr>pool_cache = [], start = 1, limit = ucast noTag\<rparr>,
     fidPool = \<lparr>pool_cache = [], start = 1, limit = noFID\<rparr>, pending = [],
     cl_messageSize = DefaultMessageSize, payloadSize = 0, cl_version = highestSupportedVersion\<rparr>"

text \<open>The negotiation loop. \<^verbatim>\<open>requested\<close> goes down by one at each EAGAIN, so it ends.\<close>

function negotiate ::
  "'p wire \<Rightarrow> bool \<Rightarrow> uint32 \<Rightarrow> 'p Client \<Rightarrow> ((goerror + unit) \<times> 'p Client) option" where
  "negotiate W sc requested c =
     (case sendRecv W sc
        (Tversion \<lparr>tversion_MSize = cl_messageSize c, tversion_Version = versionString version9P2000L requested\<rparr>)
        (Rversion rversion_zero) c of
        None \<Rightarrow> None
      | Some (res, c) \<Rightarrow>
          (case res of
             Inl err \<Rightarrow>
               if errors_Is err (LinuxErrno EAGAIN) then
                 if requested = lowestSupportedVersion then Some (Inl ErrVersionsExhausted, c)
                 else negotiate W sc (requested - 1) c
               else Some (Inl err, c)
           | Inr m \<Rightarrow>
               (case parseVersion (case m of Rversion r \<Rightarrow> rversion_Version r | _ \<Rightarrow> []) of
                  None \<Rightarrow> Some (Inl ErrBadVersionString, c)
                | Some (base, version) \<Rightarrow>
                    if base \<noteq> version9P2000L then Some (Inl ErrBadVersionString, c)
                    else Some (Inr (), c\<lparr>cl_version := version\<rparr>))))"
  by pat_completeness auto

termination
  by (relation "measure (\<lambda>(W, sc, requested, c). unat requested)")
    (auto simp: lowestSupportedVersion_def unat_minus_one word_gt_0 unat_gt_0 intro: diff_less)

declare negotiate.simps [simp del]

definition NewClient ::
  "'p wire \<Rightarrow> bool \<Rightarrow> registry \<Rightarrow> uint32 option \<Rightarrow> 'p \<Rightarrow> io_reader \<Rightarrow> ((goerror + 'p Client) \<times> 'p Client) option" where
  "NewClient W sc reg msize p inb =
     (let c = initClient p inb in
      case (case msize of None \<Rightarrow> Some c | Some m \<Rightarrow> WithMessageSize reg m c) of
        None \<Rightarrow> Some (Inl (OpaqueError ''message too large''), c)
      | Some c \<Rightarrow>
          let c = c\<lparr>payloadSize := roundDown (cl_messageSize c - largestFixedSize reg) 512\<rparr> in
          map_option (\<lambda>(res, c). (map_sum id (\<lambda>_. c) res, c)) (negotiate W sc (cl_version c) c))"

end
