(* ===== verification/P9_ClientFile.thy ===== *)
theory P9_ClientFile
  imports P9_Client P9_File
begin

text \<open>
  The files of a client, \<^verbatim>\<open>p9/client_file.go\<close>: each method sends one request (or, for reads and writes
  of any length, one per chunk) and takes the result from the response. A \<^verbatim>\<open>*clientFile\<close> is its fid and
  its closed flag; \<^verbatim>\<open>Close\<close> and \<^verbatim>\<open>Remove\<close> return the file with the flag set. The response message is
  filled in place by \<^verbatim>\<open>recv\<close>, so a response of another type would leave the zero value: the
  accessors below say so, although \<^verbatim>\<open>handleOne\<close> admits no such response.
\<close>

section \<open>Files and requests\<close>

record clientFile =
  cf_fid :: fid
  cf_closed :: bool

definition newFile :: "fid \<Rightarrow> clientFile" where
  "newFile f = \<lparr>cf_fid = f, cf_closed = False\<rparr>"

type_synonym ('a, 'p) call = "'p Client \<Rightarrow> ((goerror + 'a) \<times> 'p Client) option"

text \<open>The guard of the methods, and a request whose response is read with \<open>get\<close>.\<close>

definition unless_closed :: "clientFile \<Rightarrow> ('a, 'p) call \<Rightarrow> ('a, 'p) call" where
  "unless_closed f body c = (if cf_closed f then Some (Inl (LinuxErrno EBADF), c) else body c)"

definition ask :: "'p wire \<Rightarrow> bool \<Rightarrow> message \<Rightarrow> message \<Rightarrow> (message \<Rightarrow> 'a) \<Rightarrow> ('a, 'p) call" where
  "ask W sc tm rm get c = map_option (apfst (map_sum id get)) (sendRecv W sc tm rm c)"

text \<open>A request that binds a new fid: the fid goes back to the pool when it fails.\<close>

definition ask_newFID :: "'p wire \<Rightarrow> bool \<Rightarrow> (fid \<Rightarrow> message) \<Rightarrow> message \<Rightarrow> (message \<Rightarrow> 'a) \<Rightarrow> ('a \<times> clientFile, 'p) call" where
  "ask_newFID W sc tm rm get c =
     (case pool_Get (fidPool c) of
        (None, pl) \<Rightarrow> Some (Inl ErrOutOfFIDs, c\<lparr>fidPool := pl\<rparr>)
      | (Some newFID, pl) \<Rightarrow>
          (case sendRecv W sc (tm newFID) rm (c\<lparr>fidPool := pl\<rparr>) of
             None \<Rightarrow> None
           | Some (Inl err, c) \<Rightarrow> Some (Inl err, c\<lparr>fidPool := pool_Put (fidPool c) newFID\<rparr>)
           | Some (Inr m, c) \<Rightarrow> Some (Inr (get m, newFile newFID), c)))"

section \<open>Attach and walk\<close>

definition Client_Attach :: "'p wire \<Rightarrow> bool \<Rightarrow> string \<Rightarrow> (clientFile, 'p) call" where
  "Client_Attach W sc name c =
     map_option (apfst (map_sum id snd))
       (ask_newFID W sc
          (\<lambda>newFID. Tattach \<lparr>tattach_fid = newFID, tattach_Auth = \<lparr>tauth_Authenticationfid = noFID, tauth_UserName = [],
                  tauth_AttachName = name, tauth_UID = NoUID\<rparr>\<rparr>)
          (Rattach rattach_zero) (\<lambda>_. ()) c)"

definition cf_Walk :: "'p wire \<Rightarrow> bool \<Rightarrow> clientFile \<Rightarrow> string list \<Rightarrow> (QID list \<times> clientFile, 'p) call" where
  "cf_Walk W sc f names =
     unless_closed f (ask_newFID W sc
       (\<lambda>newFID. Twalk \<lparr>twalk_fid = cf_fid f, twalk_newFID = newFID, twalk_Names = names\<rparr>)
       (Rwalk rwalk_zero) (\<lambda>m. case m of Rwalk r \<Rightarrow> rwalk_QIDs r | _ \<Rightarrow> []))"

definition cf_GetAttr :: "'p wire \<Rightarrow> bool \<Rightarrow> clientFile \<Rightarrow> AttrMask \<Rightarrow> (QID \<times> AttrMask \<times> Attr, 'p) call" where
  "cf_GetAttr W sc f req =
     unless_closed f (ask W sc (Tgetattr \<lparr>tgetattr_fid = cf_fid f, tgetattr_AttrMask = req\<rparr>) (Rgetattr rgetattr_zero)
       (\<lambda>m. let r = (case m of Rgetattr r \<Rightarrow> r | _ \<Rightarrow> rgetattr_zero) in (rgetattr_QID r, rgetattr_Valid r, rgetattr_Attr r)))"

text \<open>\<^verbatim>\<open>Close\<close> and \<^verbatim>\<open>Remove\<close>: the fid goes back to the pool when the server agreed.\<close>

definition cf_release :: "'p wire \<Rightarrow> bool \<Rightarrow> message \<Rightarrow> message \<Rightarrow> clientFile \<Rightarrow> (unit, 'p) call" where
  "cf_release W sc tm rm f c =
     (if cf_closed f then Some (Inl (LinuxErrno EBADF), c)
      else
        (case sendRecv W sc tm rm c of
           None \<Rightarrow> None
         | Some (Inl err, c) \<Rightarrow> Some (Inl err, c)
         | Some (Inr m, c) \<Rightarrow> Some (Inr (), c\<lparr>fidPool := pool_Put (fidPool c) (cf_fid f)\<rparr>)))"

definition cf_Close :: "'p wire \<Rightarrow> bool \<Rightarrow> clientFile \<Rightarrow> 'p Client \<Rightarrow> ((goerror + unit) \<times> clientFile \<times> 'p Client) option" where
  "cf_Close W sc f c =
     map_option (\<lambda>(res, c). (res, f\<lparr>cf_closed := True\<rparr>, c)) (cf_release W sc (Tclunk \<lparr>tclunk_fid = cf_fid f\<rparr>) (Rclunk ()) f c)"

definition cf_Remove :: "'p wire \<Rightarrow> bool \<Rightarrow> clientFile \<Rightarrow> 'p Client \<Rightarrow> ((goerror + unit) \<times> clientFile \<times> 'p Client) option" where
  "cf_Remove W sc f c =
     map_option (\<lambda>(res, c). (res, f\<lparr>cf_closed := True\<rparr>, c)) (cf_release W sc (Tremove \<lparr>tremove_fid = cf_fid f\<rparr>) (Rremove ()) f c)"

text \<open>Without Twalkgetattr, a walk and a getattr; when the getattr fails the new file is closed.\<close>

definition cf_WalkGetAttr ::
  "'p wire \<Rightarrow> bool \<Rightarrow> clientFile \<Rightarrow> string list \<Rightarrow> (QID list \<times> clientFile \<times> AttrMask \<times> Attr, 'p) call" where
  "cf_WalkGetAttr W sc f components c =
     (if cf_closed f then Some (Inl (LinuxErrno EBADF), c)
      else if \<not> versionSupportsTwalkgetattr (cl_version c) then
        (case cf_Walk W sc f components c of
           None \<Rightarrow> None
         | Some (Inl err, c) \<Rightarrow> Some (Inl err, c)
         | Some (Inr (qids, g), c) \<Rightarrow>
             (case cf_GetAttr W sc g AttrMaskAll c of
                None \<Rightarrow> None
              | Some (Inl err, c) \<Rightarrow> map_option (\<lambda>(_, _, c). (Inl err, c)) (cf_Close W sc g c)
              | Some (Inr (q, valid, attr), c) \<Rightarrow> Some (Inr (qids, g, valid, attr), c)))
      else
        map_option (apfst (map_sum id (\<lambda>(r, g). (rwalkgetattr_QIDs r, g, rwalkgetattr_Valid r, rwalkgetattr_Attr r))))
          (ask_newFID W sc
             (\<lambda>newFID. Twalkgetattr \<lparr>twalkgetattr_fid = cf_fid f, twalkgetattr_newFID = newFID, twalkgetattr_Names = components\<rparr>)
             (Rwalkgetattr rwalkgetattr_zero) (\<lambda>m. case m of Rwalkgetattr r \<Rightarrow> r | _ \<Rightarrow> rwalkgetattr_zero) c))"

section \<open>Attributes, locks, open\<close>

definition cf_StatFS :: "'p wire \<Rightarrow> bool \<Rightarrow> clientFile \<Rightarrow> (FSStat, 'p) call" where
  "cf_StatFS W sc f =
     unless_closed f (ask W sc (Tstatfs \<lparr>tstatfs_fid = cf_fid f\<rparr>) (Rstatfs rstatfs_zero)
       (\<lambda>m. rstatfs_FSStat (case m of Rstatfs r \<Rightarrow> r | _ \<Rightarrow> rstatfs_zero)))"

definition cf_FSync :: "'p wire \<Rightarrow> bool \<Rightarrow> clientFile \<Rightarrow> (unit, 'p) call" where
  "cf_FSync W sc f = unless_closed f (ask W sc (Tfsync \<lparr>tfsync_fid = cf_fid f\<rparr>) (Rfsync ()) (\<lambda>_. ()))"

definition cf_SetAttr :: "'p wire \<Rightarrow> bool \<Rightarrow> clientFile \<Rightarrow> SetAttrMask \<Rightarrow> SetAttr \<Rightarrow> (unit, 'p) call" where
  "cf_SetAttr W sc f valid attr =
     unless_closed f (ask W sc (Tsetattr \<lparr>tsetattr_fid = cf_fid f, tsetattr_Valid = valid, tsetattr_SetAttr = attr\<rparr>)
       (Rsetattr ()) (\<lambda>_. ()))"

text \<open>\<^verbatim>\<open>Lock\<close> builds its request without the fid of the file, as the source does; the status is returned
  beside the error.\<close>

definition cf_Lock ::
  "'p wire \<Rightarrow> bool \<Rightarrow> clientFile \<Rightarrow> int \<Rightarrow> LockType \<Rightarrow> LockFlags \<Rightarrow> uint64 \<Rightarrow> uint64 \<Rightarrow> string \<Rightarrow> 'p Client
   \<Rightarrow> ((LockStatus \<times> goerror option) \<times> 'p Client) option" where
  "cf_Lock W sc f pid locktype flags st len client c =
     (if cf_closed f then Some ((LockStatusError, Some (LinuxErrno EBADF)), c)
      else
        map_option (apfst (\<lambda>res. case res of
            Inl err \<Rightarrow> (rlock_Status rlock_zero, Some err)
          | Inr m \<Rightarrow> (rlock_Status (case m of Rlock r \<Rightarrow> r | _ \<Rightarrow> rlock_zero), None)))
          (sendRecv W sc (Tlock \<lparr>tlock_fid = 0, tlock_Type = locktype, tlock_Flags = flags, tlock_Start = st,
             tlock_Length = len, tlock_PID = of_int pid, tlock_Client = client\<rparr>) (Rlock rlock_zero) c))"

definition cf_Open :: "'p wire \<Rightarrow> bool \<Rightarrow> clientFile \<Rightarrow> OpenFlags \<Rightarrow> (QID \<times> uint32, 'p) call" where
  "cf_Open W sc f flags =
     unless_closed f (ask W sc (Tlopen \<lparr>tlopen_fid = cf_fid f, tlopen_Flags = flags\<rparr>) (Rlopen rlopen_zero)
       (\<lambda>m. let r = (case m of Rlopen r \<Rightarrow> r | _ \<Rightarrow> rlopen_zero) in (rlopen_QID r, rlopen_IoUnit r)))"

section \<open>Reads and writes in chunks\<close>

text \<open>
  \<^verbatim>\<open>chunk\<close>: \<open>fn\<close> gets a slice of \<open>p\<close> and an offset and returns the count, what the slice holds afterwards
  and an error. \<open>None\<close> is the panic on a count beyond the request, or a loop that does not end.
\<close>

partial_function (option) chunk_loop ::
  "nat \<Rightarrow> (byte list \<Rightarrow> uint64 \<Rightarrow> 's \<Rightarrow> ((nat \<times> byte list \<times> goerror option) \<times> 's) option)
   \<Rightarrow> byte list \<Rightarrow> nat \<Rightarrow> uint64 \<Rightarrow> 's \<Rightarrow> ((nat \<times> byte list \<times> goerror option) \<times> 's) option" where
  "chunk_loop chunkSize fn p tot offset s =
     (if tot = length p then Some ((tot, p, None), s)
      else
        (case fn (if length p < tot + chunkSize then drop tot p else take chunkSize (drop tot p)) offset s of
           None \<Rightarrow> None
         | Some ((n, q, err), s) \<Rightarrow>
             let p = take tot p @ q @ drop (tot + length q) p; tot = tot + n in
             (case err of
                Some e \<Rightarrow> Some ((tot, p, Some e), s)
              | None \<Rightarrow>
                  if n < chunkSize then Some ((tot, p, None), s)
                  else if tot > length p then None
                  else chunk_loop chunkSize fn p tot (offset + of_nat n) s)))"

definition chunk ::
  "uint32 \<Rightarrow> (byte list \<Rightarrow> uint64 \<Rightarrow> 's \<Rightarrow> ((nat \<times> byte list \<times> goerror option) \<times> 's) option)
   \<Rightarrow> byte list \<Rightarrow> uint64 \<Rightarrow> 's \<Rightarrow> ((nat \<times> byte list \<times> goerror option) \<times> 's) option" where
  "chunk chunkSize fn p offset s =
     (if length p = 0 then fn p offset s else chunk_loop (unat chunkSize) fn p 0 offset s)"

definition cf_readAt ::
  "'p wire \<Rightarrow> bool \<Rightarrow> clientFile \<Rightarrow> byte list \<Rightarrow> uint64 \<Rightarrow> 'p Client
   \<Rightarrow> ((nat \<times> byte list \<times> goerror option) \<times> 'p Client) option" where
  "cf_readAt W sc f p offset c =
     (if cf_closed f then Some ((0, p, Some (LinuxErrno EBADF)), c)
      else
        map_option (apfst (\<lambda>res. case res of
            Inl err \<Rightarrow> (0, p, Some err)
          | Inr m \<Rightarrow>
              let dat = (case m of Rread r \<Rightarrow> rread_Data r | _ \<Rightarrow> p);
                  p' = take (length p) dat @ drop (length dat) p in
              if length dat = 0 \<and> length p > 0 then (0, p', Some IoEOF) else (length dat, p', None)))
          (sendRecv W sc (Tread \<lparr>tread_fid = cf_fid f, tread_Offset = offset, tread_Count = of_nat (length p)\<rparr>)
             (Rread \<lparr>rread_Data = p\<rparr>) c))"

definition cf_ReadAt where
  "cf_ReadAt W sc f p offset c = chunk (payloadSize c) (cf_readAt W sc f) p offset c"

definition cf_writeAt ::
  "'p wire \<Rightarrow> bool \<Rightarrow> clientFile \<Rightarrow> byte list \<Rightarrow> uint64 \<Rightarrow> 'p Client
   \<Rightarrow> ((nat \<times> byte list \<times> goerror option) \<times> 'p Client) option" where
  "cf_writeAt W sc f p offset c =
     (if cf_closed f then Some ((0, p, Some (LinuxErrno EBADF)), c)
      else
        map_option (apfst (\<lambda>res. case res of
            Inl err \<Rightarrow> (0, p, Some err)
          | Inr m \<Rightarrow> (unat (rwrite_Count (case m of Rwrite r \<Rightarrow> r | _ \<Rightarrow> rwrite_zero)), p, None)))
          (sendRecv W sc (Twrite \<lparr>twrite_fid = cf_fid f, twrite_Offset = offset, twrite_Data = p\<rparr>) (Rwrite rwrite_zero) c))"

definition cf_WriteAt where
  "cf_WriteAt W sc f p offset c = chunk (payloadSize c) (cf_writeAt W sc f) p offset c"

section \<open>Extended attributes\<close>

definition cf_SetXattr :: "string \<Rightarrow> byte list \<Rightarrow> XattrFlags \<Rightarrow> (unit, 'p) call" where
  "cf_SetXattr attr dat flags c = Some (Inl (LinuxErrno ENOSYS), c)"

definition cf_RemoveXattr :: "string \<Rightarrow> (unit, 'p) call" where
  "cf_RemoveXattr attr c = Some (Inl (LinuxErrno ENOSYS), c)"

text \<open>The attribute is read from a new fid, which is closed afterwards in every case.\<close>

definition xattrWalkRead :: "'p wire \<Rightarrow> bool \<Rightarrow> clientFile \<Rightarrow> string \<Rightarrow> (byte list, 'p) call" where
  "xattrWalkRead W sc f attr =
     unless_closed f (\<lambda>c.
       case ask_newFID W sc
              (\<lambda>newFID. Txattrwalk \<lparr>txattrwalk_fid = cf_fid f, txattrwalk_newFID = newFID, txattrwalk_Name = attr\<rparr>)
              (Rxattrwalk rxattrwalk_zero) (\<lambda>m. rxattrwalk_Size (case m of Rxattrwalk r \<Rightarrow> r | _ \<Rightarrow> rxattrwalk_zero)) c of
         None \<Rightarrow> None
       | Some (Inl err, c) \<Rightarrow> Some (Inl err, c)
       | Some (Inr (sz, g), c) \<Rightarrow>
           (case (if sz = 0 then Some (Inr [], c)
                  else map_option (apfst (\<lambda>(n, buf, err).
                         case err of
                           Some e \<Rightarrow> if \<not> errors_Is e IoEOF then Inl e else Inr (take n buf)
                         | None \<Rightarrow> Inr (take n buf)))
                       (cf_ReadAt W sc g (replicate (unat sz) 0) 0 c)) of
              None \<Rightarrow> None
            | Some (res, c) \<Rightarrow> map_option (\<lambda>(_, _, c). (res, c)) (cf_Close W sc g c)))"

definition cf_GetXattr :: "'p wire \<Rightarrow> bool \<Rightarrow> clientFile \<Rightarrow> string \<Rightarrow> (byte list, 'p) call" where
  "cf_GetXattr W sc f attr = xattrWalkRead W sc f attr"

text \<open>The names of a NUL-separated list.\<close>

definition split_names :: "byte list \<Rightarrow> string list" where
  "split_names buf = filter (\<lambda>name. name \<noteq> []) (split_on (CHR 0x00) (map char_of_byte buf))"

definition cf_ListXattrs :: "'p wire \<Rightarrow> bool \<Rightarrow> clientFile \<Rightarrow> (string list, 'p) call" where
  "cf_ListXattrs W sc f c = map_option (apfst (map_sum id split_names)) (xattrWalkRead W sc f [] c)"

section \<open>Directory entries\<close>

text \<open>
  The methods that take another file get it as an option: \<open>None\<close> is a \<^verbatim>\<open>File\<close> that is not a
  \<^verbatim>\<open>*clientFile\<close>.
\<close>

definition with_file :: "clientFile option \<Rightarrow> (clientFile \<Rightarrow> ('a, 'p) call) \<Rightarrow> ('a, 'p) call" where
  "with_file g body c = (case g of None \<Rightarrow> Some (Inl (LinuxErrno EBADF), c) | Some g \<Rightarrow> body g c)"

definition cf_Rename :: "'p wire \<Rightarrow> bool \<Rightarrow> clientFile \<Rightarrow> clientFile option \<Rightarrow> string \<Rightarrow> (unit, 'p) call" where
  "cf_Rename W sc f dir name =
     unless_closed f (with_file dir (\<lambda>d.
       ask W sc (Trename \<lparr>trename_fid = cf_fid f, trename_Directory = cf_fid d, trename_Name = name\<rparr>) (Rrename ()) (\<lambda>_. ())))"

definition cf_Link :: "'p wire \<Rightarrow> bool \<Rightarrow> clientFile \<Rightarrow> clientFile option \<Rightarrow> string \<Rightarrow> (unit, 'p) call" where
  "cf_Link W sc f target newname =
     unless_closed f (with_file target (\<lambda>t.
       ask W sc (Tlink \<lparr>tlink_Directory = cf_fid f, tlink_Target = cf_fid t, tlink_Name = newname\<rparr>) (Rlink ()) (\<lambda>_. ())))"

definition cf_RenameAt ::
  "'p wire \<Rightarrow> bool \<Rightarrow> clientFile \<Rightarrow> string \<Rightarrow> clientFile option \<Rightarrow> string \<Rightarrow> (unit, 'p) call" where
  "cf_RenameAt W sc f oldname newdir newname =
     unless_closed f (with_file newdir (\<lambda>d.
       ask W sc (Trenameat \<lparr>trenameat_OldDirectory = cf_fid f, trenameat_OldName = oldname,
                  trenameat_NewDirectory = cf_fid d, trenameat_NewName = newname\<rparr>) (Rrenameat ()) (\<lambda>_. ())))"

definition cf_UnlinkAt :: "'p wire \<Rightarrow> bool \<Rightarrow> clientFile \<Rightarrow> string \<Rightarrow> uint32 \<Rightarrow> (unit, 'p) call" where
  "cf_UnlinkAt W sc f name flags =
     unless_closed f (ask W sc (Tunlinkat \<lparr>tunlinkat_Directory = cf_fid f, tunlinkat_Name = name, tunlinkat_Flags = flags\<rparr>)
       (Runlinkat ()) (\<lambda>_. ()))"

definition cf_Readdir :: "'p wire \<Rightarrow> bool \<Rightarrow> clientFile \<Rightarrow> uint64 \<Rightarrow> uint32 \<Rightarrow> (Dirent list, 'p) call" where
  "cf_Readdir W sc f offset count =
     unless_closed f (ask W sc (Treaddir \<lparr>treaddir_Directory = cf_fid f, treaddir_Offset = offset, treaddir_Count = count\<rparr>)
       (Rreaddir rreaddir_zero) (\<lambda>m. case m of Rreaddir r \<Rightarrow> rreaddir_Entries r | _ \<Rightarrow> []))"

definition cf_Readlink :: "'p wire \<Rightarrow> bool \<Rightarrow> clientFile \<Rightarrow> (string, 'p) call" where
  "cf_Readlink W sc f =
     unless_closed f (ask W sc (Treadlink \<lparr>treadlink_fid = cf_fid f\<rparr>) (Rreadlink rreadlink_zero)
       (\<lambda>m. case m of Rreadlink r \<Rightarrow> rreadlink_Target r | _ \<Rightarrow> []))"

section \<open>Creation\<close>

text \<open>
  With version 3 or more the Tu-messages carry the uid and the gid; before, the plain messages go
  with no gid. \<^verbatim>\<open>Create\<close> returns the file itself: the server rebinds its fid.
\<close>

definition cf_Create ::
  "'p wire \<Rightarrow> bool \<Rightarrow> clientFile \<Rightarrow> string \<Rightarrow> OpenFlags \<Rightarrow> FileMode \<Rightarrow> UID \<Rightarrow> GID \<Rightarrow> (clientFile \<times> QID \<times> uint32, 'p) call" where
  "cf_Create W sc f name flags permissions uid gid = unless_closed f (\<lambda>c.
     let msg = \<lparr>tlcreate_fid = cf_fid f, tlcreate_Name = name, tlcreate_OpenFlags = flags,
           tlcreate_Permissions = permissions, tlcreate_GID = NoGID\<rparr>;
         file = (\<lambda>r. (f, rlopen_QID (rlcreate_rlopen r), rlopen_IoUnit (rlcreate_rlopen r))) in
     if versionSupportsTucreation (cl_version c) then
       ask W sc (Tucreate \<lparr>tucreate_tlcreate = msg\<lparr>tlcreate_GID := gid\<rparr>, tucreate_UID = uid\<rparr>) (Rucreate rucreate_zero)
         (\<lambda>m. file (rucreate_rlcreate (case m of Rucreate r \<Rightarrow> r | _ \<Rightarrow> rucreate_zero))) c
     else ask W sc (Tlcreate msg) (Rlcreate rlcreate_zero)
         (\<lambda>m. file (case m of Rlcreate r \<Rightarrow> r | _ \<Rightarrow> rlcreate_zero)) c)"

definition cf_Mkdir :: "'p wire \<Rightarrow> bool \<Rightarrow> clientFile \<Rightarrow> string \<Rightarrow> FileMode \<Rightarrow> UID \<Rightarrow> GID \<Rightarrow> (QID, 'p) call" where
  "cf_Mkdir W sc f name permissions uid gid = unless_closed f (\<lambda>c.
     let msg = \<lparr>tmkdir_Directory = cf_fid f, tmkdir_Name = name, tmkdir_Permissions = permissions, tmkdir_GID = NoGID\<rparr> in
     if versionSupportsTucreation (cl_version c) then
       ask W sc (Tumkdir \<lparr>tumkdir_tmkdir = msg\<lparr>tmkdir_GID := gid\<rparr>, tumkdir_UID = uid\<rparr>) (Rumkdir rumkdir_zero)
         (\<lambda>m. rmkdir_QID (rumkdir_rmkdir (case m of Rumkdir r \<Rightarrow> r | _ \<Rightarrow> rumkdir_zero))) c
     else ask W sc (Tmkdir msg) (Rmkdir rmkdir_zero) (\<lambda>m. rmkdir_QID (case m of Rmkdir r \<Rightarrow> r | _ \<Rightarrow> rmkdir_zero)) c)"

definition cf_Symlink :: "'p wire \<Rightarrow> bool \<Rightarrow> clientFile \<Rightarrow> string \<Rightarrow> string \<Rightarrow> UID \<Rightarrow> GID \<Rightarrow> (QID, 'p) call" where
  "cf_Symlink W sc f oldname newname uid gid = unless_closed f (\<lambda>c.
     let msg = \<lparr>tsymlink_Directory = cf_fid f, tsymlink_Name = newname, tsymlink_Target = oldname, tsymlink_GID = NoGID\<rparr> in
     if versionSupportsTucreation (cl_version c) then
       ask W sc (Tusymlink \<lparr>tusymlink_tsymlink = msg\<lparr>tsymlink_GID := gid\<rparr>, tusymlink_UID = uid\<rparr>) (Rusymlink rusymlink_zero)
         (\<lambda>m. rsymlink_QID (rusymlink_rsymlink (case m of Rusymlink r \<Rightarrow> r | _ \<Rightarrow> rusymlink_zero))) c
     else ask W sc (Tsymlink msg) (Rsymlink rsymlink_zero) (\<lambda>m. rsymlink_QID (case m of Rsymlink r \<Rightarrow> r | _ \<Rightarrow> rsymlink_zero)) c)"

definition cf_Mknod ::
  "'p wire \<Rightarrow> bool \<Rightarrow> clientFile \<Rightarrow> string \<Rightarrow> FileMode \<Rightarrow> uint32 \<Rightarrow> uint32 \<Rightarrow> UID \<Rightarrow> GID \<Rightarrow> (QID, 'p) call" where
  "cf_Mknod W sc f name mode major minor uid gid = unless_closed f (\<lambda>c.
     let msg = \<lparr>tmknod_Directory = cf_fid f, tmknod_Name = name, tmknod_Mode = mode, tmknod_Major = major,
           tmknod_Minor = minor, tmknod_GID = NoGID\<rparr> in
     if versionSupportsTucreation (cl_version c) then
       ask W sc (Tumknod \<lparr>tumknod_tmknod = msg\<lparr>tmknod_GID := gid\<rparr>, tumknod_UID = uid\<rparr>) (Rumknod rumknod_zero)
         (\<lambda>m. rmknod_QID (rumknod_rmknod (case m of Rumknod r \<Rightarrow> r | _ \<Rightarrow> rumknod_zero))) c
     else ask W sc (Tmknod msg) (Rmknod rmknod_zero) (\<lambda>m. rmknod_QID (case m of Rmknod r \<Rightarrow> r | _ \<Rightarrow> rmknod_zero)) c)"

text \<open>\<^verbatim>\<open>Renamed\<close> does nothing.\<close>

definition cf_Renamed :: "clientFile option \<Rightarrow> string \<Rightarrow> 'p Client \<Rightarrow> 'p Client" where
  "cf_Renamed newDir newName c = c"

end
