(* ===== verification/P9_Chunk.thy ===== *)
theory P9_Chunk
  imports P9_ClientFile
begin

text \<open>
  \<^verbatim>\<open>chunk\<close> of \<^verbatim>\<open>client_file.go\<close> is transparent: reading or writing any number of bytes in pieces of the
  payload size gives what one read or write of all of them would give.
\<close>

section \<open>Reading\<close>

text \<open>A file of the given content, as \<^verbatim>\<open>readAt\<close> reports it: the bytes there are, and EOF when there are none.\<close>

definition reads_content ::
  "byte list \<Rightarrow> (byte list \<Rightarrow> uint64 \<Rightarrow> 's \<Rightarrow> ((nat \<times> byte list \<times> goerror option) \<times> 's) option) \<Rightarrow> bool" where
  "reads_content content fn \<longleftrightarrow> (\<forall>p offset s.
     let d = take (length p) (drop (unat offset) content) in
     fn p offset s = Some ((length d, d @ drop (length d) p, if d = [] \<and> p \<noteq> [] then Some IoEOF else None), s))"

lemma reads_contentD:
  "reads_content content fn \<Longrightarrow> fn p offset s =
     (let d = take (length p) (drop (unat offset) content) in
      Some ((length d, d @ drop (length d) p, if d = [] \<and> p \<noteq> [] then Some IoEOF else None), s))"
  by (simp add: reads_content_def Let_def)

lemma unat_add_of_nat: "unat off + n < 2 ^ 64 \<Longrightarrow> unat (off + of_nat n :: uint64) = unat off + n"
  by (simp add: unat_word_ariths unat_of_nat_64)

text \<open>The slice of the next chunk, and what the buffer becomes.\<close>

lemma chunk_slice:
  "(if length (dn @ todo) < length dn + cz then drop (length dn) (dn @ todo) else take cz (drop (length dn) (dn @ todo))) = take cz todo"
  by simp

lemma drop_take_drop:
  assumes "k \<le> length (take n t)" shows "drop k (take n t) @ drop (length (take n t)) t = drop k t"
proof -
  have "drop (length (take n t)) t = drop n t" by (cases "n \<le> length t") simp_all
  moreover have "drop k t = drop k (take n t @ drop n t)" by (simp only: append_take_drop_id)
  moreover have "\<dots> = drop k (take n t) @ drop n t" unfolding drop_append using assms by (metis diff_is_0_eq drop0)
  ultimately show ?thesis by simp
qed

lemma chunk_loop_reads:
  assumes fn: "reads_content content fn" and cz: "0 < cz" and "unat off + length dn + length todo < 2 ^ 64"
  shows "chunk_loop cz fn (dn @ todo) (length dn) (off + of_nat (length dn)) s =
    (let d = take (length todo) (drop (unat off + length dn) content) in
     Some ((length dn + length d, dn @ d @ drop (length d) todo,
       if length d < length todo \<and> cz dvd length d then Some IoEOF else None), s))"
  using assms(3)
proof (induction "length todo" arbitrary: dn todo rule: less_induct)
  case less
  let ?X = "drop (unat off + length dn) content"
  define sl where "sl = take cz todo"
  define e where "e = take (length sl) ?X"
  have "unat (off + of_nat (length dn)) = unat off + length dn" by (rule unat_add_of_nat) (use less.prems in simp)
  then have r: "fn sl (off + of_nat (length dn)) s =
      Some ((length e, e @ drop (length e) sl, if e = [] \<and> sl \<noteq> [] then Some IoEOF else None), s)"
    using reads_contentD [OF fn, of sl "off + of_nat (length dn)" s] by (simp add: Let_def e_def)
  have le: "length e \<le> length sl" "length sl \<le> length todo" by (auto simp: e_def sl_def)
  have "take (length dn) (dn @ todo) @ (e @ drop (length e) sl) @ drop (length dn + length (e @ drop (length e) sl)) (dn @ todo)
      = dn @ e @ drop (length e) todo"
    using drop_take_drop [of "length e" cz todo, folded sl_def] le by simp
  note step = chunk_loop.simps [of cz fn "dn @ todo" "length dn" "off + of_nat (length dn)" s, unfolded chunk_slice, folded sl_def,
    unfolded r option.case prod.case Let_def this]
  consider "todo = []" | "todo \<noteq> []" "e = []" | "todo \<noteq> []" "e \<noteq> []" "length e < cz" | "todo \<noteq> []" "length e = cz"
    using le cz by (fastforce simp: sl_def)
  then show ?case
  proof cases
    case 1
    then show ?thesis by (subst step) simp
  next
    case 2
    then have "sl \<noteq> []" "?X = []" using cz by (auto simp: sl_def e_def min_def split: if_splits)
    with 2 show ?thesis using cz by (subst step) simp
  next
    case 3
    then have d: "take (length todo) ?X = e" by (cases "length todo \<le> cz") (auto simp: e_def sl_def)
    have "\<not> cz dvd length e" using 3 by (auto dest: dvd_imp_le)
    with 3 le show ?thesis unfolding d Let_def by (subst step) simp
  next
    case 4
    then have l: "length sl = cz" "cz \<le> length todo" "cz \<le> length ?X" using le by (auto simp: sl_def e_def)
    define d' where "d' = take (length (drop cz todo)) (drop (unat off + length (dn @ e)) content)"
    have d: "take (length todo) ?X = e @ d'"
      using l 4 take_add [of cz "length todo - cz" ?X] by (simp add: e_def d'_def ac_simps)
    have "chunk_loop cz fn ((dn @ e) @ drop cz todo) (length (dn @ e)) (off + of_nat (length (dn @ e))) s =
        (let d = d' in Some ((length (dn @ e) + length d, (dn @ e) @ d @ drop (length d) (drop cz todo),
           if length d < length (drop cz todo) \<and> cz dvd length d then Some IoEOF else None), s))"
      unfolding d'_def by (rule less.hyps) (use l 4 cz less.prems in auto)
    then have ih: "chunk_loop cz fn (dn @ e @ drop cz todo) (length dn + cz) (off + of_nat (length dn) + of_nat cz) s =
        Some ((length dn + (cz + length d'), dn @ e @ d' @ drop (cz + length d') todo,
           if cz + length d' < length todo \<and> cz dvd (cz + length d') then Some IoEOF else None), s)"
      using 4 l by (simp add: add.assoc less_diff_conv add.commute [of cz])
    have "length dn \<noteq> length (dn @ todo)" "e \<noteq> []" "\<not> length dn + length e > length (dn @ e @ drop (length e) todo)"
      using 4 cz by auto
    with 4 ih show ?thesis unfolding d Let_def by (subst step) (simp del: length_drop)
  qed
qed

text \<open>C17: A read in chunks is the read as a whole. For every positive payload size, reading any number of
  bytes at any offset from a file delivers exactly the bytes the file has there, in place and in order,
  with the right count, and it ends; the only error is EOF, and it comes only when bytes are missing.\<close>

theorem chunk_reads_all:
  assumes fn: "reads_content content fn" and cz: "0 < chunkSize" and len: "unat off + length p < 2 ^ 64"
  shows "\<exists>err. chunk chunkSize fn p off s =
      (let d = take (length p) (drop (unat off) content) in Some ((length d, d @ drop (length d) p, err), s)) \<and>
    (err = None \<or> err = Some IoEOF \<and> length content < unat off + length p)"
proof (cases "p = []")
  case True
  then show ?thesis using reads_contentD [OF fn, of p off s] by (simp add: chunk_def)
next
  case False
  have c: "0 < unat chunkSize" using cz by (simp add: word_less_nat_alt)
  show ?thesis
    using chunk_loop_reads [OF fn c, of off "[]" p s] len False by (auto simp: chunk_def Let_def)
qed

definition read_content :: "byte list \<Rightarrow> byte list \<Rightarrow> uint64 \<Rightarrow> 's \<Rightarrow> ((nat \<times> byte list \<times> goerror option) \<times> 's) option" where
  "read_content content p offset s =
     (let d = take (length p) (drop (unat offset) content) in
      Some ((length d, d @ drop (length d) p, if d = [] \<and> p \<noteq> [] then Some IoEOF else None), s))"

theorem chunk_reads_all_witness:
  "\<exists>err. chunk 2 (read_content [10, 11, 12, 13, 14]) [0, 0, 0, 0, 0, 0] 1 () =
      (let d = take (length [0, 0, 0, 0, 0, 0 :: byte]) (drop (unat (1 :: uint64)) [10, 11, 12, 13, 14]) in
       Some ((length d, d @ drop (length d) [0, 0, 0, 0, 0, 0], err), ())) \<and>
    (err = None \<or> err = Some IoEOF \<and> length [10, 11, 12, 13, 14 :: byte] < unat (1 :: uint64) + length [0, 0, 0, 0, 0, 0 :: byte])"
  by (rule chunk_reads_all) (simp_all add: reads_content_def read_content_def)

section \<open>Writing\<close>

text \<open>A file written at an offset; a gap is filled with zeros.\<close>

definition overwrite :: "nat \<Rightarrow> byte list \<Rightarrow> byte list \<Rightarrow> byte list" where
  "overwrite off bs old = take off (old @ replicate (off - length old) 0) @ bs @ drop (off + length bs) old"

definition writes_file :: "(byte list \<Rightarrow> uint64 \<Rightarrow> byte list \<Rightarrow> ((nat \<times> byte list \<times> goerror option) \<times> byte list) option) \<Rightarrow> bool" where
  "writes_file fn \<longleftrightarrow> (\<forall>p offset old. fn p offset old = Some ((length p, p, None), overwrite (unat offset) p old))"

lemma overwrite_append: "overwrite (off + length a) b (overwrite off a old) = overwrite off (a @ b) old"
proof -
  have "min (length old) off + (off - length old) = off" by simp
  then show ?thesis by (simp add: overwrite_def ac_simps)
qed

lemma overwrite_Nil_id: "off \<le> length old \<Longrightarrow> overwrite off [] old = old"
  by (simp add: overwrite_def)

lemma chunk_loop_writes:
  assumes fn: "writes_file fn" and cz: "0 < cz" and "unat off + length dn + length todo < 2 ^ 64"
  shows "todo \<noteq> [] \<Longrightarrow> chunk_loop cz fn (dn @ todo) (length dn) (off + of_nat (length dn)) old =
    Some ((length dn + length todo, dn @ todo, None), overwrite (unat off + length dn) todo old)"
  using assms(3)
proof (induction "length todo" arbitrary: dn todo old rule: less_induct)
  case less
  define sl where "sl = take cz todo"
  have off: "unat (off + of_nat (length dn)) = unat off + length dn" by (rule unat_add_of_nat) (use less.prems in simp)
  have r: "fn sl (off + of_nat (length dn)) old = Some ((length sl, sl, None), overwrite (unat off + length dn) sl old)"
    using fn by (simp add: writes_file_def off)
  have td: "sl @ drop (length sl) todo = todo" by (metis append_take_drop_id sl_def take_all_iff length_take min_def drop_take_drop drop0 order_refl)
  then have "take (length dn) (dn @ todo) @ sl @ drop (length dn + length sl) (dn @ todo) = dn @ todo" by simp
  note step = chunk_loop.simps [of cz fn "dn @ todo" "length dn" "off + of_nat (length dn)" old, unfolded chunk_slice, folded sl_def,
    unfolded r option.case prod.case Let_def this]
  show ?case
  proof (cases "drop (length sl) todo = []")
    case True
    then have "sl = todo" using td by simp
    then show ?thesis
      using less.prems chunk_loop.simps [of cz fn "dn @ todo" "length (dn @ todo)"] by (subst step) auto
  next
    case False
    then have l: "length sl = cz" "cz < length todo" by (auto simp: sl_def)
    have "chunk_loop cz fn ((dn @ sl) @ drop cz todo) (length (dn @ sl)) (off + of_nat (length (dn @ sl))) (overwrite (unat off + length dn) sl old) =
        Some ((length (dn @ sl) + length (drop cz todo), (dn @ sl) @ drop cz todo, None),
          overwrite (unat off + length (dn @ sl)) (drop cz todo) (overwrite (unat off + length dn) sl old))"
      by (rule less.hyps) (use l cz less.prems in auto)
    moreover have "overwrite (unat off + length (dn @ sl)) (drop cz todo) (overwrite (unat off + length dn) sl old) = overwrite (unat off + length dn) todo old"
      using overwrite_append [of "unat off + length dn" sl "drop cz todo" old] td l(1) by (simp add: add.assoc)
    ultimately show ?thesis using l td less.prems by (subst step) (simp add: add.assoc)
  qed
qed

text \<open>C18: A write in chunks is the write as a whole: every byte is written once, at its place, the count is
  the length, and it ends without an error.\<close>

theorem chunk_writes_all:
  assumes fn: "writes_file fn" and cz: "0 < chunkSize" and len: "unat off + length p < 2 ^ 64"
  shows "chunk chunkSize fn p off old = Some ((length p, p, None), overwrite (unat off) p old)"
proof (cases "p = []")
  case True
  then show ?thesis using fn by (simp add: chunk_def writes_file_def)
next
  case False
  have c: "0 < unat chunkSize" using cz by (simp add: word_less_nat_alt)
  show ?thesis using chunk_loop_writes [OF fn c, of off "[]" p old] len False by (simp add: chunk_def)
qed

theorem chunk_writes_all_witness:
  "chunk 2 (\<lambda>p offset old. Some ((length p, p, None), overwrite (unat offset) p old)) [1, 2, 3] 1 [9, 9] =
    Some ((length [1, 2, 3 :: byte], [1, 2, 3], None), overwrite (unat (1 :: uint64)) [1, 2, 3] [9, 9])"
  by (rule chunk_writes_all) (simp_all add: writes_file_def)

end
