(* ===== verification/P9_Conn.thy ===== *)
theory P9_Conn
  imports P9_Serve
begin

text \<open>
  One connection of \<^verbatim>\<open>p9/server.go\<close> with its request goroutines: \<^verbatim>\<open>handleRequest\<close> cut at its
  synchronisation points (\<^verbatim>\<open>recvMu\<close>, \<^verbatim>\<open>tagMu\<close>, the channel of \<^verbatim>\<open>WaitTag\<close>, \<^verbatim>\<open>sendMu\<close>), the table of active tags
  with their channels, and a step relation that interleaves the pieces of any number of requests.
  A handler is one step. A request that the code forgets after its response is kept as \<open>Done\<close>, so
  that requests have fixed positions.
\<close>

section \<open>State\<close>

text \<open>
  Where a request is: received and not started, its handler running, blocked in \<^verbatim>\<open>WaitTag\<close> on a
  channel, handled, tag cleared (or refused by \<^verbatim>\<open>recv\<close>, when there is no message to recycle), done.
\<close>

datatype phase =
    Received tag message
  | Running tag message
  | Flushing tag message nat
  | Handled tag message message
  | Replying tag "message option" message
  | Done tag

record ('w, 'f) connState =
  cs :: "('w, 'f) srv"
  cs_t :: io_reader
  recvShutdown :: bool
  dotL :: registry
  tags :: "(tag \<times> nat) list"
  chans :: "bool list"
  requests :: "phase list"
  cs_r :: "(nat \<times> tag \<times> message) list"

text \<open>
  \<open>chans\<close> holds the channels made so far and whether each is closed; \<open>cs_r\<close> is what was sent, in
  order, each response with the position of its request. \<open>newConn\<close> is the state \<^verbatim>\<open>Server.Handle\<close>
  starts from.
\<close>

definition newConn :: "'w \<Rightarrow> io_reader \<Rightarrow> registry \<Rightarrow> ('w, 'f) connState" where
  "newConn w t reg = \<lparr>cs = NewServer w, cs_t = t, recvShutdown = False, dotL = reg, tags = [],
     chans = [], requests = [], cs_r = []\<rparr>"

section \<open>Tags\<close>

definition StartTag :: "tag \<Rightarrow> ('w, 'f) connState \<Rightarrow> bool \<times> ('w, 'f) connState" where
  "StartTag t c =
     (case map_of (tags c) t of
        Some ch \<Rightarrow> (False, c)
      | None \<Rightarrow> (True, c\<lparr>tags := AList.update t (length (chans c)) (tags c), chans := chans c @ [False]\<rparr>))"

text \<open>\<open>None\<close> is a panic: the tag is not active, or its channel is already closed.\<close>

definition ClearTag :: "tag \<Rightarrow> ('w, 'f) connState \<Rightarrow> ('w, 'f) connState option" where
  "ClearTag t c =
     (case map_of (tags c) t of
        None \<Rightarrow> None
      | Some ch \<Rightarrow>
          if ch < length (chans c) \<and> \<not> chans c ! ch
          then Some (c\<lparr>tags := AList.delete t (tags c), chans := (chans c)[ch := True]\<rparr>) else None)"

text \<open>The channel \<^verbatim>\<open>WaitTag\<close> waits for, if there is one.\<close>

definition WaitTag :: "tag \<Rightarrow> ('w, 'f) connState \<Rightarrow> nat option" where
  "WaitTag t c = map_of (tags c) t"

section \<open>The pieces of handleRequest\<close>

definition recv_goerror :: "ErrInvalidMsgType recv_error \<Rightarrow> goerror" where
  "recv_goerror e = (case e of
       ErrNoValidMessage \<Rightarrow> OpaqueError ''buffer contained no valid message''
     | LookupError i \<Rightarrow> OpaqueError ''invalid message type''
     | ConnError c \<Rightarrow> OpaqueError ''socket error'')"

definition recvLimit :: "('w, 'f) srv \<Rightarrow> uint32" where
  "recvLimit s = (if messageSize s = 0 then maximumLength else messageSize s)"

text \<open>
  The part under \<^verbatim>\<open>recvMu\<close>: a connection error shuts receiving down, any other error is answered
  at once, a message becomes a new request.
\<close>

definition receive :: "bool \<Rightarrow> ('w, 'f) connState \<Rightarrow> ('w, 'f) connState" where
  "receive sc c =
     (case recv sc (recvLimit (cs c)) registry_lookup (cs_t c) (dotL c) of
        ((tg, Inl (ConnError e)), t, reg) \<Rightarrow> c\<lparr>cs_t := t, dotL := reg, recvShutdown := True\<rparr>
      | ((tg, Inl err), t, reg) \<Rightarrow>
          c\<lparr>cs_t := t, dotL := reg, requests := requests c @ [Replying tg None (newErr (recv_goerror err))]\<rparr>
      | ((tg, Inr m), t, reg) \<Rightarrow> c\<lparr>cs_t := t, dotL := reg, requests := requests c @ [Received tg m]\<rparr>)"

definition phase_to :: "nat \<Rightarrow> phase \<Rightarrow> ('w, 'f) connState \<Rightarrow> ('w, 'f) connState" where
  "phase_to i p c = c\<lparr>requests := (requests c)[i := p]\<rparr>"

text \<open>A request whose tag is already active is dropped without a response.\<close>

definition start_request :: "nat \<Rightarrow> tag \<Rightarrow> message \<Rightarrow> ('w, 'f) connState \<Rightarrow> ('w, 'f) connState" where
  "start_request i tg m c = (case StartTag tg c of
       (True, c) \<Rightarrow> phase_to i (Running tg m) c
     | (False, c) \<Rightarrow> phase_to i (Done tg) c)"

text \<open>The channel a handler blocks on.\<close>

definition waits_for :: "message \<Rightarrow> ('w, 'f) connState \<Rightarrow> nat option" where
  "waits_for m c = (case m of Tflush t \<Rightarrow> WaitTag (tflush_OldTag t) c | _ \<Rightarrow> None)"

definition run_handler ::
  "('w, 'f) backend \<Rightarrow> nat \<Rightarrow> tag \<Rightarrow> message \<Rightarrow> ('w, 'f) connState \<Rightarrow> ('w, 'f) connState option" where
  "run_handler B i tg m c =
     (case handle B m (cs c) of
        None \<Rightarrow> None
      | Some (r, s) \<Rightarrow> Some (phase_to i (Handled tg m r) (c\<lparr>cs := s\<rparr>)))"

definition clear_request :: "nat \<Rightarrow> tag \<Rightarrow> message \<Rightarrow> message \<Rightarrow> ('w, 'f) connState \<Rightarrow> ('w, 'f) connState option" where
  "clear_request i tg m r c = (case ClearTag tg c of None \<Rightarrow> None | Some c \<Rightarrow> Some (phase_to i (Replying tg (Some m) r) c))"

text \<open>The send (\<open>ok\<close> says whether the write succeeded), and the message goes back to the registry.\<close>

definition send_reply :: "bool \<Rightarrow> nat \<Rightarrow> tag \<Rightarrow> message option \<Rightarrow> message \<Rightarrow> ('w, 'f) connState \<Rightarrow> ('w, 'f) connState" where
  "send_reply ok i tg m r c =
     (phase_to i (Done tg) c)
       \<lparr>cs_r := (if ok then cs_r c @ [(i, tg, r)] else cs_r c),
        dotL := (case m of None \<Rightarrow> dotL c | Some m \<Rightarrow> registry_put (dotL c) m)\<rparr>"

section \<open>Interleavings\<close>

definition phase_is :: "nat \<Rightarrow> phase \<Rightarrow> ('w, 'f) connState \<Rightarrow> bool" where
  "phase_is i p c \<longleftrightarrow> i < length (requests c) \<and> requests c ! i = p"

text \<open>A step of a request that was received.\<close>

inductive request_step :: "('w, 'f) backend \<Rightarrow> ('w, 'f) connState \<Rightarrow> ('w, 'f) connState \<Rightarrow> bool" for B where
  start: "phase_is i (Received tg m) c \<Longrightarrow> request_step B c (start_request i tg m c)"
| run: "phase_is i (Running tg m) c \<Longrightarrow> waits_for m c = None \<Longrightarrow> run_handler B i tg m c = Some c' \<Longrightarrow> request_step B c c'"
| wait: "phase_is i (Running tg m) c \<Longrightarrow> waits_for m c = Some ch \<Longrightarrow> request_step B c (phase_to i (Flushing tg m ch) c)"
| wake: "phase_is i (Flushing tg m ch) c \<Longrightarrow> ch < length (chans c) \<Longrightarrow> chans c ! ch \<Longrightarrow>
    run_handler B i tg m c = Some c' \<Longrightarrow> request_step B c c'"
| clear: "phase_is i (Handled tg m r) c \<Longrightarrow> clear_request i tg m r c = Some c' \<Longrightarrow> request_step B c c'"
| reply: "phase_is i (Replying tg m r) c \<Longrightarrow> request_step B c (send_reply ok i tg m r c)"

text \<open>A step of the connection; \<open>rename_safe\<close> is what the file system guarantees, as for \<open>serves\<close>.\<close>

inductive conn_step :: "bool \<Rightarrow> ('w, 'f) backend \<Rightarrow> ('w, 'f) connState \<Rightarrow> ('w, 'f) connState \<Rightarrow> bool" for sc B where
  receive: "\<not> recvShutdown c \<Longrightarrow> conn_step sc B c (receive sc c)"
| request: "rename_safe B (cs c) \<Longrightarrow> request_step B c c' \<Longrightarrow> conn_step sc B c c'"

abbreviation conn_steps :: "bool \<Rightarrow> ('w, 'f) backend \<Rightarrow> ('w, 'f) connState \<Rightarrow> ('w, 'f) connState \<Rightarrow> bool" where
  "conn_steps sc B \<equiv> (conn_step sc B)\<^sup>*\<^sup>*"

section \<open>Invariant\<close>

text \<open>The tag a request holds in the table.\<close>

fun active_tag :: "phase \<Rightarrow> tag option" where
  "active_tag (Running tg m) = Some tg"
| "active_tag (Flushing tg m ch) = Some tg"
| "active_tag (Handled tg m r) = Some tg"
| "active_tag _ = None"

definition active :: "('w, 'f) connState \<Rightarrow> nat \<Rightarrow> tag \<Rightarrow> bool" where
  "active c i tg \<longleftrightarrow> i < length (requests c) \<and> active_tag (requests c ! i) = Some tg"

text \<open>
  The table holds exactly the tags of the active requests, each of one request only; the channels
  in it are open and different.
\<close>

definition tags_ok :: "('w, 'f) connState \<Rightarrow> bool" where
  "tags_ok c \<longleftrightarrow>
     (\<forall>tg. map_of (tags c) tg \<noteq> None \<longleftrightarrow> (\<exists>i. active c i tg)) \<and>
     (\<forall>tg i j. active c i tg \<longrightarrow> active c j tg \<longrightarrow> i = j) \<and>
     (\<forall>tg ch. map_of (tags c) tg = Some ch \<longrightarrow> ch < length (chans c) \<and> \<not> chans c ! ch) \<and>
     (\<forall>tg tg' ch. map_of (tags c) tg = Some ch \<longrightarrow> map_of (tags c) tg' = Some ch \<longrightarrow> tg = tg')"

text \<open>A channel waited for exists; while it is open, it is in the table.\<close>

definition waits_ok :: "('w, 'f) connState \<Rightarrow> bool" where
  "waits_ok c \<longleftrightarrow> (\<forall>i tg m ch. phase_is i (Flushing tg m ch) c \<longrightarrow>
     ch < length (chans c) \<and> (\<not> chans c ! ch \<longrightarrow> (\<exists>t. map_of (tags c) t = Some ch)))"

text \<open>Every response was sent once, for a request that is done, with its tag.\<close>

definition sent_ok :: "('w, 'f) connState \<Rightarrow> bool" where
  "sent_ok c \<longleftrightarrow> distinct (map fst (cs_r c)) \<and> (\<forall>(i, tg, r)\<in>set (cs_r c). phase_is i (Done tg) c)"

definition conn_inv :: "('w, 'f) connState \<Rightarrow> bool" where
  "conn_inv c \<longleftrightarrow> inv (\<lambda>_. 0) (cs c) \<and> tags_ok c \<and> waits_ok c \<and> sent_ok c"

section \<open>Every step keeps the invariant\<close>

lemma phase_to_simps [simp]:
  "cs (phase_to i p c) = cs c" "tags (phase_to i p c) = tags c" "chans (phase_to i p c) = chans c"
  "cs_r (phase_to i p c) = cs_r c" "length (requests (phase_to i p c)) = length (requests c)"
  "cs_t (phase_to i p c) = cs_t c" "dotL (phase_to i p c) = dotL c" "recvShutdown (phase_to i p c) = recvShutdown c"
  by (simp_all add: phase_to_def)

lemma phase_is_phase_to:
  "phase_is j q (phase_to i p c) \<longleftrightarrow> (if j = i then i < length (requests c) \<and> q = p else phase_is j q c)"
  by (auto simp: phase_is_def phase_to_def)

lemma active_phase_to:
  "active (phase_to i p c) j tg \<longleftrightarrow>
   (if j = i then i < length (requests c) \<and> active_tag p = Some tg else active c j tg)"
  by (auto simp: active_def phase_to_def)

lemma phase_is_active: "phase_is i p c \<Longrightarrow> active c i tg \<longleftrightarrow> active_tag p = Some tg"
  by (auto simp: phase_is_def active_def)

lemma tags_ok_cong:
  "active c' = active c \<Longrightarrow> tags c' = tags c \<Longrightarrow> chans c' = chans c \<Longrightarrow> tags_ok c' = tags_ok c"
  by (simp add: tags_ok_def)

lemma phase_to_keeps_active:
  assumes "phase_is i q c" and "active_tag p = active_tag q"
  shows "active (phase_to i p c) = active c"
  using assms by (auto simp: fun_eq_iff active_phase_to phase_is_active [OF assms(1)] phase_is_def)

text \<open>The table with a new tag, and without a tag.\<close>

lemma tags_ok_insert:
  assumes ok: "tags_ok c" and new: "map_of (tags c) tg = None"
    and a: "\<And>j t. active c' j t \<longleftrightarrow> (if j = i then t = tg else active c j t)" and i: "\<And>t. \<not> active c i t"
    and tags: "map_of (tags c') = (map_of (tags c))(tg \<mapsto> length (chans c))" and ch: "chans c' = chans c @ [False]"
  shows "tags_ok c'"
proof -
  have "\<not> active c j tg" for j using ok new unfolding tags_ok_def by blast
  moreover have bound: "ch < length (chans c)" if "map_of (tags c) t = Some ch" for t ch using ok that by (auto simp: tags_ok_def)
  moreover have "map_of (tags c') t \<noteq> None \<longleftrightarrow> (\<exists>j. active c' j t)" for t
  proof (cases "t = tg")
    case False
    then have "active c' j t \<longleftrightarrow> active c j t" for j using i by (simp add: a)
    then show ?thesis using ok False by (simp add: tags_ok_def tags)
  qed (use a in \<open>auto simp: tags\<close>)
  ultimately show ?thesis
    using ok i unfolding tags_ok_def ch a tags
    by (intro conjI) (simp, auto simp: nth_append less_Suc_eq split: if_splits)
qed

lemma tags_ok_delete:
  assumes ok: "tags_ok c" and ac: "active c i tg" and m: "map_of (tags c) tg = Some ch"
    and a: "\<And>j t. active c' j t \<longleftrightarrow> j \<noteq> i \<and> active c j t"
    and tags: "map_of (tags c') = (map_of (tags c))(tg := None)" and ch: "chans c' = (chans c)[ch := True]"
  shows "tags_ok c'"
proof -
  have one: "active c j tg \<longleftrightarrow> j = i" for j using ok ac by (auto simp: tags_ok_def)
  have tag: "active c i t \<longleftrightarrow> t = tg" for t using ac by (auto simp: active_def)
  have inj: "map_of (tags c) t = Some ch \<longleftrightarrow> t = tg" for t using ok m by (auto simp: tags_ok_def)
  have "map_of (tags c') t \<noteq> None \<longleftrightarrow> (\<exists>j. active c' j t)" for t
  proof (cases "t = tg")
    case False
    then have "active c j t \<longrightarrow> j \<noteq> i" for j using tag by blast
    then show ?thesis using ok False by (auto simp: tags_ok_def a tags)
  qed (simp add: a tags one)
  then show ?thesis
    using ok inj unfolding tags_ok_def ch a tags
    by (intro conjI) (simp, blast, auto simp: nth_list_update split: if_splits)
qed

definition channel_ok :: "('w, 'f) connState \<Rightarrow> nat \<Rightarrow> bool" where
  "channel_ok c ch \<longleftrightarrow> ch < length (chans c) \<and> (\<not> chans c ! ch \<longrightarrow> (\<exists>t. map_of (tags c) t = Some ch))"

lemma waits_ok_iff: "waits_ok c \<longleftrightarrow> (\<forall>i tg m ch. phase_is i (Flushing tg m ch) c \<longrightarrow> channel_ok c ch)"
  by (simp add: waits_ok_def channel_ok_def)

lemma waits_ok_phase_to:
  assumes "waits_ok c" and "\<And>tg m ch. p = Flushing tg m ch \<Longrightarrow> channel_ok c ch"
  shows "waits_ok (phase_to i p c)"
  using assms unfolding waits_ok_iff by (auto simp: phase_is_phase_to channel_ok_def split: if_splits)

lemma waits_ok_mono:
  assumes ok: "waits_ok c" and rq: "requests c' = requests c" and len: "length (chans c) \<le> length (chans c')"
    and keep: "\<And>t ch. ch < length (chans c) \<Longrightarrow> \<not> chans c' ! ch \<Longrightarrow>
      \<not> chans c ! ch \<and> (map_of (tags c) t = Some ch \<longrightarrow> map_of (tags c') t = Some ch)"
  shows "waits_ok c'"
  unfolding waits_ok_def
proof (intro allI impI conjI)
  fix i tg m ch assume "phase_is i (Flushing tg m ch) c'"
  then have c: "ch < length (chans c)" "\<not> chans c ! ch \<longrightarrow> (\<exists>t. map_of (tags c) t = Some ch)"
    using ok rq by (auto simp: waits_ok_def phase_is_def)
  from c(1) len show "ch < length (chans c')" by simp
  assume "\<not> chans c' ! ch"
  with keep [OF c(1)] c(2) show "\<exists>t. map_of (tags c') t = Some ch" by blast
qed

lemma sent_ok_phase_to:
  assumes "sent_ok c" and "phase_is i q c" and "\<And>tg. q \<noteq> Done tg"
  shows "sent_ok (phase_to i p c)"
proof -
  have "j \<noteq> i" if "phase_is j (Done tg) c" for j tg using assms(2,3) that by (auto simp: phase_is_def)
  with assms(1) show ?thesis unfolding sent_ok_def by (auto simp: phase_is_phase_to)
qed

lemma same_requests:
  "requests c' = requests c \<Longrightarrow> active c' = active c"
  "requests c' = requests c \<Longrightarrow> phase_is i p c' = phase_is i p c"
  "requests c' = requests c \<Longrightarrow> cs_r c' = cs_r c \<Longrightarrow> sent_ok c' = sent_ok c"
  by (simp_all add: active_def phase_is_def sent_ok_def fun_eq_iff)

lemma StartTag_inv:
  assumes c: "conn_inv c" and i: "phase_is i (Received tg m) c" and s: "StartTag tg c = (True, c')"
  shows "conn_inv (phase_to i (Running tg m) c')"
proof -
  have new: "map_of (tags c) tg = None" and cs: "cs c' = cs c" and rq: "requests c' = requests c" "cs_r c' = cs_r c"
    and tg: "map_of (tags c') = (map_of (tags c))(tg \<mapsto> length (chans c))" and ch: "chans c' = chans c @ [False]"
    using s by (auto simp: StartTag_def update_conv' split: option.splits)
  have ok: "tags_ok c" "waits_ok c" "sent_ok c'" using c same_requests(3) [OF rq] by (simp_all add: conn_inv_def)
  have i': "phase_is i (Received tg m) c'" using i same_requests(2) [OF rq(1)] by simp
  have "tags_ok (phase_to i (Running tg m) c')"
  proof (rule tags_ok_insert [OF ok(1) new])
    show "active (phase_to i (Running tg m) c') j t \<longleftrightarrow> (if j = i then t = tg else active c j t)" for j t
      using i' by (auto simp: active_phase_to same_requests(1) [OF rq(1)] phase_is_def)
  qed (simp_all add: tg ch phase_is_active [OF i])
  moreover have "waits_ok c'"
    by (rule waits_ok_mono [OF ok(2) rq(1)]) (auto simp: tg ch nth_append new)
  then have "waits_ok (phase_to i (Running tg m) c')" by (rule waits_ok_phase_to) simp
  moreover have "sent_ok (phase_to i (Running tg m) c')" by (rule sent_ok_phase_to [OF ok(3) i']) simp
  ultimately show ?thesis using c cs by (simp add: conn_inv_def)
qed

lemma ClearTag_inv:
  assumes c: "conn_inv c" and i: "phase_is i (Handled tg m r) c"
  shows "\<exists>c'. clear_request i tg m r c = Some c' \<and> conn_inv c'"
proof -
  have ac: "active c i tg" using phase_is_active [OF i] by simp
  then obtain ch where ch: "map_of (tags c) tg = Some ch" "ch < length (chans c)" "\<not> chans c ! ch"
    using c unfolding conn_inv_def tags_ok_def by blast
  then obtain d where d: "ClearTag tg c = Some d" "cs d = cs c" "requests d = requests c" "cs_r d = cs_r c"
    "map_of (tags d) = (map_of (tags c))(tg := None)" "chans d = (chans c)[ch := True]"
    by (simp add: ClearTag_def delete_conv')
  have ok: "tags_ok c" "waits_ok c" "sent_ok d" using c same_requests(3) [OF d(3,4)] by (simp_all add: conn_inv_def)
  have i': "phase_is i (Handled tg m r) d" using i same_requests(2) [OF d(3)] by simp
  have "tags_ok (phase_to i (Replying tg (Some m) r) d)"
    by (rule tags_ok_delete [OF ok(1) ac ch(1)]) (auto simp: active_phase_to same_requests(1) [OF d(3)] d)
  moreover have "waits_ok d"
    by (rule waits_ok_mono [OF ok(2) d(3)]) (use ch in \<open>auto simp: d nth_list_update split: if_splits\<close>)
  then have "waits_ok (phase_to i (Replying tg (Some m) r) d)" by (rule waits_ok_phase_to) simp
  moreover have "sent_ok (phase_to i (Replying tg (Some m) r) d)" by (rule sent_ok_phase_to [OF ok(3) i']) simp
  ultimately show ?thesis using c d by (simp add: clear_request_def conn_inv_def)
qed

text \<open>A step that changes only the phase of a request, between phases with the same active tag.\<close>

lemma phase_to_inv:
  assumes c: "conn_inv c" and i: "phase_is i q c" and "active_tag p = active_tag q" and "\<And>tg. q \<noteq> Done tg"
    and "\<And>tg m ch. p = Flushing tg m ch \<Longrightarrow> channel_ok c ch"
  shows "conn_inv (phase_to i p c)"
  using c tags_ok_cong [OF phase_to_keeps_active [OF i assms(3)]] waits_ok_phase_to [OF _ assms(5)]
    sent_ok_phase_to [OF _ i assms(4)]
  by (simp add: conn_inv_def)

lemma run_handler_inv:
  assumes c: "conn_inv c" and safe: "rename_safe B (cs c)" and i: "phase_is i q c" and q: "active_tag q = Some tg"
  shows "\<exists>c'. run_handler B i tg m c = Some c' \<and> conn_inv c'"
proof -
  obtain r s where h: "handle B m (cs c) = Some (r, s)" "inv (\<lambda>_. 0) s"
    using handle_inv [of "\<lambda>_. 0" "cs c" B m] c safe by (auto simp: conn_inv_def wp_iff)
  have "conn_inv (phase_to i (Handled tg m r) c)" by (rule phase_to_inv [OF c i]) (use q in auto)
  then have "conn_inv (phase_to i (Handled tg m r) (c\<lparr>cs := s\<rparr>))"
    using h(2) by (simp add: conn_inv_def tags_ok_def waits_ok_def sent_ok_def phase_to_def active_def phase_is_def)
  with h(1) show ?thesis by (simp add: run_handler_def)
qed

end
