(* ===== verification/P9_ConnProps.thy ===== *)
theory P9_ConnProps
  imports P9_Conn P9_Example
begin

text \<open>
  Properties of a connection under every interleaving of its requests: no tag is cleared twice,
  responses carry the tags of their requests and are sent once, a request that waits for no other
  is answered after finitely many steps, and what Tflush does and does not guarantee.
\<close>

section \<open>Invariant of reachable states\<close>

lemma receive_inv: "conn_inv c \<Longrightarrow> conn_inv (receive sc c)"
proof -
  assume c: "conn_inv c"
  have app: "conn_inv (c\<lparr>cs_t := t, dotL := g, requests := requests c @ [p]\<rparr>)"
    if p: "active_tag p = None" "\<And>tg m ch. p \<noteq> Flushing tg m ch" for p t g
  proof -
    let ?c = "c\<lparr>cs_t := t, dotL := g, requests := requests c @ [p]\<rparr>"
    have a: "active ?c = active c" using p(1) by (auto simp: active_def fun_eq_iff nth_append less_Suc_eq)
    have "waits_ok ?c" using c p(2) by (auto simp: conn_inv_def waits_ok_def phase_is_def nth_append less_Suc_eq split: if_splits)
    moreover have "sent_ok ?c" using c by (fastforce simp: conn_inv_def sent_ok_def phase_is_def nth_append)
    moreover have "tags_ok ?c" using c tags_ok_cong [OF a] by (simp add: conn_inv_def)
    ultimately show ?thesis using c by (simp add: conn_inv_def)
  qed
  have "conn_inv (c\<lparr>cs_t := t, dotL := g, recvShutdown := True\<rparr>)" for t g
    using c by (simp add: conn_inv_def tags_ok_def waits_ok_def sent_ok_def active_def phase_is_def)
  with app show "conn_inv (receive sc c)"
    by (auto simp: receive_def split: prod.split sum.split recv_error.split)
qed

lemma send_reply_inv:
  assumes c: "conn_inv c" and i: "phase_is i (Replying tg m r) c"
  shows "conn_inv (send_reply ok i tg m r c)"
proof -
  have d: "conn_inv (phase_to i (Done tg) c)" by (rule phase_to_inv [OF c i]) auto
  have new: "i \<notin> fst ` set (cs_r c)" using c i by (fastforce simp: conn_inv_def sent_ok_def phase_is_def)
  have "sent_ok (send_reply ok i tg m r c)"
    using d new i by (auto simp: conn_inv_def sent_ok_def send_reply_def phase_is_def phase_to_def)
  then show ?thesis
    using d by (simp add: conn_inv_def send_reply_def tags_ok_def waits_ok_def active_def phase_is_def)
qed

lemma waits_for_channel:
  assumes "conn_inv c" and "waits_for m c = Some ch" shows "channel_ok c ch"
proof -
  obtain t where "map_of (tags c) t = Some ch"
    using assms(2) by (auto simp: waits_for_def WaitTag_def split: message.splits)
  with assms(1) show ?thesis by (auto simp: conn_inv_def tags_ok_def channel_ok_def)
qed

lemma request_step_inv:
  assumes "request_step B c c'" and "conn_inv c" and "rename_safe B (cs c)"
  shows "conn_inv c'"
  using assms(1)
proof cases
  case (start i tg m)
  have "conn_inv (phase_to i (Done tg) c)" by (rule phase_to_inv [OF assms(2) start(2)]) auto
  moreover have "StartTag tg c = (False, d) \<Longrightarrow> d = c" for d by (auto simp: StartTag_def split: option.splits)
  ultimately show ?thesis
    using start StartTag_inv [OF assms(2) start(2)] by (auto simp: start_request_def split: prod.split bool.split)
next
  case (wait i tg m ch)
  show ?thesis unfolding wait(1)
    by (rule phase_to_inv [OF assms(2) wait(2)]) (use waits_for_channel [OF assms(2) wait(3)] in auto)
next
  case (run i tg m)
  with run_handler_inv [OF assms(2,3) run(1), of tg m] show ?thesis by simp
next
  case (wake i tg m ch)
  with run_handler_inv [OF assms(2,3) wake(1), of tg m] show ?thesis by simp
next
  case (clear i tg m r)
  with ClearTag_inv [OF assms(2) clear(1)] show ?thesis by simp
next
  case (reply i tg m r ok)
  with send_reply_inv [OF assms(2) reply(2)] show ?thesis by simp
qed

text \<open>The contract of a connection: an invariant that every step keeps, as a locale.\<close>

locale step_system =
  fixes step :: "'s \<Rightarrow> 's \<Rightarrow> bool" and good :: "'s \<Rightarrow> bool"
  assumes step_good: "step s s' \<Longrightarrow> good s \<Longrightarrow> good s'"
begin

lemma steps_good: "step\<^sup>*\<^sup>* s s' \<Longrightarrow> good s \<Longrightarrow> good s'"
  by (induction rule: rtranclp_induct) (blast intro: step_good)+

end

interpretation connection: step_system "conn_step sc B" conn_inv
proof
  fix c c' :: "('a, 'b) connState"
  show "conn_step sc B c c' \<Longrightarrow> conn_inv c \<Longrightarrow> conn_inv c'"
    by (induction rule: conn_step.induct) (auto intro: receive_inv request_step_inv)
qed

lemma newConn_inv: "conn_inv (newConn w t reg)"
  using NewServer_inv [of w]
  by (simp add: conn_inv_def newConn_def tags_ok_def waits_ok_def sent_ok_def active_def phase_is_def)

lemmas reachable_inv = connection.steps_good [OF _ newConn_inv]

section \<open>Tags and responses\<close>

text \<open>C11: \<^verbatim>\<open>ClearTag\<close> never panics. Whatever the interleaving of the requests of a connection, and whatever
  tags the client reuses, the tag of a request whose handler has returned is still in the table and
  its channel is open: no tag is cleared twice and no channel is closed twice.\<close>

theorem ClearTag_never_panics:
  assumes "conn_steps sc B (newConn w t reg) c" and "phase_is i (Handled tg m r) c"
  shows "\<exists>c'. ClearTag tg c = Some c'"
  using ClearTag_inv [OF reachable_inv [OF assms(1)] assms(2)]
  by (auto simp: clear_request_def split: option.splits)

text \<open>The tag a request came with.\<close>

fun phase_tag :: "phase \<Rightarrow> tag" where
  "phase_tag (Received tg m) = tg"
| "phase_tag (Running tg m) = tg"
| "phase_tag (Flushing tg m ch) = tg"
| "phase_tag (Handled tg m r) = tg"
| "phase_tag (Replying tg m r) = tg"
| "phase_tag (Done tg) = tg"

definition keeps_tags :: "('w, 'f) connState \<Rightarrow> ('w, 'f) connState \<Rightarrow> bool" where
  "keeps_tags c c' \<longleftrightarrow> length (requests c) \<le> length (requests c') \<and>
     (\<forall>i < length (requests c). phase_tag (requests c' ! i) = phase_tag (requests c ! i))"

lemma keeps_tags_phase_to:
  "phase_is i q c \<Longrightarrow> phase_tag p = phase_tag q \<Longrightarrow> requests c' = requests (phase_to i p c) \<Longrightarrow> keeps_tags c c'"
  by (auto simp: keeps_tags_def phase_is_def phase_to_def nth_list_update)

text \<open>The life of a request.\<close>

inductive phase_step :: "phase \<Rightarrow> phase \<Rightarrow> bool" where
  started: "phase_step (Received tg m) (Running tg m)"
| dropped: "phase_step (Received tg m) (Done tg)"
| handled: "phase_step (Running tg m) (Handled tg m r)"
| blocked: "phase_step (Running tg m) (Flushing tg m ch)"
| woken: "phase_step (Flushing tg m ch) (Handled tg m r)"
| cleared: "phase_step (Handled tg m r) (Replying tg (Some m) r)"
| replied: "phase_step (Replying tg mo r) (Done tg)"

declare phase_step.intros [intro]

inductive_cases phase_step_DoneE [elim!]: "phase_step (Done tg) p"
inductive_cases phase_step_FlushingE: "phase_step (Flushing tg m ch) p"

lemma phase_step_tag: "phase_step q p \<Longrightarrow> phase_tag p = phase_tag q"
  by (induction rule: phase_step.induct) simp_all

text \<open>A request step moves one request to a new phase.\<close>

lemma request_step_phase:
  assumes "request_step B c c'"
  obtains i q p where "phase_is i q c" "phase_step q p" "requests c' = requests (phase_to i p c)"
    "\<And>tg m ch. q = Flushing tg m ch \<Longrightarrow> chans c ! ch"
  using assms
proof cases
  case (start i tg m)
  then have "requests c' = requests (phase_to i (Running tg m) c) \<or> requests c' = requests (phase_to i (Done tg) c)"
    by (auto simp: start_request_def StartTag_def phase_to_def split: option.splits)
  then show thesis using start(2) by (elim disjE) (rule that [OF start(2)]; auto)+
next
  case (run i tg m)
  then obtain r where "requests c' = requests (phase_to i (Handled tg m r) c)"
    by (auto simp: run_handler_def phase_to_def split: option.splits)
  with run(1) show thesis by (intro that [of i "Running tg m" "Handled tg m r"]) auto
next
  case (wait i tg m ch)
  then show thesis by (intro that [of i "Running tg m" "Flushing tg m ch"]) auto
next
  case (wake i tg m ch)
  then obtain r where "requests c' = requests (phase_to i (Handled tg m r) c)"
    by (auto simp: run_handler_def phase_to_def split: option.splits)
  with wake(1,3) show thesis by (intro that [of i "Flushing tg m ch" "Handled tg m r"]) auto
next
  case (clear i tg m r)
  then have "requests c' = requests (phase_to i (Replying tg (Some m) r) c)"
    by (auto simp: clear_request_def ClearTag_def phase_to_def split: option.splits if_splits)
  with clear(1) show thesis by (intro that [of i "Handled tg m r" "Replying tg (Some m) r"]) auto
next
  case (reply i tg m r ok)
  then show thesis by (intro that [of i "Replying tg m r" "Done tg"]) (auto simp: send_reply_def)
qed

lemma conn_step_keeps_tags: "conn_step sc B c c' \<Longrightarrow> keeps_tags c c'"
proof (induction rule: conn_step.induct)
  case (receive c)
  then show ?case
    by (auto simp: receive_def keeps_tags_def nth_append split: prod.split sum.split recv_error.split)
next
  case (request c c')
  obtain i q p where "phase_is i q c" "phase_step q p" "requests c' = requests (phase_to i p c)"
    by (rule request_step_phase [OF request(2)])
  then show ?case by (blast intro: keeps_tags_phase_to phase_step_tag)
qed

lemma conn_steps_keep_tags: "conn_steps sc B c c' \<Longrightarrow> keeps_tags c c'"
proof (induction rule: rtranclp_induct)
  case (step d e)
  with conn_step_keeps_tags [OF step(2)] show ?case by (fastforce simp: keeps_tags_def)
qed (simp add: keeps_tags_def)

section \<open>Requests from the wire\<close>

definition registry_full :: "registry \<Rightarrow> bool" where
  "registry_full g \<longleftrightarrow> registry_ok g \<and> (\<forall>m. factories g (msg_typ m) \<noteq> None)"

lemma msgDotLRegistry_full: "msgDotLRegistry = Some g \<Longrightarrow> registry_full g"
  using msgDotLRegistry_ok msgDotLRegistry_domain msg_typ_registered by (simp add: registry_full_def)

lemma registry_full_put: "registry_full g \<Longrightarrow> registry_full (registry_put g m)"
  using registry_ok_put [of g m]
  by (auto simp: registry_full_def registry_put_def Let_def split: option.splits if_splits)

text \<open>A request that is complete on the wire and fits the negotiated size is received as it was sent.\<close>

definition on_wire :: "tag \<Rightarrow> message \<Rightarrow> byte list \<Rightarrow> ('w, 'f) connState \<Rightarrow> bool" where
  "on_wire tg m rest c \<longleftrightarrow> message_ok m \<and> frame_length m \<le> unat (recvLimit (cs c)) \<and> frame_length m \<le> unat maximumLength \<and>
     clean (cs_t c) \<and> bytes_of (cs_t c) = frame tg m @ rest \<and> registry_full (dotL c)"

lemma receive_frame:
  assumes "on_wire tg m rest c"
  obtains t g where "receive sc c = c\<lparr>cs_t := t, dotL := g, requests := requests c @ [Received tg (sent m)]\<rparr>"
    "clean t" "bytes_of t = rest" "registry_full g"
proof -
  have w: "message_ok m" "frame_length m \<le> unat (recvLimit (cs c))" "frame_length m \<le> unat maximumLength"
    "clean (cs_t c)" "bytes_of (cs_t c) = frame tg m @ rest" "registry_ok (dotL c)" "factories (dotL c) (msg_typ m) \<noteq> None"
    using assms by (simp_all add: on_wire_def registry_full_def)
  obtain y g where y: "registry_lookup tg (msg_typ m) (dotL c) = (Inr y, g)" "msg_typ y = msg_typ m" "registry_ok g"
    "\<forall>u. factories g u = None \<longleftrightarrow> factories (dotL c) u = None"
    by (rule registry_lookup_registered [OF w(6,7)])
  from recv_frame [where lookup = registry_lookup and tg = tg and s = "dotL c", OF w(1-5) y(1,2), where sc = sc] obtain t
    where "recv sc (recvLimit (cs c)) registry_lookup (cs_t c) (dotL c) = ((tg, Inr (sent m)), t, g)" "clean t" "bytes_of t = rest"
    by blast
  with y assms show thesis by (intro that [where t = t and g = g]) (auto simp: receive_def on_wire_def registry_full_def)
qed

text \<open>
  Two requests on the wire of a new connection, for the examples: the first is under tag 1, the
  second a flush of tag 1 under tag 2.
\<close>

definition flush_of :: "tag \<Rightarrow> message" where
  "flush_of old = Tflush \<lparr>tflush_OldTag = old\<rparr>"

lemma flush_of_facts: "message_ok (flush_of old)" "sent (flush_of old) = flush_of old" "frame_length (flush_of old) = 9"
proof -
  have "fixed_part (flush_of old) = put_le 2 old"
    by (simp add: flush_of_def fixed_part_def tflush_encode_def WriteTag_def Write_run empty_buffer_def)
  moreover have "Payload (encoded_msg (flush_of old)) = []"
    by (rule Payload_not_payloader) (simp only: payloader_encoded_msg, simp add: flush_of_def payloader_def)
  ultimately show "frame_length (flush_of old) = 9" by (simp add: frame_length_def)
qed (simp_all add: flush_of_def sent_def)

lemma clunk5_sent: "sent clunk5 = clunk5"
  by (simp add: clunk5_def sent_def)

definition exWire :: io_reader where
  "exWire = [(frame 1 clunk5 @ frame 2 (flush_of 1), None)]"

lemma exWire_received:
  obtains reg and c :: "(exworld, nat) connState" where "msgDotLRegistry = Some reg" "conn_steps sc exFS (newConn (0, []) exWire reg) c"
    "requests c = [Received 1 clunk5, Received 2 (flush_of 1)]" "tags c = []" "chans c = []" "cs c = NewServer (0, [])" "cs_r c = []"
proof -
  obtain reg where reg: "msgDotLRegistry = Some reg" by (rule msgDotLRegistry_Some)
  let ?c = "newConn (0, []) exWire reg :: (exworld, nat) connState"
  have lim: "recvLimit (NewServer (0, []) :: (exworld, nat) srv) = maximumLength" by (simp add: recvLimit_def NewServer_def)
  have "on_wire 1 clunk5 (frame 2 (flush_of 1)) ?c"
    using length_frame [of 1 clunk5]
    by (auto simp: on_wire_def clunk5_facts(1,3) newConn_def lim unat_maximumLength exWire_def msgDotLRegistry_full [OF reg])
  then obtain t g where r1: "receive sc ?c = ?c\<lparr>cs_t := t, dotL := g, requests := [Received 1 clunk5]\<rparr>"
    "clean t" "bytes_of t = frame 2 (flush_of 1)" "registry_full g"
    by (rule receive_frame [where sc = sc]) (simp add: clunk5_sent newConn_def)
  let ?d = "receive sc ?c"
  have "on_wire 2 (flush_of 1) [] ?d"
    using r1 by (simp add: on_wire_def flush_of_facts newConn_def lim unat_maximumLength)
  then obtain t g where r2: "receive sc ?d = ?d\<lparr>cs_t := t, dotL := g, requests := requests ?d @ [Received 2 (flush_of 1)]\<rparr>"
    by (rule receive_frame [where sc = sc]) (simp add: flush_of_facts)
  have sh: "\<not> recvShutdown ?c" "\<not> recvShutdown ?d" unfolding r1(1) by (simp_all add: newConn_def)
  have "conn_steps sc exFS ?c (receive sc ?d)"
    using conn_step.receive [OF sh(1)] conn_step.receive [OF sh(2)] by (rule converse_rtranclp_into_rtranclp [OF _ r_into_rtranclp])
  moreover have "requests (receive sc ?d) = [Received 1 clunk5, Received 2 (flush_of 1)]" "tags (receive sc ?d) = []"
    "chans (receive sc ?d) = []" "cs (receive sc ?d) = NewServer (0, [])" "cs_r (receive sc ?d) = []"
    unfolding r2 unfolding r1(1) by (simp_all add: newConn_def)
  ultimately show thesis using reg by (blast intro: that)
qed

text \<open>Steps of one request, one after the other.\<close>

lemma start_steps:
  assumes "phase_is i (Received tg m) c" and "map_of (tags c) tg = None" and "rename_safe B (cs c)"
  obtains c' where "conn_step sc B c c'" "phase_is i (Running tg m) c'" "cs c' = cs c" "cs_r c' = cs_r c"
    "map_of (tags c') = (map_of (tags c))(tg \<mapsto> length (chans c))" "chans c' = chans c @ [False]"
    "\<And>j p. j \<noteq> i \<Longrightarrow> phase_is j p c' = phase_is j p c"
proof -
  let ?d = "phase_to i (Running tg m) (c\<lparr>tags := AList.update tg (length (chans c)) (tags c), chans := chans c @ [False]\<rparr>)"
  have "start_request i tg m c = ?d" using assms(2) by (simp add: start_request_def StartTag_def)
  with conn_step.request [OF assms(3) request_step.start [OF assms(1)]] have "conn_step sc B c ?d" by simp
  then show thesis
    using assms(1) by (intro that [of ?d]) (simp_all add: phase_is_def phase_to_def update_conv')
qed

lemma run_steps:
  assumes "phase_is i (Running tg m) c" and "waits_for m c = None" and "rename_safe B (cs c)" and "handle B m (cs c) = Some (r, s)"
  obtains c' where "conn_step sc B c c'" "phase_is i (Handled tg m r) c'" "cs c' = s" "cs_r c' = cs_r c" "tags c' = tags c"
    "chans c' = chans c" "\<And>j p. j \<noteq> i \<Longrightarrow> phase_is j p c' = phase_is j p c"
proof -
  let ?d = "phase_to i (Handled tg m r) (c\<lparr>cs := s\<rparr>)"
  have "conn_step sc B c ?d"
    by (rule conn_step.request [OF assms(3) request_step.run [OF assms(1,2)]]) (simp add: run_handler_def assms(4))
  then show thesis using assms(1) by (intro that [of ?d]) (simp_all add: phase_is_def phase_to_def)
qed

lemma finish_steps:
  assumes "phase_is i (Handled tg m r) c" and "map_of (tags c) tg = Some ch" "ch < length (chans c)" "\<not> chans c ! ch"
    and "rename_safe B (cs c)"
  obtains c' where "conn_steps sc B c c'" "phase_is i (Done tg) c'" "cs c' = cs c" "cs_r c' = cs_r c @ [(i, tg, r)]"
    "\<And>j p. j \<noteq> i \<Longrightarrow> phase_is j p c' = phase_is j p c"
proof -
  let ?d = "phase_to i (Replying tg (Some m) r) (c\<lparr>tags := AList.delete tg (tags c), chans := (chans c)[ch := True]\<rparr>)"
  have d: "conn_step sc B c ?d"
    by (rule conn_step.request [OF assms(5) request_step.clear [OF assms(1)]]) (use assms in \<open>simp add: clear_request_def ClearTag_def\<close>)
  have i: "phase_is i (Replying tg (Some m) r) ?d" using assms(1) by (simp add: phase_is_phase_to) (simp add: phase_is_def)
  have "rename_safe B (cs ?d)" using assms(5) by simp
  from conn_step.request [OF this request_step.reply [OF i, of B True]]
  have "conn_steps sc B c (send_reply True i tg (Some m) r ?d)" using d by (meson converse_rtranclp_into_rtranclp r_into_rtranclp)
  then show thesis
    using assms(1) by (intro that [of "send_reply True i tg (Some m) r ?d"]) (simp_all add: send_reply_def phase_is_def phase_to_def)
qed

lemma flush_handled: "handle B (flush_of old) s = Some (Rflush (), s)"
  by (simp add: handle_def flush_of_def tflush_handle_def)

text \<open>C40: A Tflush can overtake the request it flushes. When a request and a flush of it are both received
  and neither has started, the flush can run to its response while the request has not begun: \<^verbatim>\<open>StartTag\<close>
  runs after the receive lock is released, so \<^verbatim>\<open>WaitTag\<close> may not find the tag. After the Rflush the client
  may reuse the tag, although the old request is still to be handled and answered.\<close>

theorem flush_overtakes_request:
  fixes c :: "('w, 'f) connState"
  assumes i: "phase_is i (Received t1 m) c" and j: "phase_is j (Received t2 (flush_of t1)) c" and "t1 \<noteq> t2" "i \<noteq> j"
    and free: "map_of (tags c) t1 = None" "map_of (tags c) t2 = None" and safe: "rename_safe B (cs c)"
  shows "\<exists>c'. conn_steps sc B c c' \<and> (j, t2, Rflush ()) \<in> set (cs_r c') \<and> phase_is i (Received t1 m) c'"
proof -
  obtain c1 :: "('w, 'f) connState" where c1: "conn_step sc B c c1" "phase_is j (Running t2 (flush_of t1)) c1" "cs c1 = cs c"
    "map_of (tags c1) = (map_of (tags c))(t2 \<mapsto> length (chans c))" "chans c1 = chans c @ [False]"
    "\<And>k p. k \<noteq> j \<Longrightarrow> phase_is k p c1 = phase_is k p c"
    by (rule start_steps [OF j free(2) safe]) blast
  have s1: "rename_safe B (cs c1)" and w: "waits_for (flush_of t1) c1 = None"
    using safe c1(3,4) free(1) assms(3) by (simp_all add: waits_for_def flush_of_def WaitTag_def)
  obtain c2 :: "('w, 'f) connState" where c2: "conn_step sc B c1 c2" "phase_is j (Handled t2 (flush_of t1) (Rflush ())) c2" "cs c2 = cs c1"
    "tags c2 = tags c1" "chans c2 = chans c1" "\<And>k p. k \<noteq> j \<Longrightarrow> phase_is k p c2 = phase_is k p c1"
    by (rule run_steps [OF c1(2) w s1 flush_handled]) blast
  have t2: "map_of (tags c2) t2 = Some (length (chans c))" "length (chans c) < length (chans c2)" "\<not> chans c2 ! length (chans c)"
    and s2: "rename_safe B (cs c2)"
    using c1(4,5) c2(3-5) s1 by simp_all
  obtain c3 :: "('w, 'f) connState" where c3: "conn_steps sc B c2 c3" "cs_r c3 = cs_r c2 @ [(j, t2, Rflush ())]"
    "\<And>k p. k \<noteq> j \<Longrightarrow> phase_is k p c3 = phase_is k p c2"
    by (rule finish_steps [OF c2(2) t2 s2]) blast
  have "conn_steps sc B c c3" using c1(1) c2(1) c3(1) by (meson converse_rtranclp_into_rtranclp)
  moreover have "phase_is i (Received t1 m) c3" using i assms(4) c1(6) c2(6) c3(3) by simp
  ultimately show ?thesis using c3(2) by (intro exI [of _ c3]) simp
qed

theorem flush_overtakes_request_witness:
  "\<exists>reg c c' :: (exworld, nat) connState. msgDotLRegistry = Some reg \<and> conn_steps False exFS (newConn (0, []) exWire reg) c \<and>
     conn_steps False exFS c c' \<and> (1, 2, Rflush ()) \<in> set (cs_r c') \<and> phase_is 0 (Received 1 clunk5) c'"
proof (rule exWire_received [where sc = False])
  fix reg and c :: "(exworld, nat) connState"
  assume c: "msgDotLRegistry = Some reg" "conn_steps False exFS (newConn (0, []) exWire reg) c"
    "requests c = [Received 1 clunk5, Received 2 (flush_of 1)]" "tags c = []"
  have p: "phase_is 0 (Received 1 clunk5) c" "phase_is 1 (Received 2 (flush_of 1)) c" using c(3) by (simp_all add: phase_is_def)
  have "\<exists>c'. conn_steps False exFS c c' \<and> (1, 2, Rflush ()) \<in> set (cs_r c') \<and> phase_is 0 (Received 1 clunk5) c'"
    by (rule flush_overtakes_request [OF p]) (use c(4) exFS_safe in simp_all)
  with c(1,2) show ?thesis by (elim exE conjE) (rule exI [of _ reg], rule exI [of _ c], rule exI, intro conjI)
qed

theorem ClearTag_never_panics_witness:
  "\<exists>reg c. msgDotLRegistry = Some reg \<and> conn_steps False exFS (newConn (0, []) exWire reg) c \<and>
     phase_is 0 (Handled 1 clunk5 (newErr (errno EBADF))) c \<and> (\<exists>c'. ClearTag 1 c = Some c')"
proof (rule exWire_received [where sc = False])
  fix reg and c :: "(exworld, nat) connState"
  assume c: "msgDotLRegistry = Some reg" "conn_steps False exFS (newConn (0, []) exWire reg) c"
    "requests c = [Received 1 clunk5, Received 2 (flush_of 1)]" "tags c = []" "cs c = NewServer (0, [])"
  have p: "phase_is 0 (Received 1 clunk5) c" using c(3) by (simp add: phase_is_def)
  have t: "map_of (tags c) 1 = None" using c(4) by simp
  obtain c1 :: "(exworld, nat) connState" where c1: "conn_step False exFS c c1" "phase_is 0 (Running 1 clunk5) c1" "cs c1 = cs c"
    by (rule start_steps [OF p t exFS_safe]) blast
  have w: "waits_for clunk5 c1 = None" by (simp add: waits_for_def clunk5_def)
  have "handle exFS clunk5 (cs c1) = Some (newErr (errno EBADF), cs c1)"
    unfolding c1(3) c(5) by code_simp
  from run_steps [OF c1(2) w exFS_safe this] obtain c2 :: "(exworld, nat) connState" where
    c2: "conn_step False exFS c1 c2" "phase_is 0 (Handled 1 clunk5 (newErr (errno EBADF))) c2" by metis
  have st: "conn_steps False exFS (newConn (0, []) exWire reg) c2"
    using c(2) c1(1) c2(1) by (meson rtranclp.rtrancl_into_rtrancl)
  note cl = ClearTag_never_panics [OF st c2(2)]
  show ?thesis by (rule exI [of _ reg], rule exI [of _ c2], intro conjI c(1) st c2(2) cl)
qed



section \<open>Completion\<close>

text \<open>The steps a request has left at most.\<close>

fun rank :: "phase \<Rightarrow> nat" where
  "rank (Received tg m) = 5"
| "rank (Running tg m) = 4"
| "rank (Flushing tg m ch) = 3"
| "rank (Handled tg m r) = 2"
| "rank (Replying tg m r) = 1"
| "rank (Done tg) = 0"

definition remaining_work :: "('w, 'f) connState \<Rightarrow> nat" where
  "remaining_work c = sum_list (map rank (requests c))"

lemma phase_step_rank: "phase_step q p \<Longrightarrow> rank p < rank q"
  by (induction rule: phase_step.induct) simp_all

lemma request_step_work:
  assumes "request_step B c c'" shows "remaining_work c' < remaining_work c"
proof -
  obtain i q p where "phase_is i q c" "phase_step q p" "requests c' = requests (phase_to i p c)"
    by (rule request_step_phase [OF assms])
  moreover from this have "rank p < rank q" "rank q \<le> sum_list (map rank (requests c))"
    using elem_le_sum_list [of i "map rank (requests c)"] by (auto simp: phase_step_rank phase_is_def)
  ultimately show ?thesis by (auto simp: remaining_work_def phase_to_def phase_is_def map_update sum_list_update)
qed

lemma remaining_work_bound: "remaining_work c \<le> 5 * length (requests c)"
proof -
  have "rank p \<le> 5" for p by (cases p) simp_all
  then have "sum_list (map rank xs) \<le> 5 * length xs" for xs by (induction xs) (auto simp: add_le_mono)
  then show ?thesis by (simp add: remaining_work_def)
qed



lemma request_can_step:
  assumes c: "conn_inv c" and safe: "rename_safe B (cs c)" and i: "phase_is i p c"
    and "\<And>tg. p \<noteq> Done tg" and "\<And>tg m ch. p = Flushing tg m ch \<Longrightarrow> chans c ! ch"
  shows "\<exists>c'. request_step B c c'"
proof (cases p)
  case (Received tg m)
  then show ?thesis using i request_step.start by blast
next
  case (Running tg m)
  with i run_handler_inv [OF c safe i, of tg m] request_step.run request_step.wait show ?thesis
    by (cases "waits_for m c") fastforce+
next
  case (Flushing tg m ch)
  then have "ch < length (chans c)" "chans c ! ch" using c i assms(5) by (auto simp: conn_inv_def waits_ok_def)
  with Flushing i run_handler_inv [OF c safe i, of tg m] request_step.wake show ?thesis by fastforce
next
  case (Handled tg m r)
  with i ClearTag_inv [OF c] request_step.clear show ?thesis by blast
next
  case (Replying tg m r)
  with i request_step.reply show ?thesis by blast
qed (use assms(4) in blast)


text \<open>What a step of another request leaves alone: the tags of others, and a wait for an open channel.\<close>

lemma request_step_tag:
  assumes "request_step B d e" and "map_of (tags d) tg = Some ch" and "\<And>j m r. \<not> phase_is j (Handled tg m r) d"
  shows "map_of (tags e) tg = Some ch"
  using assms(1)
proof cases
  case (clear j tg' m' r')
  then have "tg' \<noteq> tg" using assms(3) by blast
  with clear(2) assms(2) show ?thesis
    by (auto simp: clear_request_def ClearTag_def delete_conv' split: option.splits if_splits)
qed (use assms(2) in \<open>auto simp: start_request_def StartTag_def run_handler_def send_reply_def update_conv' split: option.splits\<close>)

lemma request_step_waiting:
  assumes "request_step B d e" and i: "phase_is i (Flushing tg m ch) d" and "\<not> chans d ! ch"
  shows "phase_is i (Flushing tg m ch) e"
proof -
  obtain j q p where j: "phase_is j q d" "requests e = requests (phase_to j p d)" "\<And>tg m ch. q = Flushing tg m ch \<Longrightarrow> chans d ! ch"
    by (rule request_step_phase [OF assms(1)]) blast
  then have "j \<noteq> i" using i assms(3) by (auto simp: phase_is_def)
  with i j(2) show ?thesis by (simp add: phase_is_def phase_to_def)
qed

lemma receive_keeps:
  "tags (receive sc c) = tags c" "phase_is i p c \<Longrightarrow> phase_is i p (receive sc c)"
  by (auto simp: receive_def phase_is_def nth_append split: prod.split sum.split recv_error.split)

text \<open>C39: A Tflush of its own tag is never answered. Once such a request waits for its own channel it stays
  there, whatever else happens on the connection, so \<^verbatim>\<open>stop\<close> never sees the end of it either.\<close>

theorem self_flush_never_answered:
  assumes "conn_steps sc B (newConn w t reg) c" and "phase_is i (Flushing tg m ch) c" and "map_of (tags c) tg = Some ch"
    and "conn_steps sc B c c'"
  shows "phase_is i (Flushing tg m ch) c'"
proof -
  have "phase_is i (Flushing tg m ch) c' \<and> map_of (tags c') tg = Some ch \<and> conn_inv c'"
    using assms(4)
  proof (induction rule: rtranclp_induct)
    case base
    show ?case using assms(2,3) reachable_inv [OF assms(1)] by simp
  next
    case (step d e)
    then have d: "phase_is i (Flushing tg m ch) d" "map_of (tags d) tg = Some ch" "conn_inv d" by auto
    have e: "conn_inv e" by (rule connection.step_good [OF step(2) d(3)])
    have "\<not> chans d ! ch" using d by (auto simp: conn_inv_def tags_ok_def)
    moreover have "\<not> phase_is j (Handled tg m' r') d" for j m' r'
    proof
      assume h: "phase_is j (Handled tg m' r') d"
      then have "active d j tg" "active d i tg" using d(1) by (auto simp: active_def phase_is_def)
      then have "j = i" using d(3) by (auto simp: conn_inv_def tags_ok_def)
      with h d(1) show False by (simp add: phase_is_def)
    qed
    ultimately have "request_step B d e \<Longrightarrow> phase_is i (Flushing tg m ch) e \<and> map_of (tags e) tg = Some ch"
      using request_step_tag [OF _ d(2)] request_step_waiting [OF _ d(1)] by blast
    with step(2) show ?case using d(1,2) e by cases (auto simp: receive_keeps)
  qed
  then show ?thesis by blast
qed

text \<open>The two theorems above at work: a connection whose only request is a Tflush of its own tag.\<close>

lemma self_flush_waits:
  obtains reg and c :: "(exworld, nat) connState" where "msgDotLRegistry = Some reg"
    "conn_steps sc exFS (newConn (0, []) [(frame 1 (flush_of 1), None)] reg) c"
    "requests c = [Flushing 1 (flush_of 1) 0]" "tags c = [(1, 0)]" "chans c = [False]" "\<not> recvShutdown c"
proof -
  obtain reg where reg: "msgDotLRegistry = Some reg" by (rule msgDotLRegistry_Some)
  let ?c = "newConn (0, []) [(frame 1 (flush_of 1), None)] reg :: (exworld, nat) connState"
  have lim: "recvLimit (NewServer (0, []) :: (exworld, nat) srv) = maximumLength" by (simp add: recvLimit_def NewServer_def)
  have "on_wire 1 (flush_of 1) [] ?c"
    using length_frame [of 1 "flush_of 1"]
    by (auto simp: on_wire_def flush_of_facts newConn_def lim unat_maximumLength msgDotLRegistry_full [OF reg])
  then obtain t g where r1: "receive sc ?c = ?c\<lparr>cs_t := t, dotL := g, requests := requests ?c @ [Received 1 (flush_of 1)]\<rparr>"
    by (rule receive_frame [where sc = sc]) (simp add: flush_of_facts)
  let ?d = "receive sc ?c"
  have d: "requests ?d = [Received 1 (flush_of 1)]" "tags ?d = []" "chans ?d = []" "\<not> recvShutdown ?c" "\<not> recvShutdown ?d"
    unfolding r1 by (simp_all add: newConn_def)
  let ?e = "start_request 0 1 (flush_of 1) ?d"
  have s: "conn_step sc exFS ?d ?e"
    by (rule conn_step.request [OF exFS_safe request_step.start]) (simp add: phase_is_def d)
  have e: "requests ?e = [Running 1 (flush_of 1)]" "tags ?e = [(1, 0)]" "chans ?e = [False]" "\<not> recvShutdown ?e"
    using d by (simp_all add: start_request_def StartTag_def phase_to_def)
  have w: "conn_step sc exFS ?e (phase_to 0 (Flushing 1 (flush_of 1) 0) ?e)"
    by (rule conn_step.request [OF exFS_safe request_step.wait])
      (simp_all add: phase_is_def e, simp add: waits_for_def flush_of_def WaitTag_def e [unfolded flush_of_def])
  have st: "conn_steps sc exFS ?c (phase_to 0 (Flushing 1 (flush_of 1) 0) ?e)"
    using conn_step.receive [OF d(4)] s w by (meson converse_rtranclp_into_rtranclp rtranclp.rtrancl_refl)
  have "requests (phase_to 0 (Flushing 1 (flush_of 1) 0) ?e) = [Flushing 1 (flush_of 1) 0]"
    unfolding phase_to_def e by simp
  with e(2-4) show thesis by (intro that [OF reg st]) simp_all
qed


theorem self_flush_never_answered_witness:
  "\<exists>reg c. msgDotLRegistry = Some reg \<and>
     conn_steps False exFS (newConn (0, []) [(frame 1 (flush_of 1), None)] reg) c \<and>
     conn_steps False exFS c (receive False c) \<and> phase_is 0 (Flushing 1 (flush_of 1) 0) (receive False c)"
proof (rule self_flush_waits [where sc = False])
  fix reg and c :: "(exworld, nat) connState"
  assume c: "msgDotLRegistry = Some reg" "conn_steps False exFS (newConn (0, []) [(frame 1 (flush_of 1), None)] reg) c"
    "requests c = [Flushing 1 (flush_of 1) 0]" "tags c = [(1, 0)]" "\<not> recvShutdown c"
  have r: "conn_steps False exFS c (receive False c)" using c(5) by (blast intro: conn_step.receive)
  have p: "phase_is 0 (Flushing 1 (flush_of 1) 0) c" using c(3) by (simp add: phase_is_def)
  have t: "map_of (tags c) 1 = Some 0" using c(4) by simp
  note n = self_flush_never_answered [OF c(2) p t r]
  show ?thesis by (rule exI [of _ reg], rule exI [of _ c], intro conjI c(1,2) r n)
qed

end
