(* ===== verification/P9_EndToEnd.thy ===== *)
theory P9_EndToEnd
  imports P9_ConnProps
begin

text \<open>
  A connection from its first byte to its end, served by one goroutine: \<^verbatim>\<open>handleRequest\<close>,
  \<^verbatim>\<open>handleRequests\<close> and \<^verbatim>\<open>Server.Handle\<close> of \<^verbatim>\<open>p9/server.go\<close>, composed of the pieces of \<open>P9_Conn\<close>. The
  theorem joins the transport, the registry, the handlers, the tag table and the release of
  references at the end.
\<close>

section \<open>The serving loop\<close>

text \<open>
  One request from receive to response. \<open>None\<close> is a handler that blocks forever (a Tflush of its
  own tag: with one goroutine no other tag is active) or a panic.
\<close>

definition serve_message ::
  "('w, 'f) backend \<Rightarrow> nat \<Rightarrow> tag \<Rightarrow> message \<Rightarrow> ('w, 'f) connState \<Rightarrow> ('w, 'f) connState option" where
  "serve_message B i tg m c =
     (case StartTag tg c of
        (False, c) \<Rightarrow> Some (phase_to i (Done tg) c)
      | (True, c) \<Rightarrow>
          if waits_for m c \<noteq> None then None
          else
            (case handle B m (cs c) of
               None \<Rightarrow> None
             | Some (r, s) \<Rightarrow>
                 (case clear_request i tg m r (c\<lparr>cs := s\<rparr>) of
                    None \<Rightarrow> None
                  | Some c \<Rightarrow> Some (send_reply True i tg (Some m) r c))))"

definition handleRequest :: "bool \<Rightarrow> ('w, 'f) backend \<Rightarrow> ('w, 'f) connState \<Rightarrow> (bool \<times> ('w, 'f) connState) option" where
  "handleRequest sc B c =
     (if recvShutdown c then Some (False, c)
      else
        let i = length (requests c); c = receive sc c in
        if recvShutdown c then Some (False, c)
        else
          (case requests c ! i of
             Received tg m \<Rightarrow> map_option (Pair True) (serve_message B i tg m c)
           | Replying tg m r \<Rightarrow> Some (True, send_reply True i tg m r c)
           | p \<Rightarrow> None))"

partial_function (option) handleRequests ::
  "bool \<Rightarrow> ('w, 'f) backend \<Rightarrow> ('w, 'f) connState \<Rightarrow> ('w, 'f) connState option" where
  "handleRequests sc B c =
     (case handleRequest sc B c of
        None \<Rightarrow> None
      | Some (again, c) \<Rightarrow> if again then handleRequests sc B c else Some c)"

definition Server_Handle ::
  "bool \<Rightarrow> ('w, 'f) backend \<Rightarrow> 'w \<Rightarrow> io_reader \<Rightarrow> registry \<Rightarrow> (('w, 'f) connState \<times> ('w, 'f) srv) option" where
  "Server_Handle sc B w t reg =
     (case handleRequests sc B (newConn w t reg) of
        None \<Rightarrow> None
      | Some c \<Rightarrow> (case stop B (cs c) of None \<Rightarrow> None | Some s \<Rightarrow> Some (c, s)))"

section \<open>What the client sees\<close>

text \<open>The requests handled one after the other, each response under the tag of its request.\<close>

fun responses ::
  "('w, 'f) backend \<Rightarrow> (tag \<times> message) list \<Rightarrow> ('w, 'f) srv \<Rightarrow> ((tag \<times> message) list \<times> ('w, 'f) srv) option" where
  "responses B [] s = Some ([], s)"
| "responses B ((tg, m) # ms) s =
     (case handle B (sent m) s of
        None \<Rightarrow> None
      | Some (r, s) \<Rightarrow> map_option (apfst (Cons (tg, r))) (responses B ms s))"

text \<open>
  Requests a client may send: well-formed, within the size in force at that point, and no flush of
  its own tag. The file system refuses to move a directory below itself.
\<close>

fun acceptable :: "('w, 'f) backend \<Rightarrow> (tag \<times> message) list \<Rightarrow> ('w, 'f) srv \<Rightarrow> bool" where
  "acceptable B [] s \<longleftrightarrow> True"
| "acceptable B ((tg, m) # ms) s \<longleftrightarrow>
     message_ok m \<and> frame_length m \<le> unat (recvLimit s) \<and> frame_length m \<le> unat maximumLength \<and>
     m \<noteq> flush_of tg \<and> rename_safe B s \<and>
     (case handle B (sent m) s of None \<Rightarrow> True | Some (r, s) \<Rightarrow> acceptable B ms s)"

definition idle :: "('w, 'f) connState \<Rightarrow> bool" where
  "idle c \<longleftrightarrow> tags c = [] \<and> \<not> recvShutdown c \<and> registry_full (dotL c) \<and> clean (cs_t c) \<and> inv (\<lambda>_. 0) (cs c)"

lemma waits_for_own_tag:
  assumes "tags c = [(tg, ch)]" and "m \<noteq> flush_of tg" shows "waits_for m c = None"
  using assms by (auto simp: waits_for_def WaitTag_def flush_of_def split: message.split)

lemma serve_message_idle:
  assumes "tags c = []" and "m \<noteq> flush_of tg" and "handle B m (cs c) = Some (r, s)" and "i < length (requests c)"
  obtains c' where "serve_message B i tg m c = Some c'" "tags c' = []" "cs c' = s" "cs_t c' = cs_t c"
    "recvShutdown c' = recvShutdown c" "dotL c' = registry_put (dotL c) m" "cs_r c' = cs_r c @ [(i, tg, r)]"
    "length (requests c') = length (requests c)"
proof -
  let ?c = "c\<lparr>tags := [(tg, length (chans c))], chans := chans c @ [False]\<rparr>"
  have "StartTag tg c = (True, ?c)" using assms(1) by (simp add: StartTag_def)
  moreover have "waits_for m ?c = None" by (rule waits_for_own_tag) (use assms(2) in simp_all)
  ultimately have "\<exists>c'. serve_message B i tg m c = Some c' \<and> tags c' = [] \<and> cs c' = s \<and> cs_t c' = cs_t c \<and>
      recvShutdown c' = recvShutdown c \<and> dotL c' = registry_put (dotL c) m \<and> cs_r c' = cs_r c @ [(i, tg, r)] \<and>
      length (requests c') = length (requests c)"
    using assms(3) by (simp add: serve_message_def clear_request_def ClearTag_def send_reply_def nth_append)
  then show thesis by (elim exE conjE) (rule that)
qed

lemma handleRequest_frame:
  fixes c :: "('w, 'f) connState"
  assumes c: "idle c" and b: "bytes_of (cs_t c) = frame tg m @ rest" and a: "acceptable B ((tg, m) # ms) (cs c)"
  obtains r and c' :: "('w, 'f) connState" where "handle B (sent m) (cs c) = Some (r, cs c')" "handleRequest sc B c = Some (True, c')" "idle c'"
    "bytes_of (cs_t c') = rest" "cs_r c' = cs_r c @ [(length (requests c), tg, r)]" "acceptable B ms (cs c')"
proof -
  have "on_wire tg m rest c" using c b a by (simp add: on_wire_def idle_def)
  then obtain t g where r: "receive sc c = c\<lparr>cs_t := t, dotL := g, requests := requests c @ [Received tg (sent m)]\<rparr>"
    "clean t" "bytes_of t = rest" "registry_full g" by (rule receive_frame [where sc = sc])
  obtain x s where h: "handle B (sent m) (cs c) = Some (x, s)" "inv (\<lambda>_. 0) s"
    using handle_inv [of "\<lambda>_. 0" "cs c" B "sent m"] c a by (auto simp: idle_def wp_iff)
  have "sent m \<noteq> flush_of tg" using a by (auto simp: sent_def flush_of_def split: message.splits)
  moreover have "tags (receive sc c) = []" "handle B (sent m) (cs (receive sc c)) = Some (x, s)"
    "length (requests c) < length (requests (receive sc c))"
    using c h(1) by (simp_all add: r(1) idle_def)
  ultimately obtain c' :: "('w, 'f) connState" where c': "serve_message B (length (requests c)) tg (sent m) (receive sc c) = Some c'"
    "tags c' = []" "cs c' = s" "cs_t c' = cs_t (receive sc c)" "recvShutdown c' = recvShutdown (receive sc c)"
    "dotL c' = registry_put (dotL (receive sc c)) (sent m)" "cs_r c' = cs_r (receive sc c) @ [(length (requests c), tg, x)]"
    by (metis serve_message_idle)
  show thesis
  proof (rule that [of x c'])
    show "handleRequest sc B c = Some (True, c')" using c c'(1) by (simp add: handleRequest_def Let_def idle_def r(1) nth_append)
    show "idle c'" using c c' r h by (simp add: idle_def registry_full_put)
  qed (use c' r h a in simp_all)
qed

text \<open>At the end of the stream the loop stops.\<close>

lemma handleRequest_end:
  assumes "idle c" and "bytes_of (cs_t c) = []"
  obtains c' where "handleRequest sc B c = Some (False, c')" "cs c' = cs c" "cs_r c' = cs_r c"
proof -
  have "clean (cs_t c)" "length (bytes_of (cs_t c)) < unat headerLength" "\<not> recvShutdown c" using assms by (simp_all add: idle_def)
  then obtain bs err r where "ReadAtLeast (unat headerLength) (cs_t c) = (bs, Some err, r)" by (blast dest: ReadAtLeast_short)
  then have "receive sc c = c\<lparr>cs_t := r, dotL := dotL c, recvShutdown := True\<rparr>" by (simp add: receive_def recv_def)
  with \<open>\<not> recvShutdown c\<close> show thesis by (intro that [of "receive sc c"]) (simp_all add: handleRequest_def Let_def)
qed

lemma handleRequests_serve:
  fixes c :: "('w, 'f) connState"
  assumes "idle c" and "bytes_of (cs_t c) = concat (map (\<lambda>(tg, m). frame tg m) ms)" and "acceptable B ms (cs c)"
  shows "\<exists>rs c'. responses B ms (cs c) = Some (rs, cs c') \<and> handleRequests sc B c = Some c' \<and>
    map snd (cs_r c') = map snd (cs_r c) @ rs \<and> inv (\<lambda>_. 0) (cs c')"
  using assms
proof (induction ms arbitrary: c)
  case Nil
  then obtain c' where c': "handleRequest sc B c = Some (False, c')" "cs c' = cs c" "cs_r c' = cs_r c"
    by (auto elim: handleRequest_end [where sc = sc and B = B])
  with Nil show ?case by (subst handleRequests.simps) (simp add: idle_def)
next
  case (Cons a ms)
  obtain tg m where a: "a = (tg, m)" by fastforce
  have b: "bytes_of (cs_t c) = frame tg m @ concat (map (\<lambda>(tg, m). frame tg m) ms)" using Cons.prems(2) a by simp
  obtain r and c1 :: "('w, 'f) connState" where r: "handle B (sent m) (cs c) = Some (r, cs c1)" "handleRequest sc B c = Some (True, c1)" "idle c1"
    "bytes_of (cs_t c1) = concat (map (\<lambda>(tg, m). frame tg m) ms)" "cs_r c1 = cs_r c @ [(length (requests c), tg, r)]" "acceptable B ms (cs c1)"
    by (rule handleRequest_frame [OF Cons.prems(1) b Cons.prems(3) [unfolded a], where sc = sc])
  from Cons.IH [OF r(3,4,6)] obtain rs and c' :: "('w, 'f) connState" where "responses B ms (cs c1) = Some (rs, cs c')" "handleRequests sc B c1 = Some c'"
    "map snd (cs_r c') = map snd (cs_r c1) @ rs" "inv (\<lambda>_. 0) (cs c')" by blast
  with r a show ?case
    by (intro exI [of _ "(tg, r) # rs"] exI [of _ c']) (subst handleRequests.simps, simp)
qed



end
