(* ===== verification/P9_ClientProps.thy ===== *)
theory P9_ClientProps
  imports P9_Client P9_EndToEnd
begin

text \<open>
  The client against a peer that answers, and against the server of this development: a round trip
  of \<^verbatim>\<open>sendRecv\<close> delivers the response of the handler, errors included, and \<^verbatim>\<open>NewClient\<close> agrees on a version
  with the server.
\<close>

section \<open>An answered request\<close>

definition result_of :: "message \<Rightarrow> goerror + message" where
  "result_of m = (case m of Rlerror e \<Rightarrow> Inl (LinuxErrno (ucast (rlerror_Error e))) | _ \<Rightarrow> Inr (sent m))"

text \<open>A response the client takes: of the expected type or an error, well-formed, of a size it accepts.\<close>

definition expected :: "message \<Rightarrow> message \<Rightarrow> 'p Client \<Rightarrow> bool" where
  "expected rm r c \<longleftrightarrow> (msg_typ r = msg_typ rm \<or> msg_typ r = msgRlerror) \<and> message_ok r \<and>
     frame_length r \<le> unat (cl_messageSize c) \<and> frame_length r \<le> unat maximumLength"

lemma lookup_pending_expected:
  assumes "map_of ps t = Some rm" and "msg_typ r = msg_typ rm \<or> msg_typ r = msgRlerror"
  obtains y where "lookup_pending t (msg_typ r) ps = (Inr y, ps)" "msg_typ y = msg_typ r"
proof -
  have "msg_typ (Rlerror rlerror_zero) = msgRlerror" by simp
  with assms show thesis by (cases "msg_typ r = msgRlerror") (auto simp: lookup_pending_def intro: that)
qed

lemma handleOne_frame:
  assumes "expected rm r c" and "map_of (pending c) t = Some rm" and "clean (inbound c)" "bytes_of (inbound c) = frame t r @ rest"
  obtains inb where "handleOne sc c = (Inr (t, sent r), c\<lparr>inbound := inb, pending := AList.delete t (pending c)\<rparr>)"
    "clean inb" "bytes_of inb = rest"
proof -
  have e: "message_ok r" "frame_length r \<le> unat (cl_messageSize c)" "frame_length r \<le> unat maximumLength"
    "msg_typ r = msg_typ rm \<or> msg_typ r = msgRlerror" using assms(1) by (simp_all add: expected_def)
  obtain y where y: "lookup_pending t (msg_typ r) (pending c) = (Inr y, pending c)" "msg_typ y = msg_typ r"
    by (rule lookup_pending_expected [OF assms(2) e(4)])
  from recv_frame [where lookup = lookup_pending and tg = t and s = "pending c", OF e(1-3) assms(3,4) y, where sc = sc]
  obtain inb where "recv sc (cl_messageSize c) lookup_pending (inbound c) (pending c) = ((t, Inr (sent r)), inb, pending c)"
    "clean inb" "bytes_of inb = rest" by blast
  then show thesis by (intro that) (simp_all add: handleOne_def)
qed

lemma delete_update_absent: "map_of ps t = None \<Longrightarrow> AList.delete t (AList.update t x ps) = ps"
  by (induction ps) auto

lemma sendRecv_round_trip:
  assumes t: "pool_Get (tagPool c) = (Some t, pl)" "map_of (pending c) (ucast t) = None"
    and W: "W (fst (send_vecs (ucast t) tm)) (peer c) = (None, answer, p)"
    and inb: "clean (inbound c @ answer)" "bytes_of (inbound c @ answer) = frame (ucast t) r @ rest"
    and r: "expected rm r c"
  obtains inb' where "sendRecv W sc tm rm c = Some (result_of r, c\<lparr>peer := p, inbound := inb', tagPool := pool_Put pl t\<rparr>)"
    "clean inb'" "bytes_of inb' = rest"
proof -
  let ?t = "ucast t :: tag"
  let ?c = "c\<lparr>tagPool := pl, pending := AList.update ?t rm (pending c), peer := p, inbound := inbound c @ answer\<rparr>"
  have pn: "map_of (pending ?c) ?t = Some rm" by (simp add: update_conv')
  have ex: "expected rm r ?c" using r by (simp add: expected_def)
  have ib: "clean (inbound ?c)" "bytes_of (inbound ?c) = frame ?t r @ rest" using inb by simp_all
  obtain inb' where h: "handleOne sc ?c = (Inr (?t, sent r), ?c\<lparr>inbound := inb', pending := AList.delete ?t (pending ?c)\<rparr>)"
    "clean inb'" "bytes_of inb' = rest" by (rule handleOne_frame [OF ex pn ib])
  have "send (write_to W) ?t tm (peer c, inbound c) = (None, p, inbound c @ answer)" using W by (simp add: send_def write_to_def)
  moreover have "waitAndRecv sc ?t ?c = Some (Inr (sent r), ?c\<lparr>inbound := inb', pending := pending c\<rparr>)"
    using h(1) t(2) by (subst waitAndRecv.simps) (simp add: delete_update_absent)
  moreover have "(case Inr (sent r) of Inl err \<Rightarrow> Inl (WrapError ''wait'' err)
      | Inr (Rlerror e) \<Rightarrow> Inl (LinuxErrno (ucast (rlerror_Error e))) | Inr m \<Rightarrow> Inr m) = result_of r"
    by (cases r) (simp_all add: result_of_def sent_def)
  ultimately show thesis using t(1) h(2,3) by (intro that) (simp_all add: sendRecv_def Let_def)
qed

section \<open>A client of this server\<close>

text \<open>
  The server at the other end of the wire: it takes the bytes of a frame, serves the request and
  answers with the frame of the response.
\<close>

definition server_wire :: "bool \<Rightarrow> ('w, 'f) backend \<Rightarrow> ('w, 'f) connState wire" where
  "server_wire sc B vecs c =
     (case handleRequest sc B (c\<lparr>cs_t := cs_t c @ [(concat vecs, None)]\<rparr>) of
        None \<Rightarrow> (Some EOF, [], c)
      | Some (again, c') \<Rightarrow>
          (None, map (\<lambda>(i, tg, r). (frame tg r, None)) (drop (length (cs_r c)) (cs_r c')), c'))"

text \<open>Both ends at rest: nothing on the wire, nothing pending, all tags free.\<close>

definition linked :: "('w, 'f) connState Client \<Rightarrow> bool" where
  "linked cl \<longleftrightarrow> idle (peer cl) \<and> bytes_of (cs_t (peer cl)) = [] \<and> clean (inbound cl) \<and> bytes_of (inbound cl) = [] \<and>
     pending cl = [] \<and> pool_inv 1 (tagPool cl) {} \<and> limit (tagPool cl) = ucast noTag"

lemma clean_append: "clean r \<Longrightarrow> clean r' \<Longrightarrow> clean (r @ r')" "bytes_of (r @ r') = bytes_of r @ bytes_of r'"
  by (induction r) auto

lemma frame_not_Nil [simp]: "frame tg m \<noteq> []"
  using length_frame [of tg m] by (auto simp: frame_length_def)

lemma linked_tag:
  assumes "linked cl" obtains t pl where "pool_Get (tagPool cl) = (Some t, pl)" "pool_inv 1 (pool_Put pl t) {}"
    "limit (pool_Put pl t) = ucast noTag"
proof -
  have p: "pool_inv 1 (tagPool cl) {}" "limit (tagPool cl) = ucast noTag" using assms by (simp_all add: linked_def)
  obtain v pl where g: "pool_Get (tagPool cl) = (v, pl)" by fastforce
  have "v \<noteq> None"
  proof
    assume "v = None"
    with g p(1) have "{} = {u. 1 \<le> u \<and> u < limit (tagPool cl)}" by (intro pool_Get_exhausted) simp_all
    moreover have "(1 :: uint64) \<in> {u. 1 \<le> u \<and> u < ucast noTag}" by (simp add: noTag_def)
    ultimately show False using p(2) by auto
  qed
  then obtain t where v: "v = Some t" by auto
  have "pool_inv 1 pl {t}" using pool_Get_inv [OF p(1) g [unfolded v]] by simp
  then have "pool_inv 1 (pool_Put pl t) {}" using pool.put_inv [of 1 pl "{t}" t] by simp
  moreover have "limit pl = limit (tagPool cl)" using pool_Get_cases [OF g] by auto
  ultimately show thesis using g v p(2) by (intro that [of t pl]) (simp_all add: pool_Put_def)
qed

lemma server_wire_answers:
  fixes c :: "('w, 'f) connState"
  assumes c: "idle c" "bytes_of (cs_t c) = []" and a: "acceptable B [(tg, m)] (cs c)"
  obtains r and c' :: "('w, 'f) connState" where "server_wire sc B (fst (send_vecs tg m)) c = (None, [(frame tg r, None)], c')"
    "handle B (sent m) (cs c) = Some (r, cs c')" "idle c'" "bytes_of (cs_t c') = []"
proof -
  let ?c = "c\<lparr>cs_t := cs_t c @ [(concat (fst (send_vecs tg m)), None)]\<rparr>"
  have f: "concat (fst (send_vecs tg m)) = frame tg m" by (simp add: frame_def)
  have "idle ?c" "bytes_of (cs_t ?c) = frame tg m @ []" "acceptable B [(tg, m)] (cs ?c)"
    using c a by (simp_all add: idle_def f clean_append)
  then obtain r and c' :: "('w, 'f) connState" where "handle B (sent m) (cs ?c) = Some (r, cs c')" "handleRequest sc B ?c = Some (True, c')" "idle c'"
    "bytes_of (cs_t c') = []" "cs_r c' = cs_r ?c @ [(length (requests ?c), tg, r)]"
    by (rule handleRequest_frame [where sc = sc]) blast
  then show thesis by (intro that [of r c']) (simp_all add: server_wire_def)
qed

lemma sendRecv_served:
  fixes cl :: "('w, 'f) connState Client"
  assumes l: "linked cl" and a: "\<And>tg. acceptable B [(tg, tm)] (cs (peer cl))"
    and h: "handle B (sent tm) (cs (peer cl)) = Some (r, s)" and r: "expected rm r cl"
  obtains cl' :: "('w, 'f) connState Client" where "sendRecv (server_wire sc B) sc' tm rm cl = Some (result_of r, cl')" "linked cl'"
    "cs (peer cl') = s" "cl_messageSize cl' = cl_messageSize cl" "payloadSize cl' = payloadSize cl"
    "cl_version cl' = cl_version cl" "fidPool cl' = fidPool cl"
proof -
  obtain t pl where t: "pool_Get (tagPool cl) = (Some t, pl)" "pool_inv 1 (pool_Put pl t) {}" "limit (pool_Put pl t) = ucast noTag"
    by (rule linked_tag [OF l])
  let ?t = "ucast t :: tag"
  have c: "idle (peer cl)" "bytes_of (cs_t (peer cl)) = []" "map_of (pending cl) ?t = None" "clean (inbound cl)" "bytes_of (inbound cl) = []"
    using l by (simp_all add: linked_def)
  obtain r' and c' :: "('w, 'f) connState" where w: "server_wire sc B (fst (send_vecs ?t tm)) (peer cl) = (None, [(frame ?t r', None)], c')"
    "handle B (sent tm) (cs (peer cl)) = Some (r', cs c')" "idle c'" "bytes_of (cs_t c') = []"
    by (rule server_wire_answers [OF c(1,2) a])
  then have r': "r' = r" "cs c' = s" using h by simp_all
  have inb: "clean (inbound cl @ [(frame ?t r, None)])" "bytes_of (inbound cl @ [(frame ?t r, None)]) = frame ?t r @ []"
    using c(4,5) by (simp_all add: clean_append)
  obtain inb' where s: "sendRecv (server_wire sc B) sc' tm rm cl = Some (result_of r, cl\<lparr>peer := c', inbound := inb', tagPool := pool_Put pl t\<rparr>)"
    "clean inb'" "bytes_of inb' = []"
    by (rule sendRecv_round_trip [where W = "server_wire sc B" and tm = tm and r = r, OF t(1) c(3) w(1) [unfolded r'(1)] inb r])
  then show thesis using l t(2,3) w(3,4) r'(2) by (intro that [OF s(1)]) (simp_all add: linked_def)
qed

text \<open>C16: A round trip through client, wire and server. A client at rest that sends a request gets back what
  the server's handler answers: the response message, or the error number of an Rlerror as an error. The
  bytes of request and response cross two framings, the registry and the table of pending requests; both
  ends are at rest again afterwards and the server has done exactly the one handler's work.\<close>

theorem sendRecv_over_server:
  fixes cl :: "('w, 'f) connState Client"
  assumes "linked cl" and "\<forall>tg. acceptable B [(tg, tm)] (cs (peer cl))"
    and "handle B (sent tm) (cs (peer cl)) = Some (r, s)" and "expected rm r cl"
  shows "\<exists>cl'. sendRecv (server_wire sc B) sc' tm rm cl = Some (result_of r, cl') \<and> linked cl' \<and> cs (peer cl') = s"
  by (rule sendRecv_served [OF assms(1) _ assms(3,4)]) (use assms(2) in auto)

lemma initClient_linked: "msgDotLRegistry = Some reg \<Longrightarrow> linked (initClient (newConn w [] reg) [])"
  using NewServer_inv [of w] msgDotLRegistry_full [of reg]
  by (simp add: linked_def initClient_def newConn_def idle_def pool_inv_new noTag_def)

lemma rlerror_facts: "message_ok (Rlerror e)" "frame_length (Rlerror e) = 11"
proof -
  have "Payload (encoded_msg (Rlerror e)) = []"
    by (rule Payload_not_payloader, simp only: payloader_encoded_msg, simp add: payloader_def)
  moreover have "length (fixed_part (Rlerror e)) = 4"
    by (simp add: fixed_part_def rlerror_encode_def Write_run empty_buffer_def)
  ultimately show "frame_length (Rlerror e) = 11" by (simp add: frame_length_def)
qed simp

theorem sendRecv_over_server_witness:
  "\<exists>reg cl'. msgDotLRegistry = Some reg \<and>
     sendRecv (server_wire False exFS) True clunk5 (Rclunk ()) (initClient (newConn (0, []) [] reg) []) =
       Some (Inl (LinuxErrno EBADF), cl') \<and> linked cl'"
proof -
  obtain reg where reg: "msgDotLRegistry = Some reg" by (rule msgDotLRegistry_Some)
  let ?cl = "initClient (newConn (0, []) [] reg :: (exworld, nat) connState) []"
  have c: "cs (peer ?cl) = NewServer (0, [])" by (simp add: initClient_def newConn_def)
  have "recvLimit (NewServer (0, []) :: (exworld, nat) srv) = maximumLength" by (simp add: recvLimit_def NewServer_def)
  moreover have "clunk5 \<noteq> flush_of tg" for tg by (simp add: clunk5_def flush_of_def)
  ultimately have a: "\<forall>tg. acceptable exFS [(tg, clunk5)] (cs (peer ?cl))"
    by (auto simp: c clunk5_facts(1,3) unat_maximumLength exFS_safe split: option.split)
  have h: "handle exFS (sent clunk5) (cs (peer ?cl)) = Some (newErr (errno EBADF), NewServer (0, []))"
    unfolding c by code_simp
  have e: "expected (Rclunk ()) (newErr (errno EBADF)) ?cl"
    using rlerror_facts
    by (simp add: expected_def newErr_def unat_maximumLength initClient_def DefaultMessageSize_def)
  have r: "result_of (newErr (errno EBADF)) = Inl (LinuxErrno EBADF)" by code_simp
  from sendRecv_over_server [OF initClient_linked [OF reg] a h e, of False True] reg r show ?thesis by auto
qed

section \<open>Version negotiation\<close>

lemma NewServer_safe: "rename_safe B (NewServer w)"
  by (simp add: rename_safe_def NewServer_def getRef_def)

definition versionL7 :: string where
  "versionL7 = versionString version9P2000L highestSupportedVersion"

lemma versionL7_eq: "versionL7 = ''9P2000.L.Google.7''"
  by (simp add: versionL7_def versionString_def highestSupportedVersion_def decimal.simps digit_char_def) code_simp

lemma version_messages:
  "message_ok (Tversion \<lparr>tversion_MSize = n, tversion_Version = versionL7\<rparr>)"
  "message_ok (Rversion \<lparr>rversion_MSize = n, rversion_Version = versionL7\<rparr>)"
  "frame_length (Tversion \<lparr>tversion_MSize = n, tversion_Version = versionL7\<rparr>) = 30"
  "frame_length (Rversion \<lparr>rversion_MSize = n, rversion_Version = versionL7\<rparr>) = 30"
proof -
  show "message_ok (Tversion \<lparr>tversion_MSize = n, tversion_Version = versionL7\<rparr>)"
    "message_ok (Rversion \<lparr>rversion_MSize = n, rversion_Version = versionL7\<rparr>)"
    by (simp_all add: tversion_ok_def rversion_ok_def string_ok_def versionL7_eq)
  have w: "run_state (WriteString v) b = ((), b\<lparr>data := data b @ put_le 2 (of_nat (length v) :: uint16) @ map byte_of_char v\<rparr>)" for v b
    by (simp add: writer_run [OF writer_WriteString] encoded_WriteString)
  have len: "length versionL7 = 17" by (simp add: versionL7_eq)
  let ?t = "Tversion \<lparr>tversion_MSize = n, tversion_Version = versionL7\<rparr>" and ?r = "Rversion \<lparr>rversion_MSize = n, rversion_Version = versionL7\<rparr>"
  have "Payload (encoded_msg ?t) = []" "Payload (encoded_msg ?r) = []"
    by (rule Payload_not_payloader, simp only: payloader_encoded_msg, simp add: payloader_def)+
  moreover have "length (fixed_part ?t) = 23" "length (fixed_part ?r) = 23"
    by (simp_all add: fixed_part_def tversion_encode_def rversion_encode_def Write_run w empty_buffer_def len)
  ultimately show "frame_length ?t = 30" "frame_length ?r = 30" by (simp_all add: frame_length_def)
qed

lemma tversion_served:
  assumes "n \<noteq> 0"
  shows "handle B (Tversion \<lparr>tversion_MSize = n, tversion_Version = versionL7\<rparr>) s =
    Some (Rversion \<lparr>rversion_MSize = min n maximumLength, rversion_Version = versionL7\<rparr>,
      s\<lparr>messageSize := min n maximumLength, cs_version := 7, cs_baseVersion := version9P2000L, readBufPool := Some (min n maximumLength)\<rparr>)"
proof -
  have "parseVersion versionL7 = Some (version9P2000L, 7)" unfolding versionL7_def parse_print by (simp add: highestSupportedVersion_def)
  moreover have "version9P2000L \<noteq> version9P2000" "version9P2000L \<noteq> version9P2000U"
    by (simp_all add: version9P2000L_def version9P2000_def version9P2000U_def)
  moreover have "(if n > maximumLength then maximumLength else n) = min n maximumLength" by (auto simp: min_def)
  ultimately show ?thesis using assms
    by (simp add: handle_def tversion_handle_def Let_def highestSupportedVersion_def versionL7_def)
qed

lemma NewClient_served:
  fixes B :: "('w, 'f) backend"
  assumes reg: "msgDotLRegistry = Some reg" and m: "153 < m"
  shows "\<exists>cl. NewClient (server_wire sc B) sc' reg (Some m) (newConn w [] reg) [] = Some (Inr cl, cl) \<and> linked cl \<and>
    cl_version cl = 7 \<and> cl_messageSize cl = m \<and> messageSize (cs (peer cl)) = min m maximumLength"
proof -
  let ?c = "(initClient (newConn w [] reg :: ('w, 'f) connState) [])\<lparr>cl_messageSize := m, payloadSize := roundDown (m - largestFixedSize reg) 512\<rparr>"
  let ?t = "Tversion \<lparr>tversion_MSize = m, tversion_Version = versionL7\<rparr>"
  let ?r = "Rversion \<lparr>rversion_MSize = min m maximumLength, rversion_Version = versionL7\<rparr>"
  have l: "linked ?c" using initClient_linked [OF reg, of w] by (simp add: linked_def)
  have st: "sent ?t = ?t" "sent ?r = ?r" by (simp_all add: sent_def)
  have "recvLimit (NewServer w :: ('w, 'f) srv) = maximumLength" by (simp add: recvLimit_def NewServer_def)
  then have a: "acceptable B [(tg, ?t)] (cs (peer ?c))" for tg
    by (auto simp: initClient_def newConn_def version_messages version_messages(1) [simplified] unat_maximumLength NewServer_safe flush_of_def split: option.split)
  have "m \<noteq> 0" using m by auto
  note h = tversion_served [OF this, of B "cs (peer ?c)"]
  have h: "handle B (sent ?t) (cs (peer ?c)) = Some (?r, (cs (peer ?c))\<lparr>messageSize := min m maximumLength, cs_version := 7,
      cs_baseVersion := version9P2000L, readBufPool := Some (min m maximumLength)\<rparr>)"
    unfolding st(1) by (rule h)
  have "30 \<le> unat m" using m by (simp add: word_less_nat_alt)
  then have e: "expected (Rversion rversion_zero) ?r ?c"
    by (simp add: expected_def version_messages version_messages(2) [simplified] unat_maximumLength)
  obtain cl :: "('w, 'f) connState Client" where cl: "sendRecv (server_wire sc B) sc' ?t (Rversion rversion_zero) ?c = Some (result_of ?r, cl)" "linked cl"
    "cs (peer cl) = (cs (peer ?c))\<lparr>messageSize := min m maximumLength, cs_version := 7, cs_baseVersion := version9P2000L, readBufPool := Some (min m maximumLength)\<rparr>"
    "cl_messageSize cl = cl_messageSize ?c"
    by (rule sendRecv_served [OF l a h e, where sc = sc and sc' = sc']) (rule that; assumption)
  have res: "result_of ?r = Inr ?r" by (simp add: result_of_def st)
  have p: "parseVersion versionL7 = Some (version9P2000L, 7)" unfolding versionL7_def parse_print by (simp add: highestSupportedVersion_def)
  have "negotiate (server_wire sc B) sc' highestSupportedVersion ?c = Some (Inr (), cl\<lparr>cl_version := 7\<rparr>)"
    using cl(1) res p by (subst negotiate.simps) (simp flip: versionL7_def)
  moreover have "largestFixedSize reg = 153" by (rule msgDotLRegistry_largest [OF reg])
  moreover have "linked (cl\<lparr>cl_version := 7\<rparr>)" using cl(2) by (simp add: linked_def)
  moreover have "cl_version (initClient p inb) = highestSupportedVersion" for p :: "('w, 'f) connState" and inb by (simp add: initClient_def)
  ultimately show ?thesis using m cl(3,4)
    by (intro exI [of _ "cl\<lparr>cl_version := 7\<rparr>"]) (simp add: NewClient_def WithMessageSize_def Let_def)
qed

text \<open>C19: A new client and a new server agree. For every file system and every message size a client may ask
  for, \<^verbatim>\<open>NewClient\<close> returns a client with version 7, the highest of both, after one exchange; both ends are
  at rest. The server's message size is the requested one, cut at the maximum of 4 MiB; the client keeps
  the size it asked for.\<close>

theorem NewClient_agrees_with_server:
  fixes B :: "('w, 'f) backend"
  assumes reg: "msgDotLRegistry = Some reg" and m: "153 < m"
  shows "\<exists>cl. NewClient (server_wire sc B) sc' reg (Some m) (newConn w [] reg) [] = Some (Inr cl, cl) \<and> linked cl \<and>
    cl_version cl = 7 \<and> cl_messageSize cl = m \<and> messageSize (cs (peer cl)) = min m maximumLength"
  using assms by (rule NewClient_served)

theorem NewClient_agrees_with_server_witness:
  "\<exists>reg cl. msgDotLRegistry = Some reg \<and>
     NewClient (server_wire False exFS) True reg (Some 8192) (newConn (0, []) [] reg) [] = Some (Inr cl, cl) \<and> linked cl \<and>
     cl_version cl = 7 \<and> cl_messageSize cl = 8192 \<and> messageSize (cs (peer cl)) = min 8192 maximumLength"
proof -
  obtain reg where reg: "msgDotLRegistry = Some reg" by (rule msgDotLRegistry_Some)
  have "(153 :: uint32) < 8192" by simp
  from NewClient_agrees_with_server [OF reg this, where sc = False and B = exFS and sc' = True and w = "(0, [])"] reg show ?thesis by blast
qed

end
