(* ===== verification/P9_ClientFileProps.thy ===== *)
theory P9_ClientFileProps
  imports P9_Chunk P9_ClientProps P9_Refusals
begin

text \<open>
  A client file of this server stands for the file of the file system behind it: \<^verbatim>\<open>GetAttr\<close> on the client
  returns what \<^verbatim>\<open>GetAttr\<close> of the file system returns, through both codecs and both tables; errors arrive
  as their error numbers.
\<close>

lemma withFID_world:
  assumes "getRef s r = Some x" "0 < refs x" and "map_of (fids s) f = Some r"
    and "body r (held r x s) = Some (a, (held r x s)\<lparr>world := w\<rparr>)"
  shows "withFID B f bad body s = Some (a, s\<lparr>world := w\<rparr>)"
proof -
  have "(refHeap s)[r := x] = refHeap s" using assms(1) by (auto simp: getRef_def split: if_splits)
  then have "setRef r x ((held r x s)\<lparr>world := w\<rparr>) = s\<lparr>world := w\<rparr>" by (simp add: held_def setRef_def)
  then have "DecRef B r ((held r x s)\<lparr>world := w\<rparr>) = Some (None, s\<lparr>world := w\<rparr>)"
    using DecRef_more [of "(held r x s)\<lparr>world := w\<rparr>" r "x\<lparr>refs := refs x + 1\<rparr>" B] assms(1,2) by simp
  with assms show ?thesis by (simp add: withFID_def LookupFID_held)
qed

lemma tgetattr_served:
  assumes "getRef s r = Some x" "0 < refs x" and "map_of (fids s) f = Some r" and "GetAttr B (ref_file x) req (world s) = (res, w)"
  shows "handle B (Tgetattr \<lparr>tgetattr_fid = f, tgetattr_AttrMask = req\<rparr>) s =
    Some (respond (\<lambda>(qid, valid, attr). Rgetattr \<lparr>rgetattr_Valid = valid, rgetattr_QID = qid, rgetattr_Attr = attr\<rparr>) res, s\<lparr>world := w\<rparr>)"
  unfolding handle_def message.case tgetattr_handle_def
  by (rule withFID_world [OF assms(1,2)]) (use assms in \<open>simp_all add: call_eq\<close>)

lemma getattr_frames:
  "frame_length (Tgetattr t) = 19" "frame_length (Rgetattr r) = 160"
proof -
  have "Payload (encoded_msg (Tgetattr t)) = []" "Payload (encoded_msg (Rgetattr r)) = []"
    by (rule Payload_not_payloader, simp only: payloader_encoded_msg, simp add: payloader_def)+
  moreover have "length (fixed_part (Tgetattr t)) = 12" "length (fixed_part (Rgetattr r)) = 153"
    by (simp_all add: fixed_part_def tgetattr_encode_def rgetattr_encode_def AttrMask_encode_def QID_encode_def Attr_encode_def
        WriteFID_def WriteQIDType_def WriteFileMode_def WriteUID_def WriteGID_def Write_run empty_buffer_def)
  ultimately show "frame_length (Tgetattr t) = 19" "frame_length (Rgetattr r) = 160" by (simp_all add: frame_length_def)
qed

text \<open>The error a client sees for an error of the file system.\<close>

definition remote_error :: "goerror \<Rightarrow> goerror" where
  "remote_error e = LinuxErrno (ucast (ucast (ExtractErrno e) :: uint32))"

text \<open>C5: \<^verbatim>\<open>clientFile.GetAttr\<close> refines \<^verbatim>\<open>GetAttr\<close> of the file system. On a client at rest whose file is open on
  its side and whose fid is bound at the server, the call returns the attributes the file system returns
  for the file behind the fid, or the error number of its error; the file system was called exactly once,
  and nothing else changed at the server.\<close>

theorem client_GetAttr_refines_backend:
  fixes cl :: "('w, 'f) connState Client"
  assumes l: "linked cl" and f: "\<not> cf_closed f" "fid_ok (cf_fid f)"
    and s: "map_of (fids (cs (peer cl))) (cf_fid f) = Some r" "getRef (cs (peer cl)) r = Some x"
    and m: "160 \<le> unat (cl_messageSize cl)" "19 \<le> unat (recvLimit (cs (peer cl)))" and safe: "rename_safe B (cs (peer cl))"
    and b: "GetAttr B (ref_file x) req (world (cs (peer cl))) = (res, w)"
  shows "\<exists>cl'. cf_GetAttr (server_wire sc B) sc' f req cl = Some (map_sum remote_error id res, cl') \<and> linked cl' \<and>
    cs (peer cl') = (cs (peer cl))\<lparr>world := w\<rparr>"
proof -
  let ?t = "Tgetattr \<lparr>tgetattr_fid = cf_fid f, tgetattr_AttrMask = req\<rparr>"
  let ?r = "respond (\<lambda>(qid, valid, attr). Rgetattr \<lparr>rgetattr_Valid = valid, rgetattr_QID = qid, rgetattr_Attr = attr\<rparr>) res"
  have "inv (\<lambda>_. 0) (cs (peer cl))" using l by (simp add: linked_def idle_def)
  then have "0 < refs x" using inv_fid_live [OF _ s(1)] s(2) by simp
  then have h: "handle B (sent ?t) (cs (peer cl)) = Some (?r, (cs (peer cl))\<lparr>world := w\<rparr>)"
    using tgetattr_served [OF s(2) _ s(1) b] by (simp add: sent_def)
  have a: "acceptable B [(tg, ?t)] (cs (peer cl))" for tg
    using f(2) m(2) safe h by (simp add: getattr_frames tgetattr_ok_def unat_maximumLength flush_of_def)
  have e: "expected (Rgetattr rgetattr_zero) ?r cl"
    using m(1) rlerror_facts by (auto simp: expected_def respond_def newErr_def getattr_frames unat_maximumLength split: sum.split)
  obtain cl' :: "('w, 'f) connState Client" where cl': "sendRecv (server_wire sc B) sc' ?t (Rgetattr rgetattr_zero) cl = Some (result_of ?r, cl')"
    "linked cl'" "cs (peer cl') = (cs (peer cl))\<lparr>world := w\<rparr>"
    by (rule sendRecv_served [OF l a h e, where sc = sc and sc' = sc']) (rule that; assumption)
  then show ?thesis
    using f(1) by (intro exI [of _ cl'])
      (auto simp: cf_GetAttr_def unless_closed_def ask_def result_of_def respond_def newErr_def sent_def remote_error_def split: sum.split)
qed

text \<open>An attached client of the example server.\<close>

lemma attach_frames:
  "message_ok exAttach" "frame_length exAttach = 23" "frame_length (Rattach q) = 20"
proof -
  have w: "run_state (WriteString v) b = ((), b\<lparr>data := data b @ put_le 2 (of_nat (length v) :: uint16) @ map byte_of_char v\<rparr>)" for v b
    by (simp add: writer_run [OF writer_WriteString] encoded_WriteString)
  show "message_ok exAttach" by (simp add: exAttach_def tattach_ok_def tauth_ok_def fid_ok_def string_ok_def noFID_def)
  have "Payload (encoded_msg exAttach) = []" "Payload (encoded_msg (Rattach q)) = []"
    by (rule Payload_not_payloader, simp only: payloader_encoded_msg, simp add: payloader_def exAttach_def)+
  moreover have "length (fixed_part exAttach) = 16" "length (fixed_part (Rattach q)) = 13"
    by (simp_all add: fixed_part_def exAttach_def tattach_encode_def tauth_encode_def rattach_encode_def QID_encode_def
        WriteFID_def WriteUID_def WriteQIDType_def Write_run w empty_buffer_def)
  ultimately show "frame_length exAttach = 23" "frame_length (Rattach q) = 20" by (simp_all add: frame_length_def)
qed

lemma attached_client:
  obtains cl :: "(exworld, nat) connState Client" and x where "linked cl" "map_of (fids (cs (peer cl))) 0 = Some 0" "getRef (cs (peer cl)) 0 = Some x"
    "cl_messageSize cl = DefaultMessageSize" "recvLimit (cs (peer cl)) = maximumLength" "ref_file x = (0 :: nat)" "world (cs (peer cl)) = (1, [])"
proof -
  obtain reg where reg: "msgDotLRegistry = Some reg" by (rule msgDotLRegistry_Some)
  let ?cl = "initClient (newConn (0, []) [] reg :: (exworld, nat) connState) []"
  have c: "cs (peer ?cl) = NewServer (0, [])" "cl_messageSize ?cl = DefaultMessageSize" by (simp_all add: initClient_def newConn_def)
  have "map_option (\<lambda>(r, s). (r, map_of (fids s) 0, map_option ref_file (getRef s 0), messageSize s, world s))
      (handle exFS exAttach (NewServer (0, []))) = Some (Rattach \<lparr>rattach_QID = exQID 0\<rparr>, Some 0, Some 0, 0, (1, []))"
    by code_simp
  then obtain s x where h: "handle exFS exAttach (NewServer (0, [])) = Some (Rattach \<lparr>rattach_QID = exQID 0\<rparr>, s)"
    and s: "map_of (fids s) 0 = Some 0" "getRef s 0 = Some x" "ref_file x = 0" "messageSize s = 0" "world s = (1, [])" by auto
  have st: "sent exAttach = exAttach" by (simp add: exAttach_def sent_def)
  have lim: "recvLimit (NewServer (0, []) :: (exworld, nat) srv) = maximumLength" by (simp add: recvLimit_def NewServer_def)
  have "exAttach \<noteq> flush_of tg" for tg by (simp add: exAttach_def flush_of_def)
  then have a: "acceptable exFS [(tg, exAttach)] (cs (peer ?cl))" for tg
    by (auto simp: c attach_frames lim unat_maximumLength exFS_safe split: option.split)
  have e: "expected (Rattach rattach_zero) (Rattach \<lparr>rattach_QID = exQID 0\<rparr>) ?cl"
    by (simp add: expected_def attach_frames unat_maximumLength c DefaultMessageSize_def)
  have h': "handle exFS (sent exAttach) (cs (peer ?cl)) = Some (Rattach \<lparr>rattach_QID = exQID 0\<rparr>, s)" using h by (simp add: c st)
  obtain cl' :: "(exworld, nat) connState Client" where "linked cl'" "cs (peer cl') = s" "cl_messageSize cl' = cl_messageSize ?cl"
    by (rule sendRecv_served [OF initClient_linked [OF reg] a h' e]) (rule that; assumption)
  then show thesis using s c by (intro that [of cl' x]) (simp_all add: recvLimit_def)
qed

theorem client_GetAttr_refines_backend_witness:
  "\<exists>cl cl'. cf_GetAttr (server_wire False exFS) True (newFile 0) AttrMaskAll cl = Some (Inr (exQID 0, AttrMaskAll, exAttr), cl') \<and>
     linked cl \<and> linked cl'"
proof (rule attached_client)
  fix cl :: "(exworld, nat) connState Client" and x
  assume c: "linked cl" "map_of (fids (cs (peer cl))) 0 = Some 0" "getRef (cs (peer cl)) 0 = Some x"
    "cl_messageSize cl = DefaultMessageSize" "recvLimit (cs (peer cl)) = maximumLength" "ref_file x = (0 :: nat)" "world (cs (peer cl)) = (1, [])"
  have f: "\<not> cf_closed (newFile 0)" "fid_ok (cf_fid (newFile 0))" "cf_fid (newFile 0) = 0" by (simp_all add: newFile_def fid_ok_def)
  have b: "GetAttr exFS (ref_file x) AttrMaskAll (world (cs (peer cl))) = (Inr (exQID 0, AttrMaskAll, exAttr), (1, []))"
    using c(6,7) by (simp add: exFS_def)
  have "\<exists>cl'. cf_GetAttr (server_wire False exFS) True (newFile 0) AttrMaskAll cl =
      Some (map_sum remote_error id (Inr (exQID 0, AttrMaskAll, exAttr)), cl') \<and> linked cl' \<and> cs (peer cl') = (cs (peer cl))\<lparr>world := (1, [])\<rparr>"
    by (rule client_GetAttr_refines_backend [OF c(1) f(1,2) _ c(3) _ _ exFS_safe b])
      (use c f in \<open>simp_all add: DefaultMessageSize_def unat_maximumLength\<close>)
  with c(1) show ?thesis by auto
qed

end
