(* ===== verification/P9_WireProps.thy ===== *)
theory P9_WireProps
  imports P9_ClientProps
begin

text \<open>
  Types and sizes on the wire: the message registry never confuses types, directory listings stay within the
  byte count a client asked for, and the payload size of a client leaves room for everything around the
  payload.
\<close>

section \<open>The registry\<close>

text \<open>The calls of the registry, in any order: those of the receivers and those that give messages back.\<close>

datatype registry_call = Get msgType | Put message

fun registry_calls :: "registry_call list \<Rightarrow> registry \<Rightarrow> registry" where
  "registry_calls [] r = r"
| "registry_calls (Get t # calls) r = registry_calls calls (snd (registry_get r t))"
| "registry_calls (Put m # calls) r = registry_calls calls (registry_put r m)"

lemma registry_ok_calls: "registry_ok r \<Longrightarrow> registry_ok (registry_calls calls r)"
  by (induction calls r rule: registry_calls.induct) (simp_all add: registry_ok_get registry_ok_put)

lemma factories_get: "factories (snd (registry_get r t)) u = None \<longleftrightarrow> factories r u = None"
  by (auto simp: registry_get_def split: option.splits list.splits)

lemma factories_put: "factories (registry_put r m) u = None \<longleftrightarrow> factories r u = None"
  by (auto simp: registry_put_def Let_def split: option.splits)

lemma factories_calls: "factories (registry_calls calls r) u = None \<longleftrightarrow> factories r u = None"
  by (induction calls r rule: registry_calls.induct) (simp_all add: factories_get factories_put)

text \<open>C26: The registry is well typed. \<^verbatim>\<open>init\<close> registers every message without a panic, and after any calls of
  \<^verbatim>\<open>get\<close> and \<^verbatim>\<open>put\<close>, \<^verbatim>\<open>get\<close> returns a message of the type that was asked for, be it new or from the cache, and the
  error for an invalid type exactly when the protocol has no message of that type.\<close>

theorem registry_well_typed:
  "\<exists>r. msgDotLRegistry = Some r \<and>
     (\<forall>calls t. case fst (registry_get (registry_calls calls r) t) of
        Inr m \<Rightarrow> msg_typ m = t
      | Inl e \<Rightarrow> e = ErrInvalidMsgType t \<and> (\<nexists>m. msg_typ m = t))"
proof -
  obtain r where r: "msgDotLRegistry = Some r" by (rule msgDotLRegistry_Some)
  have "msg_typ m = t" if "fst (registry_get (registry_calls calls r) t) = Inr m" for calls t m
    using registry_get_typ [OF registry_ok_calls [OF msgDotLRegistry_ok [OF r]] that] .
  moreover have "e = ErrInvalidMsgType t \<and> (\<nexists>m. msg_typ m = t)" if "fst (registry_get (registry_calls calls r) t) = Inl e" for calls t e
    using that msgDotLRegistry_domain [OF r, of t] msg_typ_registered by (auto simp: registry_get_Inl factories_calls)
  ultimately show ?thesis using r by (intro exI [of _ r]) (auto split: sum.split)
qed

section \<open>Directory listings\<close>

lemma fitting_take:
  "\<exists>k \<le> length ds. fitting n ds = take k ds \<and> (k = length ds \<or> n < length (entries_bytes (take (Suc k) ds)))"
proof -
  obtain rest where r: "ds = fitting n ds @ rest" using fitting_prefix by blast
  have t: "take (length (fitting n ds)) ds = fitting n ds" by (subst (2) r) simp
  show ?thesis
  proof (cases rest)
    case Nil
    with r show ?thesis by (metis append_Nil2 order_refl take_all)
  next
    case (Cons d rest')
    then have s: "take (Suc (length (fitting n ds))) ds = fitting n ds @ [d]" by (subst (2) r) simp
    from Cons fitting_maximal [of ds n d rest'] r have "n < length (entries_bytes (fitting n ds @ [d]))" by simp
    moreover have "length (fitting n ds) \<le> length ds" by (subst (2) r) simp
    ultimately show ?thesis using s t by (intro exI [of _ "length (fitting n ds)"]) simp
  qed
qed

text \<open>C24: A directory listing never exceeds the byte count of the request. Whatever entries a file system returns,
  the payload that \<^verbatim>\<open>rreaddir.encode\<close> prepares has at most \<^verbatim>\<open>Count\<close> bytes, the new \<^verbatim>\<open>Count\<close> is its length, and it consists of
  whole entries: a prefix of the list, which is all of it or could not have been longer.\<close>

theorem rreaddir_within_count:
  "length (rreaddir_Payload (fst (run_state (rreaddir_encode r) b))) \<le> unat (rreaddir_Count r) \<and>
   unat (rreaddir_Count (fst (run_state (rreaddir_encode r) b))) = length (rreaddir_Payload (fst (run_state (rreaddir_encode r) b))) \<and>
   (\<exists>k \<le> length (rreaddir_Entries r).
      rreaddir_Payload (fst (run_state (rreaddir_encode r) b)) = entries_bytes (take k (rreaddir_Entries r)) \<and>
      (k = length (rreaddir_Entries r) \<or> unat (rreaddir_Count r) < length (entries_bytes (take (Suc k) (rreaddir_Entries r)))))"
proof -
  let ?n = "length (entries_bytes (fitting (unat (rreaddir_Count r)) (rreaddir_Entries r)))"
  have n: "?n \<le> unat (rreaddir_Count r)" by (rule fitting_length)
  also have "\<dots> < 2 ^ 32" using unat_lt_2p32 by simp
  finally have "unat (of_nat ?n :: uint32) = ?n" by (simp add: unsigned_of_nat take_bit_nat_eq_self)
  with n fitting_take [of "rreaddir_Entries r" "unat (rreaddir_Count r)"] show ?thesis
    by (auto simp: rreaddir_encode_run rreaddir_Payload_def rreaddir_sent_def Let_def)
qed

section \<open>The payload of a client\<close>

lemma handleOne_sizes:
  "cl_messageSize (snd (handleOne sc c)) = cl_messageSize c \<and> payloadSize (snd (handleOne sc c)) = payloadSize c"
  by (auto simp: handleOne_def split: prod.splits sum.splits)

lemma waitAndRecv_sizes:
  assumes "waitAndRecv sc t c = Some y"
  shows "cl_messageSize (snd y) = cl_messageSize c \<and> payloadSize (snd y) = payloadSize c"
  using _ assms
proof (rule waitAndRecv.raw_induct)
  fix f :: "bool \<Rightarrow> tag \<Rightarrow> 'a Client \<Rightarrow> ((goerror + message) \<times> 'a Client) option" and sc t c y
  assume IH: "\<And>sc t c y. f sc t c = Some y \<Longrightarrow> cl_messageSize (snd y) = cl_messageSize c \<and> payloadSize (snd y) = payloadSize c"
    and e: "(case handleOne sc c of (Inl err, c) \<Rightarrow> Some (Inl err, c) | (Inr (t', m), c) \<Rightarrow> if t' = t then Some (Inr m, c) else f sc t c) = Some y"
  show "cl_messageSize (snd y) = cl_messageSize c \<and> payloadSize (snd y) = payloadSize c"
    using handleOne_sizes [of sc c] e by (auto split: prod.splits sum.splits if_splits dest: IH)
qed

lemma sendRecv_sizes:
  "sendRecv W sc tm rm c = Some (res, c') \<Longrightarrow> cl_messageSize c' = cl_messageSize c \<and> payloadSize c' = payloadSize c"
  by (auto simp: sendRecv_def Let_def dest!: waitAndRecv_sizes split: prod.splits option.splits)

lemma negotiate_sizes:
  "negotiate W sc requested c = Some (res, c') \<Longrightarrow> cl_messageSize c' = cl_messageSize c \<and> payloadSize c' = payloadSize c"
proof (induction "unat requested" arbitrary: requested c rule: less_induct)
  case less
  have "unat (requested - 1) < unat requested" if "requested \<noteq> lowestSupportedVersion"
    using that by (simp add: lowestSupportedVersion_def unat_minus_one unat_gt_0)
  with less show ?case
    by (subst (asm) (2) negotiate.simps) (fastforce split: option.splits sum.splits if_splits prod.splits dest!: sendRecv_sizes)
qed

lemma roundDown_bounds:
  assumes "0 < p"
  shows "0 < roundDown p 512 \<and> roundDown p 512 \<le> p"
proof (cases "p > 512 \<and> p mod 512 \<noteq> 0")
  case True
  have "unat (p mod 512) < 512" by (simp add: unat_mod_distrib)
  with True show ?thesis
    by (auto simp: roundDown_def word_less_nat_alt word_le_nat_alt unat_sub unat_mod_distrib)
next
  case False
  with assms show ?thesis by (auto simp: roundDown_def)
qed

lemma NewClient_sizes:
  assumes "msgDotLRegistry = Some reg" and "NewClient W sc reg msize p inb = Some (Inr cl, cl')"
  shows "153 < cl_messageSize cl" and "payloadSize cl = roundDown (cl_messageSize cl - 153) 512"
proof -
  have l: "largestFixedSize reg = 153" by (rule msgDotLRegistry_largest [OF assms(1)])
  obtain c where "(case msize of None \<Rightarrow> Some (initClient p inb) | Some m \<Rightarrow> WithMessageSize reg m (initClient p inb)) = Some c"
    and n: "map_option (\<lambda>(res, c). (map_sum id (\<lambda>_. c) res, c))
      (negotiate W sc (cl_version c) (c\<lparr>payloadSize := roundDown (cl_messageSize c - 153) 512\<rparr>)) = Some (Inr cl, cl')"
    using assms(2) l by (auto simp: NewClient_def Let_def split: option.splits)
  then have "153 < cl_messageSize c"
    by (auto simp: WithMessageSize_def l initClient_def DefaultMessageSize_def not_le split: option.splits if_splits)
  moreover obtain res where "negotiate W sc (cl_version c) (c\<lparr>payloadSize := roundDown (cl_messageSize c - 153) 512\<rparr>) = Some (res, cl')"
    and "map_sum id (\<lambda>_. cl') res = Inr cl" using n by auto
  moreover from this(2) have "cl = cl'" by (cases res) simp_all
  ultimately show "153 < cl_messageSize cl" "payloadSize cl = roundDown (cl_messageSize cl - 153) 512"
    by (auto dest!: negotiate_sizes)
qed

lemma data_frames:
  "frame_length (Twrite \<lparr>twrite_fid = f, twrite_Offset = off, twrite_Data = b\<rparr>) = 23 + length b"
  "frame_length (Rread \<lparr>rread_Data = b\<rparr>) = 11 + length b"
  by (simp_all add: frame_length_def fixed_part_def encoded_msg_def encode_runs Payload_def rread_Payload_def twrite_Payload_def
      empty_buffer_def)

text \<open>C25: The payload of a client fits its messages. Whatever the other end answers, a client that \<^verbatim>\<open>NewClient\<close> returns
  has a payload size above zero such that a \<^verbatim>\<open>Twrite\<close> with that much data, and the \<^verbatim>\<open>Rread\<close> that answers a read of that
  much, have frames no larger than the message size it asked the server for.\<close>

theorem payload_fits_message:
  assumes "msgDotLRegistry = Some reg" and "NewClient W sc reg msize p inb = Some (Inr cl, cl')"
    and "length b \<le> unat (payloadSize cl)"
  shows "0 < payloadSize cl \<and>
    frame_length (Twrite \<lparr>twrite_fid = f, twrite_Offset = off, twrite_Data = b\<rparr>) \<le> unat (cl_messageSize cl) \<and>
    frame_length (Rread \<lparr>rread_Data = b\<rparr>) \<le> unat (cl_messageSize cl)"
proof -
  let ?m = "cl_messageSize cl"
  note s = NewClient_sizes [OF assms(1,2)]
  then have m: "153 < unat ?m" "unat (?m - 153) = unat ?m - 153" by (simp_all add: word_less_nat_alt unat_sub word_le_nat_alt)
  then have "0 < ?m - 153" by (simp add: word_less_nat_alt)
  then have "0 < payloadSize cl" "payloadSize cl \<le> ?m - 153" using roundDown_bounds s(2) by simp_all
  with assms(3) m show ?thesis by (auto simp: data_frames word_le_nat_alt)
qed

section \<open>Witnesses\<close>

theorem rreaddir_within_count_witness:
  "length (rreaddir_Payload (fst (run_state (rreaddir_encode \<lparr>rreaddir_Count = 30,
      rreaddir_Entries = [Dirent_zero, Dirent_zero], rreaddir_payload = []\<rparr>) empty_buffer))) \<le> 30"
  using rreaddir_within_count [of "\<lparr>rreaddir_Count = 30, rreaddir_Entries = [Dirent_zero, Dirent_zero], rreaddir_payload = []\<rparr>" empty_buffer]
  by simp

theorem payload_fits_message_witness:
  "\<exists>reg cl. msgDotLRegistry = Some reg \<and>
     NewClient (server_wire False exFS) True reg (Some 8192) (newConn (0, []) [] reg) [] = Some (Inr cl, cl) \<and> 0 < payloadSize cl"
proof -
  obtain reg where reg: "msgDotLRegistry = Some reg" by (rule msgDotLRegistry_Some)
  have "(153 :: uint32) < 8192" by simp
  from NewClient_served [OF reg this, where sc = False and B = exFS and sc' = True and w = "(0, [])"]
  obtain cl where cl: "NewClient (server_wire False exFS) True reg (Some 8192) (newConn (0, []) [] reg) [] = Some (Inr cl, cl)" by blast
  with payload_fits_message [OF reg cl, of "[]"] reg show ?thesis by auto
qed

end
