(* ===== verification/P9_Path.thy ===== *)
theory P9_Path
  imports P9_Prelude
begin

text \<open>
  The functions of Go's package \<^verbatim>\<open>path\<close> that the local file system uses: \<^verbatim>\<open>Clean\<close> and \<^verbatim>\<open>Join\<close>, as they are
  documented, on the elements of a path. A path is judged by where it points lexically: whether it
  is rooted, and its elements once \<^verbatim>\<open>.\<close>, \<^verbatim>\<open>..\<close> and repeated slashes are resolved.
\<close>

section \<open>Clean and Join\<close>

text \<open>
  The elements of a path, resolved; the accumulator holds the elements so far in reverse. Without
  a root, \<^verbatim>\<open>..\<close> elements that nothing cancels stay at the front.
\<close>

fun resolve :: "bool \<Rightarrow> string list \<Rightarrow> string list \<Rightarrow> string list" where
  "resolve rooted [] acc = rev acc"
| "resolve rooted (c # cs) acc =
     (if c = [] \<or> c = ''.'' then resolve rooted cs acc
      else if c = ''..'' then
        (case acc of
           [] \<Rightarrow> resolve rooted cs (if rooted then [] else [''..''])
         | a # as \<Rightarrow> if a = ''..'' then resolve rooted cs (''..'' # acc) else resolve rooted cs as)
      else resolve rooted cs (c # acc))"

fun join_slash :: "string list \<Rightarrow> string" where
  "join_slash [] = []"
| "join_slash [c] = c"
| "join_slash (c # cs) = c @ CHR ''/'' # join_slash cs"

definition rooted :: "string \<Rightarrow> bool" where
  "rooted p \<longleftrightarrow> (case p of c # cs \<Rightarrow> c = CHR ''/'' | [] \<Rightarrow> False)"

definition elements :: "string \<Rightarrow> string list" where
  "elements p = resolve (rooted p) (split_on (CHR ''/'') p) []"

definition path_Clean :: "string \<Rightarrow> string" where
  "path_Clean p =
     (if rooted p then CHR ''/'' # join_slash (elements p)
      else if elements p = [] then ''.'' else join_slash (elements p))"

definition path_Join :: "string \<Rightarrow> string \<Rightarrow> string" where
  "path_Join p name =
     (if p = [] then (if name = [] then [] else path_Clean name)
      else if name = [] then path_Clean p
      else path_Clean (p @ CHR ''/'' # name))"

section \<open>Where a joined path points\<close>

text \<open>The name of an entry: what \<^verbatim>\<open>checkSafeName\<close> accepts.\<close>

definition plain :: "string \<Rightarrow> bool" where
  "plain c \<longleftrightarrow> c \<noteq> [] \<and> CHR ''/'' \<notin> set c \<and> c \<noteq> ''.'' \<and> c \<noteq> ''..''"

text \<open>Resolved elements: plain names after leading \<^verbatim>\<open>..\<close>, of which a rooted path has none.\<close>

definition resolved :: "bool \<Rightarrow> string list \<Rightarrow> bool" where
  "resolved r cs \<longleftrightarrow> (\<exists>k ns. cs = replicate k ''..'' @ ns \<and> (r \<longrightarrow> k = 0) \<and> (\<forall>c \<in> set ns. plain c))"

lemma split_on_elements: "\<forall>c \<in> set (split_on s p). s \<notin> set c"
  by (induction p) (auto split: list.splits)

lemma split_on_not_Nil: "split_on s p \<noteq> []"
  by (induction p) (auto split: list.splits)

lemma split_on_append: "split_on s (p @ s # q) = split_on s p @ split_on s q"
  using split_on_not_Nil by (induction p) (auto split: list.splits simp: Cons_eq_append_conv)

lemma resolve_append: "resolve r (cs @ ds) acc = resolve r ds (rev (resolve r cs acc))"
  by (induction r cs acc rule: resolve.induct) (auto split: list.splits)

lemma resolve_plain: "plain c \<Longrightarrow> resolve r [c] acc = rev acc @ [c]"
  by (simp add: plain_def)

lemma resolved_snoc: "resolved r cs \<Longrightarrow> plain c \<Longrightarrow> resolved r (cs @ [c])"
  by (fastforce simp: resolved_def)

lemma plain_not_dots [simp]: "\<not> plain ''..''" "\<not> plain ''.''" "\<not> plain []"
  by (simp_all add: plain_def)

lemma resolved_cases:
  assumes "resolved r (cs @ [c])"
  obtains "resolved r cs" "plain c" | k where "\<not> r" "c = ''..''" "cs = replicate k ''..''"
proof -
  obtain k ns where ns: "cs @ [c] = replicate k ''..'' @ ns" "r \<longrightarrow> k = 0" "\<forall>c \<in> set ns. plain c"
    using assms by (auto simp: resolved_def)
  show thesis
  proof (cases ns rule: rev_cases)
    case Nil
    with ns(1) have "cs @ [c] = replicate k ''..''" by simp
    then have "c = ''..''" "cs = replicate (k - 1) ''..''" "k \<noteq> 0"
      by (cases k; simp add: replicate_append_same [symmetric])+
    with ns(2) that(2) show thesis by blast
  next
    case (snoc ms m)
    with ns have "resolved r cs" "plain c" by (auto simp: resolved_def)
    then show thesis by (rule that(1))
  qed
qed

lemma resolved_dots: "\<not> r \<Longrightarrow> resolved r (replicate k ''..'')"
  unfolding resolved_def by (intro exI [of _ k] exI [of _ "[]"]) simp

lemma resolved_resolve:
  "\<forall>c \<in> set cs. CHR ''/'' \<notin> set c \<Longrightarrow> resolved r (rev acc) \<Longrightarrow> resolved r (resolve r cs acc)"
proof (induction r cs acc rule: resolve.induct)
  case (2 r c cs acc)
  show ?case
  proof (cases "c = ''..''")
    case c: True
    show ?thesis
    proof (cases acc)
      case Nil
      then show ?thesis using 2 c resolved_dots [of r 1] resolved_dots [of r 0] by (cases r) auto
    next
      case (Cons a as)
      with "2.prems"(2) have "resolved r (rev as @ [a])" by simp
      then show ?thesis
      proof (cases rule: resolved_cases)
        case 1
        with 2 c Cons show ?thesis by auto
      next
        case (2 k)
        then have "rev (''..'' # acc) = replicate (Suc (Suc k)) ''..''"
          using Cons by (simp add: replicate_append_same)
        then have "resolved r (rev (''..'' # acc))" using 2(1) resolved_dots by metis
        with "2.IH" "2.prems" c Cons 2 show ?thesis by simp
      qed
    qed
  next
    case False
    then show ?thesis using 2 resolved_snoc [of r "rev acc" c] by (auto simp: plain_def)
  qed
qed simp

lemma resolve_resolved: "resolved r (rev acc @ cs) \<Longrightarrow> resolve r cs acc = rev acc @ cs"
proof (induction cs arbitrary: acc)
  case (Cons c cs)
  have "resolve r (c # cs) acc = resolve r cs (c # acc)"
  proof -
    obtain k ns where ns: "rev acc @ c # cs = replicate k ''..'' @ ns" "r \<longrightarrow> k = 0" "\<forall>c \<in> set ns. plain c"
      using Cons.prems by (auto simp: resolved_def)
    show ?thesis
    proof (cases "length acc < k")
      case True
      have "rev acc @ [c] = take (Suc (length acc)) (rev acc @ c # cs)" by simp
      also have "\<dots> = replicate (Suc (length acc)) ''..''" unfolding ns(1) using True by simp
      finally have "rev acc @ [c] = replicate (length acc) ''..'' @ [''..'']" by (simp add: replicate_append_same)
      then have "c = ''..''" "rev acc = replicate (length acc) ''..''" by simp_all
      moreover from this have "acc = replicate (length acc) ''..''" by (metis rev_replicate rev_rev_ident)
      moreover have "\<not> r" using ns(2) True by auto
      ultimately show ?thesis by (cases acc) auto
    next
      case False
      have "c = (replicate k ''..'' @ ns) ! length acc" using ns(1) by (metis length_rev nth_append_length)
      with False have "c = ns ! (length acc - k)" by (simp add: nth_append)
      moreover have "length acc - k < length ns" using False arg_cong [OF ns(1), of length] by simp
      ultimately have "plain c" using ns(3) by simp
      then show ?thesis by (auto simp: plain_def)
    qed
  qed
  with Cons show ?case by simp
qed simp

lemma split_on_join_slash:
  "cs \<noteq> [] \<Longrightarrow> \<forall>c \<in> set cs. CHR ''/'' \<notin> set c \<Longrightarrow> split_on (CHR ''/'') (join_slash cs) = cs"
  by (induction cs rule: join_slash.induct) (simp_all add: split_on_no_sep split_on_join)

lemma resolved_elements: "resolved (rooted p) (elements p)"
  unfolding elements_def by (rule resolved_resolve) (auto simp: split_on_elements resolved_def)

lemma resolved_no_slash: "resolved r cs \<Longrightarrow> c \<in> set cs \<Longrightarrow> CHR ''/'' \<notin> set c \<and> c \<noteq> []"
proof -
  assume "resolved r cs" "c \<in> set cs"
  then obtain k ns where "cs = replicate k ''..'' @ ns" "\<forall>c \<in> set ns. plain c" "c \<in> set cs" unfolding resolved_def by blast
  then have "c = ''..'' \<or> plain c" by (auto simp: set_replicate_conv_if split: if_splits)
  then show ?thesis by (auto simp: plain_def)
qed

lemma rooted_join_slash:
  assumes "resolved r cs"
  shows "\<not> rooted (join_slash cs)"
proof (cases cs)
  case (Cons c cs')
  then have "c \<noteq> []" "CHR ''/'' \<notin> set c" using resolved_no_slash [OF assms, of c] by auto
  with Cons show ?thesis by (cases c; cases cs') (auto simp: rooted_def)
qed (simp add: rooted_def)

lemma elements_join_slash:
  assumes "resolved r cs" and "cs \<noteq> []"
  shows "resolve r (split_on (CHR ''/'') (join_slash cs)) [] = cs"
  using assms resolve_resolved [of r "[]" cs] by (simp add: split_on_join_slash resolved_no_slash)

lemma Clean_points: "rooted (path_Clean p) = rooted p \<and> elements (path_Clean p) = elements p"
proof (cases "rooted p")
  case True
  have "resolve True (split_on (CHR ''/'') (join_slash (elements p))) [] = elements p"
    using elements_join_slash [of True "elements p"] resolved_elements [of p] True by (cases "elements p") auto
  with True show ?thesis by (simp add: path_Clean_def elements_def [of "CHR ''/'' # _"] rooted_def)
next
  case False
  show ?thesis
  proof (cases "elements p = []")
    case True
    with False show ?thesis by (simp add: path_Clean_def) (simp add: elements_def rooted_def)
  next
    case e: False
    have "\<not> rooted (join_slash (elements p))" using rooted_join_slash resolved_elements by blast
    with False e show ?thesis
      using elements_join_slash [of False "elements p"] resolved_elements [of p]
      by (simp add: path_Clean_def elements_def [of "join_slash _"])
  qed
qed

text \<open>Joining an entry's name to a path points to that entry of where the path points.\<close>

lemma Join_points:
  assumes "p \<noteq> []" and "plain name"
  shows "rooted (path_Join p name) = rooted p" and "elements (path_Join p name) = elements p @ [name]"
proof -
  have r: "rooted (p @ CHR ''/'' # name) = rooted p" using assms(1) by (cases p) (auto simp: rooted_def)
  have "name \<noteq> []" "CHR ''/'' \<notin> set name" using assms(2) by (auto simp: plain_def)
  then have "elements (p @ CHR ''/'' # name) = elements p @ [name]"
    using assms(2) by (simp add: elements_def r split_on_append resolve_append split_on_no_sep plain_def)
  with r \<open>name \<noteq> []\<close> assms(1) Clean_points [of "p @ CHR ''/'' # name"]
  show "rooted (path_Join p name) = rooted p" "elements (path_Join p name) = elements p @ [name]"
    by (simp_all add: path_Join_def)
qed

lemma Join_not_Nil: "p \<noteq> [] \<Longrightarrow> plain name \<Longrightarrow> path_Join p name \<noteq> []"
  using Join_points [of p name] by (auto simp: elements_def)

text \<open>A path that points to \<open>root\<close> or to an entry below it.\<close>

definition inside :: "string \<Rightarrow> string \<Rightarrow> bool" where
  "inside root p \<longleftrightarrow> p \<noteq> [] \<and> rooted p = rooted root \<and> (\<exists>cs. elements p = elements root @ cs \<and> (\<forall>c \<in> set cs. plain c))"

lemma inside_refl: "root \<noteq> [] \<Longrightarrow> inside root root"
  by (simp add: inside_def)

lemma inside_Join: "inside root p \<Longrightarrow> plain name \<Longrightarrow> inside root (path_Join p name)"
  by (auto simp: inside_def Join_points Join_not_Nil)

end
