(* ===== verification/P9_Qids.thy ===== *)
theory P9_Qids
  imports P9_File
begin

text \<open>
  Package \<^verbatim>\<open>fsimpl/qids\<close>: QID paths that are unique over several file systems. A path generator counts
  up, a mapper translates the paths of one file system into the generator's numbers and remembers
  the translation, and \<^verbatim>\<open>qidTransformFile\<close> applies a mapper to every QID that a file returns.
\<close>

section \<open>Files as Go sees them\<close>

text \<open>
  The methods of the interface \<^verbatim>\<open>File\<close> with the result tuples of Go: a QID or a file can come with
  an error, and a file can be nil. \<open>'a\<close> is the type of the files that are passed as arguments, which
  need not be the type of the receiver.
\<close>

record ('w, 'f, 'a) files =
  f_Walk :: "'f \<Rightarrow> string list \<Rightarrow> 'w \<Rightarrow> (QID list \<times> 'f option \<times> goerror option) \<times> 'w"
  f_WalkGetAttr :: "'f \<Rightarrow> string list \<Rightarrow> 'w \<Rightarrow> (QID list \<times> 'f option \<times> AttrMask \<times> Attr \<times> goerror option) \<times> 'w"
  f_StatFS :: "'f \<Rightarrow> 'w \<Rightarrow> (FSStat \<times> goerror option) \<times> 'w"
  f_GetAttr :: "'f \<Rightarrow> AttrMask \<Rightarrow> 'w \<Rightarrow> (QID \<times> AttrMask \<times> Attr \<times> goerror option) \<times> 'w"
  f_SetAttr :: "'f \<Rightarrow> SetAttrMask \<Rightarrow> SetAttr \<Rightarrow> 'w \<Rightarrow> goerror option \<times> 'w"
  f_Close :: "'f \<Rightarrow> 'w \<Rightarrow> goerror option \<times> 'w"
  f_Open :: "'f \<Rightarrow> OpenFlags \<Rightarrow> 'w \<Rightarrow> (QID \<times> uint32 \<times> goerror option) \<times> 'w"
  f_ReadAt :: "'f \<Rightarrow> nat \<Rightarrow> uint64 \<Rightarrow> 'w \<Rightarrow> (byte list \<times> goerror option) \<times> 'w"
  f_WriteAt :: "'f \<Rightarrow> byte list \<Rightarrow> uint64 \<Rightarrow> 'w \<Rightarrow> (nat \<times> goerror option) \<times> 'w"
  f_SetXattr :: "'f \<Rightarrow> string \<Rightarrow> byte list \<Rightarrow> XattrFlags \<Rightarrow> 'w \<Rightarrow> goerror option \<times> 'w"
  f_GetXattr :: "'f \<Rightarrow> string \<Rightarrow> 'w \<Rightarrow> (byte list \<times> goerror option) \<times> 'w"
  f_ListXattrs :: "'f \<Rightarrow> 'w \<Rightarrow> (string list \<times> goerror option) \<times> 'w"
  f_RemoveXattr :: "'f \<Rightarrow> string \<Rightarrow> 'w \<Rightarrow> goerror option \<times> 'w"
  f_FSync :: "'f \<Rightarrow> 'w \<Rightarrow> goerror option \<times> 'w"
  f_Lock :: "'f \<Rightarrow> uint32 \<Rightarrow> LockType \<Rightarrow> LockFlags \<Rightarrow> uint64 \<Rightarrow> uint64 \<Rightarrow> string \<Rightarrow> 'w
    \<Rightarrow> (LockStatus \<times> goerror option) \<times> 'w"
  f_Create :: "'f \<Rightarrow> string \<Rightarrow> OpenFlags \<Rightarrow> FileMode \<Rightarrow> UID \<Rightarrow> GID \<Rightarrow> 'w
    \<Rightarrow> ('f option \<times> QID \<times> uint32 \<times> goerror option) \<times> 'w"
  f_Mkdir :: "'f \<Rightarrow> string \<Rightarrow> FileMode \<Rightarrow> UID \<Rightarrow> GID \<Rightarrow> 'w \<Rightarrow> (QID \<times> goerror option) \<times> 'w"
  f_Symlink :: "'f \<Rightarrow> string \<Rightarrow> string \<Rightarrow> UID \<Rightarrow> GID \<Rightarrow> 'w \<Rightarrow> (QID \<times> goerror option) \<times> 'w"
  f_Link :: "'f \<Rightarrow> 'a \<Rightarrow> string \<Rightarrow> 'w \<Rightarrow> goerror option \<times> 'w"
  f_Mknod :: "'f \<Rightarrow> string \<Rightarrow> FileMode \<Rightarrow> uint32 \<Rightarrow> uint32 \<Rightarrow> UID \<Rightarrow> GID \<Rightarrow> 'w \<Rightarrow> (QID \<times> goerror option) \<times> 'w"
  f_RenameAt :: "'f \<Rightarrow> string \<Rightarrow> 'a \<Rightarrow> string \<Rightarrow> 'w \<Rightarrow> goerror option \<times> 'w"
  f_UnlinkAt :: "'f \<Rightarrow> string \<Rightarrow> uint32 \<Rightarrow> 'w \<Rightarrow> goerror option \<times> 'w"
  f_Readdir :: "'f \<Rightarrow> uint64 \<Rightarrow> uint32 \<Rightarrow> 'w \<Rightarrow> (Dirent list \<times> goerror option) \<times> 'w"
  f_Readlink :: "'f \<Rightarrow> 'w \<Rightarrow> (string \<times> goerror option) \<times> 'w"
  f_Renamed :: "'f \<Rightarrow> 'a \<Rightarrow> string \<Rightarrow> 'w \<Rightarrow> 'w"

text \<open>
  The file system as the server uses it: the values are looked at when the error is nil. A nil
  file without an error is outside the contract of \<^verbatim>\<open>File\<close>.
\<close>

definition or_error :: "goerror option \<Rightarrow> 'v \<Rightarrow> goerror + 'v" where
  "or_error err v = (case err of Some e \<Rightarrow> Inl e | None \<Rightarrow> Inr v)"

lemma or_error_simps [simp]: "or_error None v = Inr v" "or_error (Some e) v = Inl e"
  by (simp_all add: or_error_def)

definition backend_of :: "('w \<Rightarrow> ('f option \<times> goerror option) \<times> 'w) \<Rightarrow> ('w, 'f, 'f) files \<Rightarrow> ('w, 'f) backend" where
  "backend_of attach F = \<lparr>
     Attach = (\<lambda>w. let ((f, err), w) = attach w in (or_error err (the f), w)),
     Walk = (\<lambda>f ns w. let ((qs, g, err), w) = f_Walk F f ns w in (or_error err (qs, the g), w)),
     WalkGetAttr = (\<lambda>f ns w. let ((qs, g, k, a, err), w) = f_WalkGetAttr F f ns w in (or_error err (qs, the g, k, a), w)),
     StatFS = (\<lambda>f w. let ((v, err), w) = f_StatFS F f w in (or_error err v, w)),
     GetAttr = (\<lambda>f req w. let ((q, k, a, err), w) = f_GetAttr F f req w in (or_error err (q, k, a), w)),
     File_SetAttr = f_SetAttr F,
     Close = f_Close F,
     Open = (\<lambda>f fl w. let ((q, u, err), w) = f_Open F f fl w in (or_error err (q, u), w)),
     ReadAt = f_ReadAt F,
     WriteAt = (\<lambda>f p off w. let ((n, err), w) = f_WriteAt F f p off w in (or_error err n, w)),
     SetXattr = f_SetXattr F,
     GetXattr = (\<lambda>f n w. let ((v, err), w) = f_GetXattr F f n w in (or_error err v, w)),
     ListXattrs = (\<lambda>f w. let ((v, err), w) = f_ListXattrs F f w in (or_error err v, w)),
     RemoveXattr = f_RemoveXattr F,
     FSync = f_FSync F,
     Lock = (\<lambda>f pid ty fl st len c w. let ((v, err), w) = f_Lock F f pid ty fl st len c w in (or_error err v, w)),
     Create = (\<lambda>f n fl p u g w. let ((h, q, i, err), w) = f_Create F f n fl p u g w in (or_error err (the h, q, i), w)),
     Mkdir = (\<lambda>f n p u g w. let ((q, err), w) = f_Mkdir F f n p u g w in (or_error err q, w)),
     Symlink = (\<lambda>f t n u g w. let ((q, err), w) = f_Symlink F f t n u g w in (or_error err q, w)),
     Link = f_Link F,
     Mknod = (\<lambda>f n m a b u g w. let ((q, err), w) = f_Mknod F f n m a b u g w in (or_error err q, w)),
     RenameAt = f_RenameAt F,
     UnlinkAt = f_UnlinkAt F,
     Readdir = f_Readdir F,
     Readlink = (\<lambda>f w. let ((v, err), w) = f_Readlink F f w in (or_error err v, w)),
     Renamed = f_Renamed F\<rparr>"

section \<open>Path generators and mappers\<close>

text \<open>One generator and the mappers that draw from it; a mapper is addressed by its position.\<close>

record qid_space =
  uids :: uint64
  mappers :: "(uint64 \<times> uint64) list list"

definition PathGenerator :: qid_space where
  "PathGenerator = \<lparr>uids = 0, mappers = []\<rparr>"

definition NewPath :: "qid_space \<Rightarrow> uint64 \<times> qid_space" where
  "NewPath s = (uids s + 1, s\<lparr>uids := uids s + 1\<rparr>)"

definition NewMapper :: "qid_space \<Rightarrow> nat \<times> qid_space" where
  "NewMapper s = (length (mappers s), s\<lparr>mappers := mappers s @ [[]]\<rparr>)"

definition QIDFor :: "nat \<Rightarrow> QID \<Rightarrow> qid_space \<Rightarrow> QID \<times> qid_space" where
  "QIDFor m q s =
     (case map_of (mappers s ! m) (QID_Path q) of
        Some path \<Rightarrow> (\<lparr>QID_Type = QID_Type q, QID_Version = QID_Version q, QID_Path = path\<rparr>, s)
      | None \<Rightarrow>
          let (path, s) = NewPath s;
              s = s\<lparr>mappers := (mappers s)[m := AList.update (QID_Path q) path (mappers s ! m)]\<rparr>
          in (\<lparr>QID_Type = QID_Type q, QID_Version = QID_Version q, QID_Path = path\<rparr>, s))"

text \<open>The loop \<^verbatim>\<open>for _, qid := range qids\<close> of \<^verbatim>\<open>Walk\<close>, and the one over directory entries of \<^verbatim>\<open>Readdir\<close>.\<close>

fun QIDsFor :: "nat \<Rightarrow> QID list \<Rightarrow> qid_space \<Rightarrow> QID list \<times> qid_space" where
  "QIDsFor m [] s = ([], s)"
| "QIDsFor m (q # qs) s = (let (q', s) = QIDFor m q s; (qs', s) = QIDsFor m qs s in (q' # qs', s))"

fun direntsFor :: "nat \<Rightarrow> Dirent list \<Rightarrow> qid_space \<Rightarrow> Dirent list \<times> qid_space" where
  "direntsFor m [] s = ([], s)"
| "direntsFor m (d # ds) s =
     (let (q, s) = QIDFor m (Dirent_QID d) s; (ds', s) = direntsFor m ds s in (d\<lparr>Dirent_QID := q\<rparr> # ds', s))"

section \<open>Wrapped files\<close>

text \<open>
  \<^verbatim>\<open>qidTransformFile{f, m}\<close> is the pair of file and mapper. The methods that are not overridden are
  those of the embedded file; a file argument is passed on as it came.
\<close>

type_synonym 'f qidTransformFile = "'f \<times> nat"

definition NewWrapperFile :: "'f \<Rightarrow> nat \<Rightarrow> 'f qidTransformFile" where
  "NewWrapperFile f m = (f, m)"

definition wrapped :: "nat \<Rightarrow> 'f option \<Rightarrow> 'f qidTransformFile option" where
  "wrapped m file = (case file of None \<Rightarrow> None | Some f \<Rightarrow> Some (f, m))"

definition qt_Walk where
  "qt_Walk F q names ws =
     (let ((qids, file, err), w) = f_Walk F (fst q) names (fst ws);
          (nqids, s) = QIDsFor (snd q) qids (snd ws)
      in ((nqids, wrapped (snd q) file, err), w, s))"

definition qt_WalkGetAttr where
  "qt_WalkGetAttr F q names ws =
     (let ((qids, file, msk, attr, err), w) = f_WalkGetAttr F (fst q) names (fst ws);
          (nqids, s) = QIDsFor (snd q) qids (snd ws)
      in ((nqids, wrapped (snd q) file, msk, attr, err), w, s))"

definition qt_GetAttr where
  "qt_GetAttr F q req ws =
     (let ((qid, msk, attr, err), w) = f_GetAttr F (fst q) req (fst ws);
          (qid, s) = QIDFor (snd q) qid (snd ws)
      in ((qid, msk, attr, err), w, s))"

definition qt_Open where
  "qt_Open F q mode ws =
     (let ((qid, iounit, err), w) = f_Open F (fst q) mode (fst ws);
          (qid, s) = QIDFor (snd q) qid (snd ws)
      in ((qid, iounit, err), w, s))"

definition qt_Create where
  "qt_Create F q name flags permissions uid gid ws =
     (let ((file, qid, iounit, err), w) = f_Create F (fst q) name flags permissions uid gid (fst ws);
          (qid, s) = QIDFor (snd q) qid (snd ws)
      in ((wrapped (snd q) file, qid, iounit, err), w, s))"

definition qt_Mkdir where
  "qt_Mkdir F q name permissions uid gid ws =
     (let ((qid, err), w) = f_Mkdir F (fst q) name permissions uid gid (fst ws);
          (qid, s) = QIDFor (snd q) qid (snd ws)
      in ((qid, err), w, s))"

definition qt_Symlink where
  "qt_Symlink F q oldName newName uid gid ws =
     (let ((qid, err), w) = f_Symlink F (fst q) oldName newName uid gid (fst ws);
          (qid, s) = QIDFor (snd q) qid (snd ws)
      in ((qid, err), w, s))"

definition qt_Mknod where
  "qt_Mknod F q name mode major minor uid gid ws =
     (let ((qid, err), w) = f_Mknod F (fst q) name mode major minor uid gid (fst ws);
          (qid, s) = QIDFor (snd q) qid (snd ws)
      in ((qid, err), w, s))"

definition qt_Readdir where
  "qt_Readdir F q offset count ws =
     (let ((dirents, err), w) = f_Readdir F (fst q) offset count (fst ws);
          (dirents, s) = direntsFor (snd q) dirents (snd ws)
      in ((dirents, err), w, s))"

definition embedded :: "('w \<Rightarrow> 'v \<times> 'w) \<Rightarrow> 'w \<times> 's \<Rightarrow> 'v \<times> 'w \<times> 's" where
  "embedded op ws = (let (v, w) = op (fst ws) in (v, w, snd ws))"

definition qidTransform :: "('w, 'f, 'a) files \<Rightarrow> ('w \<times> qid_space, 'f qidTransformFile, 'a) files" where
  "qidTransform F = \<lparr>
     f_Walk = qt_Walk F, f_WalkGetAttr = qt_WalkGetAttr F,
     f_StatFS = (\<lambda>q. embedded (f_StatFS F (fst q))),
     f_GetAttr = qt_GetAttr F,
     f_SetAttr = (\<lambda>q v a. embedded (f_SetAttr F (fst q) v a)),
     f_Close = (\<lambda>q. embedded (f_Close F (fst q))),
     f_Open = qt_Open F,
     f_ReadAt = (\<lambda>q n off. embedded (f_ReadAt F (fst q) n off)),
     f_WriteAt = (\<lambda>q p off. embedded (f_WriteAt F (fst q) p off)),
     f_SetXattr = (\<lambda>q n v fl. embedded (f_SetXattr F (fst q) n v fl)),
     f_GetXattr = (\<lambda>q n. embedded (f_GetXattr F (fst q) n)),
     f_ListXattrs = (\<lambda>q. embedded (f_ListXattrs F (fst q))),
     f_RemoveXattr = (\<lambda>q n. embedded (f_RemoveXattr F (fst q) n)),
     f_FSync = (\<lambda>q. embedded (f_FSync F (fst q))),
     f_Lock = (\<lambda>q pid ty fl st len c. embedded (f_Lock F (fst q) pid ty fl st len c)),
     f_Create = qt_Create F, f_Mkdir = qt_Mkdir F, f_Symlink = qt_Symlink F,
     f_Link = (\<lambda>q t n. embedded (f_Link F (fst q) t n)),
     f_Mknod = qt_Mknod F,
     f_RenameAt = (\<lambda>q old t new. embedded (f_RenameAt F (fst q) old t new)),
     f_UnlinkAt = (\<lambda>q n fl. embedded (f_UnlinkAt F (fst q) n fl)),
     f_Readdir = qt_Readdir F,
     f_Readlink = (\<lambda>q. embedded (f_Readlink F (fst q))),
     f_Renamed = (\<lambda>q t n ws. (f_Renamed F (fst q) t n (fst ws), snd ws))\<rparr>"

section \<open>Paths are unique\<close>

definition path_of :: "qid_space \<Rightarrow> nat \<times> uint64 \<Rightarrow> uint64 option" where
  "path_of s k = (if fst k < length (mappers s) then map_of (mappers s ! fst k) (snd k) else None)"

definition space_ok :: "qid_space \<Rightarrow> bool" where
  "space_ok s \<longleftrightarrow> (\<forall>k l p. path_of s k = Some p \<longrightarrow> 0 < p \<and> p \<le> uids s \<and> (path_of s l = Some p \<longrightarrow> k = l))"

definition new_mappers :: "nat \<Rightarrow> qid_space" where
  "new_mappers k = ((\<lambda>s. snd (NewMapper s)) ^^ k) PathGenerator"

lemma new_mappers_eq: "new_mappers k = \<lparr>uids = 0, mappers = replicate k []\<rparr>"
proof (induction k)
  case (Suc k)
  have "replicate k [] @ [[]] = [] # replicate k ([] :: (uint64 \<times> uint64) list)" by (simp add: replicate_append_same)
  with Suc show ?case by (simp add: new_mappers_def NewMapper_def)
qed (simp add: new_mappers_def PathGenerator_def)

lemma path_of_new_mappers: "path_of (new_mappers k) = (\<lambda>_. None)"
  by (simp add: fun_eq_iff path_of_def new_mappers_eq)

lemma QIDFor_path_of:
  assumes "m < length (mappers s)" and "QIDFor m q s = (q', s')"
  shows "path_of s' = (path_of s)((m, QID_Path q) \<mapsto> QID_Path q')" and "length (mappers s') = length (mappers s)"
    and "QID_Type q' = QID_Type q" "QID_Version q' = QID_Version q"
    and "path_of s (m, QID_Path q) = Some p \<Longrightarrow> QID_Path q' = p \<and> s' = s"
    and "path_of s (m, QID_Path q) = None \<Longrightarrow> QID_Path q' = uids s + 1 \<and> uids s' = uids s + 1"
  using assms
  by (auto simp: QIDFor_def NewPath_def Let_def path_of_def fun_eq_iff nth_list_update update_conv split: option.splits prod.splits)

lemma QIDFor_ok:
  assumes ok: "space_ok s" and m: "m < length (mappers s)" and u: "unat (uids s) < 2 ^ 64 - 1" and q: "QIDFor m q s = (q', s')"
  shows "space_ok s'" and "unat (uids s') \<le> Suc (unat (uids s))"
proof -
  note facts = QIDFor_path_of [OF m q]
  have "space_ok s' \<and> unat (uids s') \<le> Suc (unat (uids s))"
  proof (cases "path_of s (m, QID_Path q)")
    case (Some p)
    with facts(5) ok show ?thesis by simp
  next
    case None
    have u': "unat (uids s + 1) = Suc (unat (uids s))" using u by (simp add: unat_word_ariths)
    have "p < uids s + 1" if "path_of s k = Some p" for k p
    proof -
      have "p \<le> uids s" using ok that unfolding space_ok_def by blast
      with u' show ?thesis by (simp add: word_less_nat_alt word_le_nat_alt)
    qed
    moreover have "0 < uids s + 1" using u' by (simp add: word_less_nat_alt)
    ultimately show ?thesis using ok facts(1,6) None u' by (fastforce simp: space_ok_def less_imp_le)
  qed
  then show "space_ok s'" "unat (uids s') \<le> Suc (unat (uids s))" by simp_all
qed

text \<open>A sequence of requests to any of the mappers.\<close>

fun run_QIDFor :: "(nat \<times> QID) list \<Rightarrow> qid_space \<Rightarrow> QID list \<times> qid_space" where
  "run_QIDFor [] s = ([], s)"
| "run_QIDFor ((m, q) # reqs) s =
     (let (q', s) = QIDFor m q s; (qs, s) = run_QIDFor reqs s in (q' # qs, s))"

lemma run_QIDFor_ok:
  assumes "space_ok s" and "\<forall>(m, q) \<in> set reqs. m < length (mappers s)" and "unat (uids s) + length reqs < 2 ^ 64"
    and "run_QIDFor reqs s = (qs, s')"
  shows "space_ok s' \<and> path_of s \<subseteq>\<^sub>m path_of s' \<and>
    list_all2 (\<lambda>(m, q) q'. path_of s' (m, QID_Path q) = Some (QID_Path q') \<and>
      QID_Type q' = QID_Type q \<and> QID_Version q' = QID_Version q) reqs qs"
  using assms
proof (induction reqs arbitrary: s qs)
  case (Cons r reqs)
  obtain m q where r: "r = (m, q)" by (cases r)
  obtain q' s1 where q: "QIDFor m q s = (q', s1)" by (cases "QIDFor m q s")
  obtain qs' where qs: "run_QIDFor reqs s1 = (qs', s')" "qs = q' # qs'"
    using Cons.prems(4) by (auto simp: r q split: prod.splits)
  have m: "m < length (mappers s)" using Cons.prems(2) by (simp add: r)
  note facts = QIDFor_path_of [OF m q]
  have u: "unat (uids s) < 2 ^ 64 - 1" using Cons.prems(3) by simp
  note ok = QIDFor_ok [OF Cons.prems(1) m u q]
  have IH: "space_ok s' \<and> path_of s1 \<subseteq>\<^sub>m path_of s' \<and>
    list_all2 (\<lambda>(m, q) q'. path_of s' (m, QID_Path q) = Some (QID_Path q') \<and>
      QID_Type q' = QID_Type q \<and> QID_Version q' = QID_Version q) reqs qs'"
    using Cons.prems(2,3) ok(2) facts(2) by (intro Cons.IH [OF ok(1) _ _ qs(1)]) (auto simp: r)
  have sub: "path_of s \<subseteq>\<^sub>m path_of s1"
    using facts(1,5) by (cases "path_of s (m, QID_Path q)") (auto simp: map_le_def)
  moreover have "path_of s' (m, QID_Path q) = Some (QID_Path q')"
    using IH facts(1) by (auto simp: map_le_def dom_def)
  ultimately show ?case using IH facts(3,4) by (auto simp: r qs(2) intro: map_le_trans)
qed simp

text \<open>C30: The QID paths that mappers of one generator hand out are unique: over any sequence of fewer
  than \<open>2 ^ 64\<close> requests to any number of mappers, two answers have the same path exactly when the
  requests had the same path and went to the same mapper; no answer has path 0, which the file
  systems use for their root; type and version are kept.\<close>

theorem QIDFor_unique:
  assumes "run_QIDFor reqs (new_mappers k) = (qs, s)" and "\<forall>(m, q) \<in> set reqs. m < k" and "length reqs < 2 ^ 64"
    and "i < length reqs" and "j < length reqs"
  shows "(QID_Path (qs ! i) = QID_Path (qs ! j) \<longleftrightarrow>
      fst (reqs ! i) = fst (reqs ! j) \<and> QID_Path (snd (reqs ! i)) = QID_Path (snd (reqs ! j))) \<and>
    QID_Path (qs ! i) \<noteq> 0 \<and> QID_Type (qs ! i) = QID_Type (snd (reqs ! i)) \<and>
    QID_Version (qs ! i) = QID_Version (snd (reqs ! i))"
proof -
  have "space_ok (new_mappers k)" by (simp add: space_ok_def path_of_new_mappers)
  then have run: "space_ok s \<and> list_all2 (\<lambda>(m, q) q'. path_of s (m, QID_Path q) = Some (QID_Path q') \<and>
      QID_Type q' = QID_Type q \<and> QID_Version q' = QID_Version q) reqs qs"
    using run_QIDFor_ok [OF _ _ _ assms(1)] assms(2,3) by (simp add: new_mappers_eq)
  then have at: "path_of s (fst (reqs ! n), QID_Path (snd (reqs ! n))) = Some (QID_Path (qs ! n)) \<and>
      QID_Type (qs ! n) = QID_Type (snd (reqs ! n)) \<and> QID_Version (qs ! n) = QID_Version (snd (reqs ! n))"
    if "n < length reqs" for n
    using that by (cases "reqs ! n") (auto simp: list_all2_conv_all_nth)
  note i = at [OF assms(4)] and j = at [OF assms(5)]
  from run i j have "QID_Path (qs ! i) = QID_Path (qs ! j) \<longleftrightarrow>
      fst (reqs ! i) = fst (reqs ! j) \<and> QID_Path (snd (reqs ! i)) = QID_Path (snd (reqs ! j))"
    by (auto simp: space_ok_def)
  moreover from run i have "0 < QID_Path (qs ! i)" by (auto simp: space_ok_def)
  ultimately show ?thesis using i by simp
qed

theorem QIDFor_unique_witness:
  "let q = \<lambda>p. \<lparr>QID_Type = 0, QID_Version = 0, QID_Path = p\<rparr>;
       qs = fst (run_QIDFor [(0, q 5), (1, q 5), (0, q 5)] (new_mappers 2))
   in QID_Path (qs ! 0) \<noteq> QID_Path (qs ! 1) \<and> QID_Path (qs ! 0) = QID_Path (qs ! 2)"
proof -
  let ?q = "\<lambda>p. \<lparr>QID_Type = 0, QID_Version = 0, QID_Path = p\<rparr>"
  let ?r = "[(0, ?q 5), (1, ?q 5), (0, ?q 5)]"
  obtain qs s where "run_QIDFor ?r (new_mappers 2) = (qs, s)" by fastforce
  then show ?thesis
    using QIDFor_unique [of ?r 2 qs s 0 1] QIDFor_unique [of ?r 2 qs s 0 2] by (simp add: Let_def)
qed

end
