(* ===== verification/P9_Templatefs.thy ===== *)
theory P9_Templatefs
  imports P9_Qids
begin

text \<open>
  Package \<^verbatim>\<open>fsimpl/templatefs\<close>: the default methods that file systems embed, one constant per method
  with the result it returns; no method has an effect. \<open>NoopFile\<close> is the file that has them all.
\<close>

section \<open>\<^verbatim>\<open>NotSymlinkFile\<close>, \<^verbatim>\<open>NotDirectoryFile\<close>: wrong type of file\<close>

definition NotSymlinkFile_Readlink :: "string \<times> goerror option" where
  "NotSymlinkFile_Readlink = ('''', Some (LinuxErrno EINVAL))"

definition NotDirectoryFile_Create :: "string \<Rightarrow> OpenFlags \<Rightarrow> FileMode \<Rightarrow> UID \<Rightarrow> GID \<Rightarrow> 'f option \<times> QID \<times> uint32 \<times> goerror option" where
  "NotDirectoryFile_Create name mode permissions uid gid = (None, QID_zero, 0, Some (LinuxErrno ENOTDIR))"

definition NotDirectoryFile_Mkdir :: "string \<Rightarrow> FileMode \<Rightarrow> UID \<Rightarrow> GID \<Rightarrow> QID \<times> goerror option" where
  "NotDirectoryFile_Mkdir name permissions uid gid = (QID_zero, Some (LinuxErrno ENOTDIR))"

definition NotDirectoryFile_Symlink :: "string \<Rightarrow> string \<Rightarrow> UID \<Rightarrow> GID \<Rightarrow> QID \<times> goerror option" where
  "NotDirectoryFile_Symlink oldname newname uid gid = (QID_zero, Some (LinuxErrno ENOTDIR))"

definition NotDirectoryFile_Link :: "'a \<Rightarrow> string \<Rightarrow> goerror option" where
  "NotDirectoryFile_Link target newname = Some (LinuxErrno ENOTDIR)"

definition NotDirectoryFile_Mknod :: "string \<Rightarrow> FileMode \<Rightarrow> uint32 \<Rightarrow> uint32 \<Rightarrow> UID \<Rightarrow> GID \<Rightarrow> QID \<times> goerror option" where
  "NotDirectoryFile_Mknod name mode major minor uid gid = (QID_zero, Some (LinuxErrno ENOTDIR))"

definition NotDirectoryFile_RenameAt :: "string \<Rightarrow> 'a \<Rightarrow> string \<Rightarrow> goerror option" where
  "NotDirectoryFile_RenameAt oldname newdir newname = Some (LinuxErrno ENOTDIR)"

definition NotDirectoryFile_UnlinkAt :: "string \<Rightarrow> uint32 \<Rightarrow> goerror option" where
  "NotDirectoryFile_UnlinkAt name flags = Some (LinuxErrno ENOTDIR)"

definition NotDirectoryFile_Readdir :: "uint64 \<Rightarrow> uint32 \<Rightarrow> Dirent list \<times> goerror option" where
  "NotDirectoryFile_Readdir offset count = ([], Some (LinuxErrno ENOTDIR))"

section \<open>\<^verbatim>\<open>ReadOnlyFile\<close>\<close>

definition ReadOnlyFile_FSync :: "goerror option" where
  "ReadOnlyFile_FSync = Some (LinuxErrno EROFS)"

definition ReadOnlyFile_SetAttr :: "SetAttrMask \<Rightarrow> SetAttr \<Rightarrow> goerror option" where
  "ReadOnlyFile_SetAttr valid attr = Some (LinuxErrno EROFS)"

definition ReadOnlyFile_Remove :: "goerror option" where
  "ReadOnlyFile_Remove = Some (LinuxErrno EROFS)"

definition ReadOnlyFile_Rename :: "'a \<Rightarrow> string \<Rightarrow> goerror option" where
  "ReadOnlyFile_Rename directory name = Some (LinuxErrno EROFS)"

definition ReadOnlyFile_WriteAt :: "byte list \<Rightarrow> uint64 \<Rightarrow> nat \<times> goerror option" where
  "ReadOnlyFile_WriteAt p offset = (0, Some (LinuxErrno EROFS))"

definition ReadOnlyFile_Flush :: "goerror option" where
  "ReadOnlyFile_Flush = None"

section \<open>\<^verbatim>\<open>ReadOnlyDir\<close> and \<^verbatim>\<open>IsDir\<close>\<close>

definition ReadOnlyDir_Create :: "string \<Rightarrow> OpenFlags \<Rightarrow> FileMode \<Rightarrow> UID \<Rightarrow> GID \<Rightarrow> 'f option \<times> QID \<times> uint32 \<times> goerror option" where
  "ReadOnlyDir_Create name mode permissions uid gid = (None, QID_zero, 0, Some (LinuxErrno EROFS))"

definition ReadOnlyDir_Mkdir :: "string \<Rightarrow> FileMode \<Rightarrow> UID \<Rightarrow> GID \<Rightarrow> QID \<times> goerror option" where
  "ReadOnlyDir_Mkdir name permissions uid gid = (QID_zero, Some (LinuxErrno EROFS))"

definition ReadOnlyDir_Symlink :: "string \<Rightarrow> string \<Rightarrow> UID \<Rightarrow> GID \<Rightarrow> QID \<times> goerror option" where
  "ReadOnlyDir_Symlink oldname newname uid gid = (QID_zero, Some (LinuxErrno EROFS))"

definition ReadOnlyDir_Link :: "'a \<Rightarrow> string \<Rightarrow> goerror option" where
  "ReadOnlyDir_Link target newname = Some (LinuxErrno EROFS)"

definition ReadOnlyDir_Mknod :: "string \<Rightarrow> FileMode \<Rightarrow> uint32 \<Rightarrow> uint32 \<Rightarrow> UID \<Rightarrow> GID \<Rightarrow> QID \<times> goerror option" where
  "ReadOnlyDir_Mknod name mode major minor uid gid = (QID_zero, Some (LinuxErrno EROFS))"

definition ReadOnlyDir_RenameAt :: "string \<Rightarrow> 'a \<Rightarrow> string \<Rightarrow> goerror option" where
  "ReadOnlyDir_RenameAt oldname newdir newname = Some (LinuxErrno EROFS)"

definition ReadOnlyDir_UnlinkAt :: "string \<Rightarrow> uint32 \<Rightarrow> goerror option" where
  "ReadOnlyDir_UnlinkAt name flags = Some (LinuxErrno EROFS)"

definition ReadOnlyDir_Readdir :: "uint64 \<Rightarrow> uint32 \<Rightarrow> Dirent list \<times> goerror option" where
  "ReadOnlyDir_Readdir offset count = ([], Some (LinuxErrno EROFS))"

definition ReadOnlyDir_FSync :: "goerror option" where
  "ReadOnlyDir_FSync = Some (LinuxErrno EROFS)"

definition ReadOnlyDir_SetAttr :: "SetAttrMask \<Rightarrow> SetAttr \<Rightarrow> goerror option" where
  "ReadOnlyDir_SetAttr valid attr = Some (LinuxErrno EROFS)"

definition ReadOnlyDir_Remove :: "goerror option" where
  "ReadOnlyDir_Remove = Some (LinuxErrno EROFS)"

definition ReadOnlyDir_Rename :: "'a \<Rightarrow> string \<Rightarrow> goerror option" where
  "ReadOnlyDir_Rename directory name = Some (LinuxErrno EROFS)"

definition IsDir_WriteAt :: "byte list \<Rightarrow> uint64 \<Rightarrow> nat \<times> goerror option" where
  "IsDir_WriteAt p offset = (0, Some (LinuxErrno EISDIR))"

definition IsDir_ReadAt :: "nat \<Rightarrow> uint64 \<Rightarrow> byte list \<times> goerror option" where
  "IsDir_ReadAt p offset = ([], Some (LinuxErrno EISDIR))"

section \<open>\<^verbatim>\<open>NilCloser\<close>, \<^verbatim>\<open>NilSyncer\<close> and \<^verbatim>\<open>NoopRenamed\<close>\<close>

definition NilCloser_Close :: "goerror option" where
  "NilCloser_Close = None"

definition NilSyncer_FSync :: "goerror option" where
  "NilSyncer_FSync = None"

definition NoopRenamed_Renamed :: "'a \<Rightarrow> string \<Rightarrow> 'w \<Rightarrow> 'w" where
  "NoopRenamed_Renamed parent newName w = w"

section \<open>\<^verbatim>\<open>NotImplementedFile\<close>, \<^verbatim>\<open>XattrUnimplemented\<close> and \<^verbatim>\<open>NotLockable\<close>\<close>

definition NotImplementedFile_Walk :: "string list \<Rightarrow> QID list \<times> 'f option \<times> goerror option" where
  "NotImplementedFile_Walk names = ([], None, Some (LinuxErrno ENOSYS))"

definition NotImplementedFile_StatFS :: "FSStat \<times> goerror option" where
  "NotImplementedFile_StatFS = (FSStat_zero, Some (LinuxErrno ENOSYS))"

definition NotImplementedFile_Open :: "OpenFlags \<Rightarrow> QID \<times> uint32 \<times> goerror option" where
  "NotImplementedFile_Open mode = (QID_zero, 0, Some (LinuxErrno ENOSYS))"

definition NotImplementedFile_ReadAt :: "nat \<Rightarrow> uint64 \<Rightarrow> byte list \<times> goerror option" where
  "NotImplementedFile_ReadAt p offset = ([], Some (LinuxErrno ENOSYS))"

definition NotImplementedFile_GetAttr :: "AttrMask \<Rightarrow> QID \<times> AttrMask \<times> Attr \<times> goerror option" where
  "NotImplementedFile_GetAttr req = (QID_zero, AttrMask_zero, Attr_zero, Some (LinuxErrno ENOSYS))"

definition NotImplementedFile_SetAttr :: "SetAttrMask \<Rightarrow> SetAttr \<Rightarrow> goerror option" where
  "NotImplementedFile_SetAttr valid attr = Some (LinuxErrno ENOSYS)"

definition NotImplementedFile_Remove :: "goerror option" where
  "NotImplementedFile_Remove = Some (LinuxErrno ENOSYS)"

definition NotImplementedFile_Rename :: "'a \<Rightarrow> string \<Rightarrow> goerror option" where
  "NotImplementedFile_Rename directory name = Some (LinuxErrno ENOSYS)"

definition NotImplementedFile_WriteAt :: "byte list \<Rightarrow> uint64 \<Rightarrow> nat \<times> goerror option" where
  "NotImplementedFile_WriteAt p offset = (0, Some (LinuxErrno ENOSYS))"

definition NotImplementedFile_Create :: "string \<Rightarrow> OpenFlags \<Rightarrow> FileMode \<Rightarrow> UID \<Rightarrow> GID \<Rightarrow> 'f option \<times> QID \<times> uint32 \<times> goerror option" where
  "NotImplementedFile_Create name mode permissions uid gid = (None, QID_zero, 0, Some (LinuxErrno ENOSYS))"

definition NotImplementedFile_Mkdir :: "string \<Rightarrow> FileMode \<Rightarrow> UID \<Rightarrow> GID \<Rightarrow> QID \<times> goerror option" where
  "NotImplementedFile_Mkdir name permissions uid gid = (QID_zero, Some (LinuxErrno ENOSYS))"

definition NotImplementedFile_Symlink :: "string \<Rightarrow> string \<Rightarrow> UID \<Rightarrow> GID \<Rightarrow> QID \<times> goerror option" where
  "NotImplementedFile_Symlink oldname newname uid gid = (QID_zero, Some (LinuxErrno ENOSYS))"

definition NotImplementedFile_Link :: "'a \<Rightarrow> string \<Rightarrow> goerror option" where
  "NotImplementedFile_Link target newname = Some (LinuxErrno ENOSYS)"

definition NotImplementedFile_Mknod :: "string \<Rightarrow> FileMode \<Rightarrow> uint32 \<Rightarrow> uint32 \<Rightarrow> UID \<Rightarrow> GID \<Rightarrow> QID \<times> goerror option" where
  "NotImplementedFile_Mknod name mode major minor uid gid = (QID_zero, Some (LinuxErrno ENOSYS))"

definition NotImplementedFile_RenameAt :: "string \<Rightarrow> 'a \<Rightarrow> string \<Rightarrow> goerror option" where
  "NotImplementedFile_RenameAt oldname newdir newname = Some (LinuxErrno ENOSYS)"

definition NotImplementedFile_UnlinkAt :: "string \<Rightarrow> uint32 \<Rightarrow> goerror option" where
  "NotImplementedFile_UnlinkAt name flags = Some (LinuxErrno ENOSYS)"

definition NotImplementedFile_Readdir :: "uint64 \<Rightarrow> uint32 \<Rightarrow> Dirent list \<times> goerror option" where
  "NotImplementedFile_Readdir offset count = ([], Some (LinuxErrno ENOSYS))"

definition NotImplementedFile_Readlink :: "string \<times> goerror option" where
  "NotImplementedFile_Readlink = ('''', Some (LinuxErrno ENOSYS))"

definition XattrUnimplemented_SetXattr :: "string \<Rightarrow> byte list \<Rightarrow> XattrFlags \<Rightarrow> goerror option" where
  "XattrUnimplemented_SetXattr attr dat flags = Some (LinuxErrno ENOSYS)"

definition XattrUnimplemented_GetXattr :: "string \<Rightarrow> byte list \<times> goerror option" where
  "XattrUnimplemented_GetXattr attr = ([], Some (LinuxErrno ENOSYS))"

definition XattrUnimplemented_ListXattrs :: "string list \<times> goerror option" where
  "XattrUnimplemented_ListXattrs = ([], Some (LinuxErrno ENOSYS))"

definition XattrUnimplemented_RemoveXattr :: "string \<Rightarrow> goerror option" where
  "XattrUnimplemented_RemoveXattr attr = Some (LinuxErrno ENOSYS)"

definition NotLockable_Lock :: "uint32 \<Rightarrow> LockType \<Rightarrow> LockFlags \<Rightarrow> uint64 \<Rightarrow> uint64 \<Rightarrow> string \<Rightarrow> LockStatus \<times> goerror option" where
  "NotLockable_Lock pid locktype flags start len client = (LockStatusOK, Some (LinuxErrno ENOSYS))"

definition DefaultWalkGetAttr_files ::
  "'f \<Rightarrow> string list \<Rightarrow> 'w \<Rightarrow> (QID list \<times> 'f option \<times> AttrMask \<times> Attr \<times> goerror option) \<times> 'w" where
  "DefaultWalkGetAttr_files f names w = (([], None, AttrMask_zero, Attr_zero, Some (LinuxErrno ENOSYS)), w)"

section \<open>\<^verbatim>\<open>NoopFile\<close>\<close>

definition NoopFile :: "('w, 'f, 'a) files" where
  "NoopFile = \<lparr>
     f_Walk = (\<lambda>f names w. (NotImplementedFile_Walk names, w)),
     f_WalkGetAttr = DefaultWalkGetAttr_files,
     f_StatFS = (\<lambda>f w. (NotImplementedFile_StatFS, w)),
     f_GetAttr = (\<lambda>f req w. (NotImplementedFile_GetAttr req, w)),
     f_SetAttr = (\<lambda>f valid attr w. (NotImplementedFile_SetAttr valid attr, w)),
     f_Close = (\<lambda>f w. (NilCloser_Close, w)),
     f_Open = (\<lambda>f mode w. (NotImplementedFile_Open mode, w)),
     f_ReadAt = (\<lambda>f p offset w. (NotImplementedFile_ReadAt p offset, w)),
     f_WriteAt = (\<lambda>f p offset w. (NotImplementedFile_WriteAt p offset, w)),
     f_SetXattr = (\<lambda>f attr dat flags w. (XattrUnimplemented_SetXattr attr dat flags, w)),
     f_GetXattr = (\<lambda>f attr w. (XattrUnimplemented_GetXattr attr, w)),
     f_ListXattrs = (\<lambda>f w. (XattrUnimplemented_ListXattrs, w)),
     f_RemoveXattr = (\<lambda>f attr w. (XattrUnimplemented_RemoveXattr attr, w)),
     f_FSync = (\<lambda>f w. (NilSyncer_FSync, w)),
     f_Lock = (\<lambda>f pid locktype flags start len client w. (NotLockable_Lock pid locktype flags start len client, w)),
     f_Create = (\<lambda>f name mode permissions uid gid w. (NotImplementedFile_Create name mode permissions uid gid, w)),
     f_Mkdir = (\<lambda>f name permissions uid gid w. (NotImplementedFile_Mkdir name permissions uid gid, w)),
     f_Symlink = (\<lambda>f oldname newname uid gid w. (NotImplementedFile_Symlink oldname newname uid gid, w)),
     f_Link = (\<lambda>f target newname w. (NotImplementedFile_Link target newname, w)),
     f_Mknod = (\<lambda>f name mode major minor uid gid w. (NotImplementedFile_Mknod name mode major minor uid gid, w)),
     f_RenameAt = (\<lambda>f oldname newdir newname w. (NotImplementedFile_RenameAt oldname newdir newname, w)),
     f_UnlinkAt = (\<lambda>f name flags w. (NotImplementedFile_UnlinkAt name flags, w)),
     f_Readdir = (\<lambda>f offset count w. (NotImplementedFile_Readdir offset count, w)),
     f_Readlink = (\<lambda>f w. (NotImplementedFile_Readlink, w)),
     f_Renamed = (\<lambda>f. NoopRenamed_Renamed)\<rparr>"

lemmas read_only_file_defs =
  NotSymlinkFile_Readlink_def NotDirectoryFile_Create_def NotDirectoryFile_Mkdir_def
  NotDirectoryFile_Symlink_def NotDirectoryFile_Link_def NotDirectoryFile_Mknod_def
  NotDirectoryFile_RenameAt_def NotDirectoryFile_UnlinkAt_def NotDirectoryFile_Readdir_def
  ReadOnlyFile_FSync_def ReadOnlyFile_SetAttr_def ReadOnlyFile_Remove_def ReadOnlyFile_Rename_def
  ReadOnlyFile_WriteAt_def ReadOnlyFile_Flush_def NilCloser_Close_def
  XattrUnimplemented_SetXattr_def XattrUnimplemented_GetXattr_def XattrUnimplemented_ListXattrs_def
  XattrUnimplemented_RemoveXattr_def NotLockable_Lock_def NoopRenamed_Renamed_def
  DefaultWalkGetAttr_files_def

lemmas read_only_dir_defs =
  NotSymlinkFile_Readlink_def ReadOnlyDir_Create_def ReadOnlyDir_Mkdir_def ReadOnlyDir_Symlink_def
  ReadOnlyDir_Link_def ReadOnlyDir_Mknod_def ReadOnlyDir_RenameAt_def ReadOnlyDir_UnlinkAt_def
  ReadOnlyDir_Readdir_def ReadOnlyDir_FSync_def ReadOnlyDir_SetAttr_def ReadOnlyDir_Remove_def
  ReadOnlyDir_Rename_def IsDir_WriteAt_def IsDir_ReadAt_def NilCloser_Close_def
  XattrUnimplemented_SetXattr_def XattrUnimplemented_GetXattr_def XattrUnimplemented_ListXattrs_def
  XattrUnimplemented_RemoveXattr_def NotLockable_Lock_def NoopRenamed_Renamed_def
  DefaultWalkGetAttr_files_def

end
