(* ===== verification/P9_Localfs.thy ===== *)
theory P9_Localfs
  imports P9_Path P9_Templatefs
begin

text \<open>
  Package \<^verbatim>\<open>fsimpl/localfs\<close> on Linux (\<^verbatim>\<open>localfs.go\<close>, \<^verbatim>\<open>readdir.go\<close>, \<^verbatim>\<open>system_unix.go\<close>, \<^verbatim>\<open>system_xattr.go\<close>) with
  \<^verbatim>\<open>fsimpl/xattr\<close> and \<^verbatim>\<open>internal/stat_standard.go\<close>: the local file system as a file system of the server.
  The operating system is an argument: one function per call the package makes.
\<close>

section \<open>The operating system\<close>

record FileInfo =
  fi_Mode :: os_FileMode
  fi_Sys :: Stat_t

text \<open>
  The calls, over a state \<open>'o\<close> of the system and open files \<open>'d\<close>. A method of an open file takes an option:
  \<open>None\<close> is the nil \<^verbatim>\<open>*os.File\<close>, on which package \<^verbatim>\<open>os\<close> returns \<^verbatim>\<open>ErrInvalid\<close> (and \<^verbatim>\<open>Fd\<close> an invalid descriptor).
  \<open>names_left\<close> is the number of names an open directory will still return. \<open>unix_Major\<close>, \<open>unix_Minor\<close> and
  \<open>normTimespec\<close> (\<^verbatim>\<open>NsecToTimespec\<close> of \<^verbatim>\<open>TimespecToNsec\<close>) are functions of \<^verbatim>\<open>golang.org/x/sys/unix\<close>.
\<close>

record ('o, 'd) os_calls =
  os_Umask :: "'o \<Rightarrow> 'o"
  os_Lstat :: "string \<Rightarrow> 'o \<Rightarrow> (goerror + FileInfo) \<times> 'o"
  os_OpenFile :: "string \<Rightarrow> OpenFlags \<Rightarrow> os_FileMode \<Rightarrow> 'o \<Rightarrow> (goerror + 'd) \<times> 'o"
  os_Mkdir :: "string \<Rightarrow> os_FileMode \<Rightarrow> 'o \<Rightarrow> goerror option \<times> 'o"
  os_Symlink :: "string \<Rightarrow> string \<Rightarrow> 'o \<Rightarrow> goerror option \<times> 'o"
  os_Link :: "string \<Rightarrow> string \<Rightarrow> 'o \<Rightarrow> goerror option \<times> 'o"
  os_Rename :: "string \<Rightarrow> string \<Rightarrow> 'o \<Rightarrow> goerror option \<times> 'o"
  os_Readlink :: "string \<Rightarrow> 'o \<Rightarrow> (string \<times> goerror option) \<times> 'o"
  os_Truncate :: "string \<Rightarrow> uint64 \<Rightarrow> 'o \<Rightarrow> goerror option \<times> 'o"
  os_Remove :: "string \<Rightarrow> 'o \<Rightarrow> goerror option \<times> 'o"
  file_Stat :: "'d \<Rightarrow> 'o \<Rightarrow> (goerror + FileInfo) \<times> 'o"
  file_Close :: "'d \<Rightarrow> 'o \<Rightarrow> goerror option \<times> 'o"
  file_Sync :: "'d option \<Rightarrow> 'o \<Rightarrow> goerror option \<times> 'o"
  file_ReadAt :: "'d option \<Rightarrow> nat \<Rightarrow> uint64 \<Rightarrow> 'o \<Rightarrow> (byte list \<times> goerror option) \<times> 'o"
  file_WriteAt :: "'d option \<Rightarrow> byte list \<Rightarrow> uint64 \<Rightarrow> 'o \<Rightarrow> (nat \<times> goerror option) \<times> 'o"
  file_Readdirname :: "'d option \<Rightarrow> 'o \<Rightarrow> (goerror + string) \<times> 'o"
  names_left :: "'d option \<Rightarrow> 'o \<Rightarrow> nat"
  unix_Flock :: "'d option \<Rightarrow> uint32 \<Rightarrow> 'o \<Rightarrow> goerror option \<times> 'o"
  unix_Setxattr :: "string \<Rightarrow> string \<Rightarrow> byte list \<Rightarrow> XattrFlags \<Rightarrow> 'o \<Rightarrow> goerror option \<times> 'o"
  unix_Removexattr :: "string \<Rightarrow> string \<Rightarrow> 'o \<Rightarrow> goerror option \<times> 'o"
  unix_Listxattr_size :: "string \<Rightarrow> 'o \<Rightarrow> (goerror + nat) \<times> 'o"
  unix_Listxattr :: "string \<Rightarrow> nat \<Rightarrow> 'o \<Rightarrow> (goerror + byte list) \<times> 'o"
  unix_Getxattr_size :: "string \<Rightarrow> string \<Rightarrow> 'o \<Rightarrow> (goerror + nat) \<times> 'o"
  unix_Getxattr :: "string \<Rightarrow> string \<Rightarrow> nat \<Rightarrow> 'o \<Rightarrow> (goerror + byte list) \<times> 'o"
  unix_Major :: "uint64 \<Rightarrow> uint32"
  unix_Minor :: "uint64 \<Rightarrow> uint32"
  normTimespec :: "Timespec \<Rightarrow> Timespec"

section \<open>QID paths\<close>

definition devUpperBits :: nat where "devUpperBits = 32"
definition devUpperOffset :: nat where "devUpperOffset = 32"
definition devMajorBits :: nat where "devMajorBits = 12"
definition devMinorBits :: nat where "devMinorBits = 20"
definition devMajorLikelyBits :: nat where "devMajorLikelyBits = devMajorBits - 0"
definition devMinorLikelyBits :: nat where "devMinorLikelyBits = devMinorBits - 8"
definition inodeLikelyBits :: nat where "inodeLikelyBits = 39"

definition nOnes :: "nat \<Rightarrow> uint64" where
  "nOnes n = push_bit n 1 - 1"

definition encodeLikely :: "(uint64 \<Rightarrow> uint32) \<Rightarrow> (uint64 \<Rightarrow> uint32) \<Rightarrow> uint64 \<Rightarrow> uint64 \<Rightarrow> uint64 option" where
  "encodeLikely Major Minor dev ino =
     (let inoLikely = nOnes inodeLikelyBits in
      if ino AND NOT inoLikely \<noteq> 0 then None
      else
        let upperUnlikely = push_bit devUpperOffset (nOnes devUpperBits) in
        if dev AND upperUnlikely \<noteq> 0 then None
        else
          let major = ucast (Major dev) in
          if major > nOnes devMajorLikelyBits then None
          else
            let minor = ucast (Minor dev) in
            if minor > nOnes devMinorLikelyBits then None
            else
              let q = ino AND inoLikely;
                  q = q OR push_bit inodeLikelyBits minor;
                  q = q OR push_bit (inodeLikelyBits + devMinorLikelyBits) major
              in Some q)"

section \<open>State\<close>

record 'd Local =
  path :: string
  loc_file :: "'d option"

record devino =
  di_dev :: uint64
  di_ino :: uint64

text \<open>
  The state: the operating system, the \<^verbatim>\<open>Local\<close> structures the server holds pointers to, and the
  package variables \<^verbatim>\<open>qids\<close> and \<^verbatim>\<open>nextQid\<close>. The map \<^verbatim>\<open>qids\<close> is keyed by pointers to \<^verbatim>\<open>devino\<close> structures, so
  that an entry is found only under the pointer that was stored; a key here is its allocation number.
\<close>

record ('o, 'd) local_state =
  os :: 'o
  locals :: "'d Local list"
  qids :: "(nat \<times> uint64) list"
  devinos :: "devino list"
  nextQid :: uint64

type_synonym local_file = nat

definition local_init :: "'o \<Rightarrow> ('o, 'd) local_state" where
  "local_init o0 = \<lparr>os = o0, locals = [], qids = [], devinos = [], nextQid = push_bit 63 1\<rparr>"

definition oscall :: "('o \<Rightarrow> 'v \<times> 'o) \<Rightarrow> ('o, 'd) local_state \<Rightarrow> 'v \<times> ('o, 'd) local_state" where
  "oscall g w = (let (v, s) = g (os w) in (v, w\<lparr>os := s\<rparr>))"

definition newLocal :: "'d Local \<Rightarrow> ('o, 'd) local_state \<Rightarrow> local_file \<times> ('o, 'd) local_state" where
  "newLocal l w = (length (locals w), w\<lparr>locals := locals w @ [l]\<rparr>)"

definition localToQid :: "('o, 'd) os_calls \<Rightarrow> FileInfo \<Rightarrow> ('o, 'd) local_state \<Rightarrow> uint64 \<times> ('o, 'd) local_state" where
  "localToQid S fi w =
     (let stat = fi_Sys fi in
      case encodeLikely (unix_Major S) (unix_Minor S) (Stat_Dev stat) (Stat_Ino stat) of
        Some q \<Rightarrow> (q, w)
      | None \<Rightarrow>
          let di = length (devinos w);
              w = w\<lparr>devinos := devinos w @ [\<lparr>di_dev = Stat_Dev stat, di_ino = Stat_Ino stat\<rparr>]\<rparr>
          in case map_of (qids w) di of
               Some q \<Rightarrow> (q, w)
             | None \<Rightarrow>
                 let w = w\<lparr>nextQid := nextQid w + 1\<rparr>
                 in (nextQid w, w\<lparr>qids := AList.update di (nextQid w) (qids w)\<rparr>))"

section \<open>Operations\<close>

definition RootAttacher :: string where
  "RootAttacher = ''/''"

definition Attacher :: "string \<Rightarrow> string" where
  "Attacher root = (if length root = 0 then ''/'' else root)"

definition local_Attach ::
  "('o, 'd) os_calls \<Rightarrow> string \<Rightarrow> ('o, 'd) local_state \<Rightarrow> (local_file option \<times> goerror option) \<times> ('o, 'd) local_state" where
  "local_Attach S root w =
     (let w = w\<lparr>os := os_Umask S (os w)\<rparr>;
          (l, w) = newLocal \<lparr>path = root, loc_file = None\<rparr> w
      in ((Some l, None), w))"

definition local_info ::
  "('o, 'd) os_calls \<Rightarrow> 'd Local \<Rightarrow> ('o, 'd) local_state \<Rightarrow> (QID \<times> FileInfo option \<times> goerror option) \<times> ('o, 'd) local_state" where
  "local_info S l w =
     (case (case loc_file l of Some d \<Rightarrow> oscall (file_Stat S d) w | None \<Rightarrow> oscall (os_Lstat S (path l)) w) of
        (Inl err, w) \<Rightarrow> ((QID_zero, None, Some err), w)
      | (Inr fi, w) \<Rightarrow>
          let (ninePath, w) = localToQid S fi w
          in ((QID_zero\<lparr>QID_Type := FileMode_QIDType (ModeFromOS (fi_Mode fi)), QID_Path := ninePath\<rparr>, Some fi, None), w))"

text \<open>The loop of \<^verbatim>\<open>Walk\<close>; only the last of the \<^verbatim>\<open>Local\<close> structures it makes is used afterwards.\<close>

fun local_walk ::
  "('o, 'd) os_calls \<Rightarrow> string \<Rightarrow> string list \<Rightarrow> QID list \<Rightarrow> ('o, 'd) local_state
   \<Rightarrow> (goerror + QID list \<times> string) \<times> ('o, 'd) local_state" where
  "local_walk S at [] qs w = (Inr (qs, at), w)"
| "local_walk S at (name # names) qs w =
     (let c = \<lparr>path = path_Join at name, loc_file = None\<rparr>;
          ((qid, _, err), w) = local_info S c w
      in case err of
           Some e \<Rightarrow> (Inl e, w)
         | None \<Rightarrow> local_walk S (path c) names (qs @ [qid]) w)"

definition local_Walk where
  "local_Walk S f names w =
     (let l = locals w ! f in
      if length names = 0 then
        (let (g, w) = newLocal \<lparr>path = path l, loc_file = None\<rparr> w in (([], Some g, None), w))
      else
        case local_walk S (path l) names [] w of
          (Inl err, w) \<Rightarrow> (([], None, Some err), w)
        | (Inr (qs, at), w) \<Rightarrow>
            let (g, w) = newLocal \<lparr>path = at, loc_file = None\<rparr> w in ((qs, Some g, None), w))"

definition InfoToStat :: "(Timespec \<Rightarrow> Timespec) \<Rightarrow> FileInfo \<Rightarrow> Stat_t" where
  "InfoToStat norm fi =
     (let nativeStat = fi_Sys fi in
      \<lparr>Stat_Dev = Stat_Dev nativeStat, Stat_Ino = Stat_Ino nativeStat, Stat_Nlink = Stat_Nlink nativeStat,
       Stat_Mode = Stat_Mode nativeStat, Stat_Uid = Stat_Uid nativeStat, Stat_Gid = Stat_Gid nativeStat,
       Stat_Rdev = Stat_Rdev nativeStat, Stat_Size = Stat_Size nativeStat, Stat_Blksize = Stat_Blksize nativeStat,
       Stat_Blocks = Stat_Blocks nativeStat, Stat_Atim = norm (Stat_Atim nativeStat),
       Stat_Mtim = norm (Stat_Mtim nativeStat), Stat_Ctim = norm (Stat_Ctim nativeStat)\<rparr>)"

definition local_GetAttr where
  "local_GetAttr S f req w =
     (let ((qid, fi, err), w) = local_info S (locals w ! f) w in
      case err of
        Some e \<Rightarrow> ((qid, AttrMask_zero, Attr_zero, Some e), w)
      | None \<Rightarrow>
          let stat = InfoToStat (normTimespec S) (the fi) in
          ((qid, req,
            Attr_zero\<lparr>Attr_Mode := Stat_Mode stat, Attr_UID := Stat_Uid stat, Attr_GID := Stat_Gid stat,
              Attr_NLink := Stat_Nlink stat, Attr_RDev := Stat_Rdev stat, Attr_Size := Stat_Size stat,
              Attr_BlockSize := Stat_Blksize stat, Attr_Blocks := Stat_Blocks stat,
              Attr_ATimeSeconds := Sec (Stat_Atim stat), Attr_ATimeNanoSeconds := Nsec (Stat_Atim stat),
              Attr_MTimeSeconds := Sec (Stat_Mtim stat), Attr_MTimeNanoSeconds := Nsec (Stat_Mtim stat),
              Attr_CTimeSeconds := Sec (Stat_Ctim stat), Attr_CTimeNanoSeconds := Nsec (Stat_Ctim stat)\<rparr>, None), w))"

definition local_Close where
  "local_Close S f w =
     (case loc_file (locals w ! f) of Some d \<Rightarrow> oscall (file_Close S d) w | None \<Rightarrow> (None, w))"

definition local_FSync where
  "local_FSync S f w = oscall (file_Sync S (loc_file (locals w ! f))) w"

definition local_Open where
  "local_Open S f mode w =
     (let ((qid, _, err), w) = local_info S (locals w ! f) w in
      case err of
        Some e \<Rightarrow> ((qid, 0 :: uint32, Some e), w)
      | None \<Rightarrow>
          (case oscall (os_OpenFile S (path (locals w ! f)) mode 0) w of
             (Inl e, w) \<Rightarrow> ((qid, 0, Some e), w)
           | (Inr d, w) \<Rightarrow>
               ((qid, 0, None), w\<lparr>locals := (locals w)[f := (locals w ! f)\<lparr>loc_file := Some d\<rparr>]\<rparr>)))"

definition local_ReadAt where
  "local_ReadAt S f p off w = oscall (file_ReadAt S (loc_file (locals w ! f)) p off) w"

definition local_WriteAt where
  "local_WriteAt S f p off w = oscall (file_WriteAt S (loc_file (locals w ! f)) p off) w"

definition LOCK_EX :: uint32 where "LOCK_EX = 2"
definition LOCK_UN :: uint32 where "LOCK_UN = 8"

definition local_lock where
  "local_lock S f (pid :: uint32) locktype (flags :: LockFlags) (start :: uint64) (len :: uint64) (client :: string) w =
     (let flock = (\<lambda>op.
            let (err, w) = oscall (unix_Flock S (loc_file (locals w ! f)) op) w
            in ((if err \<noteq> None then LockStatusError else LockStatusOK, None), w)) in
      if locktype = ReadLock \<or> locktype = WriteLock then flock LOCK_EX
      else if locktype = Unlock then flock LOCK_UN
      else ((LockStatusOK, Some (SyscallErrno ENOSYS)), w))"

definition O_CREATE_EXCL :: OpenFlags where
  "O_CREATE_EXCL = 0xc0"

definition local_Create where
  "local_Create S f name mode permissions (uid :: UID) (gid :: GID) w =
     (let newName = path_Join (path (locals w ! f)) name in
      case oscall (os_OpenFile S newName (mode OR O_CREATE_EXCL) permissions) w of
        (Inl err, w) \<Rightarrow> ((None, QID_zero, 0 :: uint32, Some err), w)
      | (Inr d, w) \<Rightarrow>
          let (l2, w) = newLocal \<lparr>path = newName, loc_file = Some d\<rparr> w;
              ((qid, _, err), w) = local_info S (locals w ! l2) w
          in case err of
               Some e \<Rightarrow> ((None, QID_zero, 0, Some e), snd (local_Close S l2 w))
             | None \<Rightarrow> ((Some l2, qid, 0, None), w))"

definition local_Mkdir where
  "local_Mkdir S f name permissions (uid :: UID) (gid :: GID) w =
     (let (err, w) = oscall (os_Mkdir S (path_Join (path (locals w ! f)) name) permissions) w
      in ((QID_zero, err), w))"

definition local_Symlink where
  "local_Symlink S f oldname newname (uid :: UID) (gid :: GID) w =
     (let (err, w) = oscall (os_Symlink S oldname (path_Join (path (locals w ! f)) newname)) w
      in ((QID_zero, err), w))"

definition local_Link where
  "local_Link S f target newname w =
     oscall (os_Link S (path (locals w ! target)) (path_Join (path (locals w ! f)) newname)) w"

definition local_RenameAt where
  "local_RenameAt S f oldName newDir newName w =
     (let oldPath = path_Join (path (locals w ! f)) oldName;
          newPath = path_Join (path (locals w ! newDir)) newName
      in oscall (os_Rename S oldPath newPath) w)"

definition local_Readlink where
  "local_Readlink S f w = oscall (os_Readlink S (path (locals w ! f))) w"

definition local_Renamed where
  "local_Renamed f parent newName w =
     w\<lparr>locals := (locals w)[f := (locals w ! f)\<lparr>path := path_Join (path (locals w ! parent)) newName\<rparr>]\<rparr>"

definition local_SetAttr where
  "local_SetAttr S f valid attr w =
     (let supported = SetAttrMask_zero\<lparr>SetAttrMask_Size := True, SetAttrMask_MTime := True,
            SetAttrMask_CTime := True, SetAttrMask_ATime := True\<rparr> in
      if \<not> SetAttrMask_IsSubsetOf valid supported then (Some (LinuxErrno ENOSYS), w)
      else if SetAttrMask_Size valid then oscall (os_Truncate S (path (locals w ! f)) (SetAttr_Size attr)) w
      else (None, w))"

text \<open>\<^verbatim>\<open>filepath.Join\<close> is \<^verbatim>\<open>path.Join\<close> on Linux.\<close>

definition local_UnlinkAt where
  "local_UnlinkAt S f name (flags :: uint32) w =
     oscall (os_Remove S (path_Join (path (locals w ! f)) name)) w"

section \<open>Extended attributes\<close>

definition trim_zeros :: "string \<Rightarrow> string" where
  "trim_zeros s = rev (dropWhile (\<lambda>c. c = CHR 0x00) (rev (dropWhile (\<lambda>c. c = CHR 0x00) s)))"

definition xattr_List where
  "xattr_List S p w =
     (case oscall (unix_Listxattr_size S p) w of
        (Inl err, w) \<Rightarrow> (([], Some (WrapError ''listxattr-get-size'' err)), w)
      | (Inr sz, w) \<Rightarrow>
          (case oscall (unix_Listxattr S p sz) w of
             (Inl err, w) \<Rightarrow> (([], Some (WrapError ''listxattr'' err)), w)
           | (Inr b, w) \<Rightarrow> ((split_on (CHR 0x00) (trim_zeros (map char_of_byte b)), None), w)))"

definition xattr_Get where
  "xattr_Get S p attr w =
     (case oscall (unix_Getxattr_size S p attr) w of
        (Inl err, w) \<Rightarrow> (([], Some (WrapError ''getxattr-get-size'' err)), w)
      | (Inr sz, w) \<Rightarrow>
          (case oscall (unix_Getxattr S p attr sz) w of
             (Inl err, w) \<Rightarrow> (([], Some (WrapError ''getxattr'' err)), w)
           | (Inr b, w) \<Rightarrow> ((b, None), w)))"

definition local_SetXattr where
  "local_SetXattr S f attr dat flags w = oscall (unix_Setxattr S (path (locals w ! f)) attr dat flags) w"

definition local_ListXattrs where
  "local_ListXattrs S f w = xattr_List S (path (locals w ! f)) w"

definition local_GetXattr where
  "local_GetXattr S f attr w = xattr_Get S (path (locals w ! f)) attr w"

definition local_RemoveXattr where
  "local_RemoveXattr S f attr w = oscall (unix_Removexattr S (path (locals w ! f)) attr) w"

section \<open>Directories\<close>

text \<open>
  The loop of \<^verbatim>\<open>Readdir\<close>. Every round but the last consumes a name of the open directory, so
  \<open>names_left\<close> plus one rounds are enough for a directory that has an end.
\<close>

fun readdir_loop ::
  "('o, 'd) os_calls \<Rightarrow> nat \<Rightarrow> local_file \<Rightarrow> uint64 \<Rightarrow> uint32 \<Rightarrow> uint64 \<Rightarrow> Dirent list \<Rightarrow> ('o, 'd) local_state
   \<Rightarrow> (Dirent list \<times> goerror option) \<times> ('o, 'd) local_state" where
  "readdir_loop S 0 f offset count cursor p9Ents w = ((p9Ents, None), w)"
| "readdir_loop S (Suc n) f offset count cursor p9Ents w =
     (if \<not> length p9Ents < unat count then ((p9Ents, None), w)
      else
        case oscall (file_Readdirname S (loc_file (locals w ! f))) w of
          (Inl err, w) \<Rightarrow> if err = IoEOF then ((p9Ents, None), w) else (([], Some err), w)
        | (Inr name, w) \<Rightarrow>
            let cursor = cursor + 1 in
            if cursor < offset \<or> cursor > offset + ucast count
            then readdir_loop S n f offset count cursor p9Ents w
            else
              let ((qid, _, err), w) =
                    local_info S \<lparr>path = path_Join (path (locals w ! f)) name, loc_file = None\<rparr> w
              in case err of
                   Some e \<Rightarrow> ((p9Ents, Some e), w)
                 | None \<Rightarrow>
                     readdir_loop S n f offset count cursor
                       (p9Ents @ [\<lparr>Dirent_QID = qid, Dirent_Offset = cursor, Dirent_Type = QID_Type qid, Dirent_Name = name\<rparr>]) w)"

definition local_Readdir where
  "local_Readdir S f offset count w =
     readdir_loop S (Suc (names_left S (loc_file (locals w ! f)) (os w))) f offset count 0 [] w"

section \<open>The file system\<close>

text \<open>\<^verbatim>\<open>StatFS\<close> and \<^verbatim>\<open>Mknod\<close> are those of the embedded \<^verbatim>\<open>NoopFile\<close>.\<close>

definition localfs :: "('o, 'd) os_calls \<Rightarrow> (('o, 'd) local_state, local_file, local_file) files" where
  "localfs S = \<lparr>
     f_Walk = local_Walk S, f_WalkGetAttr = DefaultWalkGetAttr_files, f_StatFS = (\<lambda>f w. (NotImplementedFile_StatFS, w)),
     f_GetAttr = local_GetAttr S, f_SetAttr = local_SetAttr S, f_Close = local_Close S, f_Open = local_Open S,
     f_ReadAt = local_ReadAt S, f_WriteAt = local_WriteAt S, f_SetXattr = local_SetXattr S,
     f_GetXattr = local_GetXattr S, f_ListXattrs = local_ListXattrs S, f_RemoveXattr = local_RemoveXattr S,
     f_FSync = local_FSync S, f_Lock = local_lock S, f_Create = local_Create S, f_Mkdir = local_Mkdir S,
     f_Symlink = local_Symlink S, f_Link = local_Link S, 
     f_Mknod = (\<lambda>f name mode major minor uid gid w. (NotImplementedFile_Mknod name mode major minor uid gid, w)),
     f_RenameAt = local_RenameAt S, f_UnlinkAt = local_UnlinkAt S, f_Readdir = local_Readdir S,
     f_Readlink = local_Readlink S, f_Renamed = local_Renamed\<rparr>"

abbreviation localFS :: "('o, 'd) os_calls \<Rightarrow> string \<Rightarrow> (('o, 'd) local_state, local_file) backend" where
  "localFS S root \<equiv> backend_of (local_Attach S (Attacher root)) (localfs S)"

end
