(* ===== verification/P9_FileCalls.thy ===== *)
theory P9_FileCalls
  imports P9_Serve
begin

text \<open>
  What a file system can rely on. The locale \<open>file_system\<close> takes an invariant of the file system's
  state and a predicate for the handles it has handed out, and asks of each method only that it
  keeps them when it is called on such handles and, where it takes the name of an entry, with
  names that \<^verbatim>\<open>checkSafeName\<close> accepts. Its lemmas show that every request handler then keeps the
  invariant: the server never calls the file system in another way.
\<close>

section \<open>The contract\<close>

text \<open>
  A call on the handles \<open>args\<close> keeps the invariant \<open>P\<close> and the handles (\<open>G w f\<close>: \<open>f\<close> is a handle in state
  \<open>w\<close>), and the files it returns are handles.
\<close>

definition ok_call ::
  "('w \<Rightarrow> bool) \<Rightarrow> ('w \<Rightarrow> 'f \<Rightarrow> bool) \<Rightarrow> 'f list \<Rightarrow> ('r \<Rightarrow> 'f list) \<Rightarrow> ('w \<Rightarrow> 'r \<times> 'w) \<Rightarrow> bool" where
  "ok_call P G args out g \<longleftrightarrow> (\<forall>w r w'. P w \<longrightarrow> (\<forall>f \<in> set args. G w f) \<longrightarrow> g w = (r, w') \<longrightarrow>
     P w' \<and> (\<forall>f. G w f \<longrightarrow> G w' f) \<and> (\<forall>f \<in> set (out r). G w' f))"

definition no_file :: "'r \<Rightarrow> 'f list" where
  "no_file r = []"

definition walked :: "goerror + QID list \<times> 'f \<Rightarrow> 'f list" where
  "walked r = (case r of Inl e \<Rightarrow> [] | Inr (qs, f) \<Rightarrow> [f])"

definition walked_attr :: "goerror + QID list \<times> 'f \<times> AttrMask \<times> Attr \<Rightarrow> 'f list" where
  "walked_attr r = (case r of Inl e \<Rightarrow> [] | Inr (qs, f, valid, attr) \<Rightarrow> [f])"

definition created :: "goerror + 'f \<times> QID \<times> uint32 \<Rightarrow> 'f list" where
  "created r = (case r of Inl e \<Rightarrow> [] | Inr (f, q, u) \<Rightarrow> [f])"

definition attached :: "goerror + 'f \<Rightarrow> 'f list" where
  "attached r = (case r of Inl e \<Rightarrow> [] | Inr f \<Rightarrow> [f])"

abbreviation safe :: "string \<Rightarrow> bool" where
  "safe name \<equiv> checkSafeName name = None"

text \<open>Only the new state of such a call matters.\<close>

lemma ok_call_result:
  assumes "ok_call P G args no_file g"
  shows "ok_call P G args no_file (\<lambda>w. (h w, snd (g w)))"
  unfolding ok_call_def
proof (intro allI impI)
  fix w r w'
  assume a: "P w" "\<forall>f \<in> set args. G w f" "(h w, snd (g w)) = (r, w')"
  then have "g w = (fst (g w), w')" by (simp add: prod_eq_iff)
  with assms a(1,2) show "P w' \<and> (\<forall>f. G w f \<longrightarrow> G w' f) \<and> (\<forall>f \<in> set (no_file r). G w' f)"
    unfolding ok_call_def no_file_def by (metis empty_iff empty_set)
qed

text \<open>The names registered in a path node.\<close>

definition names_of :: "pathNode \<Rightarrow> string set" where
  "names_of p = snd ` set (childRefNames p) \<union> fst ` set (childRefs p)"

lemma image_delete_subset: "f ` set (AList.delete k al) \<subseteq> f ` set al"
  by (auto simp: AList.delete_eq)

lemma snd_update_subset: "snd ` set (AList.update k v al) \<subseteq> insert v (snd ` set al)"
  by (induction al) auto

lemma fst_update_known: "map_of al k = Some v \<Longrightarrow> fst ` set (AList.update k w al) = fst ` set al"
  by (force simp: dom_update dest: map_of_SomeD)

lemma names_of_dropRef: "names_of (dropRef name r p) \<subseteq> names_of p"
  using image_delete_subset [of snd r "childRefNames p"]
  by (auto simp: names_of_def dropRef_def fst_update_known split: option.splits)

lemma names_of_removeChild:
  assumes "removeChild_node r p = Some p'"
  shows "names_of p' \<subseteq> names_of p"
proof -
  have n: "childRefNames p' = AList.delete r (childRefNames p)"
    using assms by (auto simp: removeChild_node_def Let_def split: option.splits)
  have "fst ` set (childRefs p') \<subseteq> fst ` set (childRefs p)"
  proof (cases "map_of (childRefNames p) r")
    case (Some name)
    then obtain m where m: "map_of (childRefs p) name = Some m"
      using assms by (auto simp: removeChild_node_def split: option.splits)
    then have "childRefs p' = (if removeAll r m = [] then AList.delete name (childRefs p) else AList.update name (removeAll r m) (childRefs p))"
      using assms Some by (auto simp: removeChild_node_def Let_def)
    then show ?thesis by (simp only: fst_update_known [OF m] image_delete_subset order_refl split: if_split) simp
  qed (use assms in \<open>auto simp: removeChild_node_def\<close>)
  then show ?thesis using image_delete_subset [of snd r "childRefNames p"] unfolding n names_of_def by blast
qed

lemma names_of_addChild:
  assumes "addChildLocked r name p = Some p'"
  shows "names_of p' \<subseteq> insert name (names_of p)"
proof -
  obtain m where p': "p' = p\<lparr>childRefNames := AList.update r name (childRefNames p), childRefs := AList.update name m (childRefs p)\<rparr>"
    using assms by (auto simp: addChildLocked_def Let_def split: if_splits)
  show ?thesis using snd_update_subset [of r name "childRefNames p"] unfolding p' names_of_def by (simp add: dom_update) blast
qed

locale file_system =
  fixes B :: "('w, 'f) backend" and P :: "'w \<Rightarrow> bool" and G :: "'w \<Rightarrow> 'f \<Rightarrow> bool"
  assumes Attach: "ok_call P G [] attached (Attach B)"
    and Walk: "\<forall>n \<in> set ns. safe n \<Longrightarrow> ok_call P G [f] walked (Walk B f ns)"
    and WalkGetAttr: "\<forall>n \<in> set ns. safe n \<Longrightarrow> ok_call P G [f] walked_attr (WalkGetAttr B f ns)"
    and StatFS: "ok_call P G [f] no_file (StatFS B f)"
    and GetAttr: "ok_call P G [f] no_file (GetAttr B f req)"
    and File_SetAttr: "ok_call P G [f] no_file (File_SetAttr B f valid attr)"
    and Close: "ok_call P G [f] no_file (Close B f)"
    and Open: "ok_call P G [f] no_file (Open B f mode)"
    and ReadAt: "ok_call P G [f] no_file (ReadAt B f n off)"
    and WriteAt: "ok_call P G [f] no_file (WriteAt B f p off)"
    and SetXattr: "ok_call P G [f] no_file (SetXattr B f attr_name v flags)"
    and GetXattr: "ok_call P G [f] no_file (GetXattr B f attr_name)"
    and ListXattrs: "ok_call P G [f] no_file (ListXattrs B f)"
    and RemoveXattr: "ok_call P G [f] no_file (RemoveXattr B f attr_name)"
    and FSync: "ok_call P G [f] no_file (FSync B f)"
    and Lock: "ok_call P G [f] no_file (Lock B f pid ty fl st len c)"
    and Create: "safe name \<Longrightarrow> ok_call P G [f] created (Create B f name mode perm uid gid)"
    and Mkdir: "safe name \<Longrightarrow> ok_call P G [f] no_file (Mkdir B f name perm uid gid)"
    and Symlink: "safe name \<Longrightarrow> ok_call P G [f] no_file (Symlink B f target name uid gid)"
    and Link: "safe name \<Longrightarrow> ok_call P G [f, g] no_file (Link B f g name)"
    and Mknod: "safe name \<Longrightarrow> ok_call P G [f] no_file (Mknod B f name mode major minor uid gid)"
    and RenameAt: "safe old \<Longrightarrow> safe name \<Longrightarrow> ok_call P G [f, g] no_file (RenameAt B f old g name)"
    and UnlinkAt: "safe name \<Longrightarrow> ok_call P G [f] no_file (UnlinkAt B f name unlink_flags)"
    and Readdir: "ok_call P G [f] no_file (Readdir B f off count)"
    and Readlink: "ok_call P G [f] no_file (Readlink B f)"
    and Renamed: "safe name \<Longrightarrow> ok_call P G [f, g] no_file (\<lambda>w. ((), Renamed B f g name w))"
begin

text \<open>
  The state of the server is good: the file system satisfies its invariant, every reference holds
  a handle, and every name in the path tree is safe.
\<close>

definition names_safe :: "pathNode \<Rightarrow> bool" where
  "names_safe p \<longleftrightarrow> (\<forall>n \<in> names_of p. safe n)"

definition good :: "('w, 'f) srv \<Rightarrow> bool" where
  "good s \<longleftrightarrow> P (world s) \<and> (\<forall>x \<in> set (refHeap s). G (world s) (ref_file x)) \<and> (\<forall>p \<in> set (nodeHeap s). names_safe p)"

lemma call_good:
  assumes "ok_call P G args out g" and "good s" and "\<forall>f \<in> set args. G (world s) f"
  shows "good (snd (call g s))" and "G (world s) f \<Longrightarrow> G (world (snd (call g s))) f"
    and "h \<in> set (out (fst (call g s))) \<Longrightarrow> G (world (snd (call g s))) h"
proof -
  obtain r w where g: "g (world s) = (r, w)" by fastforce
  with assms have w: "P w" "\<forall>f. G (world s) f \<longrightarrow> G w f" "\<forall>f \<in> set (out r). G w f"
    unfolding ok_call_def good_def by blast+
  from g w assms(2) show "good (snd (call g s))" by (simp add: call_def good_def)
  from g w show "G (world s) f \<Longrightarrow> G (world (snd (call g s))) f" by (simp add: call_def)
  from g w show "h \<in> set (out (fst (call g s))) \<Longrightarrow> G (world (snd (call g s))) h" by (simp add: call_def)
qed

lemma good_getRef: "good s \<Longrightarrow> getRef s r = Some x \<Longrightarrow> G (world s) (ref_file x)"
  by (auto simp: good_def getRef_def split: if_splits)

lemma good_getNode: "good s \<Longrightarrow> getNode s p = Some x \<Longrightarrow> names_safe x"
  by (auto simp: good_def getNode_def split: if_splits)

lemma good_setRef: "good s \<Longrightarrow> G (world s) (ref_file x) \<Longrightarrow> good (setRef r x s)"
  using set_update_subset_insert [of "refHeap s" r x] by (auto simp: good_def setRef_def)

lemma good_setNode: "good s \<Longrightarrow> names_safe x \<Longrightarrow> good (setNode p x s)"
  using set_update_subset_insert [of "nodeHeap s" p x] by (auto simp: good_def setNode_def)

lemma good_allocRef: "good s \<Longrightarrow> G (world s) (ref_file x) \<Longrightarrow> good (snd (allocRef x s))"
  by (auto simp: good_def allocRef_def)

lemma good_allocNode: "good s \<Longrightarrow> good (snd (allocNode newPathNode s))"
  by (auto simp: good_def allocNode_def names_safe_def names_of_def newPathNode_def)

lemma good_fids [simp]: "good (s\<lparr>fids := t\<rparr>) = good s"
  by (simp add: good_def)

lemma good_NewServer: "P w \<Longrightarrow> good (NewServer w)"
  by (simp add: good_def NewServer_def names_safe_def names_of_def newPathNode_def)

text \<open>A step from a good state leads to a good state and keeps the handles.\<close>

definition keeps :: "('w, 'f) srv \<Rightarrow> ('w, 'f) srv \<Rightarrow> bool" where
  "keeps s s' \<longleftrightarrow> (good s \<longrightarrow> good s' \<and> (\<forall>f. G (world s) f \<longrightarrow> G (world s') f))"

lemma keeps_refl [simp]: "keeps s s"
  by (simp add: keeps_def)

lemma keeps_trans: "keeps s t \<Longrightarrow> keeps t u \<Longrightarrow> keeps s u"
  by (simp add: keeps_def)

lemma keeps_good: "keeps s s' \<Longrightarrow> good s \<Longrightarrow> good s'"
  by (simp add: keeps_def)

lemma keeps_handle: "keeps s s' \<Longrightarrow> good s \<Longrightarrow> G (world s) f \<Longrightarrow> G (world s') f"
  by (simp add: keeps_def)

lemma keeps_call:
  "ok_call P G args out g \<Longrightarrow> (good s \<Longrightarrow> \<forall>f \<in> set args. G (world s) f) \<Longrightarrow> keeps s (snd (call g s))"
  by (simp add: keeps_def call_good)

lemma keeps_setRef: "(good s \<Longrightarrow> G (world s) (ref_file x)) \<Longrightarrow> keeps s (setRef r x s)"
  by (simp add: keeps_def good_setRef)

lemma keeps_setNode: "(good s \<Longrightarrow> names_safe x) \<Longrightarrow> keeps s (setNode p x s)"
  by (simp add: keeps_def good_setNode)

lemma keeps_allocRef: "(good s \<Longrightarrow> G (world s) (ref_file x)) \<Longrightarrow> keeps s (snd (allocRef x s))"
  by (simp add: keeps_def good_allocRef)

lemma keeps_fids [simp]: "keeps s (s'\<lparr>fids := t\<rparr>) = keeps s s'" "keeps (s\<lparr>fids := t\<rparr>) s' = keeps s s'"
  by (simp_all add: keeps_def)

lemma keeps_IncRef: "IncRef r s = Some s' \<Longrightarrow> keeps s s'"
  by (auto simp: IncRef_def intro!: keeps_setRef dest: good_getRef split: bind_splits)

lemma keeps_TryIncRef: "TryIncRef r s = Some (b, s') \<Longrightarrow> keeps s s'"
  by (auto simp: TryIncRef_def intro!: keeps_setRef dest: good_getRef split: bind_splits if_splits)

section \<open>The path tree\<close>

lemma names_safe_simps [simp]:
  "names_safe (p\<lparr>deleted := d\<rparr>) = names_safe p" "names_safe (p\<lparr>childNodes := c\<rparr>) = names_safe p" "names_safe newPathNode"
  by (simp_all add: names_safe_def names_of_def newPathNode_def)

lemma names_safe_ops:
  "names_safe p \<Longrightarrow> names_safe (dropRef name r p)"
  "names_safe p \<Longrightarrow> removeChild_node r p = Some p' \<Longrightarrow> names_safe p'"
  "names_safe p \<Longrightarrow> safe name \<Longrightarrow> addChildLocked r name p = Some p' \<Longrightarrow> names_safe p'"
  using names_of_dropRef [of name r p] names_of_removeChild [of r p p'] names_of_addChild [of r name p p']
  by (auto simp: names_safe_def)

lemma nameFor_safe: "names_safe p \<Longrightarrow> nameFor p r = Some name \<Longrightarrow> safe name"
  by (force simp: names_safe_def names_of_def nameFor_def dest: map_of_SomeD)

lemma keeps_removeChild: "removeChild p r s = Some s' \<Longrightarrow> keeps s s'"
  by (auto simp: removeChild_def intro!: keeps_setNode intro: names_safe_ops(2) good_getNode split: bind_splits)

lemma keeps_addChild: "safe name \<Longrightarrow> addChild p r name s = Some s' \<Longrightarrow> keeps s s'"
  by (auto simp: addChild_def intro!: keeps_setNode intro: names_safe_ops(3) good_getNode split: bind_splits)

lemma keeps_pathNodeFor: "pathNodeFor p name s = Some (n, s') \<Longrightarrow> keeps s s'"
  by (auto simp: pathNodeFor_def keeps_def allocNode_def Let_def good_def setNode_def getNode_def
      dest!: set_update_subset_insert [THEN subsetD] split: bind_splits option.splits if_splits)

section \<open>References\<close>

lemma keeps_world:
  assumes "ok_call P G args out g" and "good s \<Longrightarrow> \<forall>f \<in> set args. G (world s) f" and "g (world s) = (r, w)"
  shows "keeps s (s\<lparr>world := w\<rparr>)"
  using keeps_call [OF assms(1,2)] assms(3) by (simp add: call_def)

lemma keeps_DecRef_aux: "DecRef B' r s = Some (e, s') \<Longrightarrow> B' = B \<Longrightarrow> keeps s s'"
proof (induction B' r s arbitrary: e s' rule: DecRef.induct)
  case (1 B' r s)
  obtain x where x: "getRef s r = Some x" using 1(2) by (subst (asm) DecRef.simps) (auto split: option.splits)
  define s1 where "s1 = setRef r (x\<lparr>refs := refs x - 1\<rparr>) s"
  have k1: "keeps s s1" unfolding s1_def using good_getRef [OF _ x] by (intro keeps_setRef) simp
  obtain err w where c: "Close B (ref_file x) (world s1) = (err, w)" by fastforce
  define s2 where "s2 = s1\<lparr>world := w\<rparr>"
  have "getRef s1 r = Some (x\<lparr>refs := refs x - 1\<rparr>)"
    using x getRef_Some [OF x] by (simp add: s1_def getRef_setRef)
  then have k2: "keeps s s2" unfolding s2_def using c good_getRef [of s1 r]
    by (intro keeps_trans [OF k1] keeps_world [OF Close]) auto
  show ?case
  proof (cases "refs x - 1 = 0 \<and> ref_parent x \<noteq> None")
    case True
    then obtain q where q: "ref_parent x = Some q" and r0: "refs x - 1 = 0" by auto
    obtain y s3 pe where y: "getRef s2 q = Some y" and s3: "removeChild (ref_node y) r s2 = Some s3"
      and d: "DecRef B q s3 = Some (pe, s')"
      using 1(2) [unfolded 1(3) DecRef.simps [of B r s] x option.case Let_def s1_def [symmetric] c prod.case s2_def [symmetric]] r0 q
      by (auto split: option.splits prod.splits)
    have "keeps s3 s'"
      using r0 d 1(3) by (intro 1(1) [OF x s1_def r0 c [folded 1(3), symmetric] s2_def refl q y s3]) auto
    then show ?thesis using k2 keeps_removeChild [OF s3] by (blast intro: keeps_trans)
  next
    case False
    then have "s' = s1 \<or> s' = s2" using 1(2,3)
      by (subst (asm) DecRef.simps) (auto simp: x c s1_def [symmetric] s2_def [symmetric] Let_def split: option.splits prod.splits if_splits)
    then show ?thesis using k1 k2 by blast
  qed
qed

lemmas keeps_DecRef = keeps_DecRef_aux [OF _ refl]

lemma keeps_InsertFID: "InsertFID B f r s = Some s' \<Longrightarrow> keeps s s'"
  by (auto simp: InsertFID_def Let_def split: bind_splits option.splits
      dest!: keeps_IncRef keeps_DecRef) (blast intro: keeps_trans)

lemma keeps_DeleteFID: "DeleteFID B f s = Some (e, s') \<Longrightarrow> keeps s s'"
  by (auto simp: DeleteFID_def split: option.splits dest!: keeps_DecRef)

lemma keeps_LookupFID: "LookupFID f s = Some (r, s') \<Longrightarrow> keeps s s'"
  by (auto simp: LookupFID_def split: bind_splits option.splits dest!: keeps_IncRef)

lemma keeps_withFID:
  assumes "withFID B f bad body s = Some (v, s')" and "\<And>r s v s'. body r s = Some (v, s') \<Longrightarrow> keeps s s'"
  shows "keeps s s'"
  using assms(1)
  by (auto simp: withFID_def split: bind_splits option.splits
      dest!: keeps_LookupFID keeps_DecRef assms(2)) (blast intro: keeps_trans)

section \<open>Deletion and renaming\<close>

lemma keeps_notifyDelete: "notifyDelete work s = Some s' \<Longrightarrow> keeps s s'"
proof (induction work s s' rule: notifyDelete.raw_induct [rotated, consumes 1, case_names step])
  case (step notify work s s')
  show ?case
  proof (cases work)
    case (Cons pn rest)
    then obtain x where x: "getNode s pn = Some x" and n: "notify (map snd (childNodes x) @ rest) (setNode pn (x\<lparr>deleted := True\<rparr>) s) = Some s'"
      using step(2) by (auto split: bind_splits)
    have "keeps s (setNode pn (x\<lparr>deleted := True\<rparr>) s)" using good_getNode [OF _ x] by (intro keeps_setNode) simp
    with step(1) [OF n] show ?thesis by (rule keeps_trans [rotated])
  qed (use step(2) in simp)
qed

lemma keepsI: "(good s \<Longrightarrow> keeps s s') \<Longrightarrow> keeps s s'"
  by (auto simp: keeps_def)

lemma keeps_remove_refs:
  assumes "\<And>callback r s s'. fn = Some callback \<Longrightarrow> callback r s = Some s' \<Longrightarrow> keeps s s'"
  shows "remove_refs B p name fn rs s = Some s' \<Longrightarrow> keeps s s'"
proof (induction rs arbitrary: s)
  case (Cons r rs)
  obtain x where x: "getNode s p = Some x" using Cons.prems by (auto split: bind_splits)
  define s1 where "s1 = setNode p (dropRef name r x) s"
  have k: "keeps s s1" unfolding s1_def using good_getNode [OF _ x] by (intro keeps_setNode names_safe_ops(1))
  have "keeps s1 s'" if mem: "r \<in> refs_named x name"
  proof (cases fn)
    case None
    then have "remove_refs B p name fn rs s1 = Some s'" using Cons.prems mem x by (simp add: s1_def [symmetric])
    then show ?thesis by (rule Cons.IH)
  next
    case (Some callback)
    then obtain held s2 where t: "TryIncRef r s1 = Some (held, s2)"
      and c: "if held then \<exists>s3 e s4. callback r s2 = Some s3 \<and> DecRef B r s3 = Some (e, s4) \<and> remove_refs B p name fn rs s4 = Some s'
        else remove_refs B p name fn rs s2 = Some s'"
      using Cons.prems mem x by (auto simp: s1_def [symmetric] bind_eq_Some_conv split: if_splits)
    from c have "keeps s2 s'"
      using assms [OF Some] by (auto split: if_splits dest!: Cons.IH keeps_DecRef) (blast intro: keeps_trans)
    with keeps_TryIncRef [OF t] show ?thesis by (rule keeps_trans)
  qed
  with k Cons.prems x show ?case by (cases "r \<in> refs_named x name") (auto intro: keeps_trans Cons.IH)
qed simp

lemma keeps_removeWithName:
  assumes "removeWithName B p name fn s = Some (n, s')"
    and "\<And>callback r s s'. fn = Some callback \<Longrightarrow> callback r s = Some s' \<Longrightarrow> keeps s s'"
  shows "keeps s s'"
proof -
  obtain x0 where x0: "getNode s p = Some x0" using assms(1) by (auto simp: removeWithName_def split: bind_splits)
  obtain s1 x where s1: "remove_refs B p name fn (case map_of (childRefs x0) name of Some m \<Rightarrow> m | None \<Rightarrow> []) s = Some s1"
    and x: "getNode s1 p = Some x" and s': "s' = setNode p (x\<lparr>childNodes := AList.delete name (childNodes x)\<rparr>) s1"
    using assms(1) x0 unfolding removeWithName_def bind_eq_Some_conv by auto
  have "keeps s1 s'" unfolding s' using good_getNode [OF _ x] by (intro keeps_setNode) simp
  moreover have "keeps s s1" using assms(2) s1 by (rule keeps_remove_refs)
  ultimately show ?thesis by (rule keeps_trans [rotated])
qed

lemma keeps_markChildDeleted: "markChildDeleted B f name s = Some s' \<Longrightarrow> keeps s s'"
  by (auto simp: markChildDeleted_def split: bind_splits option.splits dest!: keeps_removeWithName keeps_notifyDelete)
    (blast intro: keeps_trans)

lemma keeps_Renamed:
  assumes "safe name" and "getRef s r = Some x" and "getRef s q = Some y"
  shows "keeps s (s\<lparr>world := Renamed B (ref_file x) (ref_file y) name (world s)\<rparr>)"
  using good_getRef [OF _ assms(2)] good_getRef [OF _ assms(3)] by (intro keeps_world [OF Renamed [OF assms(1)]]) auto

lemma keeps_notify_refs: "safe name \<Longrightarrow> notify_refs B name rs s = Some s' \<Longrightarrow> keeps s s'"
proof (induction rs arbitrary: s)
  case (Cons r rs)
  then obtain x q y where "getRef s r = Some x" "getRef s q = Some y"
    "notify_refs B name rs (s\<lparr>world := Renamed B (ref_file x) (ref_file y) name (world s)\<rparr>) = Some s'"
    by (auto split: bind_splits)
  with Cons show ?case by (blast intro: keeps_trans [OF keeps_Renamed])
qed simp

lemma keeps_forEachChildRef: "\<forall>n \<in> fst ` set l. safe n \<Longrightarrow> forEachChildRef B l s = Some s' \<Longrightarrow> keeps s s'"
proof (induction l arbitrary: s)
  case (Cons c l)
  then obtain s1 where "notify_refs B (fst c) (snd c) s = Some s1" "forEachChildRef B l s1 = Some s'"
    by (cases c) (auto split: bind_splits)
  with Cons show ?case by (auto intro: keeps_trans [OF keeps_notify_refs])
qed simp

lemma keeps_notifyNameChange_aux: "notifyNameChange B' work s = Some s' \<Longrightarrow> B' = B \<Longrightarrow> keeps s s'"
proof (induction B' work s s' rule: notifyNameChange.raw_induct [rotated, consumes 1, case_names step])
  case (step notify B' work s s')
  show ?case
  proof (cases work)
    case (Cons pn rest)
    then obtain x s1 where x: "getNode s pn = Some x" and s1: "forEachChildRef B (childRefs x) s = Some s1"
      and n: "notify B (map snd (childNodes x) @ rest) s1 = Some s'"
      using step(2,3) by (auto split: bind_splits)
    have "keeps s s1"
    proof (rule keepsI)
      assume "good s"
      then have "\<forall>n \<in> fst ` set (childRefs x). safe n" using good_getNode [OF _ x] by (simp add: names_safe_def names_of_def)
      then show "keeps s s1" using s1 by (rule keeps_forEachChildRef)
    qed
    with step(1) [OF n refl] show ?thesis by (rule keeps_trans [rotated])
  qed (use step(2) in simp)
qed

lemmas keeps_notifyNameChange = keeps_notifyNameChange_aux [OF _ refl]

lemma keeps_moveRef:
  assumes "safe name" and "moveRef B target name r s = Some s'"
  shows "keeps s s'"
proof -
  obtain x q e s1 x1 s2 y s3 where steps: "DecRef B q s = Some (e, s1)" "getRef s1 r = Some x1"
    "IncRef target (setRef r (x1\<lparr>ref_parent := Some target\<rparr>) s1) = Some s2" "getRef s2 target = Some y"
    "addChild (ref_node y) r name s2 = Some s3"
    "s' = s3\<lparr>world := Renamed B (ref_file x1) (ref_file y) name (world s3)\<rparr>"
    using assms(2) by (auto simp: moveRef_def split: bind_splits)
  have "keeps s1 (setRef r (x1\<lparr>ref_parent := Some target\<rparr>) s1)"
    using good_getRef [OF _ steps(2)] by (intro keeps_setRef) simp
  then have k: "keeps s1 s3" using keeps_IncRef [OF steps(3)] keeps_addChild [OF assms(1) steps(5)] by (blast intro: keeps_trans)
  have "keeps s1 s'"
  proof (rule keepsI)
    assume g: "good s1"
    have "G (world s3) (ref_file x1)" using keeps_handle [OF k g good_getRef [OF g steps(2)]] .
    moreover have "G (world s3) (ref_file y)"
      using g good_getRef [OF _ steps(4)] keeps_IncRef [OF steps(3)] keeps_addChild [OF assms(1) steps(5)]
        \<open>keeps s1 (setRef r (x1\<lparr>ref_parent := Some target\<rparr>) s1)\<close> by (auto simp: keeps_def)
    ultimately show "keeps s1 s'" unfolding steps(6) by (intro keeps_trans [OF k] keeps_world [OF Renamed [OF assms(1)]]) auto
  qed
  with keeps_DecRef [OF steps(1)] show ?thesis by (rule keeps_trans)
qed

lemma keeps_renameChildTo:
  assumes "safe name" and "renameChildTo B f old target name s = Some s'"
  shows "keeps s s'"
proof -
  obtain s1 p n s2 where s1: "markChildDeleted B target name s = Some s1"
    and s2: "removeWithName B p old (Some (moveRef B target name)) s1 = Some (n, s2)"
    and n: "(case n of None \<Rightarrow> Some s2 | Some pn \<Rightarrow> do { y \<leftarrow> getRef s2 target; t \<leftarrow> getNode s2 (ref_node y);
      t \<leftarrow> addPathNodeFor name pn t; notifyNameChange B [pn] (setNode (ref_node y) t s2) }) = Some s'"
    using assms(2) unfolding renameChildTo_def bind_eq_Some_conv by auto
  have k: "keeps s s2"
    using keeps_markChildDeleted [OF s1] keeps_removeWithName [OF s2] keeps_moveRef [OF assms(1)] by (blast intro: keeps_trans)
  have "keeps s2 s'"
  proof (cases n)
    case (Some pn)
    then obtain y :: "'f fidRef" and t t' where t: "getNode s2 (ref_node y) = Some t" "addPathNodeFor name pn t = Some t'"
      "notifyNameChange B [pn] (setNode (ref_node y) t' s2) = Some s'" using n by (auto simp: bind_eq_Some_conv)
    have "names_safe t \<Longrightarrow> names_safe t'" using t(2) by (auto simp: addPathNodeFor_def split: if_splits)
    then have "keeps s2 (setNode (ref_node y) t' s2)" using good_getNode [OF _ t(1)] by (intro keeps_setNode) blast
    with keeps_notifyNameChange [OF t(3)] show ?thesis by (rule keeps_trans [rotated])
  qed (use n in simp)
  with k show ?thesis by (rule keeps_trans)
qed

section \<open>Handlers\<close>

lemma keeps_op:
  assumes "ok_call P G [ref_file x] out g" and "getRef s r = Some x" and "call g s = (v, s')"
  shows "keeps s s'"
  using keeps_call [OF assms(1), of s] good_getRef [OF _ assms(2)] assms(3) by simp

lemmas keeps_ops = keeps_op [OF StatFS] keeps_op [OF GetAttr] keeps_op [OF File_SetAttr] keeps_op [OF Open]
  keeps_op [OF ReadAt] keeps_op [OF WriteAt] keeps_op [OF SetXattr] keeps_op [OF GetXattr] keeps_op [OF ListXattrs]
  keeps_op [OF RemoveXattr] keeps_op [OF FSync] keeps_op [OF Lock] keeps_op [OF Readdir] keeps_op [OF Readlink]
  keeps_op [OF UnlinkAt] keeps_op [OF Create]

lemma apfst_eq: "apfst g p = (a, b) \<longleftrightarrow> (\<exists>c. p = (c, b) \<and> a = g c)"
  by (cases p) auto

lemma keeps_session:
  "tversion_handle t1 s = Some (r, s') \<Longrightarrow> keeps s s'" "tflush_handle t2 s = Some (r, s') \<Longrightarrow> keeps s s'"
  "tauth_handle t3 s = Some (r, s') \<Longrightarrow> keeps s s'"
  by (auto simp: tversion_handle_def tflush_handle_def tauth_handle_def Let_def keeps_def good_def
      split: if_splits option.splits prod.splits)

lemma keeps_file_calls:
  "treadlink_handle B t1 s = Some (r, s') \<Longrightarrow> keeps s s'"
  "tfsync_handle B t2 s = Some (r, s') \<Longrightarrow> keeps s s'"
  "tgetattr_handle B t3 s = Some (r, s') \<Longrightarrow> keeps s s'"
  "tsetattr_handle B t4 s = Some (r, s') \<Longrightarrow> keeps s s'"
  "tstatfs_handle B t5 s = Some (r, s') \<Longrightarrow> keeps s s'"
  "tlock_handle B t6 s = Some (r, s') \<Longrightarrow> keeps s s'"
  by (auto simp: treadlink_handle_def tfsync_handle_def tgetattr_handle_def tsetattr_handle_def tstatfs_handle_def
      tlock_handle_def apfst_eq bind_eq_Some_conv elim!: keeps_withFID split: if_splits dest: keeps_ops)

lemma keeps_same_file:
  assumes "keeps s s1" and "getRef s1 q = Some y" and "ref_file x = ref_file y"
  shows "keeps s (setRef r x s1)"
  using keeps_trans [OF assms(1) keeps_setRef] good_getRef [OF _ assms(2)] assms(3) by simp

lemma keeps_readdir: "treaddir_handle B t s = Some (r, s') \<Longrightarrow> keeps s s'"
  by (auto simp: treaddir_handle_def bind_eq_Some_conv Let_def elim!: keeps_withFID
      split: if_splits prod.splits option.splits) (blast intro: keeps_ops)+

lemma keeps_tread_data: "tread_data B t n x s = (r, s') \<Longrightarrow> getRef s ref = Some x \<Longrightarrow> keeps s s'"
  by (auto simp: tread_data_def Let_def split: if_splits prod.splits option.splits xattrOp.splits) (blast intro: keeps_ops)+

lemma keeps_read: "tread_handle B t s = Some (r, s') \<Longrightarrow> keeps s s'"
  by (auto simp: tread_handle_def bind_eq_Some_conv elim!: keeps_withFID keeps_tread_data split: if_splits option.splits)

text \<open>A handler that begins with the lookup of its reference.\<close>

lemma keeps_withFID_ref:
  assumes "withFID B f bad (\<lambda>r s. getRef s r \<bind> body r s) s = Some (v, s')"
    and "\<And>r s x v s'. getRef s r = Some x \<Longrightarrow> body r s x = Some (v, s') \<Longrightarrow> keeps s s'"
  shows "keeps s s'"
  using assms(1) by (rule keeps_withFID) (auto simp: bind_eq_Some_conv intro: assms(2))

lemma keeps_write: "twrite_handle B t s = Some (r, s') \<Longrightarrow> keeps s s'"
  unfolding twrite_handle_def
  apply (erule keeps_withFID_ref)
  subgoal premises p for r s x v s'
  proof -
    obtain res s1 where c: "call (WriteAt B (ref_file x) (twrite_Data t) (twrite_Offset t)) s = (res, s1)" by fastforce
    have "keeps s s1" using p(1) c by (rule keeps_ops)
    moreover have "keeps s (setRef r (x\<lparr>ref_xattr := px\<rparr>) s)" for px using p(1) by (intro keeps_same_file [OF keeps_refl]) simp_all
    ultimately show ?thesis using p(2) c by (cases "px_op (ref_xattr x)") (auto simp: Let_def split: if_splits)
  qed
  done

lemma keeps_xattrcreate: "txattrcreate_handle B t s = Some (r, s') \<Longrightarrow> keeps s s'"
  by (auto simp: txattrcreate_handle_def bind_eq_Some_conv elim!: keeps_withFID split: if_splits)
    (auto intro: keeps_same_file)

lemma keeps_lopen: "tlopen_handle B t s = Some (r, s') \<Longrightarrow> keeps s s'"
  unfolding tlopen_handle_def
  apply (erule keeps_withFID_ref)
  subgoal premises p for r s x v s'
  proof -
    obtain res s1 where c: "call (Open B (ref_file x) (tlopen_Flags t)) s = (res, s1)" by fastforce
    have k: "keeps s s1" using p(1) c by (rule keeps_ops)
    from p(2) c have "s' = s \<or> s' = s1 \<or> 
        (\<exists>y. getRef s1 r = Some y \<and> s' = setRef r (y\<lparr>opened := True, openFlags := tlopen_Flags t\<rparr>) s1)"
      by (cases res) (auto simp: bind_eq_Some_conv split: if_splits)
    with k show ?thesis by (auto intro: keeps_same_file)
  qed
  done

lemma keeps_alloc:
  assumes "keeps s s1" and "allocRef y s1 = (n, s2)" and "good s \<Longrightarrow> G (world s1) (ref_file y)"
  shows "keeps s s2"
proof (rule keepsI)
  assume "good s"
  then have "keeps s1 s2" using keeps_allocRef [of s1 y] assms(2,3) by simp
  with assms(1) show "keeps s s2" by (rule keeps_trans)
qed

lemma keeps_alloc_same:
  assumes "getRef s r = Some x" and "keeps s s1" and "allocRef y s1 = (n, s2)" and "ref_file y = ref_file x"
  shows "keeps s s2"
proof (rule keeps_alloc [OF assms(2,3)])
  assume "good s"
  then show "G (world s1) (ref_file y)" using keeps_handle [OF assms(2) _ good_getRef [OF _ assms(1)]] assms(4) by simp
qed

lemma keeps_xattrwalk: "txattrwalk_handle B t s = Some (r, s') \<Longrightarrow> keeps s s'"
  unfolding txattrwalk_handle_def
  apply (erule keeps_withFID_ref)
  subgoal premises p for r s x v s'
  proof -
    define c where "c = (if length (txattrwalk_Name t) > 0 then call (GetXattr B (ref_file x) (txattrwalk_Name t)) s
      else apfst (map_sum id (\<lambda>xattrs. join_zero xattrs @ [0])) (call (ListXattrs B (ref_file x)) s))"
    obtain res s1 where s1: "c = (res, s1)" by fastforce
    then have k: "keeps s s1" using p(1) by (auto simp: c_def apfst_eq split: if_splits intro: keeps_ops)
    define y where "y = (\<lambda>buf. \<lparr>ref_file = ref_file x, ref_xattr = \<lparr>px_op = xattrWalk, px_name = txattrwalk_Name t,
       px_size = of_nat (length buf), px_flags = 0, px_buf = buf\<rparr>, refs = 0, opened = False, ref_mode = 0, openFlags = 0,
       ref_node = ref_node x, ref_parent = None\<rparr>)"
    have "s' = s \<or> s' = s1 \<or> (\<exists>buf n s2. allocRef (y buf) s1 = (n, s2) \<and> InsertFID B (txattrwalk_newFID t) n s2 = Some s')"
      using p(2) unfolding c_def [symmetric] s1
      by (cases res) (auto simp: bind_eq_Some_conv y_def split: if_splits prod.splits)
    then consider "s' = s" | "s' = s1" | buf n s2 where "allocRef (y buf) s1 = (n, s2)" "InsertFID B (txattrwalk_newFID t) n s2 = Some s'"
      by blast
    then show ?thesis
    proof cases
      case 3
      have "keeps s s2" using p(1) k 3(1) by (rule keeps_alloc_same) (simp add: y_def)
      with keeps_InsertFID [OF 3(2)] show ?thesis by (rule keeps_trans [rotated])
    qed (use k in simp_all)
  qed
  done

section \<open>Clunk, remove and unlink\<close>

lemma keeps_clunkHandleXattr: "clunkHandleXattr B t s = Some (r, s') \<Longrightarrow> keeps s s'"
  unfolding clunkHandleXattr_def
  by (erule keeps_withFID_ref) (auto simp: Let_def split: if_splits prod.splits intro: keeps_ops)

lemma keeps_clunk: "tclunk_handle B t s = Some (r, s') \<Longrightarrow> keeps s s'"
  by (auto simp: tclunk_handle_def bind_eq_Some_conv split: option.splits
      dest!: keeps_clunkHandleXattr keeps_DeleteFID) (blast intro: keeps_trans)+

lemma keeps_remove_global:
  assumes "tremove_global B r s = Some (e, s')"
  shows "keeps s s'"
proof (rule keepsI)
  assume g: "good s"
  show "keeps s s'"
  proof (cases "s' = s")
    case False
    then obtain q y p name where y: "getRef s q = Some y" and p: "getNode s (ref_node y) = Some p" and n: "nameFor p r = Some name"
      and u: "(case call (UnlinkAt B (ref_file y) name 0) s of (err, s) \<Rightarrow> case err of Some e \<Rightarrow> Some (Some e, s)
        | None \<Rightarrow> do { s \<leftarrow> markChildDeleted B q name s; Some (None, s) }) = Some (e, s')"
      using assms by (auto simp: tremove_global_def bind_eq_Some_conv split: option.splits if_splits)
    obtain err s1 where c: "call (UnlinkAt B (ref_file y) name 0) s = (err, s1)" by fastforce
    have s': "s' = s1 \<or> markChildDeleted B q name s1 = Some s'" using u c by (auto simp: bind_eq_Some_conv split: option.splits)
    have "safe name" using nameFor_safe [OF good_getNode [OF g p] n] .
    then have "keeps s s1" using keeps_op [OF UnlinkAt y c] by blast
    with s' show ?thesis by (blast intro: keeps_trans keeps_markChildDeleted)
  qed simp
qed

lemma keeps_remove: "tremove_handle B t s = Some (r, s') \<Longrightarrow> keeps s s'"
  unfolding tremove_handle_def
  by (erule keeps_withFID, auto simp: bind_eq_Some_conv split: option.splits
      dest!: keeps_remove_global keeps_DeleteFID) (blast intro: keeps_trans)+

lemma keeps_unlink:
  assumes "safe (tunlinkat_Name t)" and "tunlinkat_unlink B t r s = Some (v, s')"
  shows "keeps s s'"
proof (cases "s' = s")
  case False
  then obtain x n s1 where x: "getRef s r = Some x" and s1: "pathNodeFor (ref_node x) (tunlinkat_Name t) s = Some (n, s1)"
    and u: "(case call (UnlinkAt B (ref_file x) (tunlinkat_Name t) (tunlinkat_Flags t)) s1 of (Some err, s) \<Rightarrow> Some (newErr err, s)
      | (None, s) \<Rightarrow> do { s \<leftarrow> markChildDeleted B r (tunlinkat_Name t) s; Some (Runlinkat (), s) }) = Some (v, s')"
    using assms(2) by (auto simp: tunlinkat_unlink_def bind_eq_Some_conv split: option.splits)
  obtain err s2 where c: "call (UnlinkAt B (ref_file x) (tunlinkat_Name t) (tunlinkat_Flags t)) s1 = (err, s2)" by fastforce
  have s': "s' = s2 \<or> markChildDeleted B r (tunlinkat_Name t) s2 = Some s'" using u c by (auto simp: bind_eq_Some_conv split: option.splits)
  note k1 = keeps_pathNodeFor [OF s1]
  have "keeps s s2"
  proof (rule keepsI)
    assume g: "good s"
    have "keeps s1 s2" using keeps_call [OF UnlinkAt [OF assms(1)], of s1] keeps_handle [OF k1 g good_getRef [OF g x]] c
      by (metis empty_iff empty_set list.set_intros(1) set_ConsD snd_conv)
    with k1 show "keeps s s2" by (rule keeps_trans)
  qed
  with s' show ?thesis by (blast intro: keeps_trans keeps_markChildDeleted)
qed simp

lemma keeps_unlinkat: "tunlinkat_handle B t s = Some (r, s') \<Longrightarrow> keeps s s'"
  by (auto simp: tunlinkat_handle_def split: option.splits elim!: keeps_withFID intro: keeps_unlink)

section \<open>Create, link and rename\<close>

lemma keeps_inDirectory:
  assumes "inDirectory B name f g s = Some (v, s')" and "\<And>h. safe name \<Longrightarrow> ok_call P G [h] no_file (g h)"
  shows "keeps s s'"
  using assms(1) unfolding inDirectory_def
  by (auto simp: bind_eq_Some_conv split: option.splits elim!: keeps_withFID) (blast intro: keeps_op [OF assms(2)])

lemma keeps_directory_ops:
  "tsymlink_do B t1 uid s = Some (v, s') \<Longrightarrow> keeps s s'"
  "tmknod_do B t2 uid s = Some (v, s') \<Longrightarrow> keeps s s'"
  "tmkdir_do B t3 uid s = Some (v, s') \<Longrightarrow> keeps s s'"
  unfolding tsymlink_do_def tmknod_do_def tmkdir_do_def
  by (auto elim!: keeps_inDirectory intro: Symlink Mknod Mkdir)

lemma keeps_withFID2:
  assumes "withFID B f bad (\<lambda>r. withFID B h bad (body r)) s = Some (v, s')"
    and "\<And>r q s v s'. body r q s = Some (v, s') \<Longrightarrow> keeps s s'"
  shows "keeps s s'"
  using assms by (blast intro: keeps_withFID)

lemma keeps_op2:
  assumes "ok_call P G [ref_file x, ref_file y] out g" and "getRef s r = Some x" and "getRef s q = Some y" and "call g s = (v, s')"
  shows "keeps s s'"
  using keeps_call [OF assms(1), of s] good_getRef [OF _ assms(2)] good_getRef [OF _ assms(3)] assms(4) by simp

lemma keeps_tlink_link:
  assumes "safe (tlink_Name t)" and "tlink_link B t r q s = Some (v, s')"
  shows "keeps s s'"
proof -
  obtain x y where x: "getRef s r = Some x" and y: "getRef s q = Some y"
    using assms(2) by (auto simp: tlink_link_def bind_eq_Some_conv)
  obtain err s1 where c: "call (Link B (ref_file x) (ref_file y) (tlink_Name t)) s = (err, s1)" by fastforce
  have "s' = s \<or> s' = s1" using assms(2) x y c by (auto simp: tlink_link_def bind_eq_Some_conv split: option.splits)
  with keeps_op2 [OF Link [OF assms(1)] x y c] show ?thesis by auto
qed

lemma keeps_link: "tlink_handle B t s = Some (r, s') \<Longrightarrow> keeps s s'"
  unfolding tlink_handle_def
  by (auto split: option.splits elim!: keeps_withFID2 intro: keeps_tlink_link)

lemma keeps_renameat_global:
  assumes "safe (trenameat_OldName t)" and "safe (trenameat_NewName t)" and "trenameat_global B t r q s = Some (e, s')"
  shows "keeps s s'"
proof (cases "s' = s")
  case False
  then obtain x y where x: "getRef s r = Some x" and y: "getRef s q = Some y"
    and u: "(case call (RenameAt B (ref_file x) (trenameat_OldName t) (ref_file y) (trenameat_NewName t)) s of
      (Some err, s) \<Rightarrow> Some (Some err, s)
    | (None, s) \<Rightarrow> do { s \<leftarrow> renameChildTo B r (trenameat_OldName t) q (trenameat_NewName t) s; Some (None, s) }) = Some (e, s')"
    using assms(3) by (auto simp: trenameat_global_def bind_eq_Some_conv split: if_splits)
  obtain err s1 where c: "call (RenameAt B (ref_file x) (trenameat_OldName t) (ref_file y) (trenameat_NewName t)) s = (err, s1)" by fastforce
  have "s' = s1 \<or> renameChildTo B r (trenameat_OldName t) q (trenameat_NewName t) s1 = Some s'"
    using u c by (auto simp: bind_eq_Some_conv split: option.splits)
  moreover have "keeps s s1" using keeps_op2 [OF RenameAt [OF assms(1,2)] x y c] .
  ultimately show ?thesis using assms(2) by (blast intro: keeps_trans keeps_renameChildTo)
qed simp

lemma keeps_rename_global:
  assumes "safe (trename_Name t)" and "trename_global B t r q s = Some (e, s')"
  shows "keeps s s'"
proof (rule keepsI)
  assume g: "good s"
  show "keeps s s'"
  proof (cases "s' = s")
    case False
    then obtain d y z p old where y: "getRef s q = Some y" and z: "getRef s d = Some z" and p: "getNode s (ref_node z) = Some p"
      and n: "nameFor p r = Some old"
      and u: "(case call (RenameAt B (ref_file z) old (ref_file y) (trename_Name t)) s of
        (Some err, s) \<Rightarrow> Some (Some err, s)
      | (None, s) \<Rightarrow> do { s \<leftarrow> renameChildTo B d old q (trename_Name t) s; Some (None, s) }) = Some (e, s')"
      using assms(2) by (auto simp: trename_global_def bind_eq_Some_conv split: if_splits option.splits)
    have old: "safe old" using nameFor_safe [OF good_getNode [OF g p] n] .
    obtain err s1 where c: "call (RenameAt B (ref_file z) old (ref_file y) (trename_Name t)) s = (err, s1)" by fastforce
    have "s' = s1 \<or> renameChildTo B d old q (trename_Name t) s1 = Some s'"
      using u c by (auto simp: bind_eq_Some_conv split: option.splits)
    moreover have "keeps s s1" using keeps_op2 [OF RenameAt [OF old assms(1)] z y c] .
    ultimately show ?thesis using assms(1) by (blast intro: keeps_trans keeps_renameChildTo)
  qed simp
qed

lemma keeps_rename:
  "trenameat_handle B t1 s = Some (r, s') \<Longrightarrow> keeps s s'"
  "trename_handle B t2 s = Some (r, s') \<Longrightarrow> keeps s s'"
  unfolding trenameat_handle_def trename_handle_def
  by (auto simp: bind_eq_Some_conv split: option.splits elim!: keeps_withFID2 intro: keeps_renameat_global keeps_rename_global)

lemma keeps_file:
  assumes "ok_call P G [f] out g" and "call g s = (v, s')" and "good s \<Longrightarrow> G (world s) f"
  shows "keeps s s'" and "good s \<Longrightarrow> h \<in> set (out v) \<Longrightarrow> G (world s') h"
  using keeps_call [OF assms(1), of s] call_good(3) [OF assms(1), of s h] assms(2,3) by auto

lemma keeps_create:
  assumes "safe (tlcreate_Name t)" and "tlcreate_create B t uid r s = Some (v, s')"
  shows "keeps s s'"
proof (cases "s' = s")
  case False
  obtain x where x: "getRef s r = Some x" using assms(2) by (auto simp: tlcreate_create_def bind_eq_Some_conv)
  let ?create = "Create B (ref_file x) (tlcreate_Name t) (tlcreate_OpenFlags t) (tlcreate_Permissions t) uid (tlcreate_GID t)"
  obtain res s1 where c: "call ?create s = (res, s1)" by fastforce
  note k = keeps_op [OF Create [OF assms(1)] x c]
  show ?thesis
  proof (cases res)
    case (Inl e)
    with assms(2) False x c have "s' = s1" by (auto simp: tlcreate_create_def bind_eq_Some_conv split: option.splits)
    with k show ?thesis by simp
  next
    case (Inr f)
    then obtain nsf qid iounit where f: "res = Inr (nsf, qid, iounit)" by (cases f) auto
    define y where "y = (\<lambda>pn. \<lparr>ref_file = nsf, ref_xattr = noXattr, refs = 0, opened = True, ref_mode = ModeRegular,
       openFlags = tlcreate_OpenFlags t, ref_node = pn, ref_parent = Some r\<rparr>)"
    obtain pn s2 n s3 s4 s5 where steps: "pathNodeFor (ref_node x) (tlcreate_Name t) s1 = Some (pn, s2)"
      "allocRef (y pn) s2 = (n, s3)" "addChild (ref_node x) n (tlcreate_Name t) s3 = Some s4" "IncRef r s4 = Some s5"
      "InsertFID B (tlcreate_fid t) n s5 = Some s'"
      using assms(2) False x c f
      by (auto simp: tlcreate_create_def bind_eq_Some_conv y_def allocRef_def split: option.splits)
    have k2: "keeps s s2" using k keeps_pathNodeFor [OF steps(1)] by (rule keeps_trans)
    have "keeps s s3"
    proof (rule keeps_alloc [OF k2 steps(2)])
      assume g: "good s"
      have "G (world s1) nsf" using good_getRef [OF _ x] g f by (intro keeps_file(2) [OF Create [OF assms(1)] c]) (auto simp: created_def)
      then show "G (world s2) (ref_file (y pn))"
        using keeps_handle [OF keeps_pathNodeFor [OF steps(1)] keeps_good [OF k g]] by (simp add: y_def)
    qed
    then show ?thesis using keeps_addChild [OF assms(1) steps(3)] keeps_IncRef [OF steps(4)] keeps_InsertFID [OF steps(5)]
      by (blast intro: keeps_trans)
  qed
qed simp

lemma keeps_tlcreate_do: "tlcreate_do B t uid s = Some (v, s') \<Longrightarrow> keeps s s'"
  unfolding tlcreate_do_def by (auto split: option.splits elim!: keeps_withFID intro: keeps_create)

section \<open>Walk and attach\<close>

text \<open>The plain branch of \<^verbatim>\<open>walkOne\<close>: \<^verbatim>\<open>Walk\<close>, then \<^verbatim>\<open>GetAttr\<close> if attributes are wanted.\<close>

lemma keeps_plain_walk:
  assumes safe: "\<forall>n \<in> set ns. safe n" and f: "good s \<Longrightarrow> G (world s) f"
    and w: "(case call (Walk B f ns) s of (Inl err, s) \<Rightarrow> (Inl err, s)
      | (Inr (qs, sf), s) \<Rightarrow>
          if getattr then
            (case call (GetAttr B sf AttrMaskAll) s of
               (Inl err, s) \<Rightarrow> (Inl err, snd (call (Close B sf) s))
             | (Inr (qid, valid, attr), s) \<Rightarrow> (Inr (qs, sf, valid, attr), s))
          else (Inr (qs, sf, AttrMask_zero, Attr_zero), s)) = (res, s')"
  shows "keeps s s' \<and> (good s \<longrightarrow> (\<forall>h \<in> set (walked_attr res). G (world s') h))"
proof -
  obtain r1 s1 where c1: "call (Walk B f ns) s = (r1, s1)" by fastforce
  note k1 = keeps_file [OF Walk [OF safe] c1 f]
  show ?thesis
  proof (cases r1)
    case (Inl e)
    with w c1 k1(1) show ?thesis by (auto simp: walked_attr_def)
  next
    case (Inr v)
    then obtain qs sf where v: "r1 = Inr (qs, sf)" by (cases v) auto
    have h: "good s \<Longrightarrow> G (world s1) sf" using k1(2) v by (simp add: walked_def)
    show ?thesis
    proof (cases getattr)
      case False
      with w c1 v k1(1) h show ?thesis by (auto simp: walked_attr_def)
    next
      case True
      obtain r2 s2 where c2: "call (GetAttr B sf AttrMaskAll) s1 = (r2, s2)" by fastforce
      obtain r3 s3 where c3: "call (Close B sf) s2 = (r3, s3)" by fastforce
      have k: "keeps s s2 \<and> keeps s s3 \<and> (good s \<longrightarrow> G (world s2) sf)"
      proof (cases "good s")
        case g: True
        have g1: "good s1" using keeps_good [OF k1(1) g] .
        have k2: "keeps s1 s2" using keeps_file(1) [OF GetAttr c2] h g by blast
        have h2: "G (world s2) sf" using keeps_handle [OF k2 g1] h g by blast
        have "keeps s2 s3" using keeps_file(1) [OF Close c3] h2 by blast
        with k1(1) k2 h2 show ?thesis by (blast intro: keeps_trans)
      qed (simp add: keeps_def)
      with w c1 v True c2 c3 show ?thesis by (auto simp: walked_attr_def split: sum.splits)
    qed
  qed
qed

lemma keeps_walkOne:
  assumes safe: "\<forall>n \<in> set ns. safe n" and f: "good s \<Longrightarrow> G (world s) f" and w: "walkOne B qids f ns getattr s = (res, s')"
  shows "keeps s s' \<and> (good s \<longrightarrow> (\<forall>h \<in> set (walked_attr res). G (world s') h))"
proof (cases "length ns > 1")
  case False
  define plain where "plain = (\<lambda>s :: ('w, 'f) srv.
    case call (Walk B f ns) s of (Inl err, s) \<Rightarrow> (Inl err, s)
      | (Inr (qs, sf), s) \<Rightarrow>
          if getattr then
            (case call (GetAttr B sf AttrMaskAll) s of
               (Inl err, s) \<Rightarrow> (Inl err, snd (call (Close B sf) s))
             | (Inr (qid, valid, attr), s) \<Rightarrow> (Inr (qs, sf, valid, attr), s))
          else (Inr (qs, sf, AttrMask_zero, Attr_zero), s))"
  define pick where "pick = (if getattr then
      (case call (WalkGetAttr B f ns) s of
         (Inl err, s) \<Rightarrow> if errors_Is err (errno ENOSYS) then plain s else (Inl err, s)
       | (Inr r, s) \<Rightarrow> (Inr r, s)) else plain s)"
  obtain r1 s1 where p: "pick = (r1, s1)" by fastforce
  have post: "keeps s s1 \<and> (good s \<longrightarrow> (\<forall>h \<in> set (walked_attr r1). G (world s1) h))"
  proof -
    obtain r0 s0 where c0: "call (WalkGetAttr B f ns) s = (r0, s0)" by fastforce
    note k0 = keeps_file [OF WalkGetAttr [OF safe] c0 f]
    have pl: "keeps t t' \<and> (good t \<longrightarrow> (\<forall>h \<in> set (walked_attr r). G (world t') h))"
      if "plain t = (r, t')" "good t \<Longrightarrow> G (world t) f" for t r t'
      using keeps_plain_walk [OF safe that(2)] that(1) unfolding plain_def by blast
    have "pick = plain s \<or> pick = (r0, s0) \<or> pick = plain s0"
      using c0 unfolding pick_def by (cases r0) simp_all
    then consider "pick = plain s" | "pick = (r0, s0)" | "pick = plain s0" by blast
    then show ?thesis
    proof cases
      case 1
      then have "plain s = (r1, s1)" using p by simp
      then show ?thesis using f by (rule pl)
    next
      case 3
      show ?thesis
      proof (cases "good s")
        case g: True
        have "plain s0 = (r1, s1)" using 3 p by simp
        then have "keeps s0 s1 \<and> (good s0 \<longrightarrow> (\<forall>h \<in> set (walked_attr r1). G (world s1) h))"
          by (rule pl) (rule keeps_handle [OF k0(1) g f [OF g]])
        with k0(1) keeps_good [OF k0(1) g] show ?thesis by (blast intro: keeps_trans)
      qed (simp add: keeps_def)
    qed (use p k0 in auto)
  qed
  have r: "(case r1 of Inl err \<Rightarrow> (Inl err, s1) | Inr (localQIDs, sf, valid, attr) \<Rightarrow>
      if length ns = 1 \<and> length localQIDs \<noteq> 1 then (Inl (errno EINVAL), snd (call (Close B sf) s1))
      else (Inr (qids @ localQIDs, sf, valid, attr), s1)) = (res, s')"
    using w False p unfolding walkOne_def pick_def plain_def by (simp only: Let_def if_False) simp
  show ?thesis
  proof (cases r1)
    case (Inl e)
    with r post show ?thesis by (auto simp: walked_attr_def)
  next
    case (Inr v)
    then obtain qs sf valid attr where v: "r1 = Inr (qs, sf, valid, attr)" by (cases v) auto
    obtain e s2 where c: "call (Close B sf) s1 = (e, s2)" by fastforce
    have "keeps s s2"
    proof (rule keepsI)
      assume g: "good s"
      then have "keeps s1 s2" using keeps_file(1) [OF Close c] post v by (auto simp: walked_attr_def)
      with post show "keeps s s2" by (blast intro: keeps_trans)
    qed
    with r post v c show ?thesis by (auto simp: walked_attr_def split: if_splits)
  qed
qed (use w in \<open>auto simp: walkOne_def walked_attr_def\<close>)

lemma keeps_walkStep:
  assumes n: "safe name" and w: "walkStep B qids r name s = Some (v, s')"
  shows "keeps s s'"
proof (cases "s' = s")
  case False
  obtain x where x: "getRef s r = Some x" using w by (auto simp: walkStep_def bind_eq_Some_conv)
  obtain res s1 where c: "walkOne B qids (ref_file x) [name] True s = (res, s1)" by fastforce
  have k: "keeps s s1 \<and> (good s \<longrightarrow> (\<forall>h \<in> set (walked_attr res). G (world s1) h))"
    using good_getRef [OF _ x] n by (intro keeps_walkOne [OF _ _ c]) auto
  show ?thesis
  proof (cases res)
    case (Inl e)
    with w x c False k show ?thesis by (auto simp: walkStep_def bind_eq_Some_conv split: if_splits)
  next
    case (Inr f)
    then obtain qs sf valid attr where f: "res = Inr (qs, sf, valid, attr)" by (cases f) auto
    define y where "y = (\<lambda>pn. \<lparr>ref_file = sf, ref_xattr = noXattr, refs = 0, opened = False, ref_mode = FileType (Attr_Mode attr),
       openFlags = 0, ref_node = pn, ref_parent = Some r\<rparr>)"
    obtain pn s2 n s3 s4 where steps: "pathNodeFor (ref_node x) name s1 = Some (pn, s2)" "allocRef (y pn) s2 = (n, s3)"
      "addChild (ref_node x) n name s3 = Some s4" "IncRef n s4 = Some s'"
      using w x c f False by (auto simp: walkStep_def bind_eq_Some_conv y_def allocRef_def split: if_splits)
    have k2: "keeps s s2" using k keeps_pathNodeFor [OF steps(1)] by (blast intro: keeps_trans)
    have "keeps s s3"
    proof (rule keeps_alloc [OF k2 steps(2)])
      assume g: "good s"
      then have "G (world s1) sf" using k f by (simp add: walked_attr_def)
      then show "G (world s2) (ref_file (y pn))"
        using keeps_handle [OF keeps_pathNodeFor [OF steps(1)]] keeps_good k g by (auto simp: y_def)
    qed
    then show ?thesis using keeps_addChild [OF assms(1) steps(3)] keeps_IncRef [OF steps(4)] by (blast intro: keeps_trans)
  qed
qed simp

lemma keeps_walkLoop:
  "\<forall>n \<in> set ns. safe n \<Longrightarrow> walkLoop B qids r valid attr ns s = Some (v, s') \<Longrightarrow> keeps s s'"
proof (induction ns arbitrary: qids r valid attr s)
  case (Cons name ns)
  obtain x where x: "getRef s r = Some x" using Cons.prems(2) by (auto simp: bind_eq_Some_conv)
  show ?case
  proof (cases "IsDir (ref_mode x)")
    case False
    with Cons.prems(2) x show ?thesis by (auto simp: bind_eq_Some_conv dest!: keeps_DecRef)
  next
    case True
    then obtain res s1 where st: "walkStep B qids r name s = Some (res, s1)"
      and rest: "(case res of Inl e \<Rightarrow> do { (err, s) \<leftarrow> DecRef B r s1; Some (Inl e, s) }
        | Inr (qids, newRef, valid, attr) \<Rightarrow> walkLoop B qids newRef valid attr ns s1) = Some (v, s')"
      using Cons.prems(2) x by (auto simp: bind_eq_Some_conv)
    have "keeps s1 s'"
      using rest Cons.prems(1) by (cases res) (auto simp: bind_eq_Some_conv dest!: keeps_DecRef Cons.IH [rotated])
    with keeps_walkStep [OF _ st] Cons.prems(1) show ?thesis by (auto intro: keeps_trans)
  qed
qed simp

lemma keeps_cloneRef:
  assumes w: "cloneRef B r getattr s = Some (v, s')"
  shows "keeps s s'"
proof -
  obtain x where x: "getRef s r = Some x" using w by (auto simp: cloneRef_def bind_eq_Some_conv)
  obtain res s1 where c: "walkOne B [] (ref_file x) [] getattr s = (res, s1)" by fastforce
  have k: "keeps s s1 \<and> (good s \<longrightarrow> (\<forall>h \<in> set (walked_attr res). G (world s1) h))"
    using good_getRef [OF _ x] by (intro keeps_walkOne [OF _ _ c]) auto
  show ?thesis
  proof (cases res)
    case (Inl e)
    with w x c k show ?thesis by (auto simp: cloneRef_def bind_eq_Some_conv)
  next
    case (Inr f)
    then obtain qs sf valid attr where f: "res = Inr (qs, sf, valid, attr)" by (cases f) auto
    define y where "y = \<lparr>ref_file = sf, ref_xattr = noXattr, refs = 0, opened = False,
       ref_mode = ref_mode x, openFlags = 0, ref_node = ref_node x, ref_parent = ref_parent x\<rparr>"
    obtain n s2 where a: "allocRef y s1 = (n, s2)" by fastforce
    obtain s3 where s3: "(case ref_parent x of None \<Rightarrow> Some s2 | Some q \<Rightarrow> do {
         z \<leftarrow> getRef s2 q;
         d \<leftarrow> isDeleted s2 n;
         s \<leftarrow> (if d then Some s2 else do { p \<leftarrow> getNode s2 (ref_node z); name \<leftarrow> nameFor p r; addChild (ref_node z) n name s2 });
         IncRef q s }) = Some s3" and s': "IncRef n s3 = Some s'"
      using w x c f a by (auto simp: cloneRef_def bind_eq_Some_conv y_def [symmetric])
    have k2: "keeps s s2" using k f by (intro keeps_alloc [OF _ a]) (auto simp: y_def walked_attr_def)
    have "keeps s2 s3"
    proof (rule keepsI)
      assume g: "good s2"
      have ac: "keeps s2 s4" if "getNode s2 p = Some nd" "nameFor nd r = Some name" "addChild p n name s2 = Some s4" for p nd name s4
        using that g by (blast intro: keeps_addChild nameFor_safe good_getNode)
      show "keeps s2 s3" using s3
        by (auto simp: bind_eq_Some_conv split: option.splits if_splits dest!: keeps_IncRef) (blast intro: keeps_trans ac)
    qed
    with k2 keeps_IncRef [OF s'] show ?thesis by (blast intro: keeps_trans)
  qed
qed

lemma checkNames_safe: "checkNames ns = None \<Longrightarrow> \<forall>n \<in> set ns. safe n"
  by (induction ns) (auto split: option.splits)

lemma keeps_doWalk: "doWalk B r ns getattr s = Some (v, s') \<Longrightarrow> keeps s s'"
  by (auto simp: doWalk_def bind_eq_Some_conv split: option.splits if_splits
      dest!: checkNames_safe keeps_cloneRef keeps_IncRef keeps_walkLoop) (blast intro: keeps_trans)

lemma keeps_walk_install:
  assumes "walk_install B f new ns getattr mk r s = Some (v, s')"
  shows "keeps s s'"
proof (cases "s' = s")
  case False
  then obtain res s1 where w: "doWalk B r ns getattr s = Some (res, s1)"
    and i: "(case res of Inl err \<Rightarrow> Some (newErr err, s1) | Inr (qids, n, valid, attr) \<Rightarrow> do {
      s \<leftarrow> InsertFID B new n s1; (err, s) \<leftarrow> DecRef B n s; Some (mk qids valid attr, s) }) = Some (v, s')"
    using assms by (auto simp: walk_install_def bind_eq_Some_conv split: if_splits)
  from i have "keeps s1 s'"
    by (cases res) (auto simp: bind_eq_Some_conv dest!: keeps_InsertFID keeps_DecRef, blast intro: keeps_trans)
  with keeps_doWalk [OF w] show ?thesis by (rule keeps_trans)
qed simp

lemma keeps_walk: "walk_handle B f new ns getattr mk s = Some (v, s') \<Longrightarrow> keeps s s'"
  unfolding walk_handle_def by (erule keeps_withFID) (rule keeps_walk_install)

lemma keeps_tattach_walk:
  assumes "tattach_walk B t name qid r s = Some (v, s')"
  shows "keeps s s'"
proof (cases "length name = 0")
  case True
  with assms show ?thesis by (auto simp: tattach_walk_def bind_eq_Some_conv dest!: keeps_InsertFID)
next
  case False
  then obtain res s1 where w: "doWalk B r (split_on (CHR ''/'') name) False s = Some (res, s1)"
    and i: "(case res of Inl err \<Rightarrow> Some (newErr err, s1) | Inr (qids, n, valid, attr) \<Rightarrow> do {
      s \<leftarrow> InsertFID B (tattach_fid t) n s1; (err, s) \<leftarrow> DecRef B n s; Some (Rattach \<lparr>rattach_QID = qid\<rparr>, s) }) = Some (v, s')"
    using assms by (auto simp: tattach_walk_def bind_eq_Some_conv)
  from i have "keeps s1 s'"
    by (cases res) (auto simp: bind_eq_Some_conv dest!: keeps_InsertFID keeps_DecRef, blast intro: keeps_trans)
  with keeps_doWalk [OF w] show ?thesis by (rule keeps_trans)
qed

lemma keeps_attach:
  assumes "tattach_handle B t s = Some (v, s')"
  shows "keeps s s'"
proof (cases "tauth_Authenticationfid (tattach_Auth t) = noFID")
  case True
  obtain res s1 where c: "call (Attach B) s = (res, s1)" by fastforce
  have k: "keeps s s1" "good s \<Longrightarrow> h \<in> set (attached res) \<Longrightarrow> G (world s1) h" for h
    using keeps_call [OF Attach, of s] call_good(3) [OF Attach, of s h] c by auto
  show ?thesis
  proof (cases res)
    case (Inl e)
    with assms True c k(1) show ?thesis by (auto simp: tattach_handle_def)
  next
    case (Inr sf)
    obtain r2 s2 where c2: "call (GetAttr B sf AttrMaskAll) s1 = (r2, s2)" by fastforce
    obtain e s3 where c3: "call (Close B sf) s2 = (e, s3)" by fastforce
    have k2: "keeps s s2 \<and> keeps s s3 \<and> (good s \<longrightarrow> G (world s2) sf)"
    proof (cases "good s")
      case g: True
      have h: "G (world s1) sf" using k(2) [OF g] Inr by (simp add: attached_def)
      have k2: "keeps s1 s2" using keeps_file(1) [OF GetAttr c2] h by blast
      have h2: "G (world s2) sf" using keeps_handle [OF k2 keeps_good [OF k(1) g] h] .
      have "keeps s2 s3" using keeps_file(1) [OF Close c3] h2 by blast
      with k(1) k2 h2 show ?thesis by (blast intro: keeps_trans)
    qed (simp add: keeps_def)
    show ?thesis
    proof (cases "\<exists>q valid attr. r2 = Inr (q, valid, attr) \<and> AttrMask_Mode valid")
      case False
      then have "s' = s2 \<or> s' = s3" using assms True c Inr c2 c3
        by (cases r2) (auto simp: tattach_handle_def Let_def)
      with k2 show ?thesis by blast
    next
      case True
      then obtain q valid attr where r2: "r2 = Inr (q, valid, attr)" "AttrMask_Mode valid" by blast
      define y where "y = \<lparr>ref_file = sf, ref_xattr = noXattr, refs = 1, opened = False,
         ref_mode = FileType (Attr_Mode attr), openFlags = 0, ref_node = pathTree, ref_parent = None\<rparr>"
      obtain n s4 where a: "allocRef y s2 = (n, s4)" by fastforce
      obtain r s5 e where w: "tattach_walk B t (trimAbs (tauth_AttachName (tattach_Auth t))) q n s4 = Some (r, s5)"
        and d: "DecRef B n s5 = Some (e, s')"
        using assms \<open>tauth_Authenticationfid (tattach_Auth t) = noFID\<close> c Inr c2 r2 a
        by (auto simp: tattach_handle_def Let_def y_def [symmetric] bind_eq_Some_conv)
      have "keeps s s4" using k2 by (intro keeps_alloc [OF _ a]) (auto simp: y_def)
      with keeps_tattach_walk [OF w] keeps_DecRef [OF d] show ?thesis by (blast intro: keeps_trans)
    qed
  qed
qed (use assms in \<open>auto simp: tattach_handle_def\<close>)

section \<open>Every request\<close>

lemmas keeps_handlers = keeps_session keeps_file_calls keeps_readdir keeps_read keeps_write keeps_xattrcreate keeps_lopen
  keeps_xattrwalk keeps_clunk keeps_remove keeps_unlinkat keeps_directory_ops keeps_link keeps_rename keeps_tlcreate_do
  keeps_walk keeps_attach

lemmas wrapped_handlers = twalk_handle_def twalkgetattr_handle_def tlcreate_handle_def tucreate_handle_def tsymlink_handle_def
  tusymlink_handle_def tmknod_handle_def tumknod_handle_def tmkdir_handle_def tumkdir_handle_def

lemma handle_keeps: "handle B m s = Some (r, s') \<Longrightarrow> keeps s s'"
  by (cases m) (auto simp: handle_def wrapped_handlers map_option_eq_Some apfst_eq dest: keeps_handlers)

lemma serves_keeps: "serves (handle B) ok s l s' \<Longrightarrow> keeps s s'"
  by (induction rule: serves.induct) (auto intro: keeps_trans dest!: handle_keeps)

lemma serves_P: "serves (handle B) ok (NewServer w) l s \<Longrightarrow> P w \<Longrightarrow> P (world s)"
  using serves_keeps good_NewServer by (fastforce simp: keeps_def good_def)

end

end
