(* ===== verification/P9_LocalProps.thy ===== *)
theory P9_LocalProps
  imports P9_Localfs P9_FileCalls
begin

text \<open>
  The local file system: the QID paths of files are distinct, and a server of a directory never
  touches a path outside of it.
\<close>

section \<open>QID paths\<close>

lemma nOnes_mask: "nOnes n = mask n"
  by (simp add: nOnes_def mask_eq_exp_minus_1 push_bit_eq_mult)

lemma le_mask_take_bit:
  assumes "(x :: 64 word) \<le> mask 12"
  shows "take_bit 12 x = x"
proof -
  have "unat x \<le> 4095" using assms by (simp add: word_le_nat_alt mask_eq_exp_minus_1)
  then have "unat (take_bit 12 x) = unat x" by (simp only: unsigned_take_bit_eq) (simp add: take_bit_eq_mod)
  then show ?thesis by (rule unsigned_word_eqI)
qed

lemma and_not_mask_take_bit: "(x :: 64 word) AND NOT (mask n) = 0 \<Longrightarrow> take_bit n x = x"
  by (rule bit_word_eqI) (auto simp: bit_eq_iff bit_simps)

lemma ucast_32_64_inject: "(ucast x :: 64 word) = ucast y \<Longrightarrow> x = y" for x y :: "32 word"
proof -
  have "unat (ucast z :: 64 word) = unat z" for z :: "32 word"
    by (simp add: unsigned_ucast_eq take_bit_nat_eq_self order_less_trans [OF unat_lt_2p32])
  then show "(ucast x :: 64 word) = ucast y \<Longrightarrow> x = y" by (metis unsigned_word_eqI)
qed

lemma upper_bits_clear:
  assumes "(d :: 64 word) AND push_bit 32 (mask 32) = 0"
  shows "d < 2 ^ 32"
proof -
  have "take_bit 32 d = d"
  proof (rule bit_word_eqI)
    fix k assume "k < LENGTH(64)"
    with arg_cong [OF assms, of "\<lambda>w. bit w k"] show "bit (take_bit 32 d) k = bit d k" by (auto simp: bit_simps)
  qed
  then have "unat d = take_bit 32 (unat d)" by (metis unsigned_take_bit_eq)
  then have "unat d < 2 ^ 32" by (metis take_bit_nat_less_exp)
  then show ?thesis by (simp add: word_less_nat_alt)
qed

lemma encodeLikely_eq:
  assumes "encodeLikely Major Minor dev ino = Some q"
  shows "take_bit 39 ino = ino" and "dev AND push_bit 32 (mask 32) = 0"
    and "take_bit 12 (ucast (Major dev) :: uint64) = ucast (Major dev)" and "take_bit 12 (ucast (Minor dev) :: uint64) = ucast (Minor dev)"
    and "q = ino OR push_bit 39 (ucast (Minor dev)) OR push_bit 51 (ucast (Major dev))"
  using assms
  by (auto simp: encodeLikely_def Let_def nOnes_mask inodeLikelyBits_def devUpperBits_def devUpperOffset_def devMajorLikelyBits_def
      devMinorLikelyBits_def devMajorBits_def devMinorBits_def le_mask_take_bit and_not_mask_take_bit take_bit_eq_mask [symmetric] or.assoc
      split: if_splits)

lemma encodeLikely_parts:
  assumes "encodeLikely Major Minor dev ino = Some q"
  shows "ino = take_bit 39 q" and "ucast (Minor dev) = take_bit 12 (drop_bit 39 q)" and "ucast (Major dev) = drop_bit 51 q"
    and "\<not> bit q 63"
proof -
  note eq = encodeLikely_eq [OF assms]
  have i: "bit ino k \<Longrightarrow> k < 39" and ua: "bit (ucast (Major dev) :: uint64) k \<Longrightarrow> k < 12"
    and ub: "bit (ucast (Minor dev) :: uint64) k \<Longrightarrow> k < 12" for k
    using eq(1,3,4) by (metis bit_take_bit_iff)+
  have a: "bit (Major dev) k \<Longrightarrow> k < 12" and b: "bit (Minor dev) k \<Longrightarrow> k < 12" for k
    using ua [of k] ub [of k] bit_imp_le_length [of "Major dev" k] bit_imp_le_length [of "Minor dev" k] by (auto simp: bit_simps)
  show "ino = take_bit 39 q" unfolding eq(5) by (rule bit_word_eqI) (auto simp: bit_simps dest: i)
  show "ucast (Minor dev) = take_bit 12 (drop_bit 39 q)" unfolding eq(5)
    by (rule bit_word_eqI) (auto simp: bit_simps dest: i b)
  show "ucast (Major dev) = drop_bit 51 q" unfolding eq(5)
    by (rule bit_word_eqI) (auto simp: bit_simps dest: i a b)
  show "\<not> bit q 63" unfolding eq(5) by (auto simp: bit_simps dest: i a b)
qed

text \<open>C31: The QID path of a file is its own. When \<^verbatim>\<open>Major\<close> and \<^verbatim>\<open>Minor\<close> identify a device number of 32 bits, two
  files (device and inode number) that \<^verbatim>\<open>encodeLikely\<close> accepts have different paths, and no such path has
  bit 63 set, the bit that marks the paths of all other files.\<close>

theorem encodeLikely_injective:
  assumes "\<And>d d'. d < 2 ^ 32 \<Longrightarrow> d' < 2 ^ 32 \<Longrightarrow> Major d = Major d' \<Longrightarrow> Minor d = Minor d' \<Longrightarrow> d = d'"
    and "encodeLikely Major Minor dev ino = Some q" and "encodeLikely Major Minor dev' ino' = Some q"
  shows "dev = dev' \<and> ino = ino' \<and> \<not> bit q 63"
proof -
  note p = encodeLikely_parts [OF assms(2)] and p' = encodeLikely_parts [OF assms(3)]
  have "ucast (Major dev) = (ucast (Major dev') :: uint64)" "ucast (Minor dev) = (ucast (Minor dev') :: uint64)"
    using p p' by simp_all
  then have "Major dev = Major dev'" "Minor dev = Minor dev'" by (simp_all only: ucast_32_64_inject)
  with assms(1) upper_bits_clear encodeLikely_eq(2) [OF assms(2)] encodeLikely_eq(2) [OF assms(3)] have "dev = dev'" by blast
  with p p' show ?thesis by simp
qed

theorem encodeLikely_injective_witness:
  "let Major = (\<lambda>d :: uint64. ucast (drop_bit 20 d) :: uint32); Minor = (\<lambda>d. ucast (take_bit 20 d)) in
   encodeLikely Major Minor 0x800001 7 = Some 0x40008000000007 \<and> \<not> bit (0x40008000000007 :: uint64) 63"
proof -
  let ?Major = "\<lambda>d :: uint64. ucast (drop_bit 20 d) :: uint32" and ?Minor = "\<lambda>d :: uint64. ucast (take_bit 20 d) :: uint32"
  have dev: "d = d'" if "d < 2 ^ 32" "d' < 2 ^ 32" "?Major d = ?Major d'" "?Minor d = ?Minor d'" for d d'
  proof (rule bit_word_eqI)
    fix k assume k: "k < LENGTH(64)"
    have high: "bit e k \<Longrightarrow> k < 32" if "e < 2 ^ 32" for e :: uint64
    proof -
      have "unat (take_bit 32 e) = unat e" using that by (simp only: unsigned_take_bit_eq) (simp add: take_bit_eq_mod word_less_nat_alt)
      then have "take_bit 32 e = e" by (rule unsigned_word_eqI)
      then show "bit e k \<Longrightarrow> k < 32" by (metis bit_take_bit_iff)
    qed
    show "bit d k = bit d' k"
    proof (cases "k < 20")
      case True
      with arg_cong [OF that(4), of "\<lambda>w. bit w k"] show ?thesis by (simp add: bit_simps)
    next
      case False
      with arg_cong [OF that(3), of "\<lambda>w. bit w (k - 20)"] high [OF that(1)] high [OF that(2)] show ?thesis
        by (auto simp: bit_simps)
    qed
  qed
  have e: "encodeLikely ?Major ?Minor 0x800001 7 = Some 0x40008000000007"
    by (simp add: encodeLikely_def Let_def nOnes_def inodeLikelyBits_def devUpperBits_def devUpperOffset_def devMajorLikelyBits_def
      devMinorLikelyBits_def devMajorBits_def devMinorBits_def)
  show ?thesis unfolding Let_def using encodeLikely_injective [OF dev e e] e by blast
qed

section \<open>Confinement\<close>

text \<open>
  What the operating system guarantees about paths inside a directory: calls on such paths keep \<open>I\<close>, a
  predicate on the state of the system (for instance that nothing outside the directory changed), and
  open files of the kind \<open>D\<close>, which calls on them keep \<open>I\<close> as well.
\<close>

definition kept :: "('o \<Rightarrow> bool) \<Rightarrow> ('o \<Rightarrow> 'v \<times> 'o) \<Rightarrow> bool" where
  "kept I g \<longleftrightarrow> (\<forall>s. I s \<longrightarrow> I (snd (g s)))"

definition opens :: "('d \<Rightarrow> bool) \<Rightarrow> ('o \<Rightarrow> (goerror + 'd) \<times> 'o) \<Rightarrow> bool" where
  "opens D g \<longleftrightarrow> (\<forall>s d. fst (g s) = Inr d \<longrightarrow> D d)"

definition os_ok :: "('o, 'd) os_calls \<Rightarrow> string \<Rightarrow> ('o \<Rightarrow> bool) \<Rightarrow> ('d \<Rightarrow> bool) \<Rightarrow> bool" where
  "os_ok S root I D \<longleftrightarrow>
     (\<forall>s. I s \<longrightarrow> I (os_Umask S s)) \<and>
     (\<forall>p. inside root p \<longrightarrow> kept I (os_Lstat S p) \<and> kept I (os_Readlink S p) \<and> kept I (os_Remove S p) \<and>
        (\<forall>fl m. kept I (os_OpenFile S p fl m) \<and> opens D (os_OpenFile S p fl m)) \<and> (\<forall>m. kept I (os_Mkdir S p m)) \<and>
        (\<forall>t. kept I (os_Symlink S t p)) \<and> (\<forall>n. kept I (os_Truncate S p n)) \<and>
        (\<forall>q. inside root q \<longrightarrow> kept I (os_Link S p q) \<and> kept I (os_Rename S p q)) \<and>
        (\<forall>a v fl. kept I (unix_Setxattr S p a v fl)) \<and> (\<forall>a. kept I (unix_Removexattr S p a)) \<and>
        kept I (unix_Listxattr_size S p) \<and> (\<forall>n. kept I (unix_Listxattr S p n)) \<and>
        (\<forall>a. kept I (unix_Getxattr_size S p a)) \<and> (\<forall>a n. kept I (unix_Getxattr S p a n))) \<and>
     (\<forall>d. D d \<longrightarrow> kept I (file_Stat S d) \<and> kept I (file_Close S d)) \<and>
     (\<forall>d. (\<forall>e. d = Some e \<longrightarrow> D e) \<longrightarrow> kept I (file_Sync S d) \<and> (\<forall>n off. kept I (file_ReadAt S d n off)) \<and>
        (\<forall>b off. kept I (file_WriteAt S d b off)) \<and> kept I (file_Readdirname S d) \<and> (\<forall>l. kept I (unix_Flock S d l)))"

text \<open>The names an open directory returns are names of its entries, never \<^verbatim>\<open>.\<close>, \<^verbatim>\<open>..\<close> or with a slash.\<close>

definition dirnames_plain :: "('o, 'd) os_calls \<Rightarrow> bool" where
  "dirnames_plain S \<longleftrightarrow> (\<forall>d s name. fst (file_Readdirname S d s) = Inr name \<longrightarrow> plain name)"

definition confined :: "('o, 'd) os_calls \<Rightarrow> string \<Rightarrow> ('o \<Rightarrow> bool) \<Rightarrow> ('d \<Rightarrow> bool) \<Rightarrow> ('o, 'd) local_state \<Rightarrow> bool" where
  "confined S root I D w \<longleftrightarrow> root \<noteq> [] \<and> os_ok S root I D \<and> dirnames_plain S \<and> I (os w) \<and>
     (\<forall>l \<in> set (locals w). inside root (path l) \<and> (\<forall>d. loc_file l = Some d \<longrightarrow> D d))"

abbreviation is_local :: "('o, 'd) local_state \<Rightarrow> local_file \<Rightarrow> bool" where
  "is_local w f \<equiv> f < length (locals w)"

text \<open>A step of the local file system.\<close>

definition lstep :: "('o, 'd) os_calls \<Rightarrow> string \<Rightarrow> ('o \<Rightarrow> bool) \<Rightarrow> ('d \<Rightarrow> bool) \<Rightarrow> ('o, 'd) local_state \<Rightarrow> ('o, 'd) local_state \<Rightarrow> bool" where
  "lstep S root I D w w' \<longleftrightarrow> confined S root I D w' \<and> length (locals w) \<le> length (locals w')"

lemma lstep_refl: "confined S root I D w \<Longrightarrow> lstep S root I D w w"
  by (simp add: lstep_def)

lemma lstep_trans: "lstep S root I D w w1 \<Longrightarrow> lstep S root I D w1 w2 \<Longrightarrow> lstep S root I D w w2"
  by (simp add: lstep_def)

lemma lstep_confined: "lstep S root I D w w' \<Longrightarrow> confined S root I D w'"
  by (simp add: lstep_def)

lemma oscall_eq: "oscall g w = (fst (g (os w)), w\<lparr>os := snd (g (os w))\<rparr>)"
  by (simp add: oscall_def case_prod_unfold Let_def)

lemma lstep_oscall: "confined S root I D w \<Longrightarrow> kept I g \<Longrightarrow> lstep S root I D w (snd (oscall g w))"
  by (simp add: lstep_def confined_def kept_def oscall_eq)

lemma confined_local:
  "confined S root I D w \<Longrightarrow> is_local w f \<Longrightarrow> inside root (path (locals w ! f)) \<and> (\<forall>d. loc_file (locals w ! f) = Some d \<longrightarrow> D d)"
  using nth_mem [of f "locals w"] by (auto simp: confined_def)

lemma lstep_newLocal:
  "confined S root I D w \<Longrightarrow> inside root (path l) \<Longrightarrow> (\<And>d. loc_file l = Some d \<Longrightarrow> D d) \<Longrightarrow>
   lstep S root I D w (snd (newLocal l w)) \<and> is_local (snd (newLocal l w)) (fst (newLocal l w))"
  by (auto simp: lstep_def confined_def newLocal_def)

lemma lstep_setLocal:
  "confined S root I D w \<Longrightarrow> inside root (path l) \<Longrightarrow> (\<And>d. loc_file l = Some d \<Longrightarrow> D d) \<Longrightarrow>
   lstep S root I D w (w\<lparr>locals := (locals w)[f := l]\<rparr>)"
  using set_update_subset_insert [of "locals w" f l] by (auto simp: lstep_def confined_def)

lemma lstep_localToQid: "confined S root I D w \<Longrightarrow> lstep S root I D w (snd (localToQid S fi w))"
  by (auto simp: localToQid_def Let_def lstep_def confined_def split: option.splits)

lemma locals_localToQid: "locals (snd (localToQid S fi w)) = locals w"
  by (auto simp: localToQid_def Let_def split: option.splits)

lemma lstep_info:
  assumes "confined S root I D w" and "inside root (path l)" and "\<And>d. loc_file l = Some d \<Longrightarrow> D d"
  shows "lstep S root I D w (snd (local_info S l w)) \<and> locals (snd (local_info S l w)) = locals w"
proof -
  define g where "g = (case loc_file l of Some d \<Rightarrow> file_Stat S d | None \<Rightarrow> os_Lstat S (path l))"
  have k: "kept I g" using assms by (auto simp: g_def confined_def os_ok_def split: option.splits)
  have e: "local_info S l w = (case oscall g w of (Inl err, w) \<Rightarrow> ((QID_zero, None, Some err), w)
      | (Inr fi, w) \<Rightarrow> let (ninePath, w) = localToQid S fi w
          in ((QID_zero\<lparr>QID_Type := FileMode_QIDType (ModeFromOS (fi_Mode fi)), QID_Path := ninePath\<rparr>, Some fi, None), w))"
    by (simp add: local_info_def g_def split: option.split)
  have st: "lstep S root I D w (snd (oscall g w))" using assms(1) k by (rule lstep_oscall)
  show ?thesis
    using st lstep_trans [OF st lstep_localToQid [OF lstep_confined [OF st]]]
    by (cases "fst (oscall g w)") (auto simp: e oscall_eq case_prod_unfold Let_def locals_localToQid)
qed

section \<open>Every method\<close>

lemma plain_safe: "checkSafeName name = None \<Longrightarrow> plain name"
  by (auto simp: checkSafeName_def plain_def split: if_splits)

lemma lstep_walk:
  "confined S root I D w \<Longrightarrow> inside root at \<Longrightarrow> \<forall>n \<in> set ns. plain n \<Longrightarrow>
   lstep S root I D w (snd (local_walk S at ns qs w)) \<and>
   (\<forall>qs' p. fst (local_walk S at ns qs w) = Inr (qs', p) \<longrightarrow> inside root p)"
proof (induction ns arbitrary: at qs w)
  case (Cons n ns)
  let ?c = "\<lparr>path = path_Join at n, loc_file = None\<rparr> :: 'b Local"
  have i: "inside root (path_Join at n)" using Cons.prems by (simp add: inside_Join)
  obtain qid fi err w1 where e: "local_info S ?c w = ((qid, fi, err), w1)" by (metis prod.exhaust)
  have st: "lstep S root I D w w1" using lstep_info [OF Cons.prems(1), of ?c] i e by simp
  show ?case
  proof (cases err)
    case (Some x)
    with e st show ?thesis by simp
  next
    case None
    with Cons.IH [OF lstep_confined [OF st] i, of "qs @ [qid]"] Cons.prems(3) e st show ?thesis by (auto intro: lstep_trans)
  qed
qed (simp add: lstep_refl)

text \<open>A method of the contract: a step, and the file it returns is one of the locals.\<close>

lemma local_ok_call:
  assumes "\<And>w. confined S root I D w \<Longrightarrow> \<forall>f \<in> set args. is_local w f \<Longrightarrow>
      lstep S root I D w (snd (g w)) \<and> (\<forall>h \<in> set (out (fst (g w))). is_local (snd (g w)) h)"
  shows "ok_call (confined S root I D) is_local args out g"
  unfolding ok_call_def
proof (intro allI impI)
  fix w r w'
  assume "confined S root I D w" "\<forall>f \<in> set args. is_local w f" "g w = (r, w')"
  with assms [of w] show "confined S root I D w' \<and> (\<forall>f. is_local w f \<longrightarrow> is_local w' f) \<and> (\<forall>f \<in> set (out r). is_local w' f)"
    by (auto simp: lstep_def)
qed

lemma local_ok_oscall:
  assumes "\<And>w. confined S root I D w \<Longrightarrow> \<forall>f \<in> set args. is_local w f \<Longrightarrow> kept I (op w)" and "\<And>w. g w = (h w, snd (oscall (op w) w))"
  shows "ok_call (confined S root I D) is_local args no_file g"
  using assms by (intro local_ok_call) (simp add: lstep_oscall no_file_def)

lemma os_okD:
  assumes "confined S root I D w"
  shows "inside root p \<Longrightarrow> kept I (os_Readlink S p)" "inside root p \<Longrightarrow> kept I (os_Remove S p)"
    "inside root p \<Longrightarrow> kept I (os_OpenFile S p fl m)" "inside root p \<Longrightarrow> opens D (os_OpenFile S p fl m)"
    "inside root p \<Longrightarrow> kept I (os_Mkdir S p m)" "inside root p \<Longrightarrow> kept I (os_Symlink S t p)"
    "inside root p \<Longrightarrow> kept I (os_Truncate S p n)" "inside root p \<Longrightarrow> inside root q \<Longrightarrow> kept I (os_Link S p q)"
    "inside root p \<Longrightarrow> inside root q \<Longrightarrow> kept I (os_Rename S p q)" "inside root p \<Longrightarrow> kept I (unix_Setxattr S p a v xfl)"
    "inside root p \<Longrightarrow> kept I (unix_Removexattr S p a)" "inside root p \<Longrightarrow> kept I (unix_Listxattr_size S p)"
    "inside root p \<Longrightarrow> kept I (unix_Listxattr S p k)" "inside root p \<Longrightarrow> kept I (unix_Getxattr_size S p a)"
    "inside root p \<Longrightarrow> kept I (unix_Getxattr S p a k)"
    "is_local w f \<Longrightarrow> kept I (file_Sync S (loc_file (locals w ! f)))"
    "is_local w f \<Longrightarrow> kept I (file_ReadAt S (loc_file (locals w ! f)) k off)"
    "is_local w f \<Longrightarrow> kept I (file_WriteAt S (loc_file (locals w ! f)) b off)"
    "is_local w f \<Longrightarrow> kept I (file_Readdirname S (loc_file (locals w ! f)))"
    "is_local w f \<Longrightarrow> kept I (unix_Flock S (loc_file (locals w ! f)) l)"
    "is_local w f \<Longrightarrow> loc_file (locals w ! f) = Some d \<Longrightarrow> kept I (file_Close S d)"
  using assms confined_local [OF assms, of f] by (auto simp: confined_def os_ok_def)

lemma confined_paths:
  assumes "confined S root I D w" and "is_local w f"
  shows "inside root (path (locals w ! f))" and "plain name \<Longrightarrow> inside root (path_Join (path (locals w ! f)) name)"
  using confined_local [OF assms] by (simp_all add: inside_Join)

lemmas local_oscall_defs = local_FSync_def local_ReadAt_def local_WriteAt_def local_Mkdir_def local_Symlink_def local_Link_def
  local_RenameAt_def local_Readlink_def local_UnlinkAt_def local_SetXattr_def local_RemoveXattr_def

lemma local_oscalls:
  "ok_call (confined S root I D) is_local [f] no_file (local_FSync S f)"
  "ok_call (confined S root I D) is_local [f] no_file (local_ReadAt S f k off)"
  "ok_call (confined S root I D) is_local [f] no_file (local_WriteAt S f b off)"
  "plain name \<Longrightarrow> ok_call (confined S root I D) is_local [f] no_file (local_Mkdir S f name perm uid gid)"
  "plain name \<Longrightarrow> ok_call (confined S root I D) is_local [f] no_file (local_Symlink S f t name uid gid)"
  "plain name \<Longrightarrow> ok_call (confined S root I D) is_local [f, g] no_file (local_Link S f g name)"
  "plain old \<Longrightarrow> plain name \<Longrightarrow> ok_call (confined S root I D) is_local [f, g] no_file (local_RenameAt S f old g name)"
  "ok_call (confined S root I D) is_local [f] no_file (local_Readlink S f)"
  "plain name \<Longrightarrow> ok_call (confined S root I D) is_local [f] no_file (local_UnlinkAt S f name uflags)"
  "ok_call (confined S root I D) is_local [f] no_file (local_SetXattr S f a v xfl)"
  "ok_call (confined S root I D) is_local [f] no_file (local_RemoveXattr S f a)"
  by (rule local_ok_call; auto simp: local_oscall_defs case_prod_unfold Let_def no_file_def
      intro!: lstep_oscall intro: os_okD confined_paths)+

lemma local_conditional_oscalls:
  "ok_call (confined S root I D) is_local [f] no_file (local_Close S f)"
  "ok_call (confined S root I D) is_local [f] no_file (local_SetAttr S f valid attr)"
  "ok_call (confined S root I D) is_local [f] no_file (local_lock S f pid ty fl st len c)"
  by (rule local_ok_call; auto simp: local_Close_def local_SetAttr_def local_lock_def case_prod_unfold Let_def no_file_def
      intro!: lstep_oscall intro: os_okD confined_paths lstep_refl split: option.splits)+

text \<open>Two calls of the system, the second with the result of the first.\<close>

lemma lstep_oscalls:
  assumes "confined S root I D w" and "kept I g" and "\<And>v. kept I (g' v)"
  shows "lstep S root I D w (snd (oscall (g' v) (snd (oscall g w))))"
  using lstep_oscall [OF assms(1,2)] lstep_oscall [OF lstep_confined [OF lstep_oscall [OF assms(1,2)]] assms(3)]
  by (rule lstep_trans)

lemma local_xattrs:
  "ok_call (confined S root I D) is_local [f] no_file (local_ListXattrs S f)"
  "ok_call (confined S root I D) is_local [f] no_file (local_GetXattr S f a)"
  by (rule local_ok_call; auto simp: local_ListXattrs_def xattr_List_def local_GetXattr_def xattr_Get_def case_prod_unfold no_file_def
      intro!: lstep_oscall lstep_oscalls intro: os_okD confined_paths split: sum.splits)+

lemma lstep_local_info:
  assumes "confined S root I D w" and "is_local w f"
  shows "lstep S root I D w (snd (local_info S (locals w ! f) w))" and "locals (snd (local_info S (locals w ! f) w)) = locals w"
  using lstep_info [OF assms(1), of "locals w ! f"] confined_local [OF assms] by simp_all

lemma local_GetAttr_ok: "ok_call (confined S root I D) is_local [f] no_file (local_GetAttr S f req)"
  by (rule local_ok_call)
    (auto simp: local_GetAttr_def case_prod_unfold Let_def no_file_def lstep_local_info split: option.splits)

lemma local_Renamed_ok:
  "plain name \<Longrightarrow> ok_call (confined S root I D) is_local [f, g] no_file (\<lambda>w. ((), local_Renamed f g name w))"
  by (rule local_ok_call)
    (auto simp: local_Renamed_def no_file_def confined_paths intro!: lstep_setLocal dest: confined_local)

lemma local_Attach_step:
  "confined S root I D w \<Longrightarrow> lstep S root I D w (snd (local_Attach S root w)) \<and>
     (\<exists>l. fst (local_Attach S root w) = (Some l, None) \<and> is_local (snd (local_Attach S root w)) l)"
  by (auto simp: local_Attach_def newLocal_def lstep_def confined_def os_ok_def inside_refl)

lemma local_Open_ok: "ok_call (confined S root I D) is_local [f] no_file (local_Open S f mode)"
proof (rule local_ok_call)
  fix w
  assume c: "confined S root I D w" and f: "\<forall>f \<in> set [f]. is_local w f"
  define w1 where "w1 = snd (local_info S (locals w ! f) w)"
  have st: "lstep S root I D w w1" and l: "locals w1 = locals w" using lstep_local_info [OF c] f by (simp_all add: w1_def)
  note c1 = lstep_confined [OF st] and p = confined_paths(1) [OF lstep_confined [OF st], of f]
  let ?g = "os_OpenFile S (path (locals w1 ! f)) mode 0"
  have st2: "lstep S root I D w1 (snd (oscall ?g w1))" using c1 p f l by (intro lstep_oscall) (auto intro: os_okD)
  have "lstep S root I D w1 (w2\<lparr>locals := (locals w2)[f := (locals w2 ! f)\<lparr>loc_file := Some d\<rparr>]\<rparr>)"
    if "oscall ?g w1 = (Inr d, w2)" for d w2
  proof -
    have "fst (?g (os w1)) = Inr d" "locals w2 = locals w1" using that by (auto simp: oscall_eq)
    then have "D d" using os_okD(4) [OF c1] p f l by (auto simp: opens_def)
    then show ?thesis using st2 that p f l \<open>locals w2 = locals w1\<close>
      by (intro lstep_trans [OF _ lstep_setLocal]) (auto dest: lstep_confined)
  qed
  then show "lstep S root I D w (snd (local_Open S f mode w)) \<and>
      (\<forall>h \<in> set (no_file (fst (local_Open S f mode w))). is_local (snd (local_Open S f mode w)) h)"
    using st lstep_trans [OF st st2] lstep_trans [OF st]
    by (auto simp: local_Open_def no_file_def case_prod_unfold Let_def w1_def [symmetric] oscall_eq split: option.splits sum.splits)
qed

lemma local_Walk_step:
  assumes "confined S root I D w" and "is_local w f" and "\<forall>n \<in> set ns. plain n"
  shows "lstep S root I D w (snd (local_Walk S f ns w))"
    and "fst (local_Walk S f ns w) = (qs, g, None) \<Longrightarrow> \<exists>h. g = Some h \<and> is_local (snd (local_Walk S f ns w)) h"
proof -
  have p: "inside root (path (locals w ! f))" using assms by (simp add: confined_paths)
  have "lstep S root I D w (snd (local_Walk S f ns w)) \<and>
    (\<forall>qs g. fst (local_Walk S f ns w) = (qs, g, None) \<longrightarrow> (\<exists>h. g = Some h \<and> is_local (snd (local_Walk S f ns w)) h))"
  proof (cases "ns = []")
    case True
    with lstep_newLocal [OF assms(1), of "\<lparr>path = path (locals w ! f), loc_file = None\<rparr>"] p show ?thesis
      by (auto simp: local_Walk_def case_prod_unfold Let_def)
  next
    case False
    obtain r w1 where e: "local_walk S (path (locals w ! f)) ns [] w = (r, w1)" by fastforce
    with lstep_walk [OF assms(1) p assms(3), of "[]"] have st: "lstep S root I D w w1"
      and at: "\<And>qs at. r = Inr (qs, at) \<Longrightarrow> inside root at" by auto
    have "lstep S root I D w (snd (newLocal l w1))" "is_local (snd (newLocal l w1)) (fst (newLocal l w1))"
      if "l = \<lparr>path = at, loc_file = None\<rparr>" "r = Inr (qs, at)" for l qs at
      using that lstep_newLocal [OF lstep_confined [OF st], of l] at lstep_trans [OF st] by auto
    with False e st show ?thesis by (auto simp: local_Walk_def case_prod_unfold Let_def split: sum.splits)
  qed
  then show "lstep S root I D w (snd (local_Walk S f ns w))"
    "fst (local_Walk S f ns w) = (qs, g, None) \<Longrightarrow> \<exists>h. g = Some h \<and> is_local (snd (local_Walk S f ns w)) h" by blast+
qed

lemma local_Create_step:
  assumes "confined S root I D w" and "is_local w f" and "plain name"
  shows "lstep S root I D w (snd (local_Create S f name mode perm uid gid w))"
    and "fst (local_Create S f name mode perm uid gid w) = (g, q, u, None) \<Longrightarrow>
      \<exists>h. g = Some h \<and> is_local (snd (local_Create S f name mode perm uid gid w)) h"
proof -
  let ?p = "path_Join (path (locals w ! f)) name"
  let ?g = "os_OpenFile S ?p (mode OR O_CREATE_EXCL) perm"
  have p: "inside root ?p" using assms by (simp add: confined_paths)
  obtain r w1 where e: "oscall ?g w = (r, w1)" by fastforce
  have st: "lstep S root I D w w1" using lstep_oscall [OF assms(1), of ?g] os_okD(3) [OF assms(1) p] e by simp
  have d: "D d" if "r = Inr d" for d
    using os_okD(4) [OF assms(1) p] e that by (auto simp: opens_def oscall_eq)
  have "lstep S root I D w (snd (local_Create S f name mode perm uid gid w)) \<and>
    (\<forall>g q u. fst (local_Create S f name mode perm uid gid w) = (g, q, u, None) \<longrightarrow>
      (\<exists>h. g = Some h \<and> is_local (snd (local_Create S f name mode perm uid gid w)) h))"
  proof (cases r)
    case (Inl err)
    with e st show ?thesis by (simp add: local_Create_def)
  next
    case (Inr d)
    obtain l2 w2 where n: "newLocal \<lparr>path = ?p, loc_file = Some d\<rparr> w1 = (l2, w2)" by fastforce
    have st2: "lstep S root I D w w2" and l2: "is_local w2 l2"
      using lstep_newLocal [OF lstep_confined [OF st], of "\<lparr>path = ?p, loc_file = Some d\<rparr>"] p d Inr n lstep_trans [OF st] by auto
    obtain qid fi err w3 where i: "local_info S (locals w2 ! l2) w2 = ((qid, fi, err), w3)" by (metis prod.exhaust)
    have st3: "lstep S root I D w w3" and l3: "is_local w3 l2"
      using lstep_local_info [OF lstep_confined [OF st2] l2] i l2 lstep_trans [OF st2] by auto
    have "lstep S root I D w (snd (local_Close S l2 w3))"
      using lstep_confined [OF st3] l3
      by (intro lstep_trans [OF st3]) (auto simp: local_Close_def intro!: lstep_oscall lstep_refl intro: os_okD split: option.splits)
    with Inr e n i st3 l3 show ?thesis by (auto simp: local_Create_def split: option.splits)
  qed
  then show "lstep S root I D w (snd (local_Create S f name mode perm uid gid w))"
    "fst (local_Create S f name mode perm uid gid w) = (g, q, u, None) \<Longrightarrow>
      \<exists>h. g = Some h \<and> is_local (snd (local_Create S f name mode perm uid gid w)) h" by blast+
qed

lemma lstep_readdir_loop:
  "confined S root I D w \<Longrightarrow> is_local w f \<Longrightarrow> lstep S root I D w (snd (readdir_loop S n f offset count cursor es w))"
proof (induction n arbitrary: cursor es w)
  case 0
  then show ?case by (simp add: lstep_refl)
next
  case (Suc n)
  let ?g = "file_Readdirname S (loc_file (locals w ! f))"
  obtain r w1 where e: "oscall ?g w = (r, w1)" by fastforce
  have st: "lstep S root I D w w1" using lstep_oscall [OF Suc.prems(1), of ?g] os_okD(19) [OF Suc.prems] e by simp
  have f1: "is_local w1 f" using st Suc.prems(2) by (simp add: lstep_def)
  note c1 = lstep_confined [OF st]
  show ?case
  proof (cases "length es < unat count")
    case False
    then show ?thesis using Suc.prems by (simp add: lstep_refl)
  next
    case True
    show ?thesis
    proof (cases r)
      case (Inl err)
      with True e st show ?thesis by simp
    next
      case (Inr name)
      have "plain name" using Suc.prems(1) e Inr by (auto simp: confined_def dirnames_plain_def oscall_eq)
      then have p: "inside root (path_Join (path (locals w1 ! f)) name)" using c1 f1 by (simp add: confined_paths)
      let ?c = "\<lparr>path = path_Join (path (locals w1 ! f)) name, loc_file = None\<rparr> :: 'b Local"
      obtain qid fi err w2 where i: "local_info S ?c w1 = ((qid, fi, err), w2)" by (metis prod.exhaust)
      have st2: "lstep S root I D w w2" and f2: "is_local w2 f"
        using lstep_info [OF c1, of ?c] p i f1 lstep_trans [OF st] by auto
      show ?thesis using True Inr e i lstep_trans [OF st Suc.IH [OF c1 f1]] st2 lstep_trans [OF st2 Suc.IH [OF lstep_confined [OF st2] f2]]
        by (auto simp: Let_def split: option.splits)
    qed
  qed
qed

lemma local_Readdir_ok: "ok_call (confined S root I D) is_local [f] no_file (local_Readdir S f off count)"
  by (rule local_ok_call) (simp add: local_Readdir_def lstep_readdir_loop no_file_def del: readdir_loop.simps)

section \<open>The contract of the server\<close>

lemmas localFS_defs = backend_of_def localfs_def case_prod_unfold Let_def

lemma local_Walk_files:
  assumes "\<forall>n \<in> set ns. plain n"
  shows "ok_call (confined S (Attacher root) I D) is_local [f] walked (Walk (localFS S root) f ns)"
proof (rule local_ok_call)
  fix w assume a: "confined S (Attacher root) I D w" "\<forall>f \<in> set [f]. is_local w f"
  then show "lstep S (Attacher root) I D w (snd (Walk (localFS S root) f ns w)) \<and>
      (\<forall>h \<in> set (walked (fst (Walk (localFS S root) f ns w))). is_local (snd (Walk (localFS S root) f ns w)) h)"
    using local_Walk_step [OF a(1) _ assms, of f] by (cases "fst (local_Walk S f ns w)") (auto simp: localFS_defs walked_def or_error_def split: option.splits)
qed

lemma local_Create_files:
  assumes "plain name"
  shows "ok_call (confined S (Attacher root) I D) is_local [f] created (Create (localFS S root) f name mode perm uid gid)"
proof (rule local_ok_call)
  fix w assume a: "confined S (Attacher root) I D w" "\<forall>f \<in> set [f]. is_local w f"
  obtain g q u e w' where "local_Create S f name mode perm uid gid w = ((g, q, u, e), w')" by (metis prod.exhaust)
  with a show "lstep S (Attacher root) I D w (snd (Create (localFS S root) f name mode perm uid gid w)) \<and>
      (\<forall>h \<in> set (created (fst (Create (localFS S root) f name mode perm uid gid w))). is_local (snd (Create (localFS S root) f name mode perm uid gid w)) h)"
    using local_Create_step [OF a(1) _ assms, of f mode perm uid gid]
    by (auto simp: localFS_defs created_def or_error_def split: option.splits)
qed

lemma local_Attach_files: "ok_call (confined S (Attacher root) I D) is_local [] attached (Attach (localFS S root))"
  by (rule local_ok_call) (use local_Attach_step in \<open>fastforce simp: localFS_defs attached_def or_error_def\<close>)

lemma local_constant: "ok_call (confined S root I D) is_local args no_file (\<lambda>w. (v, w))"
  by (simp add: ok_call_def no_file_def)

lemmas local_no_file = local_oscalls local_conditional_oscalls local_xattrs local_GetAttr_ok local_Open_ok local_Readdir_ok

interpretation local: file_system "localFS S root" "confined S (Attacher root) I D" is_local for S root I D
proof unfold_locales
  show "ok_call (confined S (Attacher root) I D) is_local [f] walked_attr (WalkGetAttr (localFS S root) f ns)" for f ns
    by (simp add: localFS_defs DefaultWalkGetAttr_files_def ok_call_def walked_attr_def or_error_def)
  show "\<forall>n \<in> set ns. checkSafeName n = None \<Longrightarrow>
      ok_call (confined S (Attacher root) I D) is_local [f] walked (Walk (localFS S root) f ns)" for f ns
    by (intro local_Walk_files) (simp add: plain_safe)
  show "checkSafeName name = None \<Longrightarrow>
      ok_call (confined S (Attacher root) I D) is_local [f] created (Create (localFS S root) f name mode perm uid gid)" for f name mode perm uid gid
    by (intro local_Create_files plain_safe)
  show "ok_call (confined S (Attacher root) I D) is_local [] attached (Attach (localFS S root))"
    by (rule local_Attach_files)
  show "checkSafeName name = None \<Longrightarrow>
      ok_call (confined S (Attacher root) I D) is_local [f, g] no_file (\<lambda>w. ((), Renamed (localFS S root) f g name w))" for f g name
    by (simp add: localFS_defs local_Renamed_ok plain_safe)
  show "ok_call (confined S (Attacher root) I D) is_local [f] no_file (StatFS (localFS S root) f)" for f
    by (simp add: localFS_defs local_constant)
  show "ok_call (confined S (Attacher root) I D) is_local [f] no_file (Mknod (localFS S root) f name mode major minor uid gid)"
    for f name mode major minor uid gid
    by (simp add: localFS_defs local_constant)
qed (simp add: localFS_defs; (rule local_no_file plain_safe ok_call_result | assumption)+)+

section \<open>Every path is inside the directory\<close>

text \<open>An operating system that also writes down the paths it is called with.\<close>

definition trace :: "string list \<Rightarrow> ('o \<Rightarrow> 'v \<times> 'o) \<Rightarrow> 'o \<times> string list \<Rightarrow> 'v \<times> 'o \<times> string list" where
  "trace ps g s = (let (v, o') = g (fst s) in (v, o', snd s @ ps))"

definition traced :: "('o, 'd) os_calls \<Rightarrow> ('o \<times> string list, 'd) os_calls" where
  "traced S = \<lparr>
     os_Umask = (\<lambda>s. (os_Umask S (fst s), snd s)),
     os_Lstat = (\<lambda>p. trace [p] (os_Lstat S p)),
     os_OpenFile = (\<lambda>p flags m. trace [p] (os_OpenFile S p flags m)),
     os_Mkdir = (\<lambda>p m. trace [p] (os_Mkdir S p m)),
     os_Symlink = (\<lambda>target p. trace [p] (os_Symlink S target p)),
     os_Link = (\<lambda>p q. trace [p, q] (os_Link S p q)),
     os_Rename = (\<lambda>p q. trace [p, q] (os_Rename S p q)),
     os_Readlink = (\<lambda>p. trace [p] (os_Readlink S p)),
     os_Truncate = (\<lambda>p n. trace [p] (os_Truncate S p n)),
     os_Remove = (\<lambda>p. trace [p] (os_Remove S p)),
     file_Stat = (\<lambda>d. trace [] (file_Stat S d)),
     file_Close = (\<lambda>d. trace [] (file_Close S d)),
     file_Sync = (\<lambda>d. trace [] (file_Sync S d)),
     file_ReadAt = (\<lambda>d n off. trace [] (file_ReadAt S d n off)),
     file_WriteAt = (\<lambda>d b off. trace [] (file_WriteAt S d b off)),
     file_Readdirname = (\<lambda>d. trace [] (file_Readdirname S d)),
     names_left = (\<lambda>d s. names_left S d (fst s)),
     unix_Flock = (\<lambda>d how. trace [] (unix_Flock S d how)),
     unix_Setxattr = (\<lambda>p a v flags. trace [p] (unix_Setxattr S p a v flags)),
     unix_Removexattr = (\<lambda>p a. trace [p] (unix_Removexattr S p a)),
     unix_Listxattr_size = (\<lambda>p. trace [p] (unix_Listxattr_size S p)),
     unix_Listxattr = (\<lambda>p n. trace [p] (unix_Listxattr S p n)),
     unix_Getxattr_size = (\<lambda>p a. trace [p] (unix_Getxattr_size S p a)),
     unix_Getxattr = (\<lambda>p a n. trace [p] (unix_Getxattr S p a n)),
     unix_Major = unix_Major S, unix_Minor = unix_Minor S, normTimespec = normTimespec S\<rparr>"

definition inside_trace :: "string \<Rightarrow> 'o \<times> string list \<Rightarrow> bool" where
  "inside_trace root s \<longleftrightarrow> (\<forall>p \<in> set (snd s). inside root p)"

lemma kept_trace: "list_all (inside root) ps \<Longrightarrow> kept (inside_trace root) (trace ps g)"
  by (auto simp: kept_def inside_trace_def trace_def list_all_iff case_prod_unfold Let_def)

lemma traced_ok: "os_ok (traced S) root (inside_trace root) (\<lambda>_. True)"
  unfolding os_ok_def
proof (intro conjI)
  show "\<forall>s. inside_trace root s \<longrightarrow> inside_trace root (os_Umask (traced S) s)" by (simp add: traced_def inside_trace_def)
qed (simp_all add: traced_def kept_trace opens_def)

lemma traced_dirnames: "dirnames_plain S \<Longrightarrow> dirnames_plain (traced S)"
  by (simp add: dirnames_plain_def traced_def trace_def case_prod_unfold Let_def)

text \<open>C6: A server of a local directory stays inside of it. Whatever requests it handles, from its first state, with
  any arguments and whatever the operating system answers (names read from directories being names of
  entries), every path it passes to a system call is the root or below it: the elements of the root followed by
  names without slashes other than \<^verbatim>\<open>.\<close> and \<^verbatim>\<open>..\<close>. So is the path of every file it holds.\<close>

theorem localfs_confined:
  assumes "dirnames_plain S" and "serves (handle (localFS (traced S) root)) (\<lambda>_. True) (NewServer (local_init (o0, []))) l s"
  shows "(\<forall>p \<in> set (snd (os (world s))). inside (Attacher root) p) \<and> (\<forall>f \<in> set (locals (world s)). inside (Attacher root) (path f))"
proof -
  have "confined (traced S) (Attacher root) (inside_trace (Attacher root)) (\<lambda>_. True) (local_init (o0, []))"
    using assms(1) traced_ok traced_dirnames by (auto simp: confined_def local_init_def inside_trace_def Attacher_def)
  with assms(2) have "confined (traced S) (Attacher root) (inside_trace (Attacher root)) (\<lambda>_. True) (world s)" by (rule local.serves_P)
  then show ?thesis by (simp add: confined_def inside_trace_def)
qed

text \<open>A system in which every path is a directory without entries, and on which nothing can be opened.\<close>

definition emptyOS :: "(unit, unit) os_calls" where
  "emptyOS =
     (let stat = \<lparr>Stat_Dev = 1, Stat_Ino = 2, Stat_Nlink = 2, Stat_Mode = 0x41ed, Stat_Uid = 0, Stat_Gid = 0, Stat_Rdev = 0, Stat_Size = 0,
            Stat_Blksize = 512, Stat_Blocks = 0, Stat_Atim = \<lparr>Sec = 0, Nsec = 0\<rparr>, Stat_Mtim = \<lparr>Sec = 0, Nsec = 0\<rparr>, Stat_Ctim = \<lparr>Sec = 0, Nsec = 0\<rparr>\<rparr>;
          dir = \<lparr>fi_Mode = 0x800001ed, fi_Sys = stat\<rparr>;
          refused = (\<lambda>w. (Some ErrPermission, w))
      in \<lparr>os_Umask = (\<lambda>w. w), os_Lstat = (\<lambda>p w. (Inr dir, w)), os_OpenFile = (\<lambda>p fl m w. (Inl ErrPermission, w)),
       os_Mkdir = (\<lambda>p m. refused), os_Symlink = (\<lambda>t p. refused), os_Link = (\<lambda>p q. refused), os_Rename = (\<lambda>p q. refused),
       os_Readlink = (\<lambda>p w. (([], Some ErrPermission), w)), os_Truncate = (\<lambda>p n. refused), os_Remove = (\<lambda>p. refused),
       file_Stat = (\<lambda>d w. (Inr dir, w)), file_Close = (\<lambda>d w. (None, w)), file_Sync = (\<lambda>d w. (None, w)),
       file_ReadAt = (\<lambda>d n off w. (([], Some IoEOF), w)), file_WriteAt = (\<lambda>d b off w. ((0, Some ErrPermission), w)),
       file_Readdirname = (\<lambda>d w. (Inl IoEOF, w)), names_left = (\<lambda>d w. 0), unix_Flock = (\<lambda>d how. refused),
       unix_Setxattr = (\<lambda>p a v fl. refused), unix_Removexattr = (\<lambda>p a. refused),
       unix_Listxattr_size = (\<lambda>p w. (Inr 0, w)), unix_Listxattr = (\<lambda>p n w. (Inr [], w)),
       unix_Getxattr_size = (\<lambda>p a w. (Inl ErrPermission, w)), unix_Getxattr = (\<lambda>p a n w. (Inl ErrPermission, w)),
       unix_Major = (\<lambda>d. ucast (drop_bit 8 d)), unix_Minor = (\<lambda>d. ucast (take_bit 8 d)), normTimespec = (\<lambda>t. t)\<rparr>)"

definition attach_root :: message where
  "attach_root = Tattach \<lparr>tattach_fid = 0, tattach_Auth = \<lparr>tauth_Authenticationfid = noFID, tauth_UserName = [],
     tauth_AttachName = [], tauth_UID = 0\<rparr>\<rparr>"

definition mkdir_in_root :: "string \<Rightarrow> message" where
  "mkdir_in_root name = Tmkdir \<lparr>tmkdir_Directory = 0, tmkdir_Name = name, tmkdir_Permissions = 0, tmkdir_GID = 0\<rparr>"

theorem localfs_confined_witness:
  "\<exists>r s r' s'. handle (localFS (traced emptyOS) ''/srv'') attach_root (NewServer (local_init ((), []))) = Some (r, s) \<and>
     handle (localFS (traced emptyOS) ''/srv'') (mkdir_in_root ''a'') s = Some (r', s') \<and>
     snd (os (world s')) = [''/srv'', ''/srv/a''] \<and> inside ''/srv'' ''/srv/a''"
proof -
  let ?B = "localFS (traced emptyOS) ''/srv''" and ?s0 = "NewServer (local_init ((), []))"
  have d: "dirnames_plain emptyOS" by (simp add: dirnames_plain_def emptyOS_def Let_def)
  have "case handle ?B attach_root ?s0 of None \<Rightarrow> False
      | Some (r, s) \<Rightarrow> (case handle ?B (mkdir_in_root ''a'') s of None \<Rightarrow> False | Some (r', s') \<Rightarrow> snd (os (world s')) = [''/srv'', ''/srv/a''])"
    by code_simp
  then obtain r s r' s' where h: "handle ?B attach_root ?s0 = Some (r, s)" "handle ?B (mkdir_in_root ''a'') s = Some (r', s')"
    and t: "snd (os (world s')) = [''/srv'', ''/srv/a'']" by (auto split: option.splits prod.splits)
  have "serves (handle ?B) (\<lambda>_. True) ?s0 ([] @ [(attach_root, r)]) s"
    by (rule serves.more) (rule serves.none, rule TrueI, rule h(1))
  then have "serves (handle ?B) (\<lambda>_. True) ?s0 (([] @ [(attach_root, r)]) @ [(mkdir_in_root ''a'', r')]) s'"
    by (rule serves.more) (rule TrueI, rule h(2))
  from localfs_confined [OF d this] h t show ?thesis by (auto simp: Attacher_def)
qed

section \<open>Listing a directory\<close>

text \<open>
  What the system does for an open directory: \<open>left\<close> is the list of the names it will still return, and the
  files with the names \<open>ns\<close> in the directory at \<open>p\<close> can be examined, which does not change that list.
\<close>

definition dir_stream :: "('o, 'd) os_calls \<Rightarrow> 'd \<Rightarrow> string \<Rightarrow> string list \<Rightarrow> ('o \<Rightarrow> string list) \<Rightarrow> bool" where
  "dir_stream S d p ns left \<longleftrightarrow>
     (\<forall>s. (case left s of
             [] \<Rightarrow> fst (file_Readdirname S (Some d) s) = Inl IoEOF \<and> left (snd (file_Readdirname S (Some d) s)) = []
           | n # rest \<Rightarrow> fst (file_Readdirname S (Some d) s) = Inr n \<and> left (snd (file_Readdirname S (Some d) s)) = rest) \<and>
        names_left S (Some d) s = length (left s) \<and>
        (\<forall>n \<in> set ns. (\<exists>fi. fst (os_Lstat S (path_Join p n) s) = Inr fi) \<and> left (snd (os_Lstat S (path_Join p n) s)) = left s))"

lemma stream_info:
  assumes "dir_stream S d p ns left" and "n \<in> set ns"
  obtains qid fi w' where "local_info S \<lparr>path = path_Join p n, loc_file = None\<rparr> w = ((qid, fi, None), w')"
    and "left (os w') = left (os w)" and "locals w' = locals w"
proof -
  let ?g = "os_Lstat S (path_Join p n)"
  obtain fi where fi: "fst (?g (os w)) = Inr fi" and l: "left (snd (?g (os w))) = left (os w)"
    using assms by (auto simp: dir_stream_def)
  have os: "os (snd (localToQid S fi v)) = os v" for v by (auto simp: localToQid_def Let_def split: option.splits)
  show ?thesis using that fi l
    by (simp add: local_info_def oscall_eq case_prod_unfold Let_def locals_localToQid os)
qed

text \<open>One round, after \<open>k\<close> names: the next name is skipped before the window and taken inside of it.\<close>

lemma readdir_round:
  assumes "dir_stream S d p ns left" and "unat offset + unat count < 2 ^ 64" and "left (os w) = n # rest" and "n \<in> set ns"
    and "locals w ! f = \<lparr>path = p, loc_file = Some d\<rparr>" and "length es < unat count" and "Suc k \<le> unat offset + unat count"
  obtains es' w1 where
    "readdir_loop S (Suc fuel) f offset count (of_nat k) es w = readdir_loop S fuel f offset count (of_nat (Suc k)) (es @ es') w1"
    and "left (os w1) = rest" and "locals w1 = locals w" and "map Dirent_Name es' = (if Suc k < unat offset then [] else [n])"
    and "map Dirent_Offset es' = (if Suc k < unat offset then [] else [of_nat (Suc k)])"
proof -
  let ?g = "file_Readdirname S (Some d)"
  have "fst (?g (os w)) = Inr n" "left (snd (?g (os w))) = rest"
    using assms(1) [unfolded dir_stream_def, THEN spec, of "os w"] assms(3) by simp_all
  then obtain w0 where e: "oscall ?g w = (Inr n, w0)" and w0: "left (os w0) = rest" "locals w0 = locals w"
    by (simp add: oscall_eq)
  have k: "of_nat k + 1 = (of_nat (Suc k) :: uint64)" by simp
  have k': "unat (of_nat (Suc k) :: uint64) = Suc k"
    using assms(2,7) by (simp only: unsigned_of_nat) (simp add: take_bit_nat_eq_self)
  have "unat (offset + ucast count) = unat offset + unat count"
    using assms(2) by (simp add: unat_word_ariths unsigned_ucast_eq take_bit_nat_eq_self order_less_trans [OF unat_lt_2p32])
  then have out: "(of_nat (Suc k) < offset \<or> of_nat (Suc k) > offset + ucast count) = (Suc k < unat offset)"
    using assms(7) k' by (simp only: word_less_nat_alt) linarith
  show thesis
  proof (cases "Suc k < unat offset")
    case True
    then show thesis using assms(5,6) e w0 out by (intro that [of "[]" w0]) (simp_all add: k Let_def del: of_nat_Suc)
  next
    case False
    obtain qid fi w1 where i: "local_info S \<lparr>path = path_Join p n, loc_file = None\<rparr> w0 = ((qid, fi, None), w1)"
      and w1: "left (os w1) = rest" "locals w1 = locals w"
      using stream_info [OF assms(1,4), of w0] w0 by auto
    let ?e = "\<lparr>Dirent_QID = qid, Dirent_Offset = of_nat (Suc k), Dirent_Type = QID_Type qid, Dirent_Name = n\<rparr>"
    show thesis using False assms(5,6) e w0 i w1 out by (intro that [of "[?e]" w1]) (simp_all add: k Let_def del: of_nat_Suc)
  qed
qed

text \<open>
  The loop, with \<open>k\<close> names read and \<open>j\<close> to skip before the window starts.
\<close>

lemma readdir_loop_window:
  assumes "dir_stream S d p ns left" and "unat offset + unat count < 2 ^ 64" and "0 < unat count"
  shows "left (os w) = rest \<Longrightarrow> set rest \<subseteq> set ns \<Longrightarrow> locals w ! f = \<lparr>path = p, loc_file = Some d\<rparr> \<Longrightarrow>
    length rest < fuel \<Longrightarrow> j = unat offset - 1 - k \<Longrightarrow> es = [] \<or> j = 0 \<Longrightarrow>
    k + j = (unat offset - 1) + length es \<Longrightarrow> length es \<le> unat count \<Longrightarrow>
    \<exists>ents w'. readdir_loop S fuel f offset count (of_nat k) es w = ((es @ ents, None), w') \<and>
      map Dirent_Name ents = take (unat count - length es) (drop j rest) \<and>
      map Dirent_Offset ents = map (\<lambda>i. of_nat (Suc (k + j + i))) [0..<length ents] \<and>
      left (os w') = drop (j + (unat count - length es)) rest"
proof (induction fuel arbitrary: rest w k j es)
  case (Suc fuel)
  show ?case
  proof (cases "length es < unat count")
    case False
    with Suc.prems assms(3) show ?thesis by auto
  next
    case more: True
    show ?thesis
    proof (cases rest)
      case Nil
      with Suc.prems(1) assms(1) have "fst (file_Readdirname S (Some d) (os w)) = Inl IoEOF" "left (snd (file_Readdirname S (Some d) (os w))) = []"
        by (auto simp: dir_stream_def split: list.splits)
      with more Nil Suc.prems(3) show ?thesis by (simp add: oscall_eq)
    next
      case (Cons n rest')
      have pre: "left (os w) = n # rest'" "n \<in> set ns" "Suc k \<le> unat offset + unat count"
        using Suc.prems Cons more by (auto split: if_splits)
      obtain es' w1 where r: "readdir_loop S (Suc fuel) f offset count (of_nat k) es w = readdir_loop S fuel f offset count (of_nat (Suc k)) (es @ es') w1"
        and w1: "left (os w1) = rest'" "locals w1 = locals w"
        and es': "map Dirent_Name es' = (if Suc k < unat offset then [] else [n])" "map Dirent_Offset es' = (if Suc k < unat offset then [] else [of_nat (Suc k)])"
        by (rule readdir_round [OF assms(1,2) pre(1,2) Suc.prems(3) more pre(3), of fuel]) (rule that)
      have j: "j = 0 \<longleftrightarrow> \<not> Suc k < unat offset" using Suc.prems(5) by linarith
      have l: "length es' = (if j = 0 then 1 else 0)" using arg_cong [OF es'(1), of length] j by simp
      have "\<exists>ents w'. readdir_loop S fuel f offset count (of_nat (Suc k)) (es @ es') w1 = (((es @ es') @ ents, None), w') \<and>
          map Dirent_Name ents = take (unat count - length (es @ es')) (drop (j - 1) rest') \<and>
          map Dirent_Offset ents = map (\<lambda>i. of_nat (Suc (Suc k + (j - 1) + i))) [0..<length ents] \<and>
          left (os w') = drop (j - 1 + (unat count - length (es @ es'))) rest'"
        using Suc.prems Cons w1 more l by (intro Suc.IH) (auto split: if_splits)
      then obtain ents w' where ents: "readdir_loop S fuel f offset count (of_nat (Suc k)) (es @ es') w1 = (((es @ es') @ ents, None), w')"
        "map Dirent_Name ents = take (unat count - length (es @ es')) (drop (j - 1) rest')"
        "map Dirent_Offset ents = map (\<lambda>i. of_nat (Suc (Suc k + (j - 1) + i))) [0..<length ents]"
        "left (os w') = drop (j - 1 + (unat count - length (es @ es'))) rest'" by blast
      obtain c where c: "unat count - length es = Suc c" "unat count - Suc (length es) = c" using more by (metis Suc_diff_Suc)
      show ?thesis
        using ents r Cons c l es' j
        by (intro exI [of _ "es' @ ents"] exI [of _ w'], cases j)
          (simp_all add: upt_conv_Cons map_Suc_upt [symmetric] del: upt_Suc of_nat_Suc readdir_loop.simps)
    qed
  qed
qed simp

text \<open>
  On an open directory that has the names \<open>ns\<close> left, the entries are the \<open>count\<close> names from position \<open>offset\<close>
  (from the first for offset 0), numbered by their positions; the names up to the last one returned are consumed.
\<close>

lemma readdir_window:
  assumes "dir_stream S d p ns left" and "left (os w) = ns" and "locals w ! f = \<lparr>path = p, loc_file = Some d\<rparr>"
    and "length ns < 2 ^ 64" and "unat offset + unat count < 2 ^ 64" and "0 < count"
  shows "\<exists>ents w'. local_Readdir S f offset count w = ((ents, None), w') \<and>
    map Dirent_Name ents = take (unat count) (drop (unat offset - 1) ns) \<and>
    map Dirent_Offset ents = map (\<lambda>i. of_nat (Suc (unat offset - 1 + i))) [0..<length ents] \<and>
    left (os w') = drop (unat offset - 1 + unat count) ns"
proof -
  have "0 < unat count" using assms(6) by (simp add: word_less_nat_alt)
  note window = readdir_loop_window [OF assms(1,5) this, where k = 0 and es = "[]" and rest = ns and w = w and f = f and fuel = "Suc (length ns)" and j = "unat offset - 1"]
  have "names_left S (Some d) (os w) = length ns" using assms(1,2) by (simp add: dir_stream_def)
  then show ?thesis using window assms(2-4) unfolding local_Readdir_def by simp
qed

text \<open>A system whose state is the list of names an open directory has left.\<close>

definition listOS :: "(string list, unit) os_calls" where
  "listOS =
     (let refused = (\<lambda>w. (Some ErrPermission, w)); dir = fst (os_Lstat emptyOS [] ())
      in \<lparr>os_Umask = (\<lambda>w. w), os_Lstat = (\<lambda>p w. (dir, w)), os_OpenFile = (\<lambda>p fl m w. (Inl ErrPermission, w)),
       os_Mkdir = (\<lambda>p m. refused), os_Symlink = (\<lambda>t p. refused), os_Link = (\<lambda>p q. refused), os_Rename = (\<lambda>p q. refused),
       os_Readlink = (\<lambda>p w. (([], Some ErrPermission), w)), os_Truncate = (\<lambda>p n. refused), os_Remove = (\<lambda>p. refused),
       file_Stat = (\<lambda>d w. (dir, w)), file_Close = (\<lambda>d w. (None, w)), file_Sync = (\<lambda>d w. (None, w)),
       file_ReadAt = (\<lambda>d n off w. (([], Some IoEOF), w)), file_WriteAt = (\<lambda>d b off w. ((0, Some ErrPermission), w)),
       file_Readdirname = (\<lambda>d w. case w of [] \<Rightarrow> (Inl IoEOF, []) | n # rest \<Rightarrow> (Inr n, rest)), names_left = (\<lambda>d w. length w),
       unix_Flock = (\<lambda>d how. refused), unix_Setxattr = (\<lambda>p a v fl. refused), unix_Removexattr = (\<lambda>p a. refused),
       unix_Listxattr_size = (\<lambda>p w. (Inr 0, w)), unix_Listxattr = (\<lambda>p n w. (Inr [], w)),
       unix_Getxattr_size = (\<lambda>p a w. (Inl ErrPermission, w)), unix_Getxattr = (\<lambda>p a n w. (Inl ErrPermission, w)),
       unix_Major = (\<lambda>d. ucast (drop_bit 8 d)), unix_Minor = (\<lambda>d. ucast (take_bit 8 d)), normTimespec = (\<lambda>t. t)\<rparr>)"

definition open_dir :: "string list \<Rightarrow> (string list, unit) local_state" where
  "open_dir ns = (local_init ns)\<lparr>locals := [\<lparr>path = ''/srv'', loc_file = Some ()\<rparr>]\<rparr>"

lemma listOS_stream: "dir_stream listOS () p ns (\<lambda>s. s)"
  by (auto simp: dir_stream_def listOS_def emptyOS_def Let_def split: list.split)

lemma readdir_loop_locals: "locals (snd (readdir_loop S n f offset count cursor es w)) = locals w"
proof (induction n arbitrary: cursor es w)
  case (Suc n)
  have info: "locals (snd (local_info S l v)) = locals v" for l and v
    by (auto simp: local_info_def oscall_eq case_prod_unfold Let_def locals_localToQid split: option.splits sum.splits)
  show ?case
    using Suc info [of "\<lparr>path = p, loc_file = None\<rparr>" for p]
    by (auto simp: oscall_eq case_prod_unfold Let_def split: sum.splits option.splits)
qed simp

lemma readdir_locals: "locals (snd (local_Readdir S f offset count w)) = locals w"
  by (simp add: local_Readdir_def readdir_loop_locals del: readdir_loop.simps)

text \<open>C32: A directory read in pieces loses entries. The position of the open directory is not reset between calls while
  the positions of the entries are counted from the start of each call: after a first call with offset 0 that returns
  \<open>count\<close> names, the call that continues at the offset of the last entry, as the protocol has it, starts with the
  name at position \<open>2 * count\<close> and leaves out the \<open>count - 1\<close> names in between.\<close>

theorem localfs_Readdir_skips:
  assumes "dir_stream S d p ns left" and "left (os w) = ns" and "locals w ! f = \<lparr>path = p, loc_file = Some d\<rparr>"
    and "length ns < 2 ^ 64" and "1 < count" and "2 * unat count \<le> length ns"
  shows "\<exists>ents w1 ents2 w2. local_Readdir S f 0 count w = ((ents, None), w1) \<and> Dirent_Offset (last ents) = ucast count \<and>
    local_Readdir S f (ucast count) count w1 = ((ents2, None), w2) \<and>
    map Dirent_Name (ents @ ents2) = take (unat count) ns @ take (unat count) (drop (2 * unat count - 1) ns)"
proof -
  let ?c = "unat count"
  have c: "1 < ?c" using assms(5) by (simp add: word_less_nat_alt)
  have u: "unat (ucast count :: uint64) = ?c"
    by (simp add: unsigned_ucast_eq take_bit_nat_eq_self order_less_trans [OF unat_lt_2p32])
  have pos: "0 < count" using c by (simp add: word_less_nat_alt)
  have c0: "unat (0 :: uint64) + ?c < 2 ^ 64" and c1: "unat (ucast count :: uint64) + ?c < 2 ^ 64"
    using unat_lt_2p32 [of count] unfolding u by (simp_all del: unat_lt_2p32)
  obtain ents w1 where e1: "local_Readdir S f 0 count w = ((ents, None), w1)" and n1: "map Dirent_Name ents = take ?c ns"
    and o1: "map Dirent_Offset ents = map (\<lambda>i. of_nat (Suc i)) [0..<length ents]" and l1: "left (os w1) = drop ?c ns"
    using readdir_window [OF assms(1-4) c0 pos] by auto
  have len: "length ents = ?c" using arg_cong [OF n1, of length] assms(6) by simp
  have w1: "locals w1 = locals w" using e1 by (metis readdir_locals snd_conv)
  have s1: "dir_stream S d p (drop ?c ns) left" using assms(1) by (auto simp: dir_stream_def dest: in_set_dropD)
  have l2: "length (drop ?c ns) < 2 ^ 64" using assms(4) by simp
  obtain ents2 w2 where e2: "local_Readdir S f (ucast count) count w1 = ((ents2, None), w2)"
    and n2: "map Dirent_Name ents2 = take ?c (drop (?c - 1) (drop ?c ns))"
    using readdir_window [OF s1 l1 _ l2 c1 pos, of f] w1 assms(3) u by auto
  have "Dirent_Offset (last ents) = ucast count"
    using arg_cong [OF o1, of last] len c by (cases "ents = []") (auto simp: last_map last_upt u [symmetric])
  moreover have "drop (?c - 1) (drop ?c ns) = drop (2 * ?c - 1) ns" using c by (simp add: mult_2)
  ultimately show ?thesis using e1 e2 n1 n2
    by (intro exI [of _ ents] exI [of _ w1] exI [of _ ents2] exI [of _ w2] conjI) (simp_all only: map_append)
qed

theorem localfs_Readdir_skips_witness:
  "\<exists>ents w1 ents2 w2. local_Readdir listOS 0 0 2 (open_dir [''a'', ''b'', ''c'', ''d'', ''e'']) = ((ents, None), w1) \<and>
     local_Readdir listOS 0 2 2 w1 = ((ents2, None), w2) \<and> map Dirent_Name (ents @ ents2) = [''a'', ''b'', ''d'', ''e'']"
proof -
  let ?ns = "[''a'', ''b'', ''c'', ''d'', ''e'']"
  from localfs_Readdir_skips [OF listOS_stream, where w = "open_dir ?ns" and f = 0 and count = 2 and ns = ?ns] show ?thesis
    by (auto simp: open_dir_def local_init_def)
qed

end
