(* ===== verification/P9_Readdir.thy ===== *)
theory P9_Readdir
  imports P9_File
begin

text \<open>
  Package \<^verbatim>\<open>fsimpl/readdir\<close>: directory listings of static file systems. The offset of an entry is its
  index plus one, so that a client that continues at the offset of the last entry it got, however
  many entries of a response it got, sees every entry once.
\<close>

definition min_uint64 :: "uint64 \<Rightarrow> uint64 \<Rightarrow> uint64" where
  "min_uint64 a b = (if a < b then a else b)"

text \<open>A lookup in a Go map gives the zero value for a key that is not there.\<close>

definition qid_at :: "(string \<times> QID) list \<Rightarrow> string \<Rightarrow> QID" where
  "qid_at qids name = (case map_of qids name of Some q \<Rightarrow> q | None \<Rightarrow> QID_zero)"

definition readdir_Readdir ::
  "uint64 \<Rightarrow> uint32 \<Rightarrow> string list \<Rightarrow> (string \<times> QID) list \<Rightarrow> Dirent list \<times> goerror option" where
  "readdir_Readdir offset count names qids =
     (if of_nat (length names) \<le> offset then ([], None)
      else
        let last = unat (min_uint64 (offset + ucast count) (of_nat (length names))) in
        (map (\<lambda>(i, name). \<lparr>Dirent_QID = qid_at qids name, Dirent_Offset = offset + of_nat i + 1,
             Dirent_Type = QID_Type (qid_at qids name), Dirent_Name = name\<rparr>)
           (enumerate 0 (drop (unat offset) (take last names))), None))"

section \<open>Reading a directory to its end\<close>

text \<open>The entry for the name at a position.\<close>

definition dirent_at :: "string list \<Rightarrow> (string \<times> QID) list \<Rightarrow> nat \<Rightarrow> Dirent" where
  "dirent_at names qids i = \<lparr>Dirent_QID = qid_at qids (names ! i), Dirent_Offset = of_nat i + 1,
     Dirent_Type = QID_Type (qid_at qids (names ! i)), Dirent_Name = names ! i\<rparr>"

text \<open>
  Successive requests: each asks for some count at the offset of the last entry received, and gets
  a prefix of the entries (the server cuts a response to the size the client asked for).
\<close>

fun list_directory :: "string list \<Rightarrow> (string \<times> QID) list \<Rightarrow> (uint32 \<times> nat) list \<Rightarrow> uint64 \<Rightarrow> Dirent list" where
  "list_directory names qids [] offset = []"
| "list_directory names qids ((count, kept) # calls) offset =
     (case take kept (fst (readdir_Readdir offset count names qids)) of
        [] \<Rightarrow> []
      | ds \<Rightarrow> ds @ list_directory names qids calls (Dirent_Offset (last ds)))"

lemma enumerate_dirents:
  "l \<le> length names \<Longrightarrow>
   map (\<lambda>(i, name). \<lparr>Dirent_QID = qid_at qids name, Dirent_Offset = of_nat k + of_nat i + 1,
     Dirent_Type = QID_Type (qid_at qids name), Dirent_Name = name\<rparr>) (enumerate 0 (drop k (take l names))) =
   map (dirent_at names qids) [k..<l]"
  by (rule nth_equalityI) (auto simp: dirent_at_def nth_enumerate_eq)

lemma readdir_Readdir_eq:
  assumes n: "length names < 2 ^ 63" and o: "offset = of_nat k" "k \<le> length names"
  shows "fst (readdir_Readdir offset count names qids) =
    map (dirent_at names qids) [k..<min (k + unat count) (length names)]"
proof (cases "k = length names")
  case True
  with n o show ?thesis by (simp add: readdir_Readdir_def)
next
  case False
  with o have k: "k < length names" by simp
  have uk: "unat offset = k" using o k n by (simp add: o unat_of_nat_64)
  have ul: "unat (of_nat (length names) :: uint64) = length names" using n by (simp add: unat_of_nat_64)
  have uc: "unat (ucast count :: uint64) = unat count" by (simp add: unsigned_ucast_eq take_bit_nat_eq_self order_less_trans [OF unat_lt_2p32])
  have us: "unat (offset + ucast count) = k + unat count"
    using uk uc unat_lt_2p32 [of count] k n by (simp add: unat_word_ariths del: unat_lt_2p32)
  have "unat (min_uint64 (offset + ucast count) (of_nat (length names))) = min (k + unat count) (length names)"
    using us ul by (auto simp: min_uint64_def word_less_nat_alt)
  moreover have "\<not> of_nat (length names) \<le> offset" using uk ul k by (simp add: word_le_nat_alt)
  ultimately show ?thesis using uk o by (simp add: readdir_Readdir_def enumerate_dirents)
qed

lemma take_upt_min: "take m [i..<n] = [i..<min (i + m) n]"
  by (cases "i + m \<le> n") (auto simp: min_def)

lemma list_directory_from:
  assumes "length names < 2 ^ 63" and "\<forall>(count, kept) \<in> set calls. 0 < count \<and> 0 < kept"
    and "k \<le> length names" and "length names - k \<le> length calls"
  shows "list_directory names qids calls (of_nat k) = map (dirent_at names qids) [k..<length names]"
  using assms
proof (induction calls arbitrary: k)
  case (Cons c calls)
  obtain count kept where c: "c = (count, kept)" by (cases c)
  define l where "l = min (k + kept) (min (k + unat count) (length names))"
  have ds: "take kept (fst (readdir_Readdir (of_nat k) count names qids)) = map (dirent_at names qids) [k..<l]"
    using readdir_Readdir_eq [OF Cons.prems(1) refl Cons.prems(3)] by (simp add: take_map take_upt_min l_def)
  show ?case
  proof (cases "k = length names")
    case True
    then have "take kept (fst (readdir_Readdir (of_nat k) count names qids)) = []" using ds by (simp add: l_def)
    then show ?thesis unfolding c list_directory.simps using True by (simp only: list.case) simp
  next
    case False
    have pos: "0 < kept" "0 < unat count" using Cons.prems(2) by (auto simp: c word_less_nat_alt)
    then have l: "k < l" "l \<le> length names" using False Cons.prems(3) by (auto simp: l_def)
    then have "last (map (dirent_at names qids) [k..<l]) = dirent_at names qids (l - 1)" by (simp add: last_map)
    then have off: "Dirent_Offset (last (map (dirent_at names qids) [k..<l])) = of_nat l"
      using l by (simp add: dirent_at_def of_nat_diff)
    have "list_directory names qids calls (of_nat l) = map (dirent_at names qids) [l..<length names]"
      using Cons.prems l by (intro Cons.IH) (auto simp: c)
    moreover have "[k..<length names] = [k..<l] @ [l..<length names]" using l upt_add_eq_append [of k l "length names - l"] by simp
    ultimately show ?thesis using l ds off by (auto simp: c split: list.split if_splits)
  qed
qed simp

text \<open>C29: A client that reads a static directory piece by piece gets every entry exactly once and in
  order: whatever positive counts it asks for and however few entries (at least one) of each
  response reach it, as many requests as there are names are enough, and the entry of each name
  carries its QID and type.\<close>

theorem Readdir_lists_all:
  assumes "length names < 2 ^ 63" and "\<forall>(count, kept) \<in> set calls. 0 < count \<and> 0 < kept"
    and "length names \<le> length calls"
  shows "map Dirent_Name (list_directory names qids calls 0) = names \<and>
    map Dirent_QID (list_directory names qids calls 0) = map (qid_at qids) names"
proof -
  have "list_directory names qids calls 0 = map (dirent_at names qids) [0..<length names]"
    using list_directory_from [OF assms(1,2), of 0 qids] assms(3) by simp
  moreover have "map (\<lambda>i. f (names ! i)) [0..<length names] = map f names" for f :: "string \<Rightarrow> QID"
    by (rule nth_equalityI) simp_all
  ultimately show ?thesis by (simp add: dirent_at_def comp_def map_nth)
qed

theorem Readdir_lists_all_witness:
  "map Dirent_Name (list_directory [''a'', ''b'', ''c''] [] [(2, 2), (9, 1), (1, 1)] 0) = [''a'', ''b'', ''c'']"
  using Readdir_lists_all [of "[''a'', ''b'', ''c'']" "[(2, 2), (9, 1), (1, 1)]" "[]"] by simp

end
