(* ===== verification/P9_Staticfs.thy ===== *)
theory P9_Staticfs
  imports P9_Readdir P9_Templatefs "HOL-Library.Char_ord" "HOL-Library.List_Lexorder"
begin

text \<open>
  Package \<^verbatim>\<open>fsimpl/staticfs\<close>: a read-only file system in memory, one directory with regular files. The
  files are \<^verbatim>\<open>ReadOnlyFile\<close>s behind a QID mapper each, so that their QID paths differ.
\<close>

section \<open>Regular files\<close>

definition statfs_StatFS :: "FSStat \<times> goerror option" where
  "statfs_StatFS = (FSStat_zero\<lparr>FSStat_Type := 0x01021997, FSStat_BlockSize := 4096\<rparr>, None)"

text \<open>
  A \<^verbatim>\<open>*file\<close> is its content: the QID of \<^verbatim>\<open>ReadOnlyFile(content)\<close> is the same for all, and the methods do
  not move the position of the \<^verbatim>\<open>strings.Reader\<close>.
\<close>

type_synonym static_file = string

definition file_qid :: QID where
  "file_qid = \<lparr>QID_Type = TypeRegular, QID_Version = 0, QID_Path = 0\<rparr>"

definition ReadOnlyFile :: "string \<Rightarrow> static_file" where
  "ReadOnlyFile content = content"

text \<open>\<^verbatim>\<open>(*strings.Reader).ReadAt\<close>; the offset is a signed number.\<close>

definition strings_ReadAt :: "static_file \<Rightarrow> nat \<Rightarrow> uint64 \<Rightarrow> byte list \<times> goerror option" where
  "strings_ReadAt content p off =
     (if off <s 0 then ([], Some (OpaqueError ''strings.Reader.ReadAt: negative offset''))
      else if length content \<le> unat off then ([], Some IoEOF)
      else
        let b = map byte_of_char (take p (drop (unat off) content))
        in (b, if length b < p then Some IoEOF else None))"

definition file_Walk :: "static_file \<Rightarrow> string list \<Rightarrow> QID list \<times> static_file option \<times> goerror option" where
  "file_Walk f names = (if names = [] then ([], Some f, None) else ([], None, Some (LinuxErrno ENOTDIR)))"

definition file_Open :: "OpenFlags \<Rightarrow> QID \<times> uint32 \<times> goerror option" where
  "file_Open mode =
     (if OpenFlags_Mode mode = ReadOnly then (file_qid, 4096, None) else (QID_zero, 0, Some (LinuxErrno EROFS)))"

definition file_GetAttr :: "static_file \<Rightarrow> AttrMask \<Rightarrow> QID \<times> AttrMask \<times> Attr \<times> goerror option" where
  "file_GetAttr f req =
     (file_qid, req,
      Attr_zero\<lparr>Attr_Mode := ModeRegular OR 0x1b6, Attr_UID := 0, Attr_GID := 0, Attr_NLink := 0,
        Attr_Size := of_nat (length f), Attr_BlockSize := 4096\<rparr>, None)"

definition static_files :: "('w, static_file, 'a) files" where
  "static_files = \<lparr>
     f_Walk = (\<lambda>f names w. (file_Walk f names, w)),
     f_WalkGetAttr = DefaultWalkGetAttr_files,
     f_StatFS = (\<lambda>f w. (statfs_StatFS, w)),
     f_GetAttr = (\<lambda>f req w. (file_GetAttr f req, w)),
     f_SetAttr = (\<lambda>f valid attr w. (ReadOnlyFile_SetAttr valid attr, w)),
     f_Close = (\<lambda>f w. (NilCloser_Close, w)),
     f_Open = (\<lambda>f mode w. (file_Open mode, w)),
     f_ReadAt = (\<lambda>f p off w. (strings_ReadAt f p off, w)),
     f_WriteAt = (\<lambda>f p off w. (ReadOnlyFile_WriteAt p off, w)),
     f_SetXattr = (\<lambda>f attr dat flags w. (XattrUnimplemented_SetXattr attr dat flags, w)),
     f_GetXattr = (\<lambda>f attr w. (XattrUnimplemented_GetXattr attr, w)),
     f_ListXattrs = (\<lambda>f w. (XattrUnimplemented_ListXattrs, w)),
     f_RemoveXattr = (\<lambda>f attr w. (XattrUnimplemented_RemoveXattr attr, w)),
     f_FSync = (\<lambda>f w. (ReadOnlyFile_FSync, w)),
     f_Lock = (\<lambda>f pid locktype flags start len client w. (NotLockable_Lock pid locktype flags start len client, w)),
     f_Create = (\<lambda>f name mode permissions uid gid w. (NotDirectoryFile_Create name mode permissions uid gid, w)),
     f_Mkdir = (\<lambda>f name permissions uid gid w. (NotDirectoryFile_Mkdir name permissions uid gid, w)),
     f_Symlink = (\<lambda>f oldname newname uid gid w. (NotDirectoryFile_Symlink oldname newname uid gid, w)),
     f_Link = (\<lambda>f target newname w. (NotDirectoryFile_Link target newname, w)),
     f_Mknod = (\<lambda>f name mode major minor uid gid w. (NotDirectoryFile_Mknod name mode major minor uid gid, w)),
     f_RenameAt = (\<lambda>f oldname newdir newname w. (NotDirectoryFile_RenameAt oldname newdir newname, w)),
     f_UnlinkAt = (\<lambda>f name flags w. (NotDirectoryFile_UnlinkAt name flags, w)),
     f_Readdir = (\<lambda>f offset count w. (NotDirectoryFile_Readdir offset count, w)),
     f_Readlink = (\<lambda>f w. (NotSymlinkFile_Readlink, w)),
     f_Renamed = (\<lambda>f. NoopRenamed_Renamed)\<rparr>"

section \<open>The file system\<close>

text \<open>The maps \<^verbatim>\<open>files\<close> and \<^verbatim>\<open>qids\<close> of an \<^verbatim>\<open>attacher\<close>, and its path generator with the mappers of the files.\<close>

record attacher =
  sf_files :: "(string \<times> static_file qidTransformFile) list"
  sf_qids :: "(string \<times> QID) list"
  sf_paths :: qid_space

text \<open>The two kinds of files the server can hold: the directory and a wrapped regular file.\<close>

datatype sfile = Dir | Reg "static_file qidTransformFile"

abbreviation wrapped_files :: "(unit \<times> qid_space, static_file qidTransformFile, sfile) files" where
  "wrapped_files \<equiv> qidTransform static_files"

definition modeOnly :: AttrMask where
  "modeOnly = AttrMask_zero\<lparr>AttrMask_Mode := True\<rparr>"

definition WithFile :: "string \<Rightarrow> string \<Rightarrow> attacher \<Rightarrow> goerror + attacher" where
  "WithFile name content a =
     (if CHR ''/'' \<in> set name then Inl (OpaqueError ''directories are not supported by staticfs'')
      else if map_of (sf_files a) name \<noteq> None then Inl (OpaqueError ''file named %q already exists'')
      else
        let (m, paths) = NewMapper (sf_paths a);
            f = NewWrapperFile (ReadOnlyFile content) m;
            a = a\<lparr>sf_files := AList.update name f (sf_files a), sf_paths := paths\<rparr>;
            ((qid, _, _, err), (_, paths)) = f_GetAttr wrapped_files f modeOnly ((), sf_paths a);
            a = a\<lparr>sf_paths := paths\<rparr>
        in case err of
             Some e \<Rightarrow> Inl e
           | None \<Rightarrow> Inr (a\<lparr>sf_qids := AList.update name qid (sf_qids a)\<rparr>))"

fun apply_options :: "('a \<Rightarrow> goerror + 'a) list \<Rightarrow> 'a \<Rightarrow> goerror + 'a" where
  "apply_options [] a = Inr a"
| "apply_options (opt # opts) a = (case opt a of Inl e \<Rightarrow> Inl e | Inr a \<Rightarrow> apply_options opts a)"

definition staticfs_New :: "(attacher \<Rightarrow> goerror + attacher) list \<Rightarrow> goerror + attacher" where
  "staticfs_New opts = apply_options opts \<lparr>sf_files = [], sf_qids = [], sf_paths = PathGenerator\<rparr>"

definition static_Attach :: "attacher \<Rightarrow> (sfile option \<times> goerror option) \<times> attacher" where
  "static_Attach a = ((Some Dir, None), a)"

definition rootQID :: QID where
  "rootQID = \<lparr>QID_Type = TypeDir, QID_Version = 0, QID_Path = 0\<rparr>"

definition dir_Open :: "OpenFlags \<Rightarrow> QID \<times> uint32 \<times> goerror option" where
  "dir_Open mode =
     (if OpenFlags_Mode mode = ReadOnly then (rootQID, 4096, None) else (QID_zero, 0, Some (LinuxErrno EROFS)))"

fun dir_Walk :: "string list \<Rightarrow> attacher \<Rightarrow> QID list \<times> sfile option \<times> goerror option" where
  "dir_Walk [] a = ([], Some Dir, None)"
| "dir_Walk [name] a =
     (case map_of (sf_files a) name of
        None \<Rightarrow> ([], None, Some (LinuxErrno ENOENT))
      | Some file \<Rightarrow> ([qid_at (sf_qids a) name], Some (Reg file), None))"
| "dir_Walk names a = ([], None, Some (LinuxErrno ENOENT))"

definition dir_GetAttr :: "AttrMask \<Rightarrow> QID \<times> AttrMask \<times> Attr \<times> goerror option" where
  "dir_GetAttr req =
     (rootQID, req,
      Attr_zero\<lparr>Attr_Mode := ModeDirectory OR 0x1b6, Attr_UID := 0, Attr_GID := 0, Attr_NLink := 2\<rparr>, None)"

definition dir_Readdir :: "uint64 \<Rightarrow> uint32 \<Rightarrow> attacher \<Rightarrow> Dirent list \<times> goerror option" where
  "dir_Readdir offset count a = readdir_Readdir offset count (sort (map fst (sf_files a))) (sf_qids a)"

text \<open>A method of a wrapped file, run on the generator of the attacher.\<close>

definition on_paths :: "(unit \<times> qid_space \<Rightarrow> 'v \<times> unit \<times> qid_space) \<Rightarrow> attacher \<Rightarrow> 'v \<times> attacher" where
  "on_paths g a = (let (v, _, paths) = g ((), sf_paths a) in (v, a\<lparr>sf_paths := paths\<rparr>))"

definition sfile_op :: "(attacher \<Rightarrow> 'v) \<Rightarrow> (static_file qidTransformFile \<Rightarrow> unit \<times> qid_space \<Rightarrow> 'v \<times> unit \<times> qid_space)
    \<Rightarrow> sfile \<Rightarrow> attacher \<Rightarrow> 'v \<times> attacher" where
  "sfile_op dir reg f a = (case f of Dir \<Rightarrow> (dir a, a) | Reg q \<Rightarrow> on_paths (reg q) a)"

text \<open>A file returned by a wrapped file is a wrapped file.\<close>

definition as_reg :: "static_file qidTransformFile option \<Rightarrow> sfile option" where
  "as_reg file = map_option Reg file"

definition reg_Walk where
  "reg_Walk q names ws = (let ((qids, file, err), ws) = f_Walk wrapped_files q names ws in ((qids, as_reg file, err), ws))"

definition reg_WalkGetAttr where
  "reg_WalkGetAttr q names ws =
     (let ((qids, file, msk, attr, err), ws) = f_WalkGetAttr wrapped_files q names ws
      in ((qids, as_reg file, msk, attr, err), ws))"

definition reg_Create where
  "reg_Create q name mode permissions uid gid ws =
     (let ((file, qid, iounit, err), ws) = f_Create wrapped_files q name mode permissions uid gid ws
      in ((as_reg file, qid, iounit, err), ws))"

definition staticfs :: "(attacher, sfile, sfile) files" where
  "staticfs = \<lparr>
     f_Walk = (\<lambda>f names. sfile_op (dir_Walk names) (\<lambda>q. reg_Walk q names) f),
     f_WalkGetAttr = (\<lambda>f names. sfile_op (\<lambda>a. fst (DefaultWalkGetAttr_files f names a)) (\<lambda>q. reg_WalkGetAttr q names) f),
     f_StatFS = sfile_op (\<lambda>a. statfs_StatFS) (f_StatFS wrapped_files),
     f_GetAttr = (\<lambda>f req. sfile_op (\<lambda>a. dir_GetAttr req) (\<lambda>q. f_GetAttr wrapped_files q req) f),
     f_SetAttr = (\<lambda>f valid attr. sfile_op (\<lambda>a. ReadOnlyDir_SetAttr valid attr) (\<lambda>q. f_SetAttr wrapped_files q valid attr) f),
     f_Close = sfile_op (\<lambda>a. NilCloser_Close) (f_Close wrapped_files),
     f_Open = (\<lambda>f mode. sfile_op (\<lambda>a. dir_Open mode) (\<lambda>q. f_Open wrapped_files q mode) f),
     f_ReadAt = (\<lambda>f p off. sfile_op (\<lambda>a. IsDir_ReadAt p off) (\<lambda>q. f_ReadAt wrapped_files q p off) f),
     f_WriteAt = (\<lambda>f p off. sfile_op (\<lambda>a. IsDir_WriteAt p off) (\<lambda>q. f_WriteAt wrapped_files q p off) f),
     f_SetXattr = (\<lambda>f attr dat flags. sfile_op (\<lambda>a. XattrUnimplemented_SetXattr attr dat flags)
       (\<lambda>q. f_SetXattr wrapped_files q attr dat flags) f),
     f_GetXattr = (\<lambda>f attr. sfile_op (\<lambda>a. XattrUnimplemented_GetXattr attr) (\<lambda>q. f_GetXattr wrapped_files q attr) f),
     f_ListXattrs = sfile_op (\<lambda>a. XattrUnimplemented_ListXattrs) (f_ListXattrs wrapped_files),
     f_RemoveXattr = (\<lambda>f attr. sfile_op (\<lambda>a. XattrUnimplemented_RemoveXattr attr)
       (\<lambda>q. f_RemoveXattr wrapped_files q attr) f),
     f_FSync = sfile_op (\<lambda>a. ReadOnlyDir_FSync) (f_FSync wrapped_files),
     f_Lock = (\<lambda>f pid ty fl st len c. sfile_op (\<lambda>a. NotLockable_Lock pid ty fl st len c)
       (\<lambda>q. f_Lock wrapped_files q pid ty fl st len c) f),
     f_Create = (\<lambda>f name mode p u g. sfile_op (\<lambda>a. ReadOnlyDir_Create name mode p u g)
       (\<lambda>q. reg_Create q name mode p u g) f),
     f_Mkdir = (\<lambda>f name p u g. sfile_op (\<lambda>a. ReadOnlyDir_Mkdir name p u g) (\<lambda>q. f_Mkdir wrapped_files q name p u g) f),
     f_Symlink = (\<lambda>f old new u g. sfile_op (\<lambda>a. ReadOnlyDir_Symlink old new u g)
       (\<lambda>q. f_Symlink wrapped_files q old new u g) f),
     f_Link = (\<lambda>f target new. sfile_op (\<lambda>a. ReadOnlyDir_Link target new) (\<lambda>q. f_Link wrapped_files q target new) f),
     f_Mknod = (\<lambda>f name mode ma mi u g. sfile_op (\<lambda>a. ReadOnlyDir_Mknod name mode ma mi u g)
       (\<lambda>q. f_Mknod wrapped_files q name mode ma mi u g) f),
     f_RenameAt = (\<lambda>f old t new. sfile_op (\<lambda>a. ReadOnlyDir_RenameAt old t new) (\<lambda>q. f_RenameAt wrapped_files q old t new) f),
     f_UnlinkAt = (\<lambda>f name flags. sfile_op (\<lambda>a. ReadOnlyDir_UnlinkAt name flags)
       (\<lambda>q. f_UnlinkAt wrapped_files q name flags) f),
     f_Readdir = (\<lambda>f off count. sfile_op (dir_Readdir off count) (\<lambda>q. f_Readdir wrapped_files q off count) f),
     f_Readlink = sfile_op (\<lambda>a. NotSymlinkFile_Readlink) (f_Readlink wrapped_files),
     f_Renamed = (\<lambda>f. NoopRenamed_Renamed)\<rparr>"

abbreviation staticFS :: "(attacher, sfile) backend" where
  "staticFS \<equiv> backend_of static_Attach staticfs"

end
