(* ===== verification/P9_Composefs.thy ===== *)
theory P9_Composefs
  imports P9_Staticfs
begin

text \<open>
  Package \<^verbatim>\<open>fsimpl/composefs\<close>: a read-only directory whose entries are files of other file systems, each wrapped with
  a QID mapper of its own. The mounted files are those of one table of methods \<open>F\<close> over a state \<open>'w\<close>, the union
  of what is mounted.
\<close>

section \<open>State\<close>

record ('w, 'f) FS =
  inner :: 'w
  mounts :: "(string \<times> 'f qidTransformFile) list"
  fs_qids :: qid_space

text \<open>The files the server can hold: the root directory, and wrapped files at or below a mount.\<close>

datatype 'f cfile = Root | Mounted "'f qidTransformFile"

definition ErrFlatHierarchy :: goerror where "ErrFlatHierarchy = OpaqueError ''composefs only supports a flat hierarchy''"
definition ErrFileExists :: goerror where "ErrFileExists = OpaqueError ''file already exists''"

section \<open>Construction\<close>

definition WithMount ::
  "string \<Rightarrow> ('w \<Rightarrow> ('f option \<times> goerror option) \<times> 'w) \<Rightarrow> ('w, 'f) FS \<Rightarrow> goerror + ('w, 'f) FS" where
  "WithMount dir attach fs =
     (if CHR ''/'' \<in> set dir then Inl (WrapError ''directories are not supported'' ErrFlatHierarchy)
      else if map_of (mounts fs) dir \<noteq> None then Inl (WrapError dir ErrFileExists)
      else
        let ((f, err), w) = attach (inner fs) in
        case err of
          Some e \<Rightarrow> Inl e
        | None \<Rightarrow>
            let (m, q) = NewMapper (fs_qids fs)
            in Inr (fs\<lparr>inner := w, mounts := AList.update dir (NewWrapperFile (the f) m) (mounts fs), fs_qids := q\<rparr>))"

definition compose_WithFile :: "string \<Rightarrow> 'f \<Rightarrow> ('w, 'f) FS \<Rightarrow> goerror + ('w, 'f) FS" where
  "compose_WithFile name f fs =
     (if CHR ''/'' \<in> set name then Inl (WrapError ''directories are not supported'' ErrFlatHierarchy)
      else if map_of (mounts fs) name \<noteq> None then Inl (WrapError name ErrFileExists)
      else
        let (m, q) = NewMapper (fs_qids fs)
        in Inr (fs\<lparr>mounts := AList.update name (NewWrapperFile f m) (mounts fs), fs_qids := q\<rparr>))"

definition compose_New :: "(('w, 'f) FS \<Rightarrow> goerror + ('w, 'f) FS) list \<Rightarrow> 'w \<Rightarrow> goerror + ('w, 'f) FS" where
  "compose_New opts w = apply_options opts \<lparr>inner = w, mounts = [], fs_qids = PathGenerator\<rparr>"

text \<open>
  \<open>attach_of\<close> is the conversion of the composed file system to an \<^verbatim>\<open>Attacher\<close> of the one it is mounted in.
\<close>

definition WithDir ::
  "string \<Rightarrow> (('v, 'g) FS \<Rightarrow> 'w \<Rightarrow> ('f option \<times> goerror option) \<times> 'w) \<Rightarrow> (('v, 'g) FS \<Rightarrow> goerror + ('v, 'g) FS) list \<Rightarrow> 'v
   \<Rightarrow> ('w, 'f) FS \<Rightarrow> goerror + ('w, 'f) FS" where
  "WithDir dir attach_of opts v fs =
     (case compose_New opts v of
        Inl err \<Rightarrow> Inl err
      | Inr subfs \<Rightarrow> WithMount dir (attach_of subfs) fs)"

section \<open>The root directory\<close>

definition compose_Attach :: "('w, 'f) FS \<Rightarrow> ('f cfile option \<times> goerror option) \<times> ('w, 'f) FS" where
  "compose_Attach fs = ((Some Root, None), fs)"

definition compose_rootQID :: QID where
  "compose_rootQID = \<lparr>QID_Type = TypeDir, QID_Version = 0, QID_Path = 0\<rparr>"

text \<open>A method of a wrapped file, run on the state of the composed file system.\<close>

definition on_inner :: "('w \<times> qid_space \<Rightarrow> 'v \<times> 'w \<times> qid_space) \<Rightarrow> ('w, 'f) FS \<Rightarrow> 'v \<times> ('w, 'f) FS" where
  "on_inner g fs = (let (v, w, q) = g (inner fs, fs_qids fs) in (v, fs\<lparr>inner := w, fs_qids := q\<rparr>))"

definition root_Walk ::
  "('w, 'f, 'f cfile) files \<Rightarrow> string list \<Rightarrow> ('w, 'f) FS \<Rightarrow> (QID list \<times> 'f cfile option \<times> goerror option) \<times> ('w, 'f) FS" where
  "root_Walk F names fs =
     (case names of
        [] \<Rightarrow> (([], Some Root, None), fs)
      | name # rest \<Rightarrow>
          (case map_of (mounts fs) name of
             None \<Rightarrow> (([], None, Some (LinuxErrno ENOENT)), fs)
           | Some file \<Rightarrow>
               let ((qids, file, err), fs) = on_inner (f_Walk (qidTransform F) file rest) fs in
               case err of
                 Some e \<Rightarrow> (([], None, Some e), fs)
               | None \<Rightarrow>
                   if length names = 1 \<and> length qids = 0 then
                     (let ((qid, _, _, err), fs) = on_inner (f_GetAttr (qidTransform F) (the file) modeOnly) fs in
                      case err of
                        Some e \<Rightarrow> (([], None, Some e), fs)
                      | None \<Rightarrow> (([qid], map_option Mounted file, None), fs))
                   else ((qids, map_option Mounted file, None), fs)))"

definition root_Open :: "OpenFlags \<Rightarrow> QID \<times> uint32 \<times> goerror option" where
  "root_Open mode =
     (if OpenFlags_Mode mode \<noteq> ReadOnly then (QID_zero, 0, Some (LinuxErrno EACCES)) else (QID_zero, 0, None))"

text \<open>The loop of \<^verbatim>\<open>Readdir\<close> over the names of the mounts, which are all found.\<close>

fun mount_qids ::
  "('w, 'f, 'f cfile) files \<Rightarrow> string list \<Rightarrow> (string \<times> QID) list \<Rightarrow> ('w, 'f) FS \<Rightarrow> (goerror + (string \<times> QID) list) \<times> ('w, 'f) FS" where
  "mount_qids F [] qids fs = (Inr qids, fs)"
| "mount_qids F (name # names) qids fs =
     (case map_of (mounts fs) name of
        None \<Rightarrow> (Inr qids, fs)
      | Some file \<Rightarrow>
          let ((qid, _, _, err), fs) = on_inner (f_GetAttr (qidTransform F) file modeOnly) fs in
          case err of
            Some e \<Rightarrow> (Inl e, fs)
          | None \<Rightarrow> mount_qids F names (AList.update name qid qids) fs)"

definition root_Readdir ::
  "('w, 'f, 'f cfile) files \<Rightarrow> uint64 \<Rightarrow> uint32 \<Rightarrow> ('w, 'f) FS \<Rightarrow> (Dirent list \<times> goerror option) \<times> ('w, 'f) FS" where
  "root_Readdir F offset count fs =
     (let names = sort (map fst (mounts fs)) in
      case mount_qids F names [] fs of
        (Inl err, fs) \<Rightarrow> (([], Some err), fs)
      | (Inr qids, fs) \<Rightarrow> (readdir_Readdir offset count names qids, fs))"

definition root_StatFS :: "FSStat \<times> goerror option" where
  "root_StatFS = (FSStat_zero, Some (LinuxErrno ENOSYS))"

definition root_GetAttr :: "AttrMask \<Rightarrow> ('w, 'f) FS \<Rightarrow> QID \<times> AttrMask \<times> Attr \<times> goerror option" where
  "root_GetAttr req fs =
     (compose_rootQID, req,
      Attr_zero\<lparr>Attr_Mode := 0x1ff OR ModeDirectory, Attr_NLink := of_nat (1 + length (mounts fs)), Attr_BlockSize := 4096\<rparr>, None)"

section \<open>The file system\<close>

definition cfile_op ::
  "(('w, 'f) FS \<Rightarrow> 'v \<times> ('w, 'f) FS) \<Rightarrow> ('f qidTransformFile \<Rightarrow> 'w \<times> qid_space \<Rightarrow> 'v \<times> 'w \<times> qid_space)
   \<Rightarrow> 'f cfile \<Rightarrow> ('w, 'f) FS \<Rightarrow> 'v \<times> ('w, 'f) FS" where
  "cfile_op root mounted f fs = (case f of Root \<Rightarrow> root fs | Mounted q \<Rightarrow> on_inner (mounted q) fs)"

definition mounted_Walk where
  "mounted_Walk F q names ws = (let ((qids, file, err), ws) = f_Walk (qidTransform F) q names ws in ((qids, map_option Mounted file, err), ws))"

definition mounted_WalkGetAttr where
  "mounted_WalkGetAttr F q names ws =
     (let ((qids, file, msk, attr, err), ws) = f_WalkGetAttr (qidTransform F) q names ws
      in ((qids, map_option Mounted file, msk, attr, err), ws))"

definition mounted_Create where
  "mounted_Create F q name mode permissions uid gid ws =
     (let ((file, qid, iounit, err), ws) = f_Create (qidTransform F) q name mode permissions uid gid ws
      in ((map_option Mounted file, qid, iounit, err), ws))"

definition composefs :: "('w, 'f, 'f cfile) files \<Rightarrow> (('w, 'f) FS, 'f cfile, 'f cfile) files" where
  "composefs F = \<lparr>
     f_Walk = (\<lambda>f names. cfile_op (root_Walk F names) (\<lambda>q. mounted_Walk F q names) f),
     f_WalkGetAttr = (\<lambda>f names. cfile_op (DefaultWalkGetAttr_files f names) (\<lambda>q. mounted_WalkGetAttr F q names) f),
     f_StatFS = cfile_op (Pair root_StatFS) (f_StatFS (qidTransform F)),
     f_GetAttr = (\<lambda>f req. cfile_op (\<lambda>fs. (root_GetAttr req fs, fs)) (\<lambda>q. f_GetAttr (qidTransform F) q req) f),
     f_SetAttr = (\<lambda>f valid attr. cfile_op (Pair (ReadOnlyDir_SetAttr valid attr)) (\<lambda>q. f_SetAttr (qidTransform F) q valid attr) f),
     f_Close = cfile_op (Pair NilCloser_Close) (f_Close (qidTransform F)),
     f_Open = (\<lambda>f mode. cfile_op (Pair (root_Open mode)) (\<lambda>q. f_Open (qidTransform F) q mode) f),
     f_ReadAt = (\<lambda>f p off. cfile_op (Pair (IsDir_ReadAt p off)) (\<lambda>q. f_ReadAt (qidTransform F) q p off) f),
     f_WriteAt = (\<lambda>f p off. cfile_op (Pair (IsDir_WriteAt p off)) (\<lambda>q. f_WriteAt (qidTransform F) q p off) f),
     f_SetXattr = (\<lambda>f attr dat flags. cfile_op (Pair (XattrUnimplemented_SetXattr attr dat flags))
       (\<lambda>q. f_SetXattr (qidTransform F) q attr dat flags) f),
     f_GetXattr = (\<lambda>f attr. cfile_op (Pair (XattrUnimplemented_GetXattr attr)) (\<lambda>q. f_GetXattr (qidTransform F) q attr) f),
     f_ListXattrs = cfile_op (Pair XattrUnimplemented_ListXattrs) (f_ListXattrs (qidTransform F)),
     f_RemoveXattr = (\<lambda>f attr. cfile_op (Pair (XattrUnimplemented_RemoveXattr attr)) (\<lambda>q. f_RemoveXattr (qidTransform F) q attr) f),
     f_FSync = cfile_op (Pair ReadOnlyDir_FSync) (f_FSync (qidTransform F)),
     f_Lock = (\<lambda>f pid ty fl st len c. cfile_op (Pair (NotLockable_Lock pid ty fl st len c))
       (\<lambda>q. f_Lock (qidTransform F) q pid ty fl st len c) f),
     f_Create = (\<lambda>f name mode p u g. cfile_op (Pair (ReadOnlyDir_Create name mode p u g)) (\<lambda>q. mounted_Create F q name mode p u g) f),
     f_Mkdir = (\<lambda>f name p u g. cfile_op (Pair (ReadOnlyDir_Mkdir name p u g)) (\<lambda>q. f_Mkdir (qidTransform F) q name p u g) f),
     f_Symlink = (\<lambda>f old new u g. cfile_op (Pair (ReadOnlyDir_Symlink old new u g)) (\<lambda>q. f_Symlink (qidTransform F) q old new u g) f),
     f_Link = (\<lambda>f target new. cfile_op (Pair (ReadOnlyDir_Link target new)) (\<lambda>q. f_Link (qidTransform F) q target new) f),
     f_Mknod = (\<lambda>f name mode ma mi u g. cfile_op (Pair (ReadOnlyDir_Mknod name mode ma mi u g))
       (\<lambda>q. f_Mknod (qidTransform F) q name mode ma mi u g) f),
     f_RenameAt = (\<lambda>f old t new. cfile_op (Pair (ReadOnlyDir_RenameAt old t new)) (\<lambda>q. f_RenameAt (qidTransform F) q old t new) f),
     f_UnlinkAt = (\<lambda>f name flags. cfile_op (Pair (ReadOnlyDir_UnlinkAt name flags)) (\<lambda>q. f_UnlinkAt (qidTransform F) q name flags) f),
     f_Readdir = (\<lambda>f off count. cfile_op (root_Readdir F off count) (\<lambda>q. f_Readdir (qidTransform F) q off count) f),
     f_Readlink = cfile_op (Pair NotSymlinkFile_Readlink) (f_Readlink (qidTransform F)),
     f_Renamed = (\<lambda>f t n fs. snd (cfile_op (\<lambda>fs. ((), NoopRenamed_Renamed t n fs))
       (\<lambda>q ws. ((), f_Renamed (qidTransform F) q t n ws)) f fs))\<rparr>"

abbreviation composeFS :: "('w, 'f, 'f cfile) files \<Rightarrow> (('w, 'f) FS, 'f cfile) backend" where
  "composeFS F \<equiv> backend_of compose_Attach (composefs F)"

end
