(* ===== verification/P9_StaticProps.thy ===== *)
theory P9_StaticProps
  imports P9_Staticfs P9_FileCalls
begin

text \<open>
  The static file system: what \<^verbatim>\<open>New\<close> builds, that no request changes it, and what clients read.
\<close>

section \<open>Construction\<close>

lemma apply_options_append:
  "apply_options (xs @ ys) a = (case apply_options xs a of Inl e \<Rightarrow> Inl e | Inr a \<Rightarrow> apply_options ys a)"
  by (induction xs arbitrary: a) (auto split: sum.splits)

text \<open>The file system with the given files: one mapper per file, in which path 0 has the next number.\<close>

definition static_of :: "(string \<times> string) list \<Rightarrow> attacher" where
  "static_of fs = \<lparr>
     sf_files = map (\<lambda>(i, n, c). (n, c, i)) (enumerate 0 fs),
     sf_qids = map (\<lambda>(i, n, c). (n, file_qid\<lparr>QID_Path := of_nat i + 1\<rparr>)) (enumerate 0 fs),
     sf_paths = \<lparr>uids = of_nat (length fs), mappers = map (\<lambda>i. [(0, of_nat i + 1)]) [0..<length fs]\<rparr>\<rparr>"

definition acceptable :: "(string \<times> string) list \<Rightarrow> bool" where
  "acceptable fs \<longleftrightarrow> distinct (map fst fs) \<and> (\<forall>n \<in> set (map fst fs). CHR ''/'' \<notin> set n)"

lemma static_keys: "map fst (sf_files (static_of fs)) = map fst fs" "map fst (sf_qids (static_of fs)) = map fst fs"
  by (rule nth_equalityI; simp add: static_of_def nth_enumerate_eq split: prod.split)+

lemma map_of_static: "fst ` set (sf_files (static_of fs)) = fst ` set fs" "fst ` set (sf_qids (static_of fs)) = fst ` set fs"
  using static_keys [of fs] by (metis list.set_map)+

lemma update_fresh: "k \<notin> fst ` set al \<Longrightarrow> AList.update k v al = al @ [(k, v)]"
  by (induction al) auto

lemma static_WithFile:
  assumes "CHR ''/'' \<notin> set n" and "n \<notin> fst ` set fs"
  shows "WithFile n c (static_of fs) = Inr (static_of (fs @ [(n, c)]))"
proof -
  have "map_of (sf_files (static_of fs)) n = None" using assms(2) map_of_static(1) [of fs] by (simp add: map_of_eq_None_iff)
  with assms map_of_static [of fs] show ?thesis
    by (simp add: WithFile_def NewMapper_def NewWrapperFile_def ReadOnlyFile_def qidTransform_def qt_GetAttr_def
        static_files_def file_GetAttr_def QIDFor_def NewPath_def Let_def update_fresh)
      (simp add: static_of_def file_qid_def enumerate_append_eq nth_append list_update_append)
qed

lemma static_New: "acceptable fs \<Longrightarrow> staticfs_New (map (\<lambda>(n, c). WithFile n c) fs) = Inr (static_of fs)"
proof (induction fs rule: rev_induct)
  case Nil
  show ?case by (simp add: staticfs_New_def static_of_def PathGenerator_def)
next
  case (snoc f fs)
  then show ?case
    by (cases f) (auto simp: staticfs_New_def acceptable_def apply_options_append static_WithFile)
qed

section \<open>Nothing changes it\<close>

text \<open>
  The handles of a static file system are its directory and its files. When the mapper of every
  file knows path 0, the path of every QID a file returns, no operation changes anything.
\<close>

definition sfile_ok :: "attacher \<Rightarrow> sfile \<Rightarrow> bool" where
  "sfile_ok a f \<longleftrightarrow> f = Dir \<or> (\<exists>n q. f = Reg q \<and> (n, q) \<in> set (sf_files a))"

definition mapped :: "attacher \<Rightarrow> bool" where
  "mapped a \<longleftrightarrow> (\<forall>(n, c, m) \<in> set (sf_files a). map_of (mappers (sf_paths a) ! m) 0 \<noteq> None)"

lemma mapped_static_of: "mapped (static_of fs)"
  by (auto simp: mapped_def static_of_def in_set_enumerate_eq)

lemma QIDFor_mapped:
  "mapped a \<Longrightarrow> (n, c, m) \<in> set (sf_files a) \<Longrightarrow> QID_Path q = 0 \<Longrightarrow> snd (QIDFor m q (sf_paths a)) = sf_paths a"
  by (fastforce simp: mapped_def QIDFor_def)

lemmas reg_defs = on_paths_def qidTransform_def embedded_def static_files_def Let_def
  qt_Walk_def qt_WalkGetAttr_def qt_GetAttr_def qt_Open_def qt_Create_def qt_Mkdir_def qt_Symlink_def qt_Mknod_def qt_Readdir_def
  reg_Walk_def reg_WalkGetAttr_def reg_Create_def as_reg_def wrapped_def
  file_Walk_def file_Open_def file_GetAttr_def file_qid_def QID_zero_def read_only_file_defs

lemma sf_paths_same [simp]: "a\<lparr>sf_paths := sf_paths a\<rparr> = a"
  by (cases a) simp

lemma on_paths_unchanged: "snd (snd (g ((), sf_paths a))) = sf_paths a \<Longrightarrow> on_paths g a = (fst (g ((), sf_paths a)), a)"
  by (cases "g ((), sf_paths a)") (auto simp: on_paths_def)

text \<open>An operation that does not change the generator for the files of \<open>a\<close> meets the contract.\<close>

definition steady :: "attacher \<Rightarrow> (static_file qidTransformFile \<Rightarrow> unit \<times> qid_space \<Rightarrow> 'v \<times> unit \<times> qid_space) \<Rightarrow> bool" where
  "steady a reg \<longleftrightarrow> (mapped a \<longrightarrow> (\<forall>(n, q) \<in> set (sf_files a). snd (snd (reg q ((), sf_paths a))) = sf_paths a))"

lemma static_op:
  assumes "steady a reg" and "mapped a" and "sfile_ok a f"
  obtains "sfile_op dir reg f a = (dir a, a)"
  | n q where "(n, q) \<in> set (sf_files a)" "sfile_op dir reg f a = (fst (reg q ((), sf_paths a)), a)"
proof (cases f)
  case (Reg q)
  then obtain n where n: "(n, q) \<in> set (sf_files a)" using assms(3) by (auto simp: sfile_ok_def)
  then have "on_paths (reg q) a = (fst (reg q ((), sf_paths a)), a)"
    using assms(1,2) by (intro on_paths_unchanged) (auto simp: steady_def)
  with n Reg that(2) show thesis by (simp add: sfile_op_def)
qed (use that(1) in \<open>simp add: sfile_op_def\<close>)

lemma static_ok_call:
  assumes "steady a reg" and "\<And>h. h \<in> set (out (k (dir a))) \<Longrightarrow> sfile_ok a h"
    and "\<And>n q h. (n, q) \<in> set (sf_files a) \<Longrightarrow> h \<in> set (out (k (fst (reg q ((), sf_paths a))))) \<Longrightarrow> sfile_ok a h"
  shows "ok_call (\<lambda>w. w = a \<and> mapped a) sfile_ok (f # fs) out (\<lambda>w. (k (fst (sfile_op dir reg f w)), snd (sfile_op dir reg f w)))"
  unfolding ok_call_def
proof (intro allI impI)
  fix w r w'
  assume w: "w = a \<and> mapped a" "\<forall>g \<in> set (f # fs). sfile_ok w g"
    and op: "(k (fst (sfile_op dir reg f w)), snd (sfile_op dir reg f w)) = (r, w')"
  from w have a: "mapped a" "sfile_ok a f" by auto
  show "(w' = a \<and> mapped a) \<and> (\<forall>f. sfile_ok w f \<longrightarrow> sfile_ok w' f) \<and> (\<forall>f \<in> set (out r). sfile_ok w' f)"
    using w op a assms(2,3) by (cases rule: static_op [OF assms(1) a, of dir]) auto
qed

lemma static_ok_call_no_file:
  assumes "steady a reg"
  shows "ok_call (\<lambda>w. w = a \<and> mapped a) sfile_ok (f # fs) no_file (sfile_op dir reg f)"
    and "ok_call (\<lambda>w. w = a \<and> mapped a) sfile_ok (f # fs) no_file (\<lambda>w. (h w, snd (sfile_op dir reg f w)))"
proof -
  show ok: "ok_call (\<lambda>w. w = a \<and> mapped a) sfile_ok (f # fs) no_file (sfile_op dir reg f)"
    using static_ok_call [OF assms, where out = no_file and k = "\<lambda>v. v" and dir = dir and f = f and fs = fs]
    by (simp add: no_file_def)
  show "ok_call (\<lambda>w. w = a \<and> mapped a) sfile_ok (f # fs) no_file (\<lambda>w. (h w, snd (sfile_op dir reg f w)))"
    by (rule ok_call_result [OF ok])
qed

lemma steady_embedded: "steady a (\<lambda>q. embedded (g q))"
  by (simp add: steady_def embedded_def case_prod_unfold Let_def)

lemma steady_qt:
  "steady a (\<lambda>q. qt_GetAttr static_files q req)" "steady a (\<lambda>q. qt_Open static_files q mode)"
  "steady a (\<lambda>q. qt_Mkdir static_files q name perm uid gid)" "steady a (\<lambda>q. qt_Symlink static_files q old name uid gid)"
  "steady a (\<lambda>q. qt_Mknod static_files q name mode major minor uid gid)" "steady a (\<lambda>q. qt_Readdir static_files q off count)"
  by (auto simp: steady_def reg_defs QIDFor_mapped case_prod_unfold)

lemma steady_reg:
  "steady a (\<lambda>q. reg_Walk q ns)" "steady a (\<lambda>q. reg_WalkGetAttr q ns)" "steady a (\<lambda>q. reg_Create q name mode perm uid gid)"
  by (auto simp: steady_def reg_defs QIDFor_mapped case_prod_unfold)

lemmas returned_defs = walked_def walked_attr_def created_def attached_def

lemma dir_Walk_ok: "dir_Walk ns a = (qs, g, None) \<Longrightarrow> sfile_ok a (the g)"
  by (auto simp: sfile_ok_def elim!: dir_Walk.elims split: option.splits dest!: map_of_SomeD)

lemma static_returns_files:
  "ok_call (\<lambda>w. w = a \<and> mapped a) sfile_ok [f] walked (Walk staticFS f ns)"
  "ok_call (\<lambda>w. w = a \<and> mapped a) sfile_ok [f] walked_attr (WalkGetAttr staticFS f ns)"
  "ok_call (\<lambda>w. w = a \<and> mapped a) sfile_ok [f] created (Create staticFS f name mode perm uid gid)"
  "ok_call (\<lambda>w. w = a \<and> mapped a) sfile_ok [] attached (Attach staticFS)"
proof -
  have walk_dir: "sfile_ok a h" if "h \<in> set (walked (or_error (snd (snd v)) (fst v, the (fst (snd v)))))" "v = dir_Walk ns a" for h v
    using dir_Walk_ok [of ns a "fst v" "fst (snd v)"] that(1) unfolding that(2) by (cases "snd (snd (dir_Walk ns a))") (auto simp: walked_def prod_eq_iff)
  show "ok_call (\<lambda>w. w = a \<and> mapped a) sfile_ok [f] walked (Walk staticFS f ns)"
    by (simp add: backend_of_def staticfs_def case_prod_unfold Let_def)
     (rule static_ok_call [where k = "\<lambda>v. or_error (snd (snd v)) (fst v, the (fst (snd v)))", OF steady_reg(1) walk_dir [OF _ refl]],
      auto simp: reg_defs sfile_ok_def returned_defs case_prod_unfold split: if_splits)
  show "ok_call (\<lambda>w. w = a \<and> mapped a) sfile_ok [f] walked_attr (WalkGetAttr staticFS f ns)"
    by (simp add: backend_of_def staticfs_def case_prod_unfold Let_def)
     (intro static_ok_call [where k = "\<lambda>v. or_error (snd (snd (snd (snd v)))) (fst v, the (fst (snd v)), fst (snd (snd v)), fst (snd (snd (snd v))))"] steady_reg;
      auto simp: reg_defs returned_defs case_prod_unfold)
  show "ok_call (\<lambda>w. w = a \<and> mapped a) sfile_ok [f] created (Create staticFS f name mode perm uid gid)"
    by (simp add: backend_of_def staticfs_def case_prod_unfold Let_def)
     (intro static_ok_call [where k = "\<lambda>v. or_error (snd (snd (snd v))) (the (fst v), fst (snd v), fst (snd (snd v)))"] steady_reg;
      auto simp: reg_defs read_only_dir_defs returned_defs case_prod_unfold)
  show "ok_call (\<lambda>w. w = a \<and> mapped a) sfile_ok [] attached (Attach staticFS)"
    by (simp add: backend_of_def static_Attach_def ok_call_def attached_def sfile_ok_def)
qed

lemmas static_no_file = static_ok_call_no_file [OF steady_embedded] static_ok_call_no_file [OF steady_qt(1)]
  static_ok_call_no_file [OF steady_qt(2)] static_ok_call_no_file [OF steady_qt(3)] static_ok_call_no_file [OF steady_qt(4)]
  static_ok_call_no_file [OF steady_qt(5)] static_ok_call_no_file [OF steady_qt(6)]

interpretation static: file_system staticFS "\<lambda>w. w = a \<and> mapped a" sfile_ok for a
proof unfold_locales
  show "ok_call (\<lambda>w. w = a \<and> mapped a) sfile_ok [f, g] no_file (\<lambda>w. ((), Renamed staticFS f g name w))" for f g name
    by (simp add: backend_of_def staticfs_def NoopRenamed_Renamed_def ok_call_def no_file_def)
qed (rule static_returns_files |
  (simp add: backend_of_def staticfs_def qidTransform_def case_prod_unfold Let_def, rule static_no_file))+

text \<open>C20: A static file system is read-only: whatever requests a server of one handles, from its first
  state and with any arguments, the file system is as \<^verbatim>\<open>New\<close> built it, and every reference of the server
  is to its directory or to one of the files it was built from.\<close>

theorem staticfs_never_changes:
  assumes "acceptable fs" and "staticfs_New (map (\<lambda>(n, c). WithFile n c) fs) = Inr a"
    and "serves (handle staticFS) (\<lambda>_. True) (NewServer a) l s"
  shows "world s = a \<and> (\<forall>x \<in> set (refHeap s). ref_file x = Dir \<or> (\<exists>n c m. ref_file x = Reg (c, m) \<and> (n, c) \<in> set fs))"
proof -
  have a: "a = static_of fs" using assms(1,2) static_New [of fs] by simp
  then have "static.good a s"
    using mapped_static_of by (intro static.keeps_good [OF static.serves_keeps [OF assms(3)]] static.good_NewServer) simp
  moreover have "(n, c) \<in> set fs" if "(n, c, m) \<in> set (sf_files a)" for n c m
    using that by (auto simp: a static_of_def in_set_enumerate_eq) (metis nth_mem)
  ultimately show ?thesis by (fastforce simp: static.good_def sfile_ok_def)
qed

section \<open>What clients read\<close>

fun replies :: "('w, 'f) backend \<Rightarrow> message list \<Rightarrow> ('w, 'f) srv \<Rightarrow> (message list \<times> ('w, 'f) srv) option" where
  "replies B [] s = Some ([], s)"
| "replies B (m # ms) s = do {
     (r, s) \<leftarrow> handle B m s;
     (rs, s) \<leftarrow> replies B ms s;
     Some (r # rs, s) }"

definition read_session :: "string \<Rightarrow> uint32 \<Rightarrow> uint64 \<Rightarrow> uint32 \<Rightarrow> message list" where
  "read_session name msize off count =
     [Tversion \<lparr>tversion_MSize = msize, tversion_Version = ''9P2000.L''\<rparr>,
      Tattach \<lparr>tattach_fid = 0, tattach_Auth = \<lparr>tauth_Authenticationfid = noFID, tauth_UserName = [],
        tauth_AttachName = [], tauth_UID = 0\<rparr>\<rparr>,
      Twalk \<lparr>twalk_fid = 0, twalk_newFID = 1, twalk_Names = [name]\<rparr>,
      Tlopen \<lparr>tlopen_fid = 1, tlopen_Flags = ReadOnly\<rparr>,
      Tread \<lparr>tread_fid = 1, tread_Offset = off, tread_Count = count\<rparr>]"

lemma version_step:
  assumes "0 < msize" and "msize \<le> maximumLength"
  shows "handle B (Tversion \<lparr>tversion_MSize = msize, tversion_Version = ''9P2000.L''\<rparr>) s =
    Some (Rversion \<lparr>rversion_MSize = msize, rversion_Version = ''9P2000.L''\<rparr>,
      s\<lparr>messageSize := msize, cs_version := 0, cs_baseVersion := ''9P2000.L'', readBufPool := Some msize\<rparr>)"
proof -
  have "parseVersion ''9P2000.L'' = Some (''9P2000.L'', 0)" by code_simp
  moreover have "versionString ''9P2000.L'' 0 = ''9P2000.L''" by code_simp
  moreover have "msize \<noteq> 0" "\<not> maximumLength < msize" using assms by auto
  ultimately show ?thesis
    by (simp add: handle_def tversion_handle_def Let_def version9P2000L_def version9P2000_def version9P2000U_def)
qed

text \<open>The first reference of a server is the root.\<close>

definition root_ref :: "sfile fidRef" where
  "root_ref = \<lparr>ref_file = Dir, ref_xattr = noXattr, refs = 1, opened = False, ref_mode = ModeDirectory,
     openFlags = 0, ref_node = 0, ref_parent = None\<rparr>"

lemmas handler_defs = handle_def Let_def call_def backend_of_def staticfs_def sfile_op_def
  allocRef_def InsertFID_def IncRef_def getRef_def setRef_def getNode_def setNode_def isDeleted_def withFID_def LookupFID_def

lemma attach_step:
  assumes "refHeap s = []" and "nodeHeap s = [newPathNode]" and "fids s = []"
  shows "handle staticFS (Tattach \<lparr>tattach_fid = 0, tattach_Auth = \<lparr>tauth_Authenticationfid = noFID, tauth_UserName = [],
        tauth_AttachName = [], tauth_UID = 0\<rparr>\<rparr>) s =
    Some (Rattach \<lparr>rattach_QID = rootQID\<rparr>, s\<lparr>fids := [(0, 0)], refHeap := [root_ref]\<rparr>)"
proof -
  have "(ModeDirectory OR 438) AND FileModeMask = ModeDirectory" by (simp add: ModeDirectory_def FileModeMask_def)
  with assms show ?thesis
    by (simp add: handler_defs tattach_handle_def static_Attach_def dir_GetAttr_def trimAbs_def tattach_walk_def DecRef.simps)
      (simp add: AttrMaskAll_def root_ref_def FileType_def pathTree_def)
qed

definition file_ref :: "static_file qidTransformFile \<Rightarrow> sfile fidRef" where
  "file_ref q = \<lparr>ref_file = Reg q, ref_xattr = noXattr, refs = 1, opened = False, ref_mode = ModeRegular,
     openFlags = 0, ref_node = 1, ref_parent = Some 0\<rparr>"

lemma walk_step:
  assumes "refHeap s = [root_ref]" and "nodeHeap s = [newPathNode]" and "fids s = [(0, 0)]" and "world s = a"
    and "map_of (sf_files a) name = Some (c, m)" and "map_of (mappers (sf_paths a) ! m) 0 = Some p" and "safe name"
  shows "handle staticFS (Twalk \<lparr>twalk_fid = 0, twalk_newFID = 1, twalk_Names = [name]\<rparr>) s =
    Some (Rwalk \<lparr>rwalk_QIDs = [qid_at (sf_qids a) name]\<rparr>,
      s\<lparr>fids := [(0, 0), (1, 1)], refHeap := [root_ref\<lparr>refs := 2\<rparr>, file_ref (c, m)],
        nodeHeap := [\<lparr>deleted = False, childNodes = [(name, 1)], childRefs = [(name, [1])], childRefNames = [(1, name)]\<rparr>, newPathNode]\<rparr>)"
proof -
  have "(ModeRegular OR 438) AND FileModeMask = ModeRegular" by (simp add: ModeRegular_def FileModeMask_def)
  moreover have "IsDir ModeDirectory" by (simp add: IsDir_def ModeDirectory_def FileModeMask_def)
  ultimately show ?thesis using assms
    by (simp add: handler_defs twalk_handle_def walk_handle_def walk_install_def doWalk_def root_ref_def newPathNode_def
      walkStep_def walkOne_def DefaultWalkGetAttr_files_def reg_defs QIDFor_def pathNodeFor_def allocNode_def addChild_def
      addChildLocked_def DecRef.simps)
     (cases s, simp add: file_ref_def FileType_def)
qed

lemma open_step:
  assumes "refHeap s = [r, file_ref (c, m)]" and "nodeHeap s = [n, newPathNode]" and "fids s = [(0, 0), (1, 1)]" and "world s = a"
    and "map_of (mappers (sf_paths a) ! m) 0 = Some p"
  shows "handle staticFS (Tlopen \<lparr>tlopen_fid = 1, tlopen_Flags = ReadOnly\<rparr>) s =
    Some (Rlopen \<lparr>rlopen_QID = file_qid\<lparr>QID_Path := p\<rparr>, rlopen_IoUnit = 4096\<rparr>,
      s\<lparr>refHeap := [r, (file_ref (c, m))\<lparr>opened := True, openFlags := ReadOnly\<rparr>]\<rparr>)"
proof -
  have "CanOpen ModeRegular" "\<not> IsDir ModeRegular"
    by (simp_all add: CanOpen_def IsRegular_def IsDir_def ModeRegular_def ModeDirectory_def FileModeMask_def)
  with assms show ?thesis
    by (simp add: handler_defs tlopen_handle_def file_ref_def newPathNode_def reg_defs QIDFor_def DecRef.simps
        ReadOnly_def OpenFlags_Mode_def)
qed

lemma read_step:
  assumes "refHeap s = [r, (file_ref (c, m))\<lparr>opened := True, openFlags := ReadOnly\<rparr>]" and "fids s = [(0, 0), (1, 1)]"
    and "world s = a" and "readBufPool s = Some msize" and "count \<le> msize" and "msize \<le> maximumLength" and "0 \<le>s off"
  shows "handle staticFS (Tread \<lparr>tread_fid = 1, tread_Offset = off, tread_Count = count\<rparr>) s =
    Some (Rread \<lparr>rread_Data = map byte_of_char (take (unat count) (drop (unat off) c))\<rparr>, s)"
proof -
  have "openFlags (file_ref q\<lparr>openFlags := ReadOnly\<rparr>) AND OpenFlagsModeMask \<noteq> WriteOnly" for q
    by (simp add: ReadOnly_def WriteOnly_def)
  moreover have "\<not> maximumLength < count" "\<not> msize < count" "\<not> off <s 0" using assms(5,6,7) by (auto simp: word_sle_eq word_sless_alt)
  ultimately show ?thesis using assms
    by (simp add: handler_defs tread_handle_def tread_data_def file_ref_def noXattr_def reg_defs strings_ReadAt_def DecRef.simps)
qed

lemma static_lookup:
  assumes "acceptable fs" and "i < length fs" and "fs ! i = (name, c)"
  shows "map_of (sf_files (static_of fs)) name = Some (c, i)"
    and "qid_at (sf_qids (static_of fs)) name = file_qid\<lparr>QID_Path := of_nat i + 1\<rparr>"
    and "map_of (mappers (sf_paths (static_of fs)) ! i) 0 = Some (of_nat i + 1)"
proof -
  have d: "distinct (map fst fs)" using assms(1) by (simp add: acceptable_def)
  have e: "(i, name, c) \<in> set (enumerate 0 fs)" using assms(2,3) by (simp add: in_set_enumerate_eq)
  have "(name, c, i) \<in> set (sf_files (static_of fs))" "(name, file_qid\<lparr>QID_Path := of_nat i + 1\<rparr>) \<in> set (sf_qids (static_of fs))"
    using imageI [OF e, of "\<lambda>(i, n, c). (n, c, i)"] imageI [OF e, of "\<lambda>(i, n, c). (n, file_qid\<lparr>QID_Path := of_nat i + 1\<rparr>)"]
    by (simp_all add: static_of_def)
  note mem = this
  show "map_of (sf_files (static_of fs)) name = Some (c, i)"
    using d mem(1) static_keys(1) [of fs] by (intro map_of_is_SomeI) simp_all
  have "map_of (sf_qids (static_of fs)) name = Some (file_qid\<lparr>QID_Path := of_nat i + 1\<rparr>)"
    using d mem(2) static_keys(2) [of fs] by (intro map_of_is_SomeI) simp_all
  then show "qid_at (sf_qids (static_of fs)) name = file_qid\<lparr>QID_Path := of_nat i + 1\<rparr>" by (simp add: qid_at_def)
  show "map_of (mappers (sf_paths (static_of fs)) ! i) 0 = Some (of_nat i + 1)" using assms(2) by (simp add: static_of_def)
qed

text \<open>C7: A client reads what the file system was built from. On a server of a static file system, the
  session that negotiates a message size, attaches, walks to a file, opens it and reads \<open>count\<close> bytes at
  \<open>off\<close> is answered with exactly those bytes of the file's content (fewer at the end of the file, none
  past it); the QIDs of walk and open agree and number the files in the order of the options.\<close>

theorem staticfs_serves_contents:
  assumes "acceptable fs" and "i < length fs" and "fs ! i = (name, content)" and "checkSafeName name = None"
    and "staticfs_New (map (\<lambda>(n, c). WithFile n c) fs) = Inr a"
    and "0 < msize" and "msize \<le> maximumLength" and "count \<le> msize" and "0 \<le>s off"
  shows "\<exists>s. replies staticFS (read_session name msize off count) (NewServer a) = Some (
     [Rversion \<lparr>rversion_MSize = msize, rversion_Version = ''9P2000.L''\<rparr>,
      Rattach \<lparr>rattach_QID = rootQID\<rparr>,
      Rwalk \<lparr>rwalk_QIDs = [file_qid\<lparr>QID_Path := of_nat i + 1\<rparr>]\<rparr>,
      Rlopen \<lparr>rlopen_QID = file_qid\<lparr>QID_Path := of_nat i + 1\<rparr>, rlopen_IoUnit = 4096\<rparr>,
      Rread \<lparr>rread_Data = map byte_of_char (take (unat count) (drop (unat off) content))\<rparr>], s)"
proof -
  have a: "a = static_of fs" using assms(1,5) static_New [of fs] by simp
  note look = static_lookup [OF assms(1-3), folded a]
  show ?thesis
    using version_step [OF assms(6,7), of staticFS "NewServer a"] look assms(4,7-9)
    by (simp add: read_session_def attach_step walk_step open_step read_step NewServer_def)
qed

theorem staticfs_serves_contents_witness:
  "\<exists>a s. staticfs_New [WithFile ''motd'' ''hello''] = Inr a \<and>
     map_option fst (replies staticFS (read_session ''motd'' 8192 1 3) (NewServer a)) = Some (
     [Rversion \<lparr>rversion_MSize = 8192, rversion_Version = ''9P2000.L''\<rparr>, Rattach \<lparr>rattach_QID = rootQID\<rparr>,
      Rwalk \<lparr>rwalk_QIDs = [file_qid\<lparr>QID_Path := 1\<rparr>]\<rparr>,
      Rlopen \<lparr>rlopen_QID = file_qid\<lparr>QID_Path := 1\<rparr>, rlopen_IoUnit = 4096\<rparr>,
      Rread \<lparr>rread_Data = map byte_of_char ''ell''\<rparr>])"
proof -
  have a: "staticfs_New [WithFile ''motd'' ''hello''] = Inr (static_of [(''motd'', ''hello'')])"
    using static_New [of "[(''motd'', ''hello'')]"] by (simp add: acceptable_def)
  have "(8192 :: uint32) \<le> maximumLength" by (simp add: maximumLength_def)
  then show ?thesis
    using staticfs_serves_contents [of "[(''motd'', ''hello'')]" 0 "''motd''" "''hello''" "static_of [(''motd'', ''hello'')]" 8192 3 1] a
    by (auto simp: acceptable_def checkSafeName_def word_sle_eq)
qed

theorem staticfs_never_changes_witness:
  "\<exists>a r s. staticfs_New [WithFile ''motd'' ''hello''] = Inr a \<and>
     handle staticFS (Tattach \<lparr>tattach_fid = 0, tattach_Auth = \<lparr>tauth_Authenticationfid = noFID, tauth_UserName = [],
        tauth_AttachName = [], tauth_UID = 0\<rparr>\<rparr>) (NewServer a) = Some (r, s) \<and> world s = a"
proof -
  let ?fs = "[(''motd'', ''hello'')]"
  have a: "staticfs_New [WithFile ''motd'' ''hello''] = Inr (static_of ?fs)"
    using static_New [of ?fs] by (simp add: acceptable_def)
  let ?m = "Tattach \<lparr>tattach_fid = 0, tattach_Auth = \<lparr>tauth_Authenticationfid = noFID, tauth_UserName = [],
        tauth_AttachName = [], tauth_UID = 0\<rparr>\<rparr>"
  obtain r s where h: "handle staticFS ?m (NewServer (static_of ?fs)) = Some (r, s)"
    by (simp add: attach_step NewServer_def)
  have "serves (handle staticFS) (\<lambda>_. True) (NewServer (static_of ?fs)) ([] @ [(?m, r)]) s"
    by (rule serves.more) (rule serves.none, rule TrueI, rule h)
  then have "world s = static_of ?fs" using staticfs_never_changes [of ?fs "static_of ?fs"] a by (simp add: acceptable_def)
  with a h show ?thesis by blast
qed

end
