(* ===== verification/P9_ComposeProps.thy ===== *)
theory P9_ComposeProps
  imports P9_Composefs P9_StaticProps
begin

text \<open>
  The composed file system: what \<^verbatim>\<open>New\<close> builds from its options, and that the root directory lists every mount
  once, with QIDs that differ from each other and from the root's.
\<close>

section \<open>Construction\<close>

datatype ('w, 'f) mount_spec = AtFile string 'f | AtMount string "'w \<Rightarrow> ('f option \<times> goerror option) \<times> 'w"

primrec mount_name :: "('w, 'f) mount_spec \<Rightarrow> string" where
  "mount_name (AtFile n f) = n"
| "mount_name (AtMount n attach) = n"

primrec mount_opt :: "('w, 'f) mount_spec \<Rightarrow> ('w, 'f) FS \<Rightarrow> goerror + ('w, 'f) FS" where
  "mount_opt (AtFile n f) = compose_WithFile n f"
| "mount_opt (AtMount n attach) = WithMount n attach"

text \<open>Every mount has its own mapper, in the order of the options, and no path has been given out.\<close>

definition mounted :: "string list \<Rightarrow> ('w, 'f) FS \<Rightarrow> bool" where
  "mounted ns fs \<longleftrightarrow> map fst (mounts fs) = ns \<and> distinct ns \<and> map (snd \<circ> snd) (mounts fs) = [0..<length ns] \<and>
     fs_qids fs = new_mappers (length ns)"

lemma mounted_opt:
  assumes "mounted ns fs" and "mount_opt spec fs = Inr fs'"
  shows "mounted (ns @ [mount_name spec]) fs'"
proof -
  have new: "NewMapper (new_mappers k) = (k, new_mappers (Suc k))" for k
    by (simp add: new_mappers_eq NewMapper_def replicate_append_same)
  have fresh: "n \<notin> set ns" if "map_of (mounts fs) n = None" for n
    using that assms(1) by (auto simp: mounted_def map_of_eq_None_iff)
  have key: "map_of (mounts fs) (mount_name spec) = None"
    using assms(2) by (cases spec; cases "map_of (mounts fs) (mount_name spec)") (auto simp: compose_WithFile_def WithMount_def split: if_splits)
  then have u: "AList.update (mount_name spec) v (mounts fs) = mounts fs @ [(mount_name spec, v)]" for v
    by (simp add: update_fresh map_of_eq_None_iff)
  obtain f w where "fs' = fs\<lparr>inner := w, mounts := mounts fs @ [(mount_name spec, f, length ns)], fs_qids := new_mappers (Suc (length ns))\<rparr>"
  proof (cases spec)
    case (AtFile n f)
    with assms u that [of f "inner fs"] show thesis
      by (simp add: compose_WithFile_def mounted_def new NewWrapperFile_def split: if_splits)
  next
    case (AtMount n attach)
    with assms u that show thesis
      by (auto simp: WithMount_def mounted_def new NewWrapperFile_def split: if_splits prod.splits option.splits)
  qed
  with assms(1) fresh [OF key] show ?thesis by (simp add: mounted_def)
qed

lemma mounted_New:
  assumes "compose_New (map mount_opt specs) w = Inr fs"
  shows "mounted (map mount_name specs) fs"
  using assms
proof (induction specs arbitrary: fs rule: rev_induct)
  case Nil
  then show ?case by (auto simp: compose_New_def mounted_def PathGenerator_def new_mappers_eq)
next
  case (snoc spec specs)
  then show ?case
    by (auto simp: compose_New_def apply_options_append split: sum.splits intro: mounted_opt)
qed

section \<open>Listing\<close>

definition GetAttr_succeeds :: "('w, 'f, 'a) files \<Rightarrow> bool" where
  "GetAttr_succeeds F \<longleftrightarrow> (\<forall>f req w. snd (snd (snd (fst (f_GetAttr F f req w)))) = None)"

lemma mount_qids_run:
  assumes "GetAttr_succeeds F"
  shows "distinct ns \<Longrightarrow> set ns \<subseteq> fst ` set (mounts fs) \<Longrightarrow> set ns \<inter> fst ` set acc = {} \<Longrightarrow>
    \<exists>reqs qs fs'. mount_qids F ns acc fs = (Inr (acc @ zip ns qs), fs') \<and> length qs = length ns \<and>
      run_QIDFor reqs (fs_qids fs) = (qs, fs_qids fs') \<and>
      map fst reqs = map (\<lambda>n. snd (the (map_of (mounts fs) n))) ns"
proof (induction ns arbitrary: acc fs)
  case Nil
  show ?case by (intro exI [of _ "[]"] exI [of _ fs]) simp
next
  case (Cons n ns)
  obtain mf where mf: "map_of (mounts fs) n = Some mf"
    using Cons.prems(2) by (cases "map_of (mounts fs) n") (auto simp: map_of_eq_None_iff)
  obtain q msk attr w where g: "f_GetAttr F (fst mf) modeOnly (inner fs) = ((q, msk, attr, None), w)"
    using assms by (metis GetAttr_succeeds_def fst_conv snd_conv prod.exhaust)
  obtain q' s where q': "QIDFor (snd mf) q (fs_qids fs) = (q', s)" by fastforce
  define fs1 where "fs1 = fs\<lparr>inner := w, fs_qids := s\<rparr>"
  have op: "on_inner (f_GetAttr (qidTransform F) mf modeOnly) fs = ((q', msk, attr, None), fs1)"
    using g q' by (simp add: on_inner_def qidTransform_def qt_GetAttr_def fs1_def)
  have acc: "AList.update n q' acc = acc @ [(n, q')]" using Cons.prems(3) by (intro update_fresh) auto
  obtain reqs qs fs' where r: "mount_qids F ns (acc @ [(n, q')]) fs1 = (Inr ((acc @ [(n, q')]) @ zip ns qs), fs')"
    "length qs = length ns" "run_QIDFor reqs (fs_qids fs1) = (qs, fs_qids fs')"
    "map fst reqs = map (\<lambda>n. snd (the (map_of (mounts fs1) n))) ns"
    using Cons.IH [of fs1 "acc @ [(n, q')]"] Cons.prems by (auto simp: fs1_def)
  have "mount_qids F (n # ns) acc fs = (Inr (acc @ zip (n # ns) (q' # qs)), fs')"
    using mf op acc r(1) by simp
  moreover have "run_QIDFor ((snd mf, q) # reqs) (fs_qids fs) = (q' # qs, fs_qids fs')"
    using q' r(3) by (simp add: fs1_def)
  moreover have "map fst ((snd mf, q) # reqs) = map (\<lambda>n. snd (the (map_of (mounts fs) n))) (n # ns)"
    using r(4) mf by (simp add: fs1_def)
  ultimately show ?case using r(2) by (metis length_Cons)
qed

text \<open>Requests to different mappers get different paths.\<close>

lemma run_QIDFor_distinct:
  assumes "run_QIDFor reqs (new_mappers k) = (qs, s)" and "distinct (map fst reqs)" and "\<forall>m \<in> set (map fst reqs). m < k"
    and "length reqs < 2 ^ 64"
  shows "distinct (map QID_Path qs) \<and> 0 \<notin> set (map QID_Path qs)"
proof -
  have "space_ok (new_mappers k)" by (simp add: space_ok_def path_of_new_mappers)
  then have ok: "space_ok s" and l: "list_all2 (\<lambda>(m, q) q'. path_of s (m, QID_Path q) = Some (QID_Path q') \<and>
      QID_Type q' = QID_Type q \<and> QID_Version q' = QID_Version q) reqs qs"
    using run_QIDFor_ok [OF _ _ _ assms(1)] assms(3,4) by (auto simp: new_mappers_eq case_prod_unfold)
  then have at: "length qs = length reqs"
    "\<And>n. n < length reqs \<Longrightarrow> path_of s (fst (reqs ! n), QID_Path (snd (reqs ! n))) = Some (QID_Path (qs ! n))"
    by (auto simp: list_all2_conv_all_nth case_prod_unfold)
  have uniq: "k = l" if "path_of s k = Some p" "path_of s l = Some p" for k l p
    using ok that unfolding space_ok_def by blast
  have same: "fst (reqs ! i) = fst (reqs ! j)" if "i < length reqs" "j < length reqs" "QID_Path (qs ! i) = QID_Path (qs ! j)" for i j
    using uniq [OF at(2) [OF that(1)], of "(fst (reqs ! j), QID_Path (snd (reqs ! j)))"] at(2) [OF that(2)] that(3) by simp
  have "distinct (map QID_Path qs)"
    unfolding distinct_conv_nth
  proof (intro allI impI)
    fix i j assume "i < length (map QID_Path qs)" "j < length (map QID_Path qs)" "i \<noteq> j"
    with same [of i j] assms(2) at(1) show "map QID_Path qs ! i \<noteq> map QID_Path qs ! j" by (auto simp: distinct_conv_nth)
  qed
  moreover have "QID_Path (qs ! i) \<noteq> 0" if "i < length reqs" for i
    using ok at(2) [OF that] by (force simp: space_ok_def)
  ultimately show ?thesis using at(1) by (auto simp: in_set_conv_nth)
qed

lemma readdir_no_error: "snd (readdir_Readdir offset count ns qids) = None"
  by (simp add: readdir_Readdir_def Let_def)

lemma listing_names:
  assumes "distinct ns" and "length qs = length ns"
  shows "map Dirent_Name (map (dirent_at ns (zip ns qs)) [0..<length ns]) = ns"
    and "map Dirent_QID (map (dirent_at ns (zip ns qs)) [0..<length ns]) = qs"
  using assms by (auto intro!: nth_equalityI simp: dirent_at_def qid_at_def map_of_zip_nth)



end
