(* ===== verification/P9_ErrnoTable.thy ===== *)
theory P9_ErrnoTable
  imports P9_Errno P9_Version
begin

text \<open>
  The rest of \<^verbatim>\<open>linux/errno.go\<close>: all error numbers, their texts, and the \<^verbatim>\<open>Error\<close> method.
\<close>

section \<open>Numbers\<close>

definition E2BIG :: Errno where "E2BIG = 0x7"
definition EADDRINUSE :: Errno where "EADDRINUSE = 0x62"
definition EADDRNOTAVAIL :: Errno where "EADDRNOTAVAIL = 0x63"
definition EADV :: Errno where "EADV = 0x44"
definition EAFNOSUPPORT :: Errno where "EAFNOSUPPORT = 0x61"
definition EALREADY :: Errno where "EALREADY = 0x72"
definition EBADE :: Errno where "EBADE = 0x34"
definition EBADFD :: Errno where "EBADFD = 0x4d"
definition EBADMSG :: Errno where "EBADMSG = 0x4a"
definition EBADR :: Errno where "EBADR = 0x35"
definition EBADRQC :: Errno where "EBADRQC = 0x38"
definition EBADSLT :: Errno where "EBADSLT = 0x39"
definition EBFONT :: Errno where "EBFONT = 0x3b"
definition ECANCELED :: Errno where "ECANCELED = 0x7d"
definition ECHILD :: Errno where "ECHILD = 0xa"
definition ECHRNG :: Errno where "ECHRNG = 0x2c"
definition ECOMM :: Errno where "ECOMM = 0x46"
definition ECONNABORTED :: Errno where "ECONNABORTED = 0x67"
definition ECONNREFUSED :: Errno where "ECONNREFUSED = 0x6f"
definition ECONNRESET :: Errno where "ECONNRESET = 0x68"
definition EDEADLK :: Errno where "EDEADLK = 0x23"
definition EDEADLOCK :: Errno where "EDEADLOCK = 0x23"
definition EDESTADDRREQ :: Errno where "EDESTADDRREQ = 0x59"
definition EDOM :: Errno where "EDOM = 0x21"
definition EDOTDOT :: Errno where "EDOTDOT = 0x49"
definition EDQUOT :: Errno where "EDQUOT = 0x7a"
definition EFBIG :: Errno where "EFBIG = 0x1b"
definition EHOSTDOWN :: Errno where "EHOSTDOWN = 0x70"
definition EHOSTUNREACH :: Errno where "EHOSTUNREACH = 0x71"
definition EHWPOISON :: Errno where "EHWPOISON = 0x85"
definition EIDRM :: Errno where "EIDRM = 0x2b"
definition EILSEQ :: Errno where "EILSEQ = 0x54"
definition EINPROGRESS :: Errno where "EINPROGRESS = 0x73"
definition EINTR :: Errno where "EINTR = 0x4"
definition EISCONN :: Errno where "EISCONN = 0x6a"
definition EISNAM :: Errno where "EISNAM = 0x78"
definition EKEYEXPIRED :: Errno where "EKEYEXPIRED = 0x7f"
definition EKEYREJECTED :: Errno where "EKEYREJECTED = 0x81"
definition EKEYREVOKED :: Errno where "EKEYREVOKED = 0x80"
definition EL2HLT :: Errno where "EL2HLT = 0x33"
definition EL2NSYNC :: Errno where "EL2NSYNC = 0x2d"
definition EL3HLT :: Errno where "EL3HLT = 0x2e"
definition EL3RST :: Errno where "EL3RST = 0x2f"
definition ELIBACC :: Errno where "ELIBACC = 0x4f"
definition ELIBBAD :: Errno where "ELIBBAD = 0x50"
definition ELIBEXEC :: Errno where "ELIBEXEC = 0x53"
definition ELIBMAX :: Errno where "ELIBMAX = 0x52"
definition ELIBSCN :: Errno where "ELIBSCN = 0x51"
definition ELNRNG :: Errno where "ELNRNG = 0x30"
definition ELOOP :: Errno where "ELOOP = 0x28"
definition EMEDIUMTYPE :: Errno where "EMEDIUMTYPE = 0x7c"
definition EMFILE :: Errno where "EMFILE = 0x18"
definition EMLINK :: Errno where "EMLINK = 0x1f"
definition EMSGSIZE :: Errno where "EMSGSIZE = 0x5a"
definition EMULTIHOP :: Errno where "EMULTIHOP = 0x48"
definition ENAMETOOLONG :: Errno where "ENAMETOOLONG = 0x24"
definition ENAVAIL :: Errno where "ENAVAIL = 0x77"
definition ENETDOWN :: Errno where "ENETDOWN = 0x64"
definition ENETRESET :: Errno where "ENETRESET = 0x66"
definition ENETUNREACH :: Errno where "ENETUNREACH = 0x65"
definition ENFILE :: Errno where "ENFILE = 0x17"
definition ENOANO :: Errno where "ENOANO = 0x37"
definition ENOCSI :: Errno where "ENOCSI = 0x32"
definition ENODEV :: Errno where "ENODEV = 0x13"
definition ENOEXEC :: Errno where "ENOEXEC = 0x8"
definition ENOKEY :: Errno where "ENOKEY = 0x7e"
definition ENOLCK :: Errno where "ENOLCK = 0x25"
definition ENOLINK :: Errno where "ENOLINK = 0x43"
definition ENOMEDIUM :: Errno where "ENOMEDIUM = 0x7b"
definition ENOMEM :: Errno where "ENOMEM = 0xc"
definition ENOMSG :: Errno where "ENOMSG = 0x2a"
definition ENONET :: Errno where "ENONET = 0x40"
definition ENOPKG :: Errno where "ENOPKG = 0x41"
definition ENOPROTOOPT :: Errno where "ENOPROTOOPT = 0x5c"
definition ENOSPC :: Errno where "ENOSPC = 0x1c"
definition ENOSR :: Errno where "ENOSR = 0x3f"
definition ENOSTR :: Errno where "ENOSTR = 0x3c"
definition ENOTBLK :: Errno where "ENOTBLK = 0xf"
definition ENOTCONN :: Errno where "ENOTCONN = 0x6b"
definition ENOTNAM :: Errno where "ENOTNAM = 0x76"
definition ENOTRECOVERABLE :: Errno where "ENOTRECOVERABLE = 0x83"
definition ENOTSOCK :: Errno where "ENOTSOCK = 0x58"
definition ENOTSUP :: Errno where "ENOTSUP = 0x5f"
definition ENOTTY :: Errno where "ENOTTY = 0x19"
definition ENOTUNIQ :: Errno where "ENOTUNIQ = 0x4c"
definition ENXIO :: Errno where "ENXIO = 0x6"
definition EOPNOTSUPP :: Errno where "EOPNOTSUPP = 0x5f"
definition EOVERFLOW :: Errno where "EOVERFLOW = 0x4b"
definition EOWNERDEAD :: Errno where "EOWNERDEAD = 0x82"
definition EPFNOSUPPORT :: Errno where "EPFNOSUPPORT = 0x60"
definition EPIPE :: Errno where "EPIPE = 0x20"
definition EPROTO :: Errno where "EPROTO = 0x47"
definition EPROTONOSUPPORT :: Errno where "EPROTONOSUPPORT = 0x5d"
definition EPROTOTYPE :: Errno where "EPROTOTYPE = 0x5b"
definition ERANGE :: Errno where "ERANGE = 0x22"
definition EREMCHG :: Errno where "EREMCHG = 0x4e"
definition EREMOTE :: Errno where "EREMOTE = 0x42"
definition EREMOTEIO :: Errno where "EREMOTEIO = 0x79"
definition ERESTART :: Errno where "ERESTART = 0x55"
definition ERFKILL :: Errno where "ERFKILL = 0x84"
definition ESHUTDOWN :: Errno where "ESHUTDOWN = 0x6c"
definition ESOCKTNOSUPPORT :: Errno where "ESOCKTNOSUPPORT = 0x5e"
definition ESPIPE :: Errno where "ESPIPE = 0x1d"
definition ESRCH :: Errno where "ESRCH = 0x3"
definition ESRMNT :: Errno where "ESRMNT = 0x45"
definition ESTALE :: Errno where "ESTALE = 0x74"
definition ESTRPIPE :: Errno where "ESTRPIPE = 0x56"
definition ETIME :: Errno where "ETIME = 0x3e"
definition ETIMEDOUT :: Errno where "ETIMEDOUT = 0x6e"
definition ETOOMANYREFS :: Errno where "ETOOMANYREFS = 0x6d"
definition ETXTBSY :: Errno where "ETXTBSY = 0x1a"
definition EUCLEAN :: Errno where "EUCLEAN = 0x75"
definition EUNATCH :: Errno where "EUNATCH = 0x31"
definition EUSERS :: Errno where "EUSERS = 0x57"
definition EWOULDBLOCK :: Errno where "EWOULDBLOCK = 0xb"
definition EXDEV :: Errno where "EXDEV = 0x12"
definition EXFULL :: Errno where "EXFULL = 0x36"

section \<open>Texts\<close>

text \<open>Indices without an entry hold the empty string.\<close>

definition errorTable :: "(nat \<times> string) list" where
  "errorTable = [
     (1, ''operation not permitted''),
     (2, ''no such file or directory''),
     (3, ''no such process''),
     (4, ''interrupted system call''),
     (5, ''input/output error''),
     (6, ''no such device or address''),
     (7, ''argument list too long''),
     (8, ''exec format error''),
     (9, ''bad file descriptor''),
     (10, ''no child processes''),
     (11, ''resource temporarily unavailable''),
     (12, ''cannot allocate memory''),
     (13, ''permission denied''),
     (14, ''bad address''),
     (15, ''block device required''),
     (16, ''device or resource busy''),
     (17, ''file exists''),
     (18, ''invalid cross-device link''),
     (19, ''no such device''),
     (20, ''not a directory''),
     (21, ''is a directory''),
     (22, ''invalid argument''),
     (23, ''too many open files in system''),
     (24, ''too many open files''),
     (25, ''inappropriate ioctl for device''),
     (26, ''text file busy''),
     (27, ''file too large''),
     (28, ''no space left on device''),
     (29, ''illegal seek''),
     (30, ''read-only file system''),
     (31, ''too many links''),
     (32, ''broken pipe''),
     (33, ''numerical argument out of domain''),
     (34, ''numerical result out of range''),
     (35, ''resource deadlock avoided''),
     (36, ''file name too long''),
     (37, ''no locks available''),
     (38, ''function not implemented''),
     (39, ''directory not empty''),
     (40, ''too many levels of symbolic links''),
     (42, ''no message of desired type''),
     (43, ''identifier removed''),
     (44, ''channel number out of range''),
     (45, ''level 2 not synchronized''),
     (46, ''level 3 halted''),
     (47, ''level 3 reset''),
     (48, ''link number out of range''),
     (49, ''protocol driver not attached''),
     (50, ''no CSI structure available''),
     (51, ''level 2 halted''),
     (52, ''invalid exchange''),
     (53, ''invalid request descriptor''),
     (54, ''exchange full''),
     (55, ''no anode''),
     (56, ''invalid request code''),
     (57, ''invalid slot''),
     (59, ''bad font file format''),
     (60, ''device not a stream''),
     (61, ''no data available''),
     (62, ''timer expired''),
     (63, ''out of streams resources''),
     (64, ''machine is not on the network''),
     (65, ''package not installed''),
     (66, ''object is remote''),
     (67, ''link has been severed''),
     (68, ''advertise error''),
     (69, ''srmount error''),
     (70, ''communication error on send''),
     (71, ''protocol error''),
     (72, ''multihop attempted''),
     (73, ''RFS specific error''),
     (74, ''bad message''),
     (75, ''value too large for defined data type''),
     (76, ''name not unique on network''),
     (77, ''file descriptor in bad state''),
     (78, ''remote address changed''),
     (79, ''can not access a needed shared library''),
     (80, ''accessing a corrupted shared library''),
     (81, ''.lib section in a.out corrupted''),
     (82, ''attempting to link in too many shared libraries''),
     (83, ''cannot exec a shared library directly''),
     (84, ''invalid or incomplete multibyte or wide character''),
     (85, ''interrupted system call should be restarted''),
     (86, ''streams pipe error''),
     (87, ''too many users''),
     (88, ''socket operation on non-socket''),
     (89, ''destination address required''),
     (90, ''message too long''),
     (91, ''protocol wrong type for socket''),
     (92, ''protocol not available''),
     (93, ''protocol not supported''),
     (94, ''socket type not supported''),
     (95, ''operation not supported''),
     (96, ''protocol family not supported''),
     (97, ''address family not supported by protocol''),
     (98, ''address already in use''),
     (99, ''cannot assign requested address''),
     (100, ''network is down''),
     (101, ''network is unreachable''),
     (102, ''network dropped connection on reset''),
     (103, ''software caused connection abort''),
     (104, ''connection reset by peer''),
     (105, ''no buffer space available''),
     (106, ''transport endpoint is already connected''),
     (107, ''transport endpoint is not connected''),
     (108, ''cannot send after transport endpoint shutdown''),
     (109, ''too many references: cannot splice''),
     (110, ''connection timed out''),
     (111, ''connection refused''),
     (112, ''host is down''),
     (113, ''no route to host''),
     (114, ''operation already in progress''),
     (115, ''operation now in progress''),
     (116, ''stale NFS file handle''),
     (117, ''structure needs cleaning''),
     (118, ''not a XENIX named type file''),
     (119, ''no XENIX semaphores available''),
     (120, ''is a named type file''),
     (121, ''remote I/O error''),
     (122, ''disk quota exceeded''),
     (123, ''no medium found''),
     (124, ''wrong medium type''),
     (125, ''operation canceled''),
     (126, ''required key not available''),
     (127, ''key has expired''),
     (128, ''key has been revoked''),
     (129, ''key was rejected by service''),
     (130, ''owner died''),
     (131, ''state not recoverable''),
     (132, ''operation not possible due to RF-kill'')]"

definition errorTable_len :: nat where
  "errorTable_len = 133"

definition format_int :: "int \<Rightarrow> string" where
  "format_int i = (if i < 0 then CHR ''-'' # decimal (nat (- i)) else decimal (nat i))"

definition Errno_Error :: "Errno \<Rightarrow> string" where
  "Errno_Error e =
     (if 0 \<le> sint e \<and> sint e < int errorTable_len then
        (case map_of errorTable (nat (sint e)) of
           Some s \<Rightarrow> if s \<noteq> [] then s else ''errno '' @ format_int (sint e)
         | None \<Rightarrow> ''errno '' @ format_int (sint e))
      else ''errno '' @ format_int (sint e))"

section \<open>Every number has a text\<close>

definition errnos :: "Errno list" where
  "errnos = [E2BIG, EACCES, EADDRINUSE, EADDRNOTAVAIL, EADV, EAFNOSUPPORT, EAGAIN, EALREADY, EBADE, EBADF,
     EBADFD, EBADMSG, EBADR, EBADRQC, EBADSLT, EBFONT, EBUSY, ECANCELED, ECHILD, ECHRNG,
     ECOMM, ECONNABORTED, ECONNREFUSED, ECONNRESET, EDEADLK, EDEADLOCK, EDESTADDRREQ, EDOM, EDOTDOT, EDQUOT,
     EEXIST, EFAULT, EFBIG, EHOSTDOWN, EHOSTUNREACH, EHWPOISON, EIDRM, EILSEQ, EINPROGRESS, EINTR,
     EINVAL, EIO, EISCONN, EISDIR, EISNAM, EKEYEXPIRED, EKEYREJECTED, EKEYREVOKED, EL2HLT, EL2NSYNC,
     EL3HLT, EL3RST, ELIBACC, ELIBBAD, ELIBEXEC, ELIBMAX, ELIBSCN, ELNRNG, ELOOP, EMEDIUMTYPE,
     EMFILE, EMLINK, EMSGSIZE, EMULTIHOP, ENAMETOOLONG, ENAVAIL, ENETDOWN, ENETRESET, ENETUNREACH, ENFILE,
     ENOANO, ENOBUFS, ENOCSI, ENODATA, ENODEV, ENOENT, ENOEXEC, ENOKEY, ENOLCK, ENOLINK,
     ENOMEDIUM, ENOMEM, ENOMSG, ENONET, ENOPKG, ENOPROTOOPT, ENOSPC, ENOSR, ENOSTR, ENOSYS,
     ENOTBLK, ENOTCONN, ENOTDIR, ENOTEMPTY, ENOTNAM, ENOTRECOVERABLE, ENOTSOCK, ENOTSUP, ENOTTY, ENOTUNIQ,
     ENXIO, EOPNOTSUPP, EOVERFLOW, EOWNERDEAD, EPERM, EPFNOSUPPORT, EPIPE, EPROTO, EPROTONOSUPPORT, EPROTOTYPE,
     ERANGE, EREMCHG, EREMOTE, EREMOTEIO, ERESTART, ERFKILL, EROFS, ESHUTDOWN, ESOCKTNOSUPPORT, ESPIPE,
     ESRCH, ESRMNT, ESTALE, ESTRPIPE, ETIME, ETIMEDOUT, ETOOMANYREFS, ETXTBSY, EUCLEAN, EUNATCH,
     EUSERS, EWOULDBLOCK, EXDEV, EXFULL]"

lemmas errno_defs = errnos_def E2BIG_def EACCES_def EADDRINUSE_def EADDRNOTAVAIL_def EADV_def EAFNOSUPPORT_def EAGAIN_def EALREADY_def
  EBADE_def EBADF_def EBADFD_def EBADMSG_def EBADR_def EBADRQC_def EBADSLT_def EBFONT_def
  EBUSY_def ECANCELED_def ECHILD_def ECHRNG_def ECOMM_def ECONNABORTED_def ECONNREFUSED_def ECONNRESET_def
  EDEADLK_def EDEADLOCK_def EDESTADDRREQ_def EDOM_def EDOTDOT_def EDQUOT_def EEXIST_def EFAULT_def
  EFBIG_def EHOSTDOWN_def EHOSTUNREACH_def EHWPOISON_def EIDRM_def EILSEQ_def EINPROGRESS_def EINTR_def
  EINVAL_def EIO_def EISCONN_def EISDIR_def EISNAM_def EKEYEXPIRED_def EKEYREJECTED_def EKEYREVOKED_def
  EL2HLT_def EL2NSYNC_def EL3HLT_def EL3RST_def ELIBACC_def ELIBBAD_def ELIBEXEC_def ELIBMAX_def
  ELIBSCN_def ELNRNG_def ELOOP_def EMEDIUMTYPE_def EMFILE_def EMLINK_def EMSGSIZE_def EMULTIHOP_def
  ENAMETOOLONG_def ENAVAIL_def ENETDOWN_def ENETRESET_def ENETUNREACH_def ENFILE_def ENOANO_def ENOBUFS_def
  ENOCSI_def ENODATA_def ENODEV_def ENOENT_def ENOEXEC_def ENOKEY_def ENOLCK_def ENOLINK_def
  ENOMEDIUM_def ENOMEM_def ENOMSG_def ENONET_def ENOPKG_def ENOPROTOOPT_def ENOSPC_def ENOSR_def
  ENOSTR_def ENOSYS_def ENOTBLK_def ENOTCONN_def ENOTDIR_def ENOTEMPTY_def ENOTNAM_def ENOTRECOVERABLE_def
  ENOTSOCK_def ENOTSUP_def ENOTTY_def ENOTUNIQ_def ENXIO_def EOPNOTSUPP_def EOVERFLOW_def EOWNERDEAD_def
  EPERM_def EPFNOSUPPORT_def EPIPE_def EPROTO_def EPROTONOSUPPORT_def EPROTOTYPE_def ERANGE_def EREMCHG_def
  EREMOTE_def EREMOTEIO_def ERESTART_def ERFKILL_def EROFS_def ESHUTDOWN_def ESOCKTNOSUPPORT_def ESPIPE_def
  ESRCH_def ESRMNT_def ESTALE_def ESTRPIPE_def ETIME_def ETIMEDOUT_def ETOOMANYREFS_def ETXTBSY_def
  EUCLEAN_def EUNATCH_def EUSERS_def EWOULDBLOCK_def EXDEV_def EXFULL_def

text \<open>\<^verbatim>\<open>EHWPOISON\<close> is past the end of the table.\<close>

lemma errorTable_numbers: "map fst errorTable = [1..<41] @ [42..<58] @ [59..<133]"
  unfolding errorTable_def by code_simp

lemma errorTable_texts: "list_all (\<lambda>(n, s). s \<noteq> []) errorTable"
  by (simp add: errorTable_def)

lemma errnos_numbers: "list_all (\<lambda>n. 1 \<le> n \<and> n \<le> 133 \<and> n \<noteq> 41 \<and> n \<noteq> 58) (map unat errnos)"
  by (simp add: errno_defs)

lemma errors_have_texts:
  assumes "e \<in> set errnos" and "e \<noteq> EHWPOISON"
  shows "(unat e, Errno_Error e) \<in> set errorTable"
proof -
  have "unat e \<noteq> 133"
  proof
    assume "unat e = 133"
    then have "e = 133" by (simp add: unsigned_word_eqI)
    with assms(2) show False by (simp add: EHWPOISON_def)
  qed
  moreover have "1 \<le> unat e" "unat e \<le> 133" "unat e \<noteq> 41" "unat e \<noteq> 58"
    using errnos_numbers assms(1) by (auto simp: list_all_iff)
  ultimately have u: "unat e < 133" and "unat e \<in> set (map fst errorTable)"
    unfolding errorTable_numbers set_append set_upt by (simp, simp only: Un_iff atLeastLessThan_iff, arith)
  then obtain s where s: "map_of errorTable (unat e) = Some s"
    by (cases "map_of errorTable (unat e)") (auto simp: map_of_eq_None_iff)
  then have m: "(unat e, s) \<in> set errorTable" by (rule map_of_SomeD)
  then have "s \<noteq> []" using errorTable_texts by (auto simp: list_all_iff)
  moreover have "uint e < 133" using u by (simp only: unat_eq_nat_uint nat_less_iff uint_ge_0 of_nat_numeral)
  moreover from this have "signed_take_bit 63 (uint e) = uint e" by (intro signed_take_bit_int_eq_self) (simp_all add: order_trans [OF _ uint_ge_0])
  then have "sint e = int (unat e)" by (simp add: sint_uint)
  ultimately have "Errno_Error e = s" using s by (simp add: Errno_Error_def errorTable_len_def)
  with m show ?thesis by simp
qed

end
