(* ===== verification/Spec2Isabelle.thy ===== *)
theory Spec2Isabelle
  imports P9_ServerProps P9_Deletion P9_ClientFileProps P9_WireProps P9_LocalProps P9_ComposeProps P9_ErrnoTable
begin

text \<open>
  Verification of p9, a Go implementation of the 9P2000.L file protocol: a server that offers any
  file system that implements the \<^verbatim>\<open>File\<close> interface, a client whose files implement the same interface, and
  a few file systems. File names below are relative to \<^verbatim>\<open>src/\<close>; the build modelled is that of Linux on amd64.

  \<^bold>\<open>The program and its theories.\<close>

  \<^item> Bytes. \<open>P9_Prelude\<close> has the machine types (\<^verbatim>\<open>uint32\<close> as 32-bit words and so on), little-endian byte
    order and the shared lemmas. \<open>P9_Buffer\<close> is \<^verbatim>\<open>p9/buffer.go\<close>: a buffer is the record of its bytes and the overrun
    flag, a method a state monad. Its locales \<open>codec\<close> and \<open>payload_codec\<close> state what an encoder and its decoder
    promise each other; every structure and message interprets one of them. \<open>P9_Types\<close> and \<open>P9_Attr\<close> are the
    types of \<^verbatim>\<open>p9/p9.go\<close>; \<open>P9_MsgSession\<close>, \<open>P9_MsgIO\<close>, \<open>P9_Messages\<close> and \<open>P9_MsgCodec\<close> the messages of
    \<^verbatim>\<open>p9/messages.go\<close>, one record with encode and decode per message; \<open>P9_Registry\<close> the message registry.
  \<^item> Frames. \<open>P9_Vecnet\<close> is \<^verbatim>\<open>vecnet\<close>: a reader is the list of the pieces its reads will return, so that every
    fragmentation of a stream is covered. \<open>P9_Transport\<close> is \<^verbatim>\<open>send\<close> and \<^verbatim>\<open>recv\<close> of \<^verbatim>\<open>p9/transport.go\<close>.
  \<^item> Small parts. \<open>P9_Version\<close> (\<^verbatim>\<open>p9/version.go\<close>), \<open>P9_Pool\<close> (\<^verbatim>\<open>p9/pool.go\<close>), \<open>P9_Errno\<close> and \<open>P9_ErrnoTable\<close>
    (\<^verbatim>\<open>linux/\<close>: error numbers and their texts, Go error values with wrapping, \<^verbatim>\<open>ExtractErrno\<close>).
  \<^item> Server. \<open>P9_File\<close> is the \<^verbatim>\<open>File\<close> interface of \<^verbatim>\<open>p9/file.go\<close> as the record \<open>backend\<close> of functions over a state
    \<open>'w\<close> of the file system and handles \<open>'f\<close>: the server and its properties are for every file system.
    \<open>P9_PathTree\<close> is \<^verbatim>\<open>p9/path_tree.go\<close>, \<open>P9_Server\<close> the state of \<^verbatim>\<open>p9/server.go\<close>: stores of \<open>fidRef\<close> and \<open>pathNode\<close>
    structures by address, since they are shared and changed in place, and the fid table. \<open>P9_Handlers\<close> has the
    \<^verbatim>\<open>handle\<close> method of each message of \<^verbatim>\<open>p9/handlers.go\<close>; the result \<open>None\<close> is a nil pointer, a panic or a
    recursion that does not end.
  \<^item> Connections. \<open>P9_Conn\<close> has the goroutines of \<^verbatim>\<open>handleRequest\<close> as a step relation: each request is received,
    started, handled, cleared and answered, and the steps of different requests interleave freely. \<open>P9_EndToEnd\<close>
    has the same functions in sequence, from \<^verbatim>\<open>Server.Handle\<close> on a byte stream to its return.
  \<^item> Client. \<open>P9_Client\<close> is \<^verbatim>\<open>p9/client.go\<close> and \<open>P9_ClientFile\<close> is \<^verbatim>\<open>p9/client_file.go\<close>, over any peer.
  \<^item> File systems. \<open>P9_Qids\<close>, \<open>P9_Readdir\<close>, \<open>P9_Templatefs\<close>, \<open>P9_Staticfs\<close>, \<open>P9_Localfs\<close> and \<open>P9_Composefs\<close> are the packages of
    \<^verbatim>\<open>fsimpl/\<close> with these names (\<open>P9_Localfs\<close> with \<^verbatim>\<open>fsimpl/xattr\<close> and \<^verbatim>\<open>internal/stat_standard.go\<close>); methods return
    Go result tuples, and \<open>backend_of\<close> makes a \<open>backend\<close> of them. The operating system below the local file system is
    the record \<open>os_calls\<close> of the calls the package makes, an argument. \<open>P9_Path\<close> is \<^verbatim>\<open>path.Join\<close> and \<^verbatim>\<open>path.Clean\<close> of the
    standard library.

  \<^bold>\<open>What is shown.\<close>

  \<^item> The wire. What is sent is received, for every fragmentation and when pipelined; damaged frames with a plausible
    size never desynchronise a stream, implausible sizes and incomplete frames are refused (\<open>P9_Transport\<close>). The
    registry never confuses types, directory listings respect the byte count of the request, the payload of a
    client fits its message size (\<open>P9_WireProps\<close>).
  \<^item> The server. \<open>P9_RefGraph\<close> is an abstract state, a graph of references and names, with an invariant; \<open>P9_TreeGraph\<close>
    shows that changes of the graph keep it; \<open>P9_ServerInv\<close>, \<open>P9_TreeInv\<close>, \<open>P9_RenameInv\<close>, \<open>P9_MoveInv\<close> and \<open>P9_HandlersInv\<close>
    that every operation and handler returns and refines such a change; \<open>P9_Serve\<close> that whole sessions do.
    \<open>P9_ServerProps\<close>, \<open>P9_Refusals\<close> and \<open>P9_Deletion\<close> state the consequences: no request panics, reference counts
    are exact, everything is closed when a connection stops, the path tree agrees with the references, an unlink
    deletes exactly the references below it, and unknown fids, deleted files and unsafe names are refused without
    any change.
  \<^item> Connections. Under every interleaving tags are cleared once and responses carry the tags of their requests; every
    request ends after at most five steps unless it is a Tflush that waits, and what such waiting can and cannot
    do (\<open>P9_ConnProps\<close>). \<^verbatim>\<open>Server.Handle\<close> on a whole byte stream answers every request in order and returns (\<open>P9_EndToEnd\<close>).
  \<^item> Client and server together. A round trip delivers what the handler answered, a new client and a new server
    agree on a version, \<^verbatim>\<open>GetAttr\<close> on a client file is \<^verbatim>\<open>GetAttr\<close> of the file system (\<open>P9_ClientProps\<close>,
    \<open>P9_ClientFileProps\<close>), reads and writes in pieces are reads and writes of the whole (\<open>P9_Chunk\<close>).
  \<^item> File systems. The locale \<open>file_system\<close> of \<open>P9_FileCalls\<close> has the assumptions a file system can make about its
    caller, and its lemmas show that the server meets them. It is interpreted on the static file system
    (\<open>P9_StaticProps\<close>: it never changes, and clients read what it was built from) and on the local one (\<open>P9_LocalProps\<close>:
    no request leads outside of the directory that is served; QID paths are distinct; and what continued listings
    leave out). A static directory read in pieces is listed completely (\<open>P9_Readdir\<close>), mapped QIDs are unique
    (\<open>P9_Qids\<close>), and a composed directory lists its mounts (\<open>P9_ComposeProps\<close>).

  \<^bold>\<open>Fuel and bounds.\<close> The recursions over the path tree are \<open>partial_function\<close>s in the option type; that they
  return is part of the invariant proofs. \<open>DecRef\<close> ends because every call lowers the sum of the counts. \<open>waitAndRecv\<close> of the client may wait for ever on a silent
  peer, and is such a function as well. The loop of the local \<^verbatim>\<open>Readdir\<close> has one round more than there are names left in
  the open directory, each round but the last consuming a name. Counts and sizes keep their widths; reference counts are
  integers, which \<^verbatim>\<open>int64\<close> would only leave after more references than can be allocated.

  \<^bold>\<open>Not modelled.\<close> The \<^verbatim>\<open>String\<close> methods and logging only print. Handlers are atomic: the locks of \<^verbatim>\<open>safelyRead\<close>,
  \<^verbatim>\<open>safelyWrite\<close> and \<^verbatim>\<open>safelyGlobal\<close> are not modelled, so races between handlers are out of scope. Also left out are
  \<^verbatim>\<open>ServeContext\<close>, a listener loop around \<^verbatim>\<open>Handle\<close>; the coordination of several callers of one client by channels; the
  buffer pools, which only save allocations; the variants for other operating systems; and \<^verbatim>\<open>fuzz.go\<close>, \<^verbatim>\<open>cmd/p9ufs\<close> and the test
  helpers.
\<close>

end
